(* ===== verification/Mig_Prelude.thy ===== *)
theory Mig_Prelude
  imports
    Main
    "HOL-Library.AList"
    "HOL-Library.Char_ord"
    "HOL-Library.List_Lexorder"
    "HOL-Library.Multiset"
    "HOL-Library.Sublist"
    "HOL-Library.Word"
begin

text \<open>
  Shared vocabulary of the development: Go's built-in maps as association lists behind a
  map interface, the fixed-width integers of Go, sorting by a key, and the named collections
  of rewrite rules the component theories extend.

  A Go \<^verbatim>\<open>map[K]V\<close> is an association list with distinct keys. Go leaves the iteration order of
  \<^verbatim>\<open>range\<close> over a map unspecified; an iteration is therefore the list \<open>range_map it m\<close>, where
  \<open>it\<close> is the order the runtime picked, an arbitrary permutation of the keys.
\<close>

named_theorems go_string \<open>rewrite rules for the strings package\<close>
named_theorems svc_frame \<open>which fields of the service an operation leaves alone\<close>
named_theorems svc_pres \<open>preservation of the service invariant\<close>
named_theorems mig_eval \<open>definitions unfolded to evaluate a concrete request\<close>

subsection \<open>Result values\<close>

text \<open>An operation of the program that may fail returns \<open>Inl e\<close> on failure.\<close>

type_synonym ('e, 'a) res = "'e + 'a"

abbreviation is_err :: "('e, 'a) res \<Rightarrow> bool" where
  "is_err r \<equiv> Sum_Type.isl r"

lemma is_err_simps [simp]: "is_err (Inl e)" "\<not> is_err (Inr x)"
  by simp_all

subsection \<open>Maps\<close>

text \<open>The interface every map of the program is used through.\<close>

locale go_map =
  fixes get :: "'m \<Rightarrow> 'k \<Rightarrow> 'v option"
    and put :: "'k \<Rightarrow> 'v \<Rightarrow> 'm \<Rightarrow> 'm"
    and del :: "'k \<Rightarrow> 'm \<Rightarrow> 'm"
    and keys :: "'m \<Rightarrow> 'k list"
    and wf :: "'m \<Rightarrow> bool"
  assumes get_put: "get (put k v m) = (get m)(k \<mapsto> v)"
    and get_del: "wf m \<Longrightarrow> get (del k m) = (get m)(k := None)"
    and wf_put: "wf m \<Longrightarrow> wf (put k v m)"
    and wf_del: "wf m \<Longrightarrow> wf (del k m)"
    and keys_distinct: "wf m \<Longrightarrow> distinct (keys m)"
    and keys_get: "k \<in> set (keys m) \<longleftrightarrow> get m k \<noteq> None"
begin

lemma get_put_same: "get (put k v m) k = Some v"
  by (simp add: get_put)

lemma get_put_other: "k' \<noteq> k \<Longrightarrow> get (put k v m) k' = get m k'"
  by (simp add: get_put)

lemma get_del_put: "wf m \<Longrightarrow> get m k = None \<Longrightarrow> get (del k (put k v m)) = get m"
  by (simp add: get_del get_put wf_put fun_upd_idem)

lemma size_put_fresh: "wf m \<Longrightarrow> get m k = None \<Longrightarrow> length (keys (put k v m)) = Suc (length (keys m))"
proof -
  assume wf: "wf m" and fresh: "get m k = None"
  have "set (keys (put k v m)) = insert k (set (keys m))"
    using fresh by (auto simp: keys_get get_put split: if_splits)
  moreover have "k \<notin> set (keys m)"
    using fresh by (simp add: keys_get)
  ultimately show ?thesis
    using distinct_card [OF keys_distinct [OF wf]]
      distinct_card [OF keys_distinct [OF wf_put [OF wf, of k v]]] by simp
qed

lemma all_put: "(\<forall>k' v'. get (put k v m) k' = Some v' \<longrightarrow> P k' v') \<longleftrightarrow>
    P k v \<and> (\<forall>k' v'. k' \<noteq> k \<longrightarrow> get m k' = Some v' \<longrightarrow> P k' v')"
  by (auto simp: get_put split: if_splits)

end

type_synonym ('k, 'v) gomap = "('k \<times> 'v) list"

abbreviation map_ok :: "('k, 'v) gomap \<Rightarrow> bool" where
  "map_ok m \<equiv> distinct (map fst m)"

interpretation go: go_map map_of AList.update AList.delete "map fst" map_ok
proof
  show "map_of (AList.update k v m) = (map_of m)(k \<mapsto> v)" for k :: 'a and v :: 'b and m
    by (rule update_conv')
  show "map_of (AList.delete k m) = (map_of m)(k := None)" for k :: 'a and m :: "('a \<times> 'b) list"
    by (rule delete_conv')
  show "map_ok (AList.update k v m)" if "map_ok m" for k :: 'a and v :: 'b and m
    using that by (rule distinct_update)
  show "map_ok (AList.delete k m)" if "map_ok m" for k :: 'a and m :: "('a \<times> 'b) list"
    using that by (rule distinct_delete)
  show "distinct (map fst m)" if "map_ok m" for m :: "('a \<times> 'b) list"
    using that .
  show "k \<in> set (map fst m) \<longleftrightarrow> map_of m k \<noteq> None" for k :: 'a and m :: "('a \<times> 'b) list"
    by (simp add: map_of_eq_None_iff)
qed

declare go.get_put [simp]
declare go.get_del [simp]
declare map_of_eq_Some_iff [simp del] Some_eq_map_of_iff [simp del]

text \<open>Reading a missing key of a map with integer values gives zero.\<close>

definition mget0 :: "('k, int) gomap \<Rightarrow> 'k \<Rightarrow> int" where
  "mget0 m k = (case map_of m k of None \<Rightarrow> 0 | Some v \<Rightarrow> v)"

text \<open>Reading a missing key of a map with slice values gives the nil slice.\<close>

definition mget_list :: "('k, 'v list) gomap \<Rightarrow> 'k \<Rightarrow> 'v list" where
  "mget_list m k = (case map_of m k of None \<Rightarrow> [] | Some v \<Rightarrow> v)"

lemma mget0_put [simp]: "mget0 (AList.update k v m) k' = (if k' = k then v else mget0 m k')"
  by (simp add: mget0_def)

lemma mget_list_put [simp]:
  "mget_list (AList.update k v m) k' = (if k' = k then v else mget_list m k')"
  by (simp add: mget_list_def)

lemma mget0_Nil [simp]: "mget0 [] k = 0"
  by (simp add: mget0_def)

lemma mget_list_Nil [simp]: "mget_list [] k = []"
  by (simp add: mget_list_def)

subsection \<open>Iteration over a map\<close>

definition range_map :: "('k list \<Rightarrow> 'k list) \<Rightarrow> ('k, 'v) gomap \<Rightarrow> ('k \<times> 'v) list" where
  "range_map it m = List.map_filter (\<lambda>k. map_option (Pair k) (map_of m k)) (it (map fst m))"

definition is_iteration :: "('k list \<Rightarrow> 'k list) \<Rightarrow> bool" where
  "is_iteration it \<longleftrightarrow> (\<forall>ks. mset (it ks) = mset ks)"

lemma is_iteration_id: "is_iteration id"
  by (simp add: is_iteration_def)

lemma is_iteration_rev: "is_iteration rev"
  by (simp add: is_iteration_def)

lemma map_filter_map_of:
  assumes "map_ok m"
  shows "List.map_filter (\<lambda>k. map_option (Pair k) (map_of m k)) (map fst m) = m"
proof -
  have "map_of m k = Some v" if "(k, v) \<in> set m" for k v
    using assms that by (simp add: map_of_eq_Some_iff)
  then have *: "\<forall>p \<in> set m. map_option (Pair (fst p)) (map_of m (fst p)) = Some p"
    by auto
  have "List.map_filter (\<lambda>p. map_option (Pair (fst p)) (map_of m (fst p))) xs = xs"
    if "set xs \<subseteq> set m" for xs
    using that * by (induction xs) (auto simp: List.map_filter_simps)
  from this [of m] show ?thesis
    by (simp add: List.map_filter_def filter_map o_def)
qed

text \<open>Whatever the order, an iteration visits each entry of the map exactly once.\<close>

lemma mset_range_map:
  assumes "is_iteration it" and "map_ok m"
  shows "mset (range_map it m) = mset m"
proof -
  have "mset (List.map_filter f xs) = mset (List.map_filter f ys)" if "mset xs = mset ys"
    for f :: "'a \<Rightarrow> ('a \<times> 'b) option" and xs ys
    using that by (simp add: List.map_filter_def)
  then have "mset (range_map it m) =
      mset (List.map_filter (\<lambda>k. map_option (Pair k) (map_of m k)) (map fst m))"
    using assms(1) by (simp add: range_map_def is_iteration_def)
  then show ?thesis
    using map_filter_map_of [OF assms(2)] by simp
qed

lemma set_range_map: "is_iteration it \<Longrightarrow> map_ok m \<Longrightarrow> set (range_map it m) = set m"
  by (metis mset_range_map set_mset_mset)

lemma range_map_id: "map_ok m \<Longrightarrow> range_map id m = m"
  by (simp add: range_map_def map_filter_map_of)

subsection \<open>Sorting by a key\<close>

text \<open>Equal multisets of entries with distinct keys sort to the same list.\<close>

lemma sort_key_determined:
  assumes "mset xs = mset ys" and "inj_on f (set xs)"
  shows "sort_key f xs = sort_key f ys"
  using assms by (intro sort_key_inj_key_eq) simp_all

subsection \<open>Fixed-width integers\<close>

text \<open>
  Go's \<^verbatim>\<open>int\<close> and \<^verbatim>\<open>int64\<close> are 64-bit two's complement numbers, \<^verbatim>\<open>uint32\<close> and \<^verbatim>\<open>uint64\<close> unsigned;
  a conversion or an addition that leaves the range wraps around. Values are kept as
  integers and every wrapping step is written out with these functions.
\<close>

definition i64 :: "int \<Rightarrow> int" where
  "i64 x = (x + 2 ^ 63) mod 2 ^ 64 - 2 ^ 63"

definition u32 :: "int \<Rightarrow> int" where
  "u32 x = x mod 2 ^ 32"

definition u64 :: "int \<Rightarrow> int" where
  "u64 x = x mod 2 ^ 64"

definition in_i64 :: "int \<Rightarrow> bool" where
  "in_i64 x \<longleftrightarrow> - (2 ^ 63) \<le> x \<and> x < 2 ^ 63"

lemma i64_range: "in_i64 (i64 x)"
  unfolding in_i64_def i64_def by auto

lemma i64_id: "in_i64 x \<Longrightarrow> i64 x = x"
  by (simp add: i64_def in_i64_def)

lemma i64_idem [simp]: "i64 (i64 x) = i64 x"
  by (rule i64_id [OF i64_range])

lemma i64_add_left [simp]: "i64 (i64 x + y) = i64 (x + y)"
proof -
  have shift: "((a + c) mod m - c + y + c) mod m = (a + y + c) mod m" for a c m :: int
    using mod_add_left_eq [of "a + c" m y] by (simp add: algebra_simps)
  show ?thesis
    unfolding i64_def by (simp only: shift)
qed

lemma i64_add_right [simp]: "i64 (x + i64 y) = i64 (x + y)"
  by (metis add.commute i64_add_left)

lemma i64_small: "0 \<le> x \<Longrightarrow> x < 2 ^ 63 \<Longrightarrow> i64 x = x"
  by (rule i64_id) (simp add: in_i64_def)

lemma i64_0 [simp]: "i64 0 = 0"
  by (simp add: i64_small)

text \<open>The signed reading of a 64-bit word.\<close>

lemma i64_word: "i64 x = sint (word_of_int x :: 64 word)"
  by (simp add: i64_def int_word_sint)

lemma u32_range: "0 \<le> u32 x \<and> u32 x < 2 ^ 32"
  by (simp add: u32_def)

lemma u32_id: "0 \<le> x \<Longrightarrow> x < 2 ^ 32 \<Longrightarrow> u32 x = x"
  by (simp add: u32_def)

lemma u64_id: "0 \<le> x \<Longrightarrow> x < 2 ^ 64 \<Longrightarrow> u64 x = x"
  by (simp add: u64_def)

subsection \<open>Counting\<close>

lemma length_filter_snoc:
  "length (filter P (xs @ [x])) = length (filter P xs) + (if P x then 1 else 0)"
  by simp

end
