(* ===== verification/Go_Strings.thy ===== *)
theory Go_Strings
  imports Mig_Prelude
begin

text \<open>
  The functions of Go's \<^verbatim>\<open>strings\<close>, \<^verbatim>\<open>strconv\<close>, \<^verbatim>\<open>encoding/hex\<close> and \<^verbatim>\<open>fmt\<close> packages that the gateway
  calls. A Go string is a sequence of bytes, which is what a HOL string is.

  White space is Unicode white space, recognised by its UTF-8 encoding: the first byte of an
  encoding never occurs inside the encoding of another character, so removing encodings
  byte-wise from either end agrees with decoding characters.

  \<open>ToLower\<close> is exact for the way the gateway uses it, which is to compare the result with
  ASCII names: besides the ASCII letters only U+0130 and U+212A have an ASCII lower case, and
  every other non-ASCII character stays non-ASCII. \<open>go_quote\<close>, the \<^verbatim>\<open>%q\<close> verb, is exact on ASCII
  and copies other bytes.
\<close>

subsection \<open>White space\<close>

definition space_runes :: "string list" where
  "space_runes =
    [[CHR 0x09], [CHR 0x0A], [CHR 0x0B], [CHR 0x0C], [CHR 0x0D], [CHR 0x20],
     [CHR 0xC2, CHR 0x85], [CHR 0xC2, CHR 0xA0], [CHR 0xE1, CHR 0x9A, CHR 0x80],
     [CHR 0xE2, CHR 0x80, CHR 0x80], [CHR 0xE2, CHR 0x80, CHR 0x81],
     [CHR 0xE2, CHR 0x80, CHR 0x82], [CHR 0xE2, CHR 0x80, CHR 0x83],
     [CHR 0xE2, CHR 0x80, CHR 0x84], [CHR 0xE2, CHR 0x80, CHR 0x85],
     [CHR 0xE2, CHR 0x80, CHR 0x86], [CHR 0xE2, CHR 0x80, CHR 0x87],
     [CHR 0xE2, CHR 0x80, CHR 0x88], [CHR 0xE2, CHR 0x80, CHR 0x89],
     [CHR 0xE2, CHR 0x80, CHR 0x8A], [CHR 0xE2, CHR 0x80, CHR 0xA8],
     [CHR 0xE2, CHR 0x80, CHR 0xA9], [CHR 0xE2, CHR 0x80, CHR 0xAF],
     [CHR 0xE2, CHR 0x81, CHR 0x9F], [CHR 0xE3, CHR 0x80, CHR 0x80]]"

definition leading_rune :: "string list \<Rightarrow> string \<Rightarrow> string option" where
  "leading_rune rs s = find (\<lambda>r. r \<noteq> [] \<and> prefix r s) rs"

lemma leading_rune_Some: "leading_rune rs s = Some r \<Longrightarrow> r \<in> set rs \<and> r \<noteq> [] \<and> prefix r s"
  by (auto simp: leading_rune_def find_Some_iff)

lemma leading_rune_None: "leading_rune rs s = None \<longleftrightarrow> (\<forall>r \<in> set rs. r \<noteq> [] \<longrightarrow> \<not> prefix r s)"
  by (auto simp: leading_rune_def find_None_iff)

text \<open>Repeatedly remove a leading member of \<open>rs\<close>.\<close>

function trim_by :: "string list \<Rightarrow> string \<Rightarrow> string" where
  "trim_by rs s = (case leading_rune rs s of None \<Rightarrow> s | Some r \<Rightarrow> trim_by rs (drop (length r) s))"
  by pat_completeness auto
termination
proof (relation "measure (length \<circ> snd)")
  fix rs s r
  assume "leading_rune rs s = Some r"
  then have "r \<noteq> []" and "prefix r s"
    by (auto dest: leading_rune_Some)
  then show "((rs, drop (length r) s), rs, s) \<in> measure (length \<circ> snd)"
    by (auto simp: prefix_def)
qed simp

declare trim_by.simps [simp del]

definition TrimSpace :: "string \<Rightarrow> string" where
  "TrimSpace s = rev (trim_by (map rev space_runes) (rev (trim_by space_runes s)))"

lemma trim_by_leading: "leading_rune rs (trim_by rs s) = None"
proof (induction rs s rule: trim_by.induct)
  case (1 rs s)
  then show ?case
    by (cases "leading_rune rs s") (simp_all add: trim_by.simps [of rs s])
qed

lemma trim_by_id: "leading_rune rs s = None \<Longrightarrow> trim_by rs s = s"
  by (simp add: trim_by.simps)

lemma trim_by_suffix: "suffix (trim_by rs s) s"
proof (induction rs s rule: trim_by.induct)
  case (1 rs s)
  show ?case
  proof (cases "leading_rune rs s")
    case None
    then show ?thesis by (simp add: trim_by_id)
  next
    case (Some r)
    then have "suffix (trim_by rs (drop (length r) s)) s"
      using "1" suffix_drop suffix_order.trans by blast
    with Some show ?thesis by (simp add: trim_by.simps [of rs s])
  qed
qed

definition trimmed :: "string \<Rightarrow> bool" where
  "trimmed s \<longleftrightarrow> leading_rune space_runes s = None \<and> leading_rune (map rev space_runes) (rev s) = None"

lemma TrimSpace_trimmed: "trimmed (TrimSpace s)"
proof -
  let ?l = "trim_by space_runes s"
  let ?t = "TrimSpace s"
  have "prefix ?t ?l"
    using trim_by_suffix [of "map rev space_runes" "rev ?l"]
    by (simp add: TrimSpace_def suffix_to_prefix)
  then have "leading_rune space_runes ?t = None"
    using trim_by_leading [of space_runes s]
    by (auto simp: leading_rune_None intro: prefix_order.trans)
  moreover have "leading_rune (map rev space_runes) (rev ?t) = None"
    by (simp add: TrimSpace_def trim_by_leading)
  ultimately show ?thesis
    by (simp add: trimmed_def)
qed

lemma TrimSpace_id: "trimmed s \<Longrightarrow> TrimSpace s = s"
  by (simp add: trimmed_def TrimSpace_def trim_by_id)

lemma TrimSpace_idem [simp]: "TrimSpace (TrimSpace s) = TrimSpace s"
  by (rule TrimSpace_id [OF TrimSpace_trimmed])

lemma trimmed_Nil [simp]: "trimmed []"
  by (auto simp: trimmed_def leading_rune_None)

lemma TrimSpace_Nil [simp]: "TrimSpace [] = []"
  by (rule TrimSpace_id) simp

subsection \<open>Case, prefixes and substrings\<close>

definition lower_byte :: "char \<Rightarrow> char" where
  "lower_byte c =
    (if 65 \<le> (of_char c :: nat) \<and> (of_char c :: nat) \<le> 90 then char_of ((of_char c :: nat) + 32) else c)"

fun ToLower :: "string \<Rightarrow> string" where
  "ToLower [] = []"
| "ToLower (a # cs) =
    (case cs of
       b # ds \<Rightarrow>
         if a = CHR 0xC4 \<and> b = CHR 0xB0 then CHR ''i'' # ToLower ds
         else (case ds of
             c # es \<Rightarrow>
               if a = CHR 0xE2 \<and> b = CHR 0x84 \<and> c = CHR 0xAA then CHR ''k'' # ToLower es
               else lower_byte a # ToLower cs
           | [] \<Rightarrow> lower_byte a # ToLower cs)
     | [] \<Rightarrow> lower_byte a # ToLower cs)"

abbreviation HasPrefix :: "string \<Rightarrow> string \<Rightarrow> bool" where
  "HasPrefix s p \<equiv> prefix p s"

definition TrimPrefix :: "string \<Rightarrow> string \<Rightarrow> string" where
  "TrimPrefix s p = (if prefix p s then drop (length p) s else s)"

definition TrimRight :: "string \<Rightarrow> char \<Rightarrow> string" where
  "TrimRight s c = rev (dropWhile (\<lambda>x. x = c) (rev s))"

fun Contains :: "string \<Rightarrow> string \<Rightarrow> bool" where
  "Contains [] t \<longleftrightarrow> t = []"
| "Contains (c # cs) t \<longleftrightarrow> prefix t (c # cs) \<or> Contains cs t"

lemma Contains_sublist: "Contains s t \<longleftrightarrow> sublist t s"
proof (induction s)
  case Nil
  then show ?case by simp
next
  case (Cons c cs)
  then show ?case by (simp add: sublist_Cons_right)
qed

lemma Contains_char: "Contains s [c] \<longleftrightarrow> c \<in> set s"
  by (induction s) auto

lemma Contains_append: "Contains (xs @ ys @ zs) ys"
  by (simp add: Contains_sublist)

definition ReplaceAll :: "string \<Rightarrow> char \<Rightarrow> char \<Rightarrow> string" where
  "ReplaceAll s a b = map (\<lambda>c. if c = a then b else c) s"

subsection \<open>Splitting and joining\<close>

fun split_on :: "char \<Rightarrow> string \<Rightarrow> string list" where
  "split_on d [] = [[]]"
| "split_on d (c # cs) =
    (if c = d then [] # split_on d cs
     else (case split_on d cs of t # ts \<Rightarrow> (c # t) # ts | [] \<Rightarrow> [[c]]))"

fun join_with :: "char \<Rightarrow> string list \<Rightarrow> string" where
  "join_with d [] = []"
| "join_with d [t] = t"
| "join_with d (t # ts) = t @ d # join_with d ts"

lemma split_on_neq_Nil [simp]: "split_on d s \<noteq> []"
  by (induction s) (auto split: list.splits)

lemma join_with_Cons: "ts \<noteq> [] \<Longrightarrow> join_with d (t # ts) = t @ d # join_with d ts"
  by (cases ts) simp_all

lemma join_split: "join_with d (split_on d s) = s"
proof (induction s)
  case Nil
  then show ?case by simp
next
  case (Cons c cs)
  obtain t ts where sp: "split_on d cs = t # ts"
    by (meson list.exhaust split_on_neq_Nil)
  show ?case
    using Cons sp by (cases ts) (auto simp: join_with_Cons)
qed

lemma split_on_no_delim: "d \<notin> set t \<Longrightarrow> split_on d t = [t]"
  by (induction t) auto

lemma split_on_append: "d \<notin> set t \<Longrightarrow> split_on d (t @ d # s) = t # split_on d s"
  by (induction t) auto

lemma split_join:
  "ts \<noteq> [] \<Longrightarrow> (\<And>t. t \<in> set ts \<Longrightarrow> d \<notin> set t) \<Longrightarrow> split_on d (join_with d ts) = ts"
proof (induction ts rule: join_with.induct)
  case (3 d t u us)
  then show ?case by (simp add: split_on_append)
qed (simp_all add: split_on_no_delim)

lemma join_with_append:
  "xs \<noteq> [] \<Longrightarrow> ys \<noteq> [] \<Longrightarrow> join_with d (xs @ ys) = join_with d xs @ d # join_with d ys"
proof (induction xs rule: join_with.induct)
  case (2 d t)
  then show ?case by (simp add: join_with_Cons)
next
  case (3 d t u us)
  then show ?case by simp
qed simp

text \<open>\<^verbatim>\<open>strings.Fields\<close>: the maximal runs of non-space bytes.\<close>

function fields_from :: "string \<Rightarrow> string \<Rightarrow> string list" where
  "fields_from acc [] = (if acc = [] then [] else [acc])"
| "fields_from acc (c # cs) =
    (case leading_rune space_runes (c # cs) of
       None \<Rightarrow> fields_from (acc @ [c]) cs
     | Some r \<Rightarrow> (if acc = [] then [] else [acc]) @ fields_from [] (drop (length r) (c # cs)))"
  by pat_completeness auto
termination
proof (relation "measure (length \<circ> snd)")
  fix acc :: string and c cs r
  assume "leading_rune space_runes (c # cs) = Some r"
  then have "r \<noteq> []"
    by (auto dest: leading_rune_Some)
  then show "(([], drop (length r) (c # cs)), acc, c # cs) \<in> measure (length \<circ> snd)"
    by (cases r) auto
qed simp_all

definition Fields :: "string \<Rightarrow> string list" where
  "Fields s = fields_from [] s"

lemma Fields_nonempty: "f \<in> set (Fields s) \<Longrightarrow> f \<noteq> []"
proof -
  have "f \<in> set (fields_from acc s) \<Longrightarrow> f \<noteq> []" for acc
    by (induction acc s rule: fields_from.induct) (auto split: option.splits if_splits)
  then show "f \<in> set (Fields s) \<Longrightarrow> f \<noteq> []"
    by (simp add: Fields_def)
qed

subsection \<open>Numbers\<close>

fun show_nat :: "nat \<Rightarrow> string" where
  "show_nat n =
    (if n < 10 then [char_of (48 + n)] else show_nat (n div 10) @ [char_of (48 + n mod 10)])"

declare show_nat.simps [simp del]

definition show_int :: "int \<Rightarrow> string" where
  "show_int i = (if i < 0 then CHR ''-'' # show_nat (nat (- i)) else show_nat (nat i))"

definition is_digit :: "char \<Rightarrow> bool" where
  "is_digit c \<longleftrightarrow> 48 \<le> (of_char c :: nat) \<and> (of_char c :: nat) \<le> 57"

fun digits_value :: "nat \<Rightarrow> string \<Rightarrow> nat" where
  "digits_value acc [] = acc"
| "digits_value acc (c # cs) = digits_value (10 * acc + (of_char c - 48)) cs"

text \<open>\<^verbatim>\<open>strconv.Atoi\<close>: an optional sign, decimal digits, and the range of \<^verbatim>\<open>int\<close>.\<close>

definition Atoi :: "string \<Rightarrow> int option" where
  "Atoi s =
    (let neg = (s \<noteq> [] \<and> hd s = CHR ''-'');
         ds = (if s \<noteq> [] \<and> (hd s = CHR ''-'' \<or> hd s = CHR ''+'') then tl s else s)
     in if ds = [] \<or> \<not> list_all is_digit ds then None
        else let v = int (digits_value 0 ds); i = (if neg then - v else v)
             in if in_i64 i then Some i else None)"

definition ParseBool :: "string \<Rightarrow> bool option" where
  "ParseBool s =
    (if s \<in> {''1'', ''t'', ''T'', ''TRUE'', ''true'', ''True''} then Some True
     else if s \<in> {''0'', ''f'', ''F'', ''FALSE'', ''false'', ''False''} then Some False
     else None)"

lemma digits_value_append: "digits_value acc (xs @ ys) = digits_value (digits_value acc xs) ys"
  by (induction xs arbitrary: acc) simp_all

lemma show_nat_digits: "show_nat n \<noteq> [] \<and> list_all is_digit (show_nat n) \<and> digits_value 0 (show_nat n) = n"
proof (induction n rule: show_nat.induct)
  case (1 n)
  have d: "of_char (char_of (48 + k) :: char) = 48 + k" if "k < 10" for k :: nat
    using that by simp
  show ?case
  proof (cases "n < 10")
    case True
    then show ?thesis
      using d [of n] by (simp add: show_nat.simps [of n] is_digit_def)
  next
    case False
    with "1" show ?thesis
      using d [of "n mod 10"]
      by (simp add: show_nat.simps [of n] is_digit_def digits_value_append)
  qed
qed

lemma Atoi_show_nat: "int n < 2 ^ 63 \<Longrightarrow> Atoi (show_nat n) = Some (int n)"
proof -
  assume n: "int n < 2 ^ 63"
  have dig: "show_nat n \<noteq> []" "list_all is_digit (show_nat n)" "digits_value 0 (show_nat n) = n"
    using show_nat_digits [of n] by simp_all
  then have "is_digit (hd (show_nat n))"
    by (cases "show_nat n") simp_all
  then have "hd (show_nat n) \<noteq> CHR ''-''" "hd (show_nat n) \<noteq> CHR ''+''"
    by (auto simp: is_digit_def)
  with dig n show ?thesis
    by (simp add: Atoi_def in_i64_def Let_def)
qed

lemma length_show_nat_mono: "10 ^ k \<le> n \<Longrightarrow> Suc k \<le> length (show_nat n)"
proof (induction k arbitrary: n)
  case 0
  then show ?case using show_nat_digits [of n] by (cases "show_nat n") simp_all
next
  case (Suc k)
  then have "10 ^ k \<le> n div 10"
    by (simp add: less_eq_div_iff_mult_less_eq mult.commute)
  moreover have "10 \<le> n"
    using Suc.prems by (rule order.trans [rotated]) simp
  ultimately have "10 ^ k \<le> n div 10" and "\<not> n < 10"
    by simp_all
  with Suc.IH [of "n div 10"] show ?case
    by (simp add: show_nat.simps [of n])
qed

subsection \<open>Hexadecimal and quoting\<close>

definition hex_digit :: "nat \<Rightarrow> char" where
  "hex_digit n = (''0123456789abcdef'' ! n)"

definition hex_byte :: "8 word \<Rightarrow> string" where
  "hex_byte b = [hex_digit (unat b div 16), hex_digit (unat b mod 16)]"

definition EncodeToString :: "8 word list \<Rightarrow> string" where
  "EncodeToString bs = concat (map hex_byte bs)"

lemma length_EncodeToString [simp]: "length (EncodeToString bs) = 2 * length bs"
  by (induction bs) (simp_all add: EncodeToString_def hex_byte_def)

definition quote_byte :: "char \<Rightarrow> string" where
  "quote_byte c =
    (let n = (of_char c :: nat) in
     if c = CHR 0x22 then [CHR 0x5C, CHR 0x22]
     else if c = CHR 0x5C then [CHR 0x5C, CHR 0x5C]
     else if n = 7 then [CHR 0x5C, CHR ''a'']
     else if n = 8 then [CHR 0x5C, CHR ''b'']
     else if n = 12 then [CHR 0x5C, CHR ''f'']
     else if n = 10 then [CHR 0x5C, CHR ''n'']
     else if n = 13 then [CHR 0x5C, CHR ''r'']
     else if n = 9 then [CHR 0x5C, CHR ''t'']
     else if n = 11 then [CHR 0x5C, CHR ''v'']
     else if n < 32 \<or> n = 127 then [CHR 0x5C, CHR ''x'', hex_digit (n div 16), hex_digit (n mod 16)]
     else [c])"

definition go_quote :: "string \<Rightarrow> string" where
  "go_quote s = [CHR 0x22] @ concat (map quote_byte s) @ [CHR 0x22]"

end
