(* ===== verification/Mig_Types.thy ===== *)
theory Mig_Types
  imports Go_Strings
begin

text \<open>
  The message types of \<^verbatim>\<open>core/pkg/mig/types.go\<close>: one record per struct, the message header with its
  normalisation, message identifiers and the error codes.

  A JSON value held in a Go \<^verbatim>\<open>interface{}\<close> is a \<open>json\<close>; a number is a float64, that is a mantissa
  and a binary exponent; \<open>JArr\<close> is a \<^verbatim>\<open>[]interface{}\<close> and \<open>JStrs\<close> a \<^verbatim>\<open>[]string\<close>. A \<^verbatim>\<open>map[string]interface{}\<close> is a \<open>jmap\<close>, \<open>None\<close> being the nil map.

  What an operation reads from its surroundings is the argument of type \<open>rt\<close>: the formatted
  result of the \<open>i\<close>-th reading of the clock, the randomness behind the \<open>i\<close>-th call of
  \<^verbatim>\<open>newMessageID\<close>, and the order in which the runtime iterates over a map.
\<close>

subsection \<open>JSON values\<close>

datatype json =
    JNull
  | JBool bool
  | JNum int int
  | JStr string
  | JArr "json list"
  | JStrs "string list"
  | JObj "(string \<times> json) list"

type_synonym jobject = "(string, json) gomap"
type_synonym jmap = "jobject option"

abbreviation jentries :: "jmap \<Rightarrow> jobject" where
  "jentries m \<equiv> (case m of None \<Rightarrow> [] | Some es \<Rightarrow> es)"

subsection \<open>The runtime\<close>

text \<open>\<^verbatim>\<open>rand.Read\<close> either fills the whole buffer or fails, and then the clock in nanoseconds is read.\<close>

datatype entropy = RandBytes "nat \<Rightarrow> 8 word" | RandFail int

record rt =
  rt_now :: "nat \<Rightarrow> string"
  rt_rand :: "nat \<Rightarrow> entropy"
  rt_iter :: "string list \<Rightarrow> string list"

definition newMessageID :: "entropy \<Rightarrow> string" where
  "newMessageID e =
    (case e of
       RandBytes f \<Rightarrow> EncodeToString (map f [0..<16])
     | RandFail nanos \<Rightarrow> ''msg-'' @ show_int nanos)"

lemma newMessageID_nonempty [simp]: "newMessageID e \<noteq> []"
proof (cases e)
  case (RandBytes f)
  have "length (newMessageID e) = 32"
    by (simp add: newMessageID_def RandBytes)
  then show ?thesis by auto
qed (simp add: newMessageID_def)

text \<open>A clock after 1970 with at least eight digits of nanoseconds.\<close>

definition entropy_ok :: "entropy \<Rightarrow> bool" where
  "entropy_ok e \<longleftrightarrow> (case e of RandBytes _ \<Rightarrow> True | RandFail nanos \<Rightarrow> 10 ^ 7 \<le> nanos)"

lemma length_newMessageID: "entropy_ok e \<Longrightarrow> 12 \<le> length (newMessageID e)"
proof (cases e)
  case (RandBytes f)
  then show ?thesis by (simp add: newMessageID_def)
next
  case (RandFail nanos)
  assume "entropy_ok e"
  with RandFail have n: "10 ^ 7 \<le> nanos"
    by (simp add: entropy_ok_def)
  then have "10 ^ 7 \<le> nat nanos"
    by (simp add: le_nat_iff)
  from length_show_nat_mono [OF this] n RandFail show ?thesis
    by (simp add: newMessageID_def show_int_def)
qed

text \<open>\<^verbatim>\<open>newMessageID()[:12]\<close>: slicing beyond the end panics, which is \<open>None\<close>.\<close>

definition short_id :: "entropy \<Rightarrow> string option" where
  "short_id e = (let s = newMessageID e in if 12 \<le> length s then Some (take 12 s) else None)"

lemma short_id_ok: "entropy_ok e \<Longrightarrow> \<exists>s. short_id e = Some s \<and> length s = 12"
  using length_newMessageID [of e] by (auto simp: short_id_def Let_def)

subsection \<open>Versions and error codes\<close>

definition MIGVersion :: string where "MIGVersion = ''0.1''"

definition ErrorInvalidRequest :: string where "ErrorInvalidRequest = ''MIG_INVALID_REQUEST''"
definition ErrorUnauthorized :: string where "ErrorUnauthorized = ''MIG_UNAUTHORIZED''"
definition ErrorForbidden :: string where "ErrorForbidden = ''MIG_FORBIDDEN''"
definition ErrorNotFound :: string where "ErrorNotFound = ''MIG_NOT_FOUND''"
definition ErrorUnsupportedCapability :: string where
  "ErrorUnsupportedCapability = ''MIG_UNSUPPORTED_CAPABILITY''"
definition ErrorVersionMismatch :: string where "ErrorVersionMismatch = ''MIG_VERSION_MISMATCH''"
definition ErrorTimeout :: string where "ErrorTimeout = ''MIG_TIMEOUT''"
definition ErrorRateLimited :: string where "ErrorRateLimited = ''MIG_RATE_LIMITED''"
definition ErrorBackpressure :: string where "ErrorBackpressure = ''MIG_BACKPRESSURE''"
definition ErrorUnavailable :: string where "ErrorUnavailable = ''MIG_UNAVAILABLE''"
definition ErrorInternal :: string where "ErrorInternal = ''MIG_INTERNAL''"

lemmas error_code_defs =
  ErrorInvalidRequest_def ErrorUnauthorized_def ErrorForbidden_def ErrorNotFound_def
  ErrorUnsupportedCapability_def ErrorVersionMismatch_def ErrorTimeout_def ErrorRateLimited_def
  ErrorBackpressure_def ErrorUnavailable_def ErrorInternal_def

definition all_error_codes :: "string list" where
  "all_error_codes =
    [ErrorInvalidRequest, ErrorUnauthorized, ErrorForbidden, ErrorNotFound,
     ErrorUnsupportedCapability, ErrorVersionMismatch, ErrorTimeout, ErrorRateLimited,
     ErrorBackpressure, ErrorUnavailable, ErrorInternal]"

lemma error_codes_distinct: "distinct all_error_codes"
  by (simp add: all_error_codes_def error_code_defs)

subsection \<open>The message header\<close>

record MessageHeader =
  h_MIGVersion :: string
  h_MessageID :: string
  h_Timestamp :: string
  h_TenantID :: string
  h_SessionID :: string
  h_Traceparent :: string
  h_IdempotencyKey :: string
  h_DeadlineMS :: int
  h_Meta :: jmap

definition zero_header :: MessageHeader where
  "zero_header =
    \<lparr>h_MIGVersion = [], h_MessageID = [], h_Timestamp = [], h_TenantID = [], h_SessionID = [],
     h_Traceparent = [], h_IdempotencyKey = [], h_DeadlineMS = 0, h_Meta = None\<rparr>"

text \<open>
  \<open>Normalize now fresh h\<close>: \<open>now\<close> is the formatted clock and \<open>fresh\<close> the identifier the call would
  generate. The receiver is the address of a local variable in every caller, never nil.
\<close>

definition Normalize :: "string \<Rightarrow> string \<Rightarrow> MessageHeader \<Rightarrow> (string, MessageHeader) res" where
  "Normalize now fresh h =
    (let h = (if h_MIGVersion h = [] then h\<lparr>h_MIGVersion := MIGVersion\<rparr> else h) in
     if h_MIGVersion h \<noteq> MIGVersion
     then Inl (''unsupported mig_version '' @ go_quote (h_MIGVersion h))
     else
       let h = (if h_MessageID h = [] then h\<lparr>h_MessageID := fresh\<rparr> else h);
           h = (if h_Timestamp h = [] then h\<lparr>h_Timestamp := now\<rparr> else h) in
       if h_TenantID h = [] then Inl ''tenant_id is required''
       else
         let h = (if h_DeadlineMS h \<le> 0 then h\<lparr>h_DeadlineMS := 30000\<rparr> else h);
             h = (if h_Meta h = None then h\<lparr>h_Meta := Some []\<rparr> else h)
         in Inr h)"

definition AddIDGMeta :: "string \<Rightarrow> MessageHeader \<Rightarrow> MessageHeader" where
  "AddIDGMeta productTier h =
    (let m = jentries (h_Meta h);
         m = AList.update ''idg.product_tier'' (JStr productTier) m;
         m = AList.update ''idg.meter_key'' (JStr ''invocations_capability_tier'') m
     in h\<lparr>h_Meta := Some m\<rparr>)"

text \<open>The header an operation works with: its copy of the request's header, normalised and annotated.\<close>

definition prepare :: "rt \<Rightarrow> MessageHeader \<Rightarrow> (string, MessageHeader) res" where
  "prepare r h =
    (case Normalize (rt_now r 0) (newMessageID (rt_rand r 0)) h of
       Inl e \<Rightarrow> Inl e
     | Inr h' \<Rightarrow> Inr (AddIDGMeta ''core'' h'))"

text \<open>
  The copy shares its metadata map with the request, so after the call the caller's header shows
  the annotations, provided its map was not nil.
\<close>

definition aliased :: "rt \<Rightarrow> MessageHeader \<Rightarrow> MessageHeader" where
  "aliased r h =
    (case prepare r h of
       Inl _ \<Rightarrow> h
     | Inr h' \<Rightarrow> (if h_Meta h = None then h else h\<lparr>h_Meta := h_Meta h'\<rparr>))"

definition header_ok :: "MessageHeader \<Rightarrow> bool" where
  "header_ok h \<longleftrightarrow> h_MIGVersion h = MIGVersion \<and> h_MessageID h \<noteq> [] \<and> h_TenantID h \<noteq> [] \<and>
     0 < h_DeadlineMS h \<and> h_Meta h \<noteq> None"

lemma MIGVersion_nonempty [simp]: "MIGVersion \<noteq> []"
  by (simp add: MIGVersion_def)

lemma Normalize_error_iff:
  "is_err (Normalize now fresh h) \<longleftrightarrow>
     (h_MIGVersion h \<noteq> [] \<and> h_MIGVersion h \<noteq> MIGVersion) \<or> h_TenantID h = []"
  by (auto simp: Normalize_def Let_def)

lemma Normalize_ok:
  assumes "Normalize now fresh h = Inr h'" and "fresh \<noteq> []"
  shows "header_ok h'"
  using assms by (auto simp: Normalize_def header_ok_def Let_def split: if_splits)

lemma Normalize_keeps:
  assumes "Normalize now fresh h = Inr h'"
  shows "h_TenantID h' = h_TenantID h" "h_IdempotencyKey h' = h_IdempotencyKey h"
    "h_SessionID h' = h_SessionID h" "h_Traceparent h' = h_Traceparent h"
    "h_MessageID h \<noteq> [] \<Longrightarrow> h_MessageID h' = h_MessageID h"
    "0 < h_DeadlineMS h \<Longrightarrow> h_DeadlineMS h' = h_DeadlineMS h"
  using assms by (auto simp: Normalize_def Let_def split: if_splits)

lemma Normalize_idem:
  assumes "header_ok h" and "h_Timestamp h \<noteq> []"
  shows "Normalize now fresh h = Inr h"
  using assms by (auto simp: Normalize_def header_ok_def Let_def)

lemma AddIDGMeta_fields [simp]:
  "h_MIGVersion (AddIDGMeta t h) = h_MIGVersion h" "h_MessageID (AddIDGMeta t h) = h_MessageID h"
  "h_Timestamp (AddIDGMeta t h) = h_Timestamp h" "h_TenantID (AddIDGMeta t h) = h_TenantID h"
  "h_SessionID (AddIDGMeta t h) = h_SessionID h" "h_Traceparent (AddIDGMeta t h) = h_Traceparent h"
  "h_IdempotencyKey (AddIDGMeta t h) = h_IdempotencyKey h"
  "h_DeadlineMS (AddIDGMeta t h) = h_DeadlineMS h" "h_Meta (AddIDGMeta t h) \<noteq> None"
  by (simp_all add: AddIDGMeta_def Let_def)

lemma AddIDGMeta_keeps_meta:
  "k \<noteq> ''idg.product_tier'' \<Longrightarrow> k \<noteq> ''idg.meter_key'' \<Longrightarrow>
   map_of (jentries (h_Meta (AddIDGMeta t h))) k = map_of (jentries (h_Meta h)) k"
  by (simp add: AddIDGMeta_def Let_def)

lemma prepare_ok:
  assumes "prepare r h = Inr h'"
  shows "header_ok h'" "h_TenantID h' = h_TenantID h" "h_IdempotencyKey h' = h_IdempotencyKey h"
    "h_MessageID h \<noteq> [] \<Longrightarrow> h_MessageID h' = h_MessageID h"
    "0 < h_DeadlineMS h \<Longrightarrow> h_DeadlineMS h' = h_DeadlineMS h"
proof -
  from assms obtain h1 where h1: "Normalize (rt_now r 0) (newMessageID (rt_rand r 0)) h = Inr h1"
    and h': "h' = AddIDGMeta ''core'' h1"
    by (auto simp: prepare_def split: sum.splits)
  from Normalize_ok [OF h1] h' show "header_ok h'"
    by (simp add: header_ok_def)
  from Normalize_keeps [OF h1] h'
  show "h_TenantID h' = h_TenantID h" "h_IdempotencyKey h' = h_IdempotencyKey h"
    "h_MessageID h \<noteq> [] \<Longrightarrow> h_MessageID h' = h_MessageID h"
    "0 < h_DeadlineMS h \<Longrightarrow> h_DeadlineMS h' = h_DeadlineMS h"
    by simp_all
qed

lemma prepare_error_iff:
  "is_err (prepare r h) \<longleftrightarrow>
     (h_MIGVersion h \<noteq> [] \<and> h_MIGVersion h \<noteq> MIGVersion) \<or> h_TenantID h = []"
  using Normalize_error_iff [of "rt_now r 0" "newMessageID (rt_rand r 0)" h]
  by (auto simp: prepare_def split: sum.splits)

subsection \<open>Errors\<close>

record MigError =
  e_Code :: string
  e_Message :: string
  e_Retryable :: bool
  e_Details :: jmap

definition mk_error :: "string \<Rightarrow> string \<Rightarrow> bool \<Rightarrow> MigError" where
  "mk_error code msg retryable =
    \<lparr>e_Code = code, e_Message = msg, e_Retryable = retryable, e_Details = None\<rparr>"

lemma mk_error_sel [simp]:
  "e_Code (mk_error c m b) = c" "e_Message (mk_error c m b) = m" "e_Retryable (mk_error c m b) = b"
  "e_Details (mk_error c m b) = None"
  by (simp_all add: mk_error_def)

record ErrorEnvelope =
  env_Header :: MessageHeader
  env_Error :: MigError

subsection \<open>Requests and responses\<close>

record HelloRequest =
  hq_Header :: MessageHeader
  hq_SupportedVersions :: "string list"
  hq_RequestedBindings :: "string list"
  hq_RequestedFeatures :: "string list"

record HelloResponse =
  hp_Header :: MessageHeader
  hp_SelectedVersion :: string
  hp_SelectedBinding :: string
  hp_EnabledFeatures :: "string list"
  hp_ServerID :: string

record DiscoverRequest =
  dq_Header :: MessageHeader
  dq_Query :: string
  dq_IncludeSchemaRefs :: bool
  dq_IncludeQoS :: bool

record QoSProfile =
  q_MaxPayloadBytes :: int
  q_SupportsReplay :: bool
  q_DeliverySemantics :: string
  q_SupportsOrdering :: bool

record CapabilityDescriptor =
  c_ID :: string
  c_Version :: string
  c_Modes :: "string list"
  c_InputSchemaURI :: string
  c_OutputSchemaURI :: string
  c_EventTopics :: "string list"
  c_AuthScopes :: "string list"
  c_QoS :: QoSProfile

record DiscoverResponse =
  dp_Header :: MessageHeader
  dp_Capabilities :: "CapabilityDescriptor list"

record InvokeRequest =
  iq_Header :: MessageHeader
  iq_Capability :: string
  iq_Payload :: jmap
  iq_StreamPreference :: string

record InvokeResponse =
  ip_Header :: MessageHeader
  ip_Capability :: string
  ip_Payload :: jmap
  ip_ResultSchemaURI :: string

record PublishRequest =
  pq_Header :: MessageHeader
  pq_Topic :: string
  pq_Key :: string
  pq_Payload :: jmap

record PublishAck =
  pa_Header :: MessageHeader
  pa_Topic :: string
  pa_EventID :: string
  pa_Sequence :: int
  pa_Accepted :: bool

record EventMessage =
  ev_Header :: MessageHeader
  ev_Topic :: string
  ev_EventID :: string
  ev_Sequence :: int
  ev_Payload :: jmap
  ev_PublishedAt :: string
  ev_Replay :: bool

record CancelRequest =
  cq_Header :: MessageHeader
  cq_TargetMessageID :: string
  cq_Reason :: string

record CancelAck =
  ca_Header :: MessageHeader
  ca_TargetMessageID :: string
  ca_Accepted :: bool
  ca_Status :: string

record HeartbeatRequest =
  bq_Header :: MessageHeader
  bq_IntervalMS :: int

text \<open>The load factor is the float64 nearest to a number of thousandths; the thousandths are kept.\<close>

record HeartbeatAck =
  ba_Header :: MessageHeader
  ba_SuggestedIntervalMS :: int
  ba_LoadThousandths :: int

record StreamFrame =
  f_Header :: MessageHeader
  f_StreamID :: string
  f_Capability :: string
  f_Kind :: string
  f_Payload :: jmap
  f_EndStream :: bool
  f_Error :: "MigError option"

record ConformanceHealthReport =
  ch_Core :: bool
  ch_Streaming :: bool
  ch_Evented :: bool
  ch_Full :: bool

subsection \<open>Administration, metering and the cloud surface\<close>

record CapabilityUpsertRequest =
  cu_Descriptor :: CapabilityDescriptor

record SchemaUpsertRequest =
  su_URI :: string
  su_Schema :: jmap

record PolicyValidateRequest =
  pv_TenantID :: string
  pv_Capability :: string
  pv_Action :: string

record PolicyValidateResponse =
  pr_Allowed :: bool
  pr_Reason :: string

record QuotaRequest =
  qr_TenantID :: string
  qr_MaxInvocations :: int

record QuotaResponse =
  qp_TenantID :: string
  qp_MaxInvocations :: int

record AuditRecord =
  a_Actor :: string
  a_TenantID :: string
  a_Capability :: string
  a_Outcome :: string
  a_Timestamp :: string
  a_MessageID :: string

record UsageSnapshot =
  us_TenantInvocations :: "(string, int) gomap"
  us_CapabilityInvocations :: "(string, int) gomap"
  us_TotalInvocations :: int

record ConnectionSnapshot =
  cs_ID :: string
  cs_Protocol :: string
  cs_Kind :: string
  cs_TenantID :: string
  cs_Actor :: string
  cs_RemoteAddr :: string
  cs_StartedAt :: string
  cs_Meta :: jmap

record ConnectionSummary =
  sm_Total :: int
  sm_ByProtocol :: "(string, int) gomap"
  sm_ByKind :: "(string, int) gomap"
  sm_ByTenant :: "(string, int) gomap"
  sm_NATSBindingActive :: bool

record ConnectionsResponse =
  cr_GeneratedAt :: string
  cr_Summary :: ConnectionSummary
  cr_Connections :: "ConnectionSnapshot list"
  cr_FilterTenant :: string
  cr_FilterKind :: string
  cr_FilterProto :: string

record Org =
  org_ID :: string
  org_Name :: string

record Tenant =
  tn_ID :: string
  tn_OrgID :: string
  tn_Name :: string

record Gateway =
  gw_ID :: string
  gw_TenantID :: string
  gw_Region :: string
  gw_Binding :: string

end
