(* ===== verification/Mig_Auth.thy ===== *)
theory Mig_Auth
  imports Mig_Types
begin

text \<open>
  Authentication and tenant binding, \<^verbatim>\<open>core/pkg/mig/auth.go\<close>: principals and scopes, the two
  authentication modes, the claims of a bearer token, and the check that a message belongs to
  the tenant of its principal.

  The JWT library is not part of the repository. It is the parameter \<open>jwt\<close>: \<open>jwt tok keyfunc\<close>
  is the outcome of \<^verbatim>\<open>jwt.ParseWithClaims\<close>, \<open>None\<close> when it returns an error or an invalid token
  and the decoded claims otherwise; \<open>keyfunc\<close> is the callback that maps the algorithm named in
  the token to a key or an error.
\<close>

subsection \<open>Principals\<close>

record Principal =
  p_Subject :: string
  p_TenantID :: string
  p_Scopes :: "string list"
  p_Authenticated :: bool

definition AnonymousPrincipal :: Principal where
  "AnonymousPrincipal =
    \<lparr>p_Subject = ''anonymous'', p_TenantID = [], p_Scopes = [], p_Authenticated = False\<rparr>"

fun any_scope :: "string list \<Rightarrow> string list \<Rightarrow> bool" where
  "any_scope held [] = False"
| "any_scope held (s # ss) = (if s \<in> set held then True else any_scope held ss)"

definition HasAnyScope :: "Principal \<Rightarrow> string list \<Rightarrow> bool" where
  "HasAnyScope p required =
    (if \<not> p_Authenticated p then True
     else if required = [] then True
     else any_scope (p_Scopes p) required)"

definition ScopesList :: "Principal \<Rightarrow> string list" where
  "ScopesList p = sort (p_Scopes p)"

lemma any_scope_iff: "any_scope held rs \<longleftrightarrow> set held \<inter> set rs \<noteq> {}"
  by (induction rs) auto

lemma HasAnyScope_iff:
  "HasAnyScope p rs \<longleftrightarrow> (p_Authenticated p \<longrightarrow> rs = [] \<or> set (p_Scopes p) \<inter> set rs \<noteq> {})"
  by (simp add: HasAnyScope_def any_scope_iff)

subsection \<open>Configuration and requests\<close>

definition AuthModeNone :: string where "AuthModeNone = ''none''"
definition AuthModeJWT :: string where "AuthModeJWT = ''jwt''"

lemma AuthModes_differ [simp]: "AuthModeNone \<noteq> AuthModeJWT" "AuthModeJWT \<noteq> AuthModeNone"
  by (simp_all add: AuthModeNone_def AuthModeJWT_def)

record AuthConfig =
  ac_Mode :: string
  ac_JWTSecret :: string
  ac_RequireTenant :: bool

text \<open>
  The parts of an HTTP request the gateway reads; header and query lookups give the first value,
  or the empty string.
\<close>

record HttpRequest =
  r_Method :: string
  r_Path :: string
  r_Header :: "(string, string) gomap"
  r_Query :: "(string, string) gomap"
  r_RemoteAddr :: string

definition header_get :: "HttpRequest \<Rightarrow> string \<Rightarrow> string" where
  "header_get r k = (case map_of (r_Header r) k of None \<Rightarrow> [] | Some v \<Rightarrow> v)"

definition query_get :: "HttpRequest \<Rightarrow> string \<Rightarrow> string" where
  "query_get r k = (case map_of (r_Query r) k of None \<Rightarrow> [] | Some v \<Rightarrow> v)"

text \<open>The principal stored in a request context, if any.\<close>

definition principalFromContext :: "Principal option \<Rightarrow> Principal" where
  "principalFromContext ctx = (case ctx of None \<Rightarrow> AnonymousPrincipal | Some p \<Rightarrow> p)"

subsection \<open>Claims\<close>

type_synonym claims = jobject
type_synonym jwtlib = "string \<Rightarrow> (string \<Rightarrow> (string, string) res) \<Rightarrow> claims option"

definition asStringClaim :: "claims \<Rightarrow> string \<Rightarrow> string \<Rightarrow> string" where
  "asStringClaim cl key fallback =
    (case map_of cl key of
       Some (JStr s) \<Rightarrow> TrimSpace s
     | _ \<Rightarrow> fallback)"

definition add_scope :: "string \<Rightarrow> string list \<Rightarrow> string list" where
  "add_scope s out = List.insert s out"

fun add_scope_values :: "json list \<Rightarrow> string list \<Rightarrow> string list" where
  "add_scope_values [] out = out"
| "add_scope_values (v # vs) out =
    add_scope_values vs (case v of JStr s \<Rightarrow> add_scope (TrimSpace s) out | _ \<Rightarrow> out)"

definition scopesFromClaims :: "claims \<Rightarrow> string list" where
  "scopesFromClaims cl =
    (let out = (case map_of cl ''scope'' of
                  Some (JStr s) \<Rightarrow> fold add_scope (Fields s) []
                | _ \<Rightarrow> [])
     in case map_of cl ''scopes'' of
          Some (JArr vs) \<Rightarrow> add_scope_values vs out
        | Some (JStrs ss) \<Rightarrow> fold add_scope (map TrimSpace ss) out
        | _ \<Rightarrow> out)"

lemma set_add_scope [simp]: "set (add_scope s out) = insert s (set out)"
  by (simp add: add_scope_def)

lemma set_fold_add_scope: "set (fold add_scope xs out) = set xs \<union> set out"
  by (induction xs arbitrary: out) auto

lemma set_add_scope_values:
  "set (add_scope_values vs out) = set out \<union> {TrimSpace s | s. JStr s \<in> set vs}"
  by (induction vs arbitrary: out) (auto split: json.splits)

lemma scopesFromClaims_iff:
  "sc \<in> set (scopesFromClaims cl) \<longleftrightarrow>
     (\<exists>s. map_of cl ''scope'' = Some (JStr s) \<and> sc \<in> set (Fields s)) \<or>
     (\<exists>vs s. map_of cl ''scopes'' = Some (JArr vs) \<and> JStr s \<in> set vs \<and> sc = TrimSpace s) \<or>
     (\<exists>ss s. map_of cl ''scopes'' = Some (JStrs ss) \<and> s \<in> set ss \<and> sc = TrimSpace s)"
  by (auto simp: scopesFromClaims_def Let_def set_fold_add_scope set_add_scope_values
      split: option.splits json.splits)

lemma distinct_add_scope: "distinct out \<Longrightarrow> distinct (add_scope s out)"
  by (simp add: add_scope_def)

lemma distinct_fold_add_scope: "distinct out \<Longrightarrow> distinct (fold add_scope xs out)"
  by (induction xs arbitrary: out) (auto simp: distinct_add_scope)

lemma distinct_add_scope_values: "distinct out \<Longrightarrow> distinct (add_scope_values vs out)"
  by (induction vs arbitrary: out) (auto simp: distinct_add_scope split: json.splits)

lemma distinct_scopesFromClaims: "distinct (scopesFromClaims cl)"
  by (auto simp: scopesFromClaims_def Let_def distinct_fold_add_scope distinct_add_scope_values
      split: option.splits json.splits)

subsection \<open>The principal of a request\<close>

definition jwt_keyfunc :: "AuthConfig \<Rightarrow> string \<Rightarrow> (string, string) res" where
  "jwt_keyfunc cfg alg =
    (if alg \<noteq> ''HS256'' then Inl ''unsupported token signing method'' else Inr (ac_JWTSecret cfg))"

definition principal_of_claims :: "claims \<Rightarrow> Principal" where
  "principal_of_claims cl =
    (let t = asStringClaim cl ''tenant_id'' [];
         t = (if t = [] then asStringClaim cl ''tenant'' [] else t)
     in AnonymousPrincipal\<lparr>p_Authenticated := True, p_Subject := asStringClaim cl ''sub'' ''unknown'',
          p_TenantID := t, p_Scopes := scopesFromClaims cl\<rparr>)"

definition PrincipalFromAuthHeaders ::
    "jwtlib \<Rightarrow> string \<Rightarrow> string \<Rightarrow> AuthConfig \<Rightarrow> (string, Principal) res" where
  "PrincipalFromAuthHeaders jwt authorizationHeader tenantHeader cfg =
    (let headerTenant = TrimSpace tenantHeader in
     if ac_Mode cfg = AuthModeNone then
       let principal = AnonymousPrincipal\<lparr>p_TenantID := headerTenant\<rparr> in
       if ac_RequireTenant cfg \<and> p_TenantID principal = [] then Inl ''tenant header is required''
       else Inr principal
     else if ac_Mode cfg = AuthModeJWT then
       let authorization = TrimSpace authorizationHeader in
       if \<not> HasPrefix authorization ''Bearer '' then Inl ''missing bearer token''
       else
         let tokenString = TrimSpace (TrimPrefix authorization ''Bearer '') in
         case jwt tokenString (jwt_keyfunc cfg) of
           None \<Rightarrow> Inl ''invalid bearer token''
         | Some cl \<Rightarrow>
             let principal = principal_of_claims cl in
             if p_TenantID principal = [] then Inl ''token is missing tenant claim''
             else if ac_RequireTenant cfg \<and> headerTenant = [] then Inl ''tenant header is required''
             else if headerTenant \<noteq> [] \<and> headerTenant \<noteq> p_TenantID principal
             then Inl ''tenant header does not match token tenant''
             else Inr principal
     else Inl (''unsupported auth mode '' @ go_quote (ac_Mode cfg)))"

definition principalFromRequest ::
    "jwtlib \<Rightarrow> HttpRequest \<Rightarrow> AuthConfig \<Rightarrow> (string, Principal) res" where
  "principalFromRequest jwt r cfg =
    PrincipalFromAuthHeaders jwt (header_get r ''Authorization'') (header_get r ''X-Tenant-ID'') cfg"

lemma principal_of_claims_sel [simp]:
  "p_Authenticated (principal_of_claims cl)"
  "p_Scopes (principal_of_claims cl) = scopesFromClaims cl"
  "p_Subject (principal_of_claims cl) = asStringClaim cl ''sub'' ''unknown''"
  by (simp_all add: principal_of_claims_def Let_def)

lemma jwt_principal:
  assumes "ac_Mode cfg = AuthModeJWT" and "PrincipalFromAuthHeaders jwt auth tenant cfg = Inr p"
  obtains cl where
    "HasPrefix (TrimSpace auth) ''Bearer ''"
    "jwt (TrimSpace (TrimPrefix (TrimSpace auth) ''Bearer '')) (jwt_keyfunc cfg) = Some cl"
    "p = principal_of_claims cl" "p_TenantID p \<noteq> []"
    "TrimSpace tenant = [] \<and> \<not> ac_RequireTenant cfg \<or> TrimSpace tenant = p_TenantID p"
  using assms by (auto simp: PrincipalFromAuthHeaders_def Let_def split: if_splits option.splits)

lemma none_principal:
  assumes "ac_Mode cfg = AuthModeNone" and "PrincipalFromAuthHeaders jwt auth tenant cfg = Inr p"
  shows "p = AnonymousPrincipal\<lparr>p_TenantID := TrimSpace tenant\<rparr>"
    and "ac_RequireTenant cfg \<Longrightarrow> TrimSpace tenant \<noteq> []"
  using assms by (auto simp: PrincipalFromAuthHeaders_def Let_def split: if_splits)

subsection \<open>Classifying authentication errors\<close>

definition httpStatusForError :: "string \<Rightarrow> int" where
  "httpStatusForError msg = (if Contains msg ''tenant'' then 403 else 401)"

definition migCodeForAuthErr :: "string \<Rightarrow> string" where
  "migCodeForAuthErr msg = (if Contains msg ''tenant'' then ErrorForbidden else ErrorUnauthorized)"

lemma auth_error_messages:
  assumes "PrincipalFromAuthHeaders jwt auth tenant cfg = Inl e"
    and "ac_Mode cfg \<in> {AuthModeNone, AuthModeJWT}"
  shows "e \<in> {''tenant header is required'', ''missing bearer token'', ''invalid bearer token'',
    ''token is missing tenant claim'', ''tenant header does not match token tenant''}"
  using assms by (auto simp: PrincipalFromAuthHeaders_def Let_def split: if_splits option.splits)

subsection \<open>Binding a message to its principal\<close>

definition tenantFromRequest :: "HttpRequest \<Rightarrow> string" where
  "tenantFromRequest r =
    (let tenant = header_get r ''X-Tenant-ID'' in
     if tenant \<noteq> [] then TrimSpace tenant else ''unknown'')"

definition annotate_principal :: "Principal \<Rightarrow> MessageHeader \<Rightarrow> MessageHeader" where
  "annotate_principal p h =
    (let m = jentries (h_Meta h);
         m = AList.update ''idg.principal_subject'' (JStr (p_Subject p)) m;
         m = AList.update ''idg.principal_scopes'' (JStrs (ScopesList p)) m
     in h\<lparr>h_Meta := Some m\<rparr>)"

definition tenant_mismatch :: MigError where
  "tenant_mismatch = mk_error ErrorForbidden ''tenant_id does not match authenticated principal'' False"

text \<open>The header is updated in place, also when the check fails.\<close>

definition applyPrincipalHeader ::
    "MessageHeader \<Rightarrow> Principal \<Rightarrow> HttpRequest \<Rightarrow> MessageHeader \<times> MigError option" where
  "applyPrincipalHeader head prin r =
    (let head = annotate_principal prin head;
         head = (if h_TenantID head = []
                 then head\<lparr>h_TenantID :=
                   (if p_TenantID prin \<noteq> [] then p_TenantID prin else tenantFromRequest r)\<rparr>
                 else head)
     in if p_TenantID prin \<noteq> [] \<and> h_TenantID head \<noteq> p_TenantID prin
        then (head, Some tenant_mismatch)
        else if h_TenantID head = ''unknown''
        then (head, Some (mk_error ErrorInvalidRequest ''tenant_id is required'' False))
        else (head, None))"

lemma annotate_principal_fields [simp]:
  "h_MIGVersion (annotate_principal p h) = h_MIGVersion h"
  "h_MessageID (annotate_principal p h) = h_MessageID h"
  "h_Timestamp (annotate_principal p h) = h_Timestamp h"
  "h_TenantID (annotate_principal p h) = h_TenantID h"
  "h_SessionID (annotate_principal p h) = h_SessionID h"
  "h_Traceparent (annotate_principal p h) = h_Traceparent h"
  "h_IdempotencyKey (annotate_principal p h) = h_IdempotencyKey h"
  "h_DeadlineMS (annotate_principal p h) = h_DeadlineMS h"
  "h_Meta (annotate_principal p h) \<noteq> None"
  "map_of (jentries (h_Meta (annotate_principal p h))) ''idg.principal_subject'' = Some (JStr (p_Subject p))"
  by (simp_all add: annotate_principal_def Let_def)

text \<open>
  The contract both transports' tenant checks meet: a message of a named tenant never passes
  under a principal of another tenant, and nothing but the tenant and the metadata is touched.
\<close>

locale tenant_guard =
  fixes check :: "MessageHeader \<Rightarrow> Principal \<Rightarrow> MessageHeader \<times> MigError option"
  assumes mismatch: "p_TenantID p \<noteq> [] \<Longrightarrow> h_TenantID h \<noteq> [] \<Longrightarrow> h_TenantID h \<noteq> p_TenantID p \<Longrightarrow>
      snd (check h p) = Some tenant_mismatch"
    and fills: "h_TenantID h = [] \<Longrightarrow> p_TenantID p \<noteq> [] \<Longrightarrow> h_TenantID (fst (check h p)) = p_TenantID p"
    and keeps_tenant: "h_TenantID h \<noteq> [] \<Longrightarrow> h_TenantID (fst (check h p)) = h_TenantID h"
    and keeps_rest: "h_MIGVersion (fst (check h p)) = h_MIGVersion h"
      "h_MessageID (fst (check h p)) = h_MessageID h"
      "h_IdempotencyKey (fst (check h p)) = h_IdempotencyKey h"
      "h_DeadlineMS (fst (check h p)) = h_DeadlineMS h"
    and records: "map_of (jentries (h_Meta (fst (check h p)))) ''idg.principal_subject'' =
      Some (JStr (p_Subject p))"
begin

lemma passes_own_tenant:
  assumes "check h p = (h', None)" and "p_TenantID p \<noteq> []"
  shows "h_TenantID h' = p_TenantID p"
proof (cases "h_TenantID h = []")
  case True
  with assms fills [of h p] show ?thesis by simp
next
  case False
  moreover have "h_TenantID h = p_TenantID p"
    using mismatch [OF assms(2) False] assms(1) by force
  ultimately show ?thesis
    using keeps_tenant [of h p] assms(1) by simp
qed

lemma prepared_tenant:
  assumes "check h p = (h', None)" and "p_TenantID p \<noteq> []" and "prepare r h' = Inr h''"
  shows "h_TenantID h'' = p_TenantID p"
  using passes_own_tenant [OF assms(1,2)] prepare_ok(2) [OF assms(3)] by simp

lemma subject_survives:
  assumes "check h p = (h', None)" and "prepare r h' = Inr h''"
  shows "map_of (jentries (h_Meta h'')) ''idg.principal_subject'' = Some (JStr (p_Subject p))"
proof -
  from assms(2) obtain h1 where n: "Normalize (rt_now r 0) (newMessageID (rt_rand r 0)) h' = Inr h1"
    and "h'' = AddIDGMeta ''core'' h1"
    by (auto simp: prepare_def split: sum.splits)
  moreover have "jentries (h_Meta h1) = jentries (h_Meta h')"
    using n by (auto simp: Normalize_def Let_def split: if_splits)
  ultimately show ?thesis
    using records [of h p] assms(1) by (simp add: AddIDGMeta_keeps_meta)
qed

end

interpretation http_guard: tenant_guard "\<lambda>h p. applyPrincipalHeader h p r" for r
  by unfold_locales (auto simp: applyPrincipalHeader_def Let_def)

end
