(* ===== verification/Mig_Metrics.thy ===== *)
theory Mig_Metrics
  imports Mig_Types
begin

text \<open>
  \<^verbatim>\<open>core/pkg/mig/metrics.go\<close>. The Prometheus client is not part of the repository; the model keeps the
  sequence of calls the gateway makes on its counters, gauges and histograms, and the families they
  belong to. Delegating flush, hijack and push to the wrapped writer is not modelled.
\<close>

datatype metric_op =
    IncRequestTotal string string string
  | ObserveLatency string string
  | IncRequestErrors string string
  | IncActive string
  | DecActive string

type_synonym Metrics = "metric_op list"

text \<open>
  The registered families: kind, name with namespace and subsystem, label names. \<^verbatim>\<open>WithLabelValues\<close>
  panics unless it is given one value per label, and registering a name twice panics.
\<close>

datatype metric_kind = CounterVec | HistogramVec | GaugeVec

definition metric_families :: "(metric_kind \<times> string \<times> string list) list" where
  "metric_families =
    [(CounterVec, ''mig_gateway_http_requests_total'', [''method'', ''path'', ''status'']),
     (HistogramVec, ''mig_gateway_http_request_duration_seconds'', [''method'', ''path'']),
     (CounterVec, ''mig_gateway_errors_total'', [''code'', ''operation'']),
     (GaugeVec, ''mig_gateway_active_streams'', [''type''])]"

definition NewMetrics :: Metrics where
  "NewMetrics = []"

fun op_call :: "metric_op \<Rightarrow> metric_kind \<times> string \<times> string list" where
  "op_call (IncRequestTotal a b c) = (CounterVec, ''mig_gateway_http_requests_total'', [a, b, c])"
| "op_call (ObserveLatency a b) = (HistogramVec, ''mig_gateway_http_request_duration_seconds'', [a, b])"
| "op_call (IncRequestErrors a b) = (CounterVec, ''mig_gateway_errors_total'', [a, b])"
| "op_call (IncActive a) = (GaugeVec, ''mig_gateway_active_streams'', [a])"
| "op_call (DecActive a) = (GaugeVec, ''mig_gateway_active_streams'', [a])"

lemma op_call_labels:
  "\<exists>labels. (fst (op_call x), fst (snd (op_call x)), labels) \<in> set metric_families \<and>
     length (snd (snd (op_call x))) = length labels"
  by (cases x) (simp_all add: metric_families_def)

definition RecordError :: "string \<Rightarrow> string \<Rightarrow> Metrics \<Rightarrow> Metrics" where
  "RecordError code operation m =
    (let code = (if code = [] then ErrorInternal else code);
         operation = (if operation = [] then ''unknown'' else operation)
     in m @ [IncRequestErrors code operation])"

definition IncActiveStream :: "string \<Rightarrow> Metrics \<Rightarrow> Metrics" where
  "IncActiveStream streamType m = m @ [IncActive streamType]"

definition DecActiveStream :: "string \<Rightarrow> Metrics \<Rightarrow> Metrics" where
  "DecActiveStream streamType m = m @ [DecActive streamType]"

text \<open>The value a gauge shows after a sequence of calls.\<close>

definition active_streams :: "string \<Rightarrow> Metrics \<Rightarrow> int" where
  "active_streams t m = int (count_list m (IncActive t)) - int (count_list m (DecActive t))"

definition error_count :: "string \<Rightarrow> string \<Rightarrow> Metrics \<Rightarrow> nat" where
  "error_count code operation m = count_list m (IncRequestErrors code operation)"

lemma active_streams_Nil [simp]: "active_streams t [] = 0"
  by (simp add: active_streams_def)

lemma active_streams_inc [simp]:
  "active_streams t (IncActiveStream t' m) = active_streams t m + (if t = t' then 1 else 0)"
  by (simp add: active_streams_def IncActiveStream_def)

lemma active_streams_dec [simp]:
  "active_streams t (DecActiveStream t' m) = active_streams t m - (if t = t' then 1 else 0)"
  by (simp add: active_streams_def DecActiveStream_def)

lemma active_streams_error [simp]: "active_streams t (RecordError c p m) = active_streams t m"
  by (simp add: active_streams_def RecordError_def Let_def)

subsection \<open>Metric labels for request paths\<close>

definition normalizeMetricPath :: "string \<Rightarrow> string" where
  "normalizeMetricPath path =
    (if HasPrefix path ''/mig/v0.1/invoke/'' then ''/mig/v0.1/invoke/{capability}''
     else if HasPrefix path ''/mig/v0.1/publish/'' then ''/mig/v0.1/publish/{topic}''
     else if HasPrefix path ''/mig/v0.1/subscribe/'' then ''/mig/v0.1/subscribe/{topic}''
     else if HasPrefix path ''/mig/v0.1/cancel/'' then ''/mig/v0.1/cancel/{message_id}''
     else path)"

lemma normalizeMetricPath_idem: "normalizeMetricPath (normalizeMetricPath p) = normalizeMetricPath p"
  by (simp add: normalizeMetricPath_def)

end
