(* ===== verification/Mig_Service.thy ===== *)
theory Mig_Service
  imports Mig_Auth Mig_Metrics
begin

text \<open>
  The gateway's state and its operations, \<^verbatim>\<open>core/pkg/mig/service.go\<close>, except publication and
  subscription, which follow in their own theory.

  One field of the record per field of the Go struct. The NATS connection and the audit file are
  outside the process: their fields hold the messages published and the lines written so far,
  \<open>None\<close> standing for nil. A channel is an index into \<open>s_chans\<close>, where the buffer of the channel
  and whether it is closed are kept; \<open>s_next_chan\<close> is the next index to allocate.

  An operation takes and returns the state. Each critical section of the Go code, between taking
  and releasing the mutex, is one function here; \<open>Invoke\<close> has two of them, and the theory of the
  concurrent system interleaves them.
\<close>

subsection \<open>State\<close>

record EventChan =
  ch_buf :: "EventMessage list"
  ch_closed :: bool

record NATSBinding =
  nb_subs :: "string list"

record Service =
  s_serverID :: string
  s_metrics :: "Metrics option"
  s_capabilities :: "(string, CapabilityDescriptor) gomap"
  s_schemas :: "(string, jobject) gomap"
  s_events :: "(string, EventMessage list) gomap"
  s_subscribers :: "(string, nat list) gomap"
  s_idempotency :: "(string, InvokeResponse) gomap"
  s_cancelled :: "(string, string) gomap"
  s_quotas :: "(string, int) gomap"
  s_audit :: "AuditRecord list"
  s_connections :: "(string, ConnectionSnapshot) gomap"
  s_tenantInvocations :: "(string, int) gomap"
  s_capabilityInvocations :: "(string, int) gomap"
  s_orgs :: "(string, Org) gomap"
  s_tenants :: "(string, Tenant) gomap"
  s_gateways :: "(string, Gateway) gomap"
  s_natsBinding :: "NATSBinding option"
  s_natsConn :: "(string \<times> EventMessage) list option"
  s_auditLog :: "AuditRecord list option"
  s_chans :: "(nat, EventChan) gomap"
  s_next_chan :: nat

record ServiceOptions =
  so_NATSURL :: string
  so_AuditLogPath :: string

definition empty_service :: Service where
  "empty_service =
    \<lparr>s_serverID = ''migd-core'', s_metrics = None, s_capabilities = [], s_schemas = [],
     s_events = [], s_subscribers = [], s_idempotency = [], s_cancelled = [], s_quotas = [],
     s_audit = [], s_connections = [], s_tenantInvocations = [], s_capabilityInvocations = [],
     s_orgs = [], s_tenants = [], s_gateways = [], s_natsBinding = None, s_natsConn = None,
     s_auditLog = None, s_chans = [], s_next_chan = 0\<rparr>"

definition infer_capability :: CapabilityDescriptor where
  "infer_capability =
    \<lparr>c_ID = ''observatory.models.infer'', c_Version = ''1.0.0'',
     c_Modes = [''unary'', ''server_stream''],
     c_InputSchemaURI = ''schema://observatory/models/infer-input/v1'',
     c_OutputSchemaURI = ''schema://observatory/models/infer-output/v1'',
     c_EventTopics = [''observatory.inference.completed''],
     c_AuthScopes = [''capability:infer''],
     c_QoS = \<lparr>q_MaxPayloadBytes = 1024 * 1024, q_SupportsReplay = True,
              q_DeliverySemantics = ''at_least_once'', q_SupportsOrdering = True\<rparr>\<rparr>"

definition object_schema :: "string \<Rightarrow> jobject" where
  "object_schema field =
    [(''type'', JStr ''object''),
     (''properties'', JObj [(field, JObj [(''type'', JStr ''string'')])]),
     (''required'', JStrs [field])]"

definition bootstrapDefaults :: "Service \<Rightarrow> Service" where
  "bootstrapDefaults s =
    s\<lparr>s_capabilities := AList.update ''observatory.models.infer'' infer_capability (s_capabilities s),
      s_schemas :=
        AList.update ''schema://observatory/models/infer-output/v1'' (object_schema ''result'')
          (AList.update ''schema://observatory/models/infer-input/v1'' (object_schema ''input'')
            (s_schemas s))\<rparr>"

text \<open>
  \<open>connect\<close> and \<open>openlog\<close> are the outcomes of connecting to NATS and of opening the audit file:
  \<open>Some e\<close> is an error.
\<close>

definition NewServiceWithOptions ::
    "(string \<Rightarrow> string option) \<Rightarrow> (string \<Rightarrow> string option) \<Rightarrow> ServiceOptions \<Rightarrow> (string, Service) res" where
  "NewServiceWithOptions connect openlog opts =
    (let s = empty_service;
         nats = (if so_NATSURL opts \<noteq> [] then connect (so_NATSURL opts) else None) in
     case nats of
       Some e \<Rightarrow> Inl (''connect nats: '' @ e)
     | None \<Rightarrow>
         let s = (if so_NATSURL opts \<noteq> [] then s\<lparr>s_natsConn := Some []\<rparr> else s);
             log = (if so_AuditLogPath opts \<noteq> [] then openlog (so_AuditLogPath opts) else None) in
         case log of
           Some e \<Rightarrow> Inl (''open audit log: '' @ e)
         | None \<Rightarrow>
             let s = (if so_AuditLogPath opts \<noteq> [] then s\<lparr>s_auditLog := Some []\<rparr> else s)
             in Inr (bootstrapDefaults s))"

text \<open>\<^verbatim>\<open>NewService\<close> panics if the constructor fails; \<open>None\<close> is the panic.\<close>

definition NewService :: "Service option" where
  "NewService =
    (case NewServiceWithOptions (\<lambda>_. None) (\<lambda>_. None) \<lparr>so_NATSURL = [], so_AuditLogPath = []\<rparr> of
       Inl _ \<Rightarrow> None
     | Inr s \<Rightarrow> Some s)"

definition Close :: "Service \<Rightarrow> Service" where
  "Close s = s\<lparr>s_natsBinding := None, s_natsConn := None, s_auditLog := None\<rparr>"

definition SetMetrics :: "Metrics option \<Rightarrow> Service \<Rightarrow> Service" where
  "SetMetrics m s = s\<lparr>s_metrics := m\<rparr>"

definition recordError :: "string \<Rightarrow> string \<Rightarrow> Service \<Rightarrow> Service" where
  "recordError code operation s =
    (case s_metrics s of
       None \<Rightarrow> s
     | Some m \<Rightarrow> s\<lparr>s_metrics := Some (RecordError code operation m)\<rparr>)"

definition invalid :: "string \<Rightarrow> MigError" where
  "invalid msg = mk_error ErrorInvalidRequest msg False"

lemma invalid_sel [simp]: "e_Code (invalid m) = ErrorInvalidRequest" "e_Message (invalid m) = m"
    "e_Retryable (invalid m) = False"
  by (simp_all add: invalid_def)

text \<open>Recording an error changes nothing but the metrics.\<close>

lemma recordError_only_metrics: "\<exists>m. recordError c p s = s\<lparr>s_metrics := m\<rparr>"
proof (cases "s_metrics s")
  case None
  then have "recordError c p s = s\<lparr>s_metrics := s_metrics s\<rparr>"
    by (simp add: recordError_def)
  then show ?thesis by blast
next
  case (Some m)
  then show ?thesis by (auto simp: recordError_def)
qed

lemma recordError_fields [simp]:
  "s_serverID (recordError c p s) = s_serverID s"
  "s_capabilities (recordError c p s) = s_capabilities s" "s_schemas (recordError c p s) = s_schemas s"
  "s_events (recordError c p s) = s_events s" "s_subscribers (recordError c p s) = s_subscribers s"
  "s_idempotency (recordError c p s) = s_idempotency s" "s_cancelled (recordError c p s) = s_cancelled s"
  "s_quotas (recordError c p s) = s_quotas s" "s_audit (recordError c p s) = s_audit s"
  "s_connections (recordError c p s) = s_connections s"
  "s_tenantInvocations (recordError c p s) = s_tenantInvocations s"
  "s_capabilityInvocations (recordError c p s) = s_capabilityInvocations s"
  "s_orgs (recordError c p s) = s_orgs s" "s_tenants (recordError c p s) = s_tenants s"
  "s_gateways (recordError c p s) = s_gateways s" "s_natsBinding (recordError c p s) = s_natsBinding s"
  "s_natsConn (recordError c p s) = s_natsConn s" "s_auditLog (recordError c p s) = s_auditLog s"
  "s_chans (recordError c p s) = s_chans s" "s_next_chan (recordError c p s) = s_next_chan s"
  using recordError_only_metrics [of c p s] by auto

subsection \<open>Hello\<close>

fun version_compatible :: "string list \<Rightarrow> bool" where
  "version_compatible [] = False"
| "version_compatible (v # vs) = (if TrimSpace v = MIGVersion then True else version_compatible vs)"

fun select_binding :: "string list \<Rightarrow> string" where
  "select_binding [] = ''http''"
| "select_binding (b # bs) =
    (let candidate = ToLower (TrimSpace b) in
     if candidate = ''grpc'' \<or> candidate = ''nats'' \<or> candidate = ''http'' then candidate
     else select_binding bs)"

definition Hello :: "rt \<Rightarrow> Service \<Rightarrow> HelloRequest \<Rightarrow> (MigError, HelloResponse) res" where
  "Hello r s req =
    (case Normalize (rt_now r 0) (newMessageID (rt_rand r 0)) (hq_Header req) of
       Inl e \<Rightarrow> Inl (invalid e)
     | Inr head \<Rightarrow>
         let versions = (if hq_SupportedVersions req = [] then [MIGVersion] else hq_SupportedVersions req) in
         if \<not> version_compatible versions
         then Inl (mk_error ErrorVersionMismatch ''no compatible MIG version'' False)
         else Inr \<lparr>hp_Header = AddIDGMeta ''core'' head, hp_SelectedVersion = MIGVersion,
                   hp_SelectedBinding = select_binding (hq_RequestedBindings req),
                   hp_EnabledFeatures = hq_RequestedFeatures req, hp_ServerID = s_serverID s\<rparr>)"

subsection \<open>Discover\<close>

definition visible :: "string \<Rightarrow> Principal \<Rightarrow> CapabilityDescriptor \<Rightarrow> bool" where
  "visible query prin d \<longleftrightarrow>
    \<not> (query \<noteq> [] \<and> \<not> Contains (c_ID d) query) \<and> HasAnyScope prin (c_AuthScopes d)"

definition Discover ::
    "rt \<Rightarrow> Service \<Rightarrow> DiscoverRequest \<Rightarrow> Principal \<Rightarrow> Service \<times> (MigError, DiscoverResponse) res" where
  "Discover r s req prin =
    (case prepare r (dq_Header req) of
       Inl e \<Rightarrow> (recordError ErrorInvalidRequest ''discover'' s, Inl (invalid e))
     | Inr head \<Rightarrow>
         let out = filter (visible (dq_Query req) prin) (map snd (range_map (rt_iter r) (s_capabilities s)))
         in (s, Inr \<lparr>dp_Header = head, dp_Capabilities = sort_key c_ID out\<rparr>))"

subsection \<open>Invoke\<close>

definition idem_key :: "string \<Rightarrow> string \<Rightarrow> string \<Rightarrow> string" where
  "idem_key tenant capability key = tenant @ '':'' @ capability @ '':'' @ key"

text \<open>\<^verbatim>\<open>time.Duration(head.DeadlineMS) * time.Millisecond\<close>, in nanoseconds.\<close>

definition invoke_deadline :: "MessageHeader \<Rightarrow> int" where
  "invoke_deadline head = i64 (h_DeadlineMS head * 1000000)"

text \<open>An invocation past its admission checks, before the result is recorded.\<close>

record Pending =
  pd_Header :: MessageHeader
  pd_Capability :: string
  pd_Descriptor :: CapabilityDescriptor
  pd_Payload :: jmap
  pd_Actor :: string
  pd_Deadline :: int

datatype admission = Rejected MigError | Replayed InvokeResponse | Admitted Pending

definition Invoke_admit ::
    "rt \<Rightarrow> Service \<Rightarrow> string \<Rightarrow> InvokeRequest \<Rightarrow> string \<Rightarrow> Principal \<Rightarrow> Service \<times> admission" where
  "Invoke_admit r s capability req actor prin =
    (case prepare r (iq_Header req) of
       Inl e \<Rightarrow> (recordError ErrorInvalidRequest ''invoke'' s, Rejected (invalid e))
     | Inr head \<Rightarrow>
         let capability = (if capability = [] then iq_Capability req else capability) in
         if capability = []
         then (recordError ErrorInvalidRequest ''invoke'' s, Rejected (invalid ''capability is required''))
         else case map_of (s_capabilities s) capability of
           None \<Rightarrow> (recordError ErrorUnsupportedCapability ''invoke'' s,
             Rejected (mk_error ErrorUnsupportedCapability ''capability not found'' False))
         | Some capDesc \<Rightarrow>
             if \<not> HasAnyScope prin (c_AuthScopes capDesc)
             then (recordError ErrorForbidden ''invoke'' s,
               Rejected (mk_error ErrorForbidden ''insufficient capability scope'' False))
             else case map_of (s_cancelled s) (h_MessageID head) of
               Some reason \<Rightarrow> (recordError ErrorTimeout ''invoke'' s,
                 Rejected (mk_error ErrorTimeout (''invocation cancelled: '' @ reason) True))
             | None \<Rightarrow>
                 case (if h_IdempotencyKey head \<noteq> []
                       then map_of (s_idempotency s)
                              (idem_key (h_TenantID head) capability (h_IdempotencyKey head))
                       else None) of
                   Some cached \<Rightarrow> (s, Replayed (cached\<lparr>ip_Header := head\<rparr>))
                 | None \<Rightarrow>
                     let hasQuota = (map_of (s_quotas s) (h_TenantID head) \<noteq> None);
                         quota = mget0 (s_quotas s) (h_TenantID head);
                         used = mget0 (s_tenantInvocations s) (h_TenantID head)
                     in if hasQuota \<and> used \<ge> quota
                        then (recordError ErrorRateLimited ''invoke'' s,
                          Rejected (mk_error ErrorRateLimited ''tenant quota exceeded'' True))
                        else (s, Admitted \<lparr>pd_Header = head, pd_Capability = capability,
                          pd_Descriptor = capDesc, pd_Payload = iq_Payload req, pd_Actor = actor,
                          pd_Deadline = invoke_deadline head\<rparr>))"

definition jmap_json :: "jmap \<Rightarrow> json" where
  "jmap_json m = (case m of None \<Rightarrow> JNull | Some es \<Rightarrow> JObj es)"

text \<open>What the worker goroutine puts on the result channel.\<close>

definition invoke_result :: "Pending \<Rightarrow> jobject" where
  "invoke_result p =
    [(''result'', JStr ''ok''), (''echo'', jmap_json (pd_Payload p)),
     (''capability'', JStr (pd_Capability p)),
     (''delivery_qos'', JStr (q_DeliverySemantics (c_QoS (pd_Descriptor p))))]"

definition writeAuditLogLocked :: "AuditRecord \<Rightarrow> Service \<Rightarrow> Service" where
  "writeAuditLogLocked rec s =
    (case s_auditLog s of
       None \<Rightarrow> s
     | Some ls \<Rightarrow> s\<lparr>s_auditLog := Some (ls @ [rec])\<rparr>)"

text \<open>Which of the two ready cases of the \<^verbatim>\<open>select\<close> the runtime takes.\<close>

datatype invoke_select = SelDeadline | SelResult

definition audit_of :: "rt \<Rightarrow> Pending \<Rightarrow> AuditRecord" where
  "audit_of r p =
    \<lparr>a_Actor = pd_Actor p, a_TenantID = h_TenantID (pd_Header p), a_Capability = pd_Capability p,
     a_Outcome = ''success'', a_Timestamp = rt_now r 1, a_MessageID = h_MessageID (pd_Header p)\<rparr>"

definition Invoke_finish ::
    "rt \<Rightarrow> invoke_select \<Rightarrow> Pending \<Rightarrow> Service \<Rightarrow> Service \<times> (MigError, InvokeResponse) res" where
  "Invoke_finish r sel p s =
    (case sel of
       SelDeadline \<Rightarrow> (recordError ErrorTimeout ''invoke'' s,
         Inl (mk_error ErrorTimeout ''deadline exceeded'' True))
     | SelResult \<Rightarrow>
         let head = pd_Header p; capability = pd_Capability p;
             resp = \<lparr>ip_Header = head, ip_Capability = capability,
                     ip_Payload = Some (invoke_result p),
                     ip_ResultSchemaURI = c_OutputSchemaURI (pd_Descriptor p)\<rparr>;
             s = (if h_IdempotencyKey head \<noteq> []
                  then s\<lparr>s_idempotency := AList.update
                         (idem_key (h_TenantID head) capability (h_IdempotencyKey head)) resp
                         (s_idempotency s)\<rparr>
                  else s);
             s = s\<lparr>s_tenantInvocations := AList.update (h_TenantID head)
                     (i64 (mget0 (s_tenantInvocations s) (h_TenantID head) + 1)) (s_tenantInvocations s)\<rparr>;
             s = s\<lparr>s_capabilityInvocations := AList.update capability
                     (i64 (mget0 (s_capabilityInvocations s) capability + 1)) (s_capabilityInvocations s)\<rparr>;
             s = s\<lparr>s_audit := s_audit s @ [audit_of r p]\<rparr>
         in (writeAuditLogLocked (last (s_audit s)) s, Inr resp))"

definition Invoke ::
    "rt \<Rightarrow> invoke_select \<Rightarrow> Service \<Rightarrow> string \<Rightarrow> InvokeRequest \<Rightarrow> string \<Rightarrow> Principal \<Rightarrow>
     Service \<times> (MigError, InvokeResponse) res" where
  "Invoke r sel s capability req actor prin =
    (case Invoke_admit r s capability req actor prin of
       (s', Rejected e) \<Rightarrow> (s', Inl e)
     | (s', Replayed resp) \<Rightarrow> (s', Inr resp)
     | (s', Admitted p) \<Rightarrow> Invoke_finish r sel p s')"

subsection \<open>Cancel and heartbeat\<close>

definition Cancel ::
    "rt \<Rightarrow> Service \<Rightarrow> CancelRequest \<Rightarrow> string \<Rightarrow> Service \<times> (MigError, CancelAck) res" where
  "Cancel r s req messageID =
    (case prepare r (cq_Header req) of
       Inl e \<Rightarrow> (recordError ErrorInvalidRequest ''cancel'' s, Inl (invalid e))
     | Inr head \<Rightarrow>
         let messageID = (if messageID = [] then cq_TargetMessageID req else messageID) in
         if messageID = []
         then (recordError ErrorInvalidRequest ''cancel'' s, Inl (invalid ''target message id is required''))
         else (s\<lparr>s_cancelled := AList.update messageID (cq_Reason req) (s_cancelled s)\<rparr>,
               Inr \<lparr>ca_Header = head, ca_TargetMessageID = messageID, ca_Accepted = True,
                    ca_Status = ''cancelled''\<rparr>))"

definition Heartbeat ::
    "rt \<Rightarrow> Service \<Rightarrow> HeartbeatRequest \<Rightarrow> Service \<times> (MigError, HeartbeatAck) res" where
  "Heartbeat r s req =
    (case prepare r (bq_Header req) of
       Inl e \<Rightarrow> (recordError ErrorInvalidRequest ''heartbeat'' s, Inl (invalid e))
     | Inr head \<Rightarrow>
         let interval = (if bq_IntervalMS req \<le> 0 then 5000 else bq_IntervalMS req)
         in (s, Inr \<lparr>ba_Header = head, ba_SuggestedIntervalMS = interval,
                     ba_LoadThousandths = int (length (s_audit s))\<rparr>))"

subsection \<open>Administration\<close>

text \<open>An administrative operation without a result returns its error, if any.\<close>

definition AddCapability :: "Service \<Rightarrow> CapabilityUpsertRequest \<Rightarrow> Service \<times> MigError option" where
  "AddCapability s req =
    (let d = cu_Descriptor req in
     if c_ID d = [] \<or> c_Version d = []
     then (s, Some (invalid ''descriptor.id and descriptor.version are required''))
     else if c_InputSchemaURI d = [] \<or> c_OutputSchemaURI d = []
     then (s, Some (invalid ''schema URIs are required''))
     else (s\<lparr>s_capabilities := AList.update (c_ID d) d (s_capabilities s)\<rparr>, None))"

definition ListCapabilities :: "rt \<Rightarrow> Service \<Rightarrow> CapabilityDescriptor list" where
  "ListCapabilities r s = sort_key c_ID (map snd (range_map (rt_iter r) (s_capabilities s)))"

definition AddSchema :: "Service \<Rightarrow> SchemaUpsertRequest \<Rightarrow> Service \<times> MigError option" where
  "AddSchema s req =
    (if su_URI req = [] then (s, Some (invalid ''uri is required''))
     else if jentries (su_Schema req) = [] then (s, Some (invalid ''schema is required''))
     else (s\<lparr>s_schemas := AList.update (su_URI req) (jentries (su_Schema req)) (s_schemas s)\<rparr>, None))"

definition ConformanceHealth :: "Service \<Rightarrow> ConformanceHealthReport" where
  "ConformanceHealth s = \<lparr>ch_Core = True, ch_Streaming = True, ch_Evented = True, ch_Full = True\<rparr>"

subsection \<open>Policy, quotas and audit\<close>

definition ValidatePolicy ::
    "Service \<Rightarrow> PolicyValidateRequest \<Rightarrow> (MigError, PolicyValidateResponse) res" where
  "ValidatePolicy s req =
    (if pv_TenantID req = [] \<or> pv_Capability req = [] \<or> pv_Action req = []
     then Inl (invalid ''tenant_id, capability, and action are required'')
     else if pv_Action req \<noteq> ''invoke''
     then Inr \<lparr>pr_Allowed = False, pr_Reason = ''unsupported action''\<rparr>
     else if map_of (s_capabilities s) (pv_Capability req) = None
     then Inr \<lparr>pr_Allowed = False, pr_Reason = ''capability does not exist''\<rparr>
     else Inr \<lparr>pr_Allowed = True, pr_Reason = []\<rparr>)"

definition SetQuota :: "Service \<Rightarrow> QuotaRequest \<Rightarrow> Service \<times> (MigError, QuotaResponse) res" where
  "SetQuota s req =
    (if qr_TenantID req = [] then (s, Inl (invalid ''tenant_id is required''))
     else if qr_MaxInvocations req \<le> 0 then (s, Inl (invalid ''max_invocations must be > 0''))
     else (s\<lparr>s_quotas := AList.update (qr_TenantID req) (qr_MaxInvocations req) (s_quotas s)\<rparr>,
           Inr \<lparr>qp_TenantID = qr_TenantID req, qp_MaxInvocations = qr_MaxInvocations req\<rparr>))"

definition AuditExport :: "Service \<Rightarrow> string \<Rightarrow> AuditRecord list" where
  "AuditExport s tenantID =
    (if tenantID = [] then s_audit s else filter (\<lambda>a. a_TenantID a = tenantID) (s_audit s))"

subsection \<open>Organisations, tenants, gateways\<close>

text \<open>\<open>None\<close> is the panic of slicing a generated identifier that is too short.\<close>

definition CreateOrg :: "rt \<Rightarrow> Service \<Rightarrow> Org \<Rightarrow> (Service \<times> (MigError, Org) res) option" where
  "CreateOrg r s org =
    (if org_Name org = [] then Some (s, Inl (invalid ''name is required''))
     else case (if org_ID org = [] then map_option (\<lambda>i. ''org-'' @ i) (short_id (rt_rand r 0))
                else Some (org_ID org)) of
       None \<Rightarrow> None
     | Some i \<Rightarrow>
         let org = org\<lparr>org_ID := i\<rparr>
         in Some (s\<lparr>s_orgs := AList.update (org_ID org) org (s_orgs s)\<rparr>, Inr org))"

definition CreateTenant :: "rt \<Rightarrow> Service \<Rightarrow> Tenant \<Rightarrow> (Service \<times> (MigError, Tenant) res) option" where
  "CreateTenant r s tenant =
    (if tn_Name tenant = [] \<or> tn_OrgID tenant = []
     then Some (s, Inl (invalid ''name and org_id are required''))
     else case (if tn_ID tenant = [] then map_option (\<lambda>i. ''tenant-'' @ i) (short_id (rt_rand r 0))
                else Some (tn_ID tenant)) of
       None \<Rightarrow> None
     | Some i \<Rightarrow>
         let tenant = tenant\<lparr>tn_ID := i\<rparr> in
         if map_of (s_orgs s) (tn_OrgID tenant) = None
         then Some (s, Inl (mk_error ErrorNotFound ''org not found'' False))
         else Some (s\<lparr>s_tenants := AList.update (tn_ID tenant) tenant (s_tenants s)\<rparr>, Inr tenant))"

definition CreateGateway :: "rt \<Rightarrow> Service \<Rightarrow> Gateway \<Rightarrow> (Service \<times> (MigError, Gateway) res) option" where
  "CreateGateway r s gw =
    (if gw_TenantID gw = [] \<or> gw_Region gw = [] \<or> gw_Binding gw = []
     then Some (s, Inl (invalid ''tenant_id, region, and binding are required''))
     else case (if gw_ID gw = [] then map_option (\<lambda>i. ''gw-'' @ i) (short_id (rt_rand r 0))
                else Some (gw_ID gw)) of
       None \<Rightarrow> None
     | Some i \<Rightarrow>
         let gw = gw\<lparr>gw_ID := i\<rparr> in
         if map_of (s_tenants s) (gw_TenantID gw) = None
         then Some (s, Inl (mk_error ErrorNotFound ''tenant not found'' False))
         else Some (s\<lparr>s_gateways := AList.update (gw_ID gw) gw (s_gateways s)\<rparr>, Inr gw))"

subsection \<open>Usage\<close>

definition copy_entry :: "string \<times> int \<Rightarrow> (string, int) gomap \<Rightarrow> (string, int) gomap" where
  "copy_entry kv m = AList.update (fst kv) (snd kv) m"

definition sum_entry :: "string \<times> int \<Rightarrow> int \<Rightarrow> int" where
  "sum_entry kv acc = i64 (acc + snd kv)"

definition Usage :: "rt \<Rightarrow> Service \<Rightarrow> UsageSnapshot" where
  "Usage r s =
    (let ts = range_map (rt_iter r) (s_tenantInvocations s);
         cs = range_map (rt_iter r) (s_capabilityInvocations s)
     in \<lparr>us_TenantInvocations = fold copy_entry ts [],
         us_CapabilityInvocations = fold copy_entry cs [],
         us_TotalInvocations = fold sum_entry cs 0\<rparr>)"

end
