(* ===== verification/Mig_Service_Inv.thy ===== *)
theory Mig_Service_Inv
  imports Mig_Service
begin

text \<open>
  Lemmas about the service: what Hello negotiates, that the order in which Go iterates over a map
  does not show, the admission and commit halves of Invoke, and the invariant \<open>core_inv\<close> that ties
  the maps of the service together: descriptors are stored under their own identifier, the two
  counters and the usage total agree with the audit trail modulo the wrap of int64, the audit
  file mirrors the trail, quotas are positive, cached responses belong to their key, and tenants
  and gateways refer to existing parents. The end of the theory fixes the concrete requests the
  witnesses of the later theories run.
\<close>

subsection \<open>The binding and version negotiated by Hello\<close>

lemma version_compatible_iff: "version_compatible vs \<longleftrightarrow> (\<exists>v \<in> set vs. TrimSpace v = MIGVersion)"
  by (induction vs) auto

lemma select_binding_cases: "select_binding bs \<in> {''grpc'', ''nats'', ''http''}"
  by (induction bs) (auto simp: Let_def)

lemma select_binding_first:
  "select_binding (pre @ b # post) = ToLower (TrimSpace b)"
  if "\<And>x. x \<in> set pre \<Longrightarrow> ToLower (TrimSpace x) \<notin> {''grpc'', ''nats'', ''http''}"
    and "ToLower (TrimSpace b) \<in> {''grpc'', ''nats'', ''http''}"
  using that by (induction pre) (auto simp: Let_def)

subsection \<open>Iteration order does not matter\<close>

definition caps_ok :: "Service \<Rightarrow> bool" where
  "caps_ok s \<longleftrightarrow> map_ok (s_capabilities s) \<and>
    (\<forall>k d. map_of (s_capabilities s) k = Some d \<longrightarrow>
       c_ID d = k \<and> k \<noteq> [] \<and> c_Version d \<noteq> [] \<and> c_InputSchemaURI d \<noteq> [] \<and> c_OutputSchemaURI d \<noteq> [])"

lemma caps_ok_ids:
  assumes "caps_ok s" and "(k, d) \<in> set (s_capabilities s)"
  shows "c_ID d = k"
  using assms by (auto simp: caps_ok_def map_of_eq_Some_iff)

lemma caps_ok_inj: "caps_ok s \<Longrightarrow> inj_on c_ID (snd ` set (s_capabilities s))"
  by (auto simp: inj_on_def caps_ok_ids) (metis caps_ok_def caps_ok_ids map_of_eq_Some_iff option.inject)

lemma sort_caps_determined:
  assumes "caps_ok s" and "is_iteration it"
  shows "sort_key c_ID (filter P (map snd (range_map it (s_capabilities s)))) =
    sort_key c_ID (filter P (map snd (s_capabilities s)))"
proof (rule sort_key_determined)
  have ok: "map_ok (s_capabilities s)"
    using assms(1) by (simp add: caps_ok_def)
  have "mset (map snd (range_map it (s_capabilities s))) = mset (map snd (s_capabilities s))"
    using mset_range_map [OF assms(2) ok] by simp
  then show "mset (filter P (map snd (range_map it (s_capabilities s)))) =
      mset (filter P (map snd (s_capabilities s)))"
    by simp
  show "inj_on c_ID (set (filter P (map snd (range_map it (s_capabilities s)))))"
    using caps_ok_inj [OF assms(1)] set_range_map [OF assms(2) ok]
    by (auto intro: inj_on_subset)
qed

lemma caps_sorted_distinct:
  assumes "caps_ok s" and "is_iteration it"
  shows "sorted_wrt (<) (map c_ID (sort_key c_ID (filter P (map snd (range_map it (s_capabilities s))))))"
proof -
  let ?xs = "sort_key c_ID (filter P (map snd (s_capabilities s)))"
  have "distinct (map c_ID (map snd (s_capabilities s)))"
  proof -
    have "map (c_ID \<circ> snd) (s_capabilities s) = map fst (s_capabilities s)"
      using caps_ok_ids [OF assms(1)] by (auto intro!: map_cong)
    moreover have "distinct (map fst (s_capabilities s))"
      using assms(1) by (simp add: caps_ok_def)
    ultimately show ?thesis
      by (metis map_map)
  qed
  then have "distinct (map c_ID (filter P (map snd (s_capabilities s))))"
    by (rule distinct_map_filter)
  then have "distinct (map c_ID ?xs)"
    by (simp add: distinct_map)
  then have "sorted_wrt (<) (map c_ID ?xs)"
    by (simp add: strict_sorted_iff)
  then show ?thesis
    by (simp add: sort_caps_determined [OF assms])
qed

subsection \<open>Metering\<close>

lemma sum_update:
  "map_ok m \<Longrightarrow> sum_list (map snd (AList.update k v m)) = sum_list (map snd m) - mget0 m k + v"
proof (induction m)
  case Nil
  then show ?case by simp
next
  case (Cons kv m)
  then show ?case
    by (cases kv) (auto simp: mget0_def map_of_eq_None_iff split: option.splits)
qed

lemma fold_sum_entry: "fold sum_entry cs (i64 a) = i64 (a + sum_list (map snd cs))"
proof (induction cs arbitrary: a)
  case (Cons kv cs)
  have "sum_entry kv (i64 a) = i64 (a + snd kv)"
    by (simp add: sum_entry_def)
  with Cons.IH [of "a + snd kv"] show ?case
    by (simp add: algebra_simps)
qed simp

lemma sum_range_map:
  assumes "is_iteration it" and "map_ok m"
  shows "sum_list (map snd (range_map it m)) = sum_list (map snd (m :: ('k, int) gomap))"
  using mset_range_map [OF assms] by (metis mset_map sum_mset_sum_list)

lemma map_of_fold_copy:
  "map_ok ts \<Longrightarrow> map_of (fold copy_entry ts m) k =
     (case map_of ts k of Some v \<Rightarrow> Some v | None \<Rightarrow> map_of m k)"
proof (induction ts arbitrary: m)
  case (Cons kv ts)
  then have "map_of ts (fst kv) = None"
    by (simp add: map_of_eq_None_iff)
  with Cons show ?case
    by (cases kv) (auto simp: copy_entry_def split: option.splits)
qed simp

lemma range_map_lookup:
  assumes "is_iteration it" and "map_ok m"
  shows "map_ok (range_map it m)" "map_of (range_map it m) = map_of m"
proof -
  have "mset (map fst (range_map it m)) = mset (map fst m)"
    using mset_range_map [OF assms] by simp
  then show ok: "map_ok (range_map it m)"
    using assms(2) by (metis mset_eq_imp_distinct_iff)
  show "map_of (range_map it m) = map_of m"
    using map_of_inject_set [OF ok assms(2)] set_range_map [OF assms] by simp
qed

definition count_tenant :: "Service \<Rightarrow> string \<Rightarrow> nat" where
  "count_tenant s t = length (filter (\<lambda>a. a_TenantID a = t) (s_audit s))"

definition count_capability :: "Service \<Rightarrow> string \<Rightarrow> nat" where
  "count_capability s c = length (filter (\<lambda>a. a_Capability a = c) (s_audit s))"

definition meter_ok :: "Service \<Rightarrow> bool" where
  "meter_ok s \<longleftrightarrow>
    map_ok (s_tenantInvocations s) \<and> map_ok (s_capabilityInvocations s) \<and>
    (\<forall>t. mget0 (s_tenantInvocations s) t = i64 (int (count_tenant s t))) \<and>
    (\<forall>c. mget0 (s_capabilityInvocations s) c = i64 (int (count_capability s c))) \<and>
    i64 (sum_list (map snd (s_capabilityInvocations s))) = i64 (int (length (s_audit s)))"

definition audit_ok :: "Service \<Rightarrow> bool" where
  "audit_ok s \<longleftrightarrow>
    (\<forall>ls. s_auditLog s = Some ls \<longrightarrow> ls = s_audit s) \<and>
    (\<forall>a \<in> set (s_audit s). a_TenantID a \<noteq> [] \<and> a_Capability a \<noteq> [] \<and> a_MessageID a \<noteq> [] \<and>
       a_Outcome a = ''success'')"

definition quotas_ok :: "Service \<Rightarrow> bool" where
  "quotas_ok s \<longleftrightarrow> map_ok (s_quotas s) \<and> (\<forall>t q. map_of (s_quotas s) t = Some q \<longrightarrow> t \<noteq> [] \<and> 0 < q)"

definition idem_ok :: "Service \<Rightarrow> bool" where
  "idem_ok s \<longleftrightarrow> map_ok (s_idempotency s) \<and>
    (\<forall>k resp. map_of (s_idempotency s) k = Some resp \<longrightarrow>
      (\<exists>p. header_ok (pd_Header p) \<and> h_IdempotencyKey (pd_Header p) \<noteq> [] \<and> pd_Capability p \<noteq> [] \<and>
         k = idem_key (h_TenantID (pd_Header p)) (pd_Capability p) (h_IdempotencyKey (pd_Header p)) \<and>
         ip_Capability resp = pd_Capability p \<and> ip_Payload resp = Some (invoke_result p)))"

definition cloud_ok :: "Service \<Rightarrow> bool" where
  "cloud_ok s \<longleftrightarrow> map_ok (s_orgs s) \<and> map_ok (s_tenants s) \<and> map_ok (s_gateways s) \<and>
    (\<forall>k x. map_of (s_orgs s) k = Some x \<longrightarrow> org_ID x = k \<and> k \<noteq> []) \<and>
    (\<forall>k x. map_of (s_tenants s) k = Some x \<longrightarrow>
       tn_ID x = k \<and> k \<noteq> [] \<and> map_of (s_orgs s) (tn_OrgID x) \<noteq> None) \<and>
    (\<forall>k x. map_of (s_gateways s) k = Some x \<longrightarrow>
       gw_ID x = k \<and> k \<noteq> [] \<and> map_of (s_tenants s) (gw_TenantID x) \<noteq> None)"

definition core_inv :: "Service \<Rightarrow> bool" where
  "core_inv s \<longleftrightarrow> caps_ok s \<and> meter_ok s \<and> audit_ok s \<and> quotas_ok s \<and> idem_ok s \<and> cloud_ok s"

lemmas core_inv_defs = core_inv_def caps_ok_def meter_ok_def audit_ok_def quotas_ok_def idem_ok_def
  cloud_ok_def count_tenant_def count_capability_def

lemma core_inv_recordError [simp]: "core_inv (recordError c p s) = core_inv s"
  by (simp add: core_inv_defs)

definition pending_ok :: "Pending \<Rightarrow> bool" where
  "pending_ok p \<longleftrightarrow> header_ok (pd_Header p) \<and> pd_Capability p \<noteq> []"

subsection \<open>The admission checks of Invoke\<close>

definition target_capability :: "string \<Rightarrow> InvokeRequest \<Rightarrow> string" where
  "target_capability capability req = (if capability = [] then iq_Capability req else capability)"

definition replay_of :: "Service \<Rightarrow> MessageHeader \<Rightarrow> string \<Rightarrow> InvokeResponse option" where
  "replay_of s head c =
    (if h_IdempotencyKey head \<noteq> []
     then map_of (s_idempotency s) (idem_key (h_TenantID head) c (h_IdempotencyKey head)) else None)"

definition over_quota :: "Service \<Rightarrow> string \<Rightarrow> bool" where
  "over_quota s t \<longleftrightarrow> (\<exists>q. map_of (s_quotas s) t = Some q \<and> q \<le> mget0 (s_tenantInvocations s) t)"

lemma over_quota_code:
  "over_quota s t \<longleftrightarrow> map_of (s_quotas s) t \<noteq> None \<and> mget0 (s_quotas s) t \<le> mget0 (s_tenantInvocations s) t"
  by (auto simp: over_quota_def mget0_def)

text \<open>The request passes the checks that do not depend on earlier invocations.\<close>

definition authorized ::
    "Service \<Rightarrow> MessageHeader \<Rightarrow> string \<Rightarrow> Principal \<Rightarrow> CapabilityDescriptor \<Rightarrow> bool" where
  "authorized s head c prin d \<longleftrightarrow> c \<noteq> [] \<and> map_of (s_capabilities s) c = Some d \<and>
     HasAnyScope prin (c_AuthScopes d) \<and> map_of (s_cancelled s) (h_MessageID head) = None"

lemma Invoke_admit_authorized:
  assumes "prepare r (iq_Header req) = Inr head"
    and "authorized s head (target_capability capability req) prin d"
  shows "Invoke_admit r s capability req actor prin =
    (let c = target_capability capability req in
     case replay_of s head c of
       Some cached \<Rightarrow> (s, Replayed (cached\<lparr>ip_Header := head\<rparr>))
     | None \<Rightarrow>
         if over_quota s (h_TenantID head)
         then (recordError ErrorRateLimited ''invoke'' s,
               Rejected (mk_error ErrorRateLimited ''tenant quota exceeded'' True))
         else (s, Admitted \<lparr>pd_Header = head, pd_Capability = c, pd_Descriptor = d,
                pd_Payload = iq_Payload req, pd_Actor = actor, pd_Deadline = invoke_deadline head\<rparr>))"
  using assms
  unfolding Invoke_admit_def authorized_def target_capability_def replay_of_def over_quota_code
  by (simp add: Let_def split: option.split)

lemma Invoke_admit_unauthorized:
  assumes "Invoke_admit r s capability req actor prin = (s', a)" and "\<And>e. a \<noteq> Rejected e"
  obtains head d where "prepare r (iq_Header req) = Inr head"
    "authorized s head (target_capability capability req) prin d"
  using assms
  unfolding Invoke_admit_def authorized_def target_capability_def
  by (auto simp: Let_def split: sum.splits option.splits if_splits)

lemma Invoke_admit_state_rule:
  assumes "P s" and "\<And>c p. P (recordError c p s)"
  shows "P (fst (Invoke_admit r s capability req actor prin))"
  unfolding Invoke_admit_def by (simp add: Let_def assms split: sum.split option.split)

lemma Invoke_admit_state:
  "\<exists>m. fst (Invoke_admit r s capability req actor prin) = s\<lparr>s_metrics := m\<rparr>"
proof (rule Invoke_admit_state_rule)
  have "s = s\<lparr>s_metrics := s_metrics s\<rparr>"
    by simp
  then show "\<exists>m. s = s\<lparr>s_metrics := m\<rparr>" ..
qed (rule recordError_only_metrics)

lemma core_inv_metrics [simp]: "core_inv (s\<lparr>s_metrics := m\<rparr>) = core_inv s"
  by (simp add: core_inv_defs)

lemma core_inv_connections [simp]: "core_inv (s\<lparr>s_connections := m\<rparr>) = core_inv s"
  by (simp add: core_inv_defs)

lemma core_inv_admit [svc_pres]:
  "core_inv s \<Longrightarrow> core_inv (fst (Invoke_admit r s capability req actor prin))"
  using Invoke_admit_state [of r s capability req actor prin] by auto

lemma Invoke_admit_pending_ok:
  assumes "Invoke_admit r s capability req actor prin = (s', Admitted p)"
  shows "pending_ok p" "pd_Capability p = target_capability capability req"
    "prepare r (iq_Header req) = Inr (pd_Header p)" "pd_Payload p = iq_Payload req" "s' = s"
    "\<not> over_quota s (h_TenantID (pd_Header p))" "pd_Actor p = actor"
    "authorized s (pd_Header p) (pd_Capability p) prin (pd_Descriptor p)"
    "replay_of s (pd_Header p) (pd_Capability p) = None"
proof -
  from assms obtain head d where h: "prepare r (iq_Header req) = Inr head"
    and a: "authorized s head (target_capability capability req) prin d"
    by (rule Invoke_admit_unauthorized) blast
  from assms have "s' = s \<and> replay_of s head (target_capability capability req) = None \<and>
      \<not> over_quota s (h_TenantID head) \<and>
      p = \<lparr>pd_Header = head, pd_Capability = target_capability capability req, pd_Descriptor = d,
        pd_Payload = iq_Payload req, pd_Actor = actor, pd_Deadline = invoke_deadline head\<rparr>"
    by (auto simp: Invoke_admit_authorized [OF h a] Let_def split: option.splits if_splits)
  with h a prepare_ok(1) [OF h]
  show "pending_ok p" "pd_Capability p = target_capability capability req"
    "prepare r (iq_Header req) = Inr (pd_Header p)" "pd_Payload p = iq_Payload req" "s' = s"
    "\<not> over_quota s (h_TenantID (pd_Header p))" "pd_Actor p = actor"
    "authorized s (pd_Header p) (pd_Capability p) prin (pd_Descriptor p)"
    "replay_of s (pd_Header p) (pd_Capability p) = None"
    by (simp_all add: pending_ok_def authorized_def)
qed

subsection \<open>The commit of Invoke\<close>

definition response_of :: "Pending \<Rightarrow> InvokeResponse" where
  "response_of p =
    \<lparr>ip_Header = pd_Header p, ip_Capability = pd_Capability p, ip_Payload = Some (invoke_result p),
     ip_ResultSchemaURI = c_OutputSchemaURI (pd_Descriptor p)\<rparr>"

definition committed :: "rt \<Rightarrow> Pending \<Rightarrow> Service \<Rightarrow> Service" where
  "committed r p s = fst (Invoke_finish r SelResult p s)"

lemma Invoke_finish_SelResult: "Invoke_finish r SelResult p s = (committed r p s, Inr (response_of p))"
  by (simp add: committed_def Invoke_finish_def response_of_def Let_def)

text \<open>An invocation nothing stands against succeeds and is recorded for the tenant of its header.\<close>

lemma Invoke_accepted:
  assumes "prepare r (iq_Header req) = Inr head" and "authorized s head (target_capability capability req) p d"
    and "replay_of s head (target_capability capability req) = None" and "\<not> over_quota s (h_TenantID head)"
  obtains q where "Invoke r SelResult s capability req actor p = (committed r q s, Inr (response_of q))"
    "pd_Header q = head" "pd_Capability q = target_capability capability req" "pd_Actor q = actor" "pd_Payload q = iq_Payload req"
proof -
  from Invoke_admit_authorized [OF assms(1,2), of actor] assms(3,4) obtain q where
    "Invoke_admit r s capability req actor p = (s, Admitted q)" "pd_Header q = head"
    "pd_Capability q = target_capability capability req" "pd_Actor q = actor" "pd_Payload q = iq_Payload req"
    by (simp add: Let_def)
  then show thesis
    by (intro that [of q]) (simp_all add: Invoke_def Invoke_finish_SelResult)
qed

lemma writeAuditLogLocked_fields [simp]:
  "s_metrics (writeAuditLogLocked a s) = s_metrics s"
  "s_serverID (writeAuditLogLocked a s) = s_serverID s"
  "s_capabilities (writeAuditLogLocked a s) = s_capabilities s" "s_schemas (writeAuditLogLocked a s) = s_schemas s"
  "s_events (writeAuditLogLocked a s) = s_events s" "s_subscribers (writeAuditLogLocked a s) = s_subscribers s"
  "s_idempotency (writeAuditLogLocked a s) = s_idempotency s" "s_cancelled (writeAuditLogLocked a s) = s_cancelled s"
  "s_quotas (writeAuditLogLocked a s) = s_quotas s" "s_audit (writeAuditLogLocked a s) = s_audit s"
  "s_connections (writeAuditLogLocked a s) = s_connections s"
  "s_tenantInvocations (writeAuditLogLocked a s) = s_tenantInvocations s"
  "s_capabilityInvocations (writeAuditLogLocked a s) = s_capabilityInvocations s"
  "s_orgs (writeAuditLogLocked a s) = s_orgs s" "s_tenants (writeAuditLogLocked a s) = s_tenants s"
  "s_gateways (writeAuditLogLocked a s) = s_gateways s" "s_natsBinding (writeAuditLogLocked a s) = s_natsBinding s"
  "s_natsConn (writeAuditLogLocked a s) = s_natsConn s"
  "s_chans (writeAuditLogLocked a s) = s_chans s" "s_next_chan (writeAuditLogLocked a s) = s_next_chan s"
  "s_auditLog (writeAuditLogLocked a s) = map_option (\<lambda>ls. ls @ [a]) (s_auditLog s)"
  by (simp_all add: writeAuditLogLocked_def split: option.split)

lemma committed_fields [simp]:
  "s_audit (committed r p s) = s_audit s @ [audit_of r p]"
  "s_auditLog (committed r p s) = map_option (\<lambda>ls. ls @ [audit_of r p]) (s_auditLog s)"
  "s_tenantInvocations (committed r p s) = AList.update (h_TenantID (pd_Header p))
     (i64 (mget0 (s_tenantInvocations s) (h_TenantID (pd_Header p)) + 1)) (s_tenantInvocations s)"
  "s_capabilityInvocations (committed r p s) = AList.update (pd_Capability p)
     (i64 (mget0 (s_capabilityInvocations s) (pd_Capability p) + 1)) (s_capabilityInvocations s)"
  "s_idempotency (committed r p s) =
     (if h_IdempotencyKey (pd_Header p) \<noteq> []
      then AList.update (idem_key (h_TenantID (pd_Header p)) (pd_Capability p) (h_IdempotencyKey (pd_Header p)))
        (response_of p) (s_idempotency s)
      else s_idempotency s)"
  "s_metrics (committed r p s) = s_metrics s" "s_capabilities (committed r p s) = s_capabilities s"
  "s_schemas (committed r p s) = s_schemas s" "s_events (committed r p s) = s_events s"
  "s_subscribers (committed r p s) = s_subscribers s" "s_cancelled (committed r p s) = s_cancelled s"
  "s_quotas (committed r p s) = s_quotas s" "s_connections (committed r p s) = s_connections s"
  "s_orgs (committed r p s) = s_orgs s" "s_tenants (committed r p s) = s_tenants s"
  "s_gateways (committed r p s) = s_gateways s" "s_natsBinding (committed r p s) = s_natsBinding s"
  "s_natsConn (committed r p s) = s_natsConn s" "s_chans (committed r p s) = s_chans s"
  "s_next_chan (committed r p s) = s_next_chan s"
  by (simp_all add: committed_def Invoke_finish_def response_of_def Let_def)

lemma audit_of_sel [simp]:
  "a_TenantID (audit_of r p) = h_TenantID (pd_Header p)" "a_Capability (audit_of r p) = pd_Capability p"
  "a_MessageID (audit_of r p) = h_MessageID (pd_Header p)" "a_Outcome (audit_of r p) = ''success''"
  "a_Actor (audit_of r p) = pd_Actor p" "a_Timestamp (audit_of r p) = rt_now r 1"
  by (simp_all add: audit_of_def)

lemma meter_ok_committed: "meter_ok s \<Longrightarrow> meter_ok (committed r p s)"
proof -
  assume ok: "meter_ok s"
  let ?s = "committed r p s"
  have maps: "map_ok (s_tenantInvocations ?s)" "map_ok (s_capabilityInvocations ?s)"
    using ok by (simp_all add: meter_ok_def distinct_update)
  moreover have "mget0 (s_tenantInvocations ?s) t = i64 (int (count_tenant ?s t))" for t
    using ok by (simp add: meter_ok_def count_tenant_def add.commute)
  moreover have "mget0 (s_capabilityInvocations ?s) c = i64 (int (count_capability ?s c))" for c
    using ok by (simp add: meter_ok_def count_capability_def add.commute)
  moreover have "i64 (sum_list (map snd (s_capabilityInvocations ?s))) = i64 (int (length (s_audit ?s)))"
  proof -
    let ?m = "s_capabilityInvocations s" and ?v = "mget0 (s_capabilityInvocations s) (pd_Capability p)"
    have "i64 (sum_list (map snd (s_capabilityInvocations ?s))) =
        i64 ((sum_list (map snd ?m) - ?v) + i64 (?v + 1))"
      using ok by (simp add: sum_update meter_ok_def)
    also have "\<dots> = i64 (i64 (sum_list (map snd ?m)) + 1)"
      by (simp only: i64_add_right i64_add_left) simp
    also have "\<dots> = i64 (int (length (s_audit ?s)))"
      using ok by (simp add: meter_ok_def add.commute)
    finally show ?thesis .
  qed
  ultimately show ?thesis
    by (simp add: meter_ok_def)
qed

lemma idem_ok_committed: "idem_ok s \<Longrightarrow> pending_ok p \<Longrightarrow> idem_ok (committed r p s)"
  unfolding idem_ok_def pending_ok_def
  by (auto simp: distinct_update response_of_def intro!: exI [of _ p])

lemma core_inv_committed [svc_pres]: "core_inv s \<Longrightarrow> pending_ok p \<Longrightarrow> core_inv (committed r p s)"
proof -
  assume inv: "core_inv s" and p: "pending_ok p"
  have "audit_ok (committed r p s)"
    using inv p by (auto simp: core_inv_def audit_ok_def pending_ok_def header_ok_def)
  moreover have "caps_ok (committed r p s)" "quotas_ok (committed r p s)" "cloud_ok (committed r p s)"
    using inv by (simp_all add: core_inv_def caps_ok_def quotas_ok_def cloud_ok_def)
  ultimately show ?thesis
    using inv p by (simp add: core_inv_def meter_ok_committed idem_ok_committed)
qed

lemma core_inv_finish [svc_pres]:
  "core_inv s \<Longrightarrow> pending_ok p \<Longrightarrow> core_inv (fst (Invoke_finish r sel p s))"
  by (cases sel) (simp_all add: Invoke_finish_SelResult core_inv_committed, simp add: Invoke_finish_def)

lemma Invoke_cases:
  assumes "Invoke r sel s capability req actor prin = (s', res)"
  obtains (rejected) e where "res = Inl e" "Invoke_admit r s capability req actor prin = (s', Rejected e)"
  | (replayed) cached head where "res = Inr (cached\<lparr>ip_Header := head\<rparr>)" "s' = s"
      "prepare r (iq_Header req) = Inr head"
      "replay_of s head (target_capability capability req) = Some cached"
      "Invoke_admit r s capability req actor prin = (s, Replayed (cached\<lparr>ip_Header := head\<rparr>))"
  | (timeout) p where "res = Inl (mk_error ErrorTimeout ''deadline exceeded'' True)"
      "s' = recordError ErrorTimeout ''invoke'' s" "sel = SelDeadline"
      "Invoke_admit r s capability req actor prin = (s, Admitted p)"
  | (fresh) p where "res = Inr (response_of p)" "s' = committed r p s" "sel = SelResult"
      "Invoke_admit r s capability req actor prin = (s, Admitted p)"
proof -
  obtain s1 a where adm: "Invoke_admit r s capability req actor prin = (s1, a)"
    by (cases "Invoke_admit r s capability req actor prin")
  show thesis
  proof (cases a)
    case (Rejected e)
    with adm assms show thesis by (intro rejected) (auto simp: Invoke_def)
  next
    case (Replayed resp)
    with adm obtain head d where h: "prepare r (iq_Header req) = Inr head"
      and au: "authorized s head (target_capability capability req) prin d"
      by (metis Invoke_admit_unauthorized admission.distinct(1))
    from adm Replayed obtain cached where "s1 = s" "resp = cached\<lparr>ip_Header := head\<rparr>"
      "replay_of s head (target_capability capability req) = Some cached"
      by (auto simp: Invoke_admit_authorized [OF h au] Let_def split: option.splits if_splits)
    with adm assms Replayed h show thesis
      by (intro replayed) (auto simp: Invoke_def)
  next
    case (Admitted p)
    with adm have s1: "s1 = s"
      using Invoke_admit_pending_ok(5) by blast
    show thesis
    proof (cases sel)
      case SelDeadline
      with adm assms Admitted s1 show thesis
        by (intro timeout) (auto simp: Invoke_def Invoke_finish_def)
    next
      case SelResult
      with adm assms Admitted s1 show thesis
        by (intro fresh) (auto simp: Invoke_def Invoke_finish_SelResult)
    qed
  qed
qed

lemma core_inv_Invoke [svc_pres]:
  assumes "core_inv s"
  shows "core_inv (fst (Invoke r sel s capability req actor prin))"
proof -
  obtain s' res where i: "Invoke r sel s capability req actor prin = (s', res)"
    by (cases "Invoke r sel s capability req actor prin")
  from i have "core_inv s'"
  proof (cases rule: Invoke_cases)
    case (rejected e)
    then show ?thesis using core_inv_admit [OF assms] by (metis fst_conv)
  next
    case (fresh p)
    then show ?thesis
      using assms Invoke_admit_pending_ok(1) core_inv_committed by blast
  qed (use assms in simp_all)
  with i show ?thesis by simp
qed

subsection \<open>The other operations keep the invariant\<close>

lemma NewServiceWithOptions_cases:
  assumes "NewServiceWithOptions connect openlog opts = Inr s"
  obtains nats log where "s = bootstrapDefaults (empty_service\<lparr>s_natsConn := nats, s_auditLog := log\<rparr>)"
    "nats \<in> {None, Some []}" "log \<in> {None, Some []}"
proof -
  let ?nats = "if so_NATSURL opts \<noteq> [] then Some [] else None"
  let ?log = "if so_AuditLogPath opts \<noteq> [] then Some [] else None"
  have "s = bootstrapDefaults (empty_service\<lparr>s_natsConn := ?nats, s_auditLog := ?log\<rparr>)"
    using assms
    by (auto simp: NewServiceWithOptions_def empty_service_def Let_def split: option.splits if_splits)
  then show thesis
    by (rule that) simp_all
qed

lemma core_inv_new [svc_pres]:
  assumes "NewServiceWithOptions connect openlog opts = Inr s"
  shows "core_inv s"
proof -
  from assms obtain nats log where
    s: "s = bootstrapDefaults (empty_service\<lparr>s_natsConn := nats, s_auditLog := log\<rparr>)"
    and "log \<in> {None, Some []}"
    by (rule NewServiceWithOptions_cases)
  then have "caps_ok s" "meter_ok s" "audit_ok s" "quotas_ok s" "idem_ok s" "cloud_ok s"
    by (auto simp: caps_ok_def meter_ok_def audit_ok_def quotas_ok_def idem_ok_def cloud_ok_def
        bootstrapDefaults_def empty_service_def infer_capability_def count_tenant_def
        count_capability_def split: if_splits)
  then show ?thesis
    by (simp add: core_inv_def)
qed

lemma core_inv_Discover [svc_pres]: "core_inv s \<Longrightarrow> core_inv (fst (Discover r s req prin))"
  by (simp add: Discover_def Let_def split: sum.split)

lemma core_inv_Cancel [svc_pres]: "core_inv s \<Longrightarrow> core_inv (fst (Cancel r s req mid))"
  by (simp add: Cancel_def Let_def core_inv_defs split: sum.split)

lemma core_inv_Heartbeat [svc_pres]: "core_inv s \<Longrightarrow> core_inv (fst (Heartbeat r s req))"
  by (simp add: Heartbeat_def Let_def split: sum.split)

lemma core_inv_caps_update:
  assumes "core_inv s" and "caps_ok (s\<lparr>s_capabilities := cs\<rparr>)"
  shows "core_inv (s\<lparr>s_capabilities := cs\<rparr>)"
proof -
  have "meter_ok (s\<lparr>s_capabilities := cs\<rparr>) = meter_ok s" "audit_ok (s\<lparr>s_capabilities := cs\<rparr>) = audit_ok s"
    "quotas_ok (s\<lparr>s_capabilities := cs\<rparr>) = quotas_ok s" "idem_ok (s\<lparr>s_capabilities := cs\<rparr>) = idem_ok s"
    "cloud_ok (s\<lparr>s_capabilities := cs\<rparr>) = cloud_ok s"
    by (simp_all add: meter_ok_def audit_ok_def quotas_ok_def idem_ok_def cloud_ok_def count_tenant_def count_capability_def)
  with assms show ?thesis
    by (simp add: core_inv_def)
qed

lemma caps_ok_update:
  assumes "caps_ok s" and "c_ID d \<noteq> []" "c_Version d \<noteq> []" "c_InputSchemaURI d \<noteq> []" "c_OutputSchemaURI d \<noteq> []"
  shows "caps_ok (s\<lparr>s_capabilities := AList.update (c_ID d) d (s_capabilities s)\<rparr>)"
  using assms by (auto simp: caps_ok_def update_conv distinct_update split: if_splits)

lemma core_inv_caps: "core_inv s \<Longrightarrow> caps_ok s"
  by (simp add: core_inv_def)

lemma core_inv_AddCapability [svc_pres]: "core_inv s \<Longrightarrow> core_inv (fst (AddCapability s req))"
  unfolding AddCapability_def Let_def
  by (auto intro!: core_inv_caps_update caps_ok_update dest: core_inv_caps split: if_splits)

lemma core_inv_AddSchema [svc_pres]: "core_inv s \<Longrightarrow> core_inv (fst (AddSchema s req))"
  by (auto simp: AddSchema_def core_inv_defs)

lemma core_inv_SetQuota [svc_pres]: "core_inv s \<Longrightarrow> core_inv (fst (SetQuota s req))"
  by (auto simp: SetQuota_def core_inv_defs distinct_update split: if_splits)

lemma core_inv_Close [svc_pres]: "core_inv s \<Longrightarrow> core_inv (Close s)"
  by (simp add: Close_def core_inv_defs)

lemma core_inv_SetMetrics [svc_pres]: "core_inv s \<Longrightarrow> core_inv (SetMetrics m s)"
  by (simp add: SetMetrics_def)

lemma core_inv_orgs_update:
  "core_inv s \<Longrightarrow> org_ID x = k \<Longrightarrow> k \<noteq> [] \<Longrightarrow> core_inv (s\<lparr>s_orgs := AList.update k x (s_orgs s)\<rparr>)"
  by (auto simp: core_inv_defs distinct_update)

lemma core_inv_tenants_update:
  "core_inv s \<Longrightarrow> tn_ID x = k \<Longrightarrow> k \<noteq> [] \<Longrightarrow> map_of (s_orgs s) (tn_OrgID x) \<noteq> None \<Longrightarrow>
   core_inv (s\<lparr>s_tenants := AList.update k x (s_tenants s)\<rparr>)"
  by (auto simp: core_inv_defs distinct_update)

lemma core_inv_gateways_update:
  "core_inv s \<Longrightarrow> gw_ID x = k \<Longrightarrow> k \<noteq> [] \<Longrightarrow> map_of (s_tenants s) (gw_TenantID x) \<noteq> None \<Longrightarrow>
   core_inv (s\<lparr>s_gateways := AList.update k x (s_gateways s)\<rparr>)"
  by (auto simp: core_inv_defs distinct_update)

lemma core_inv_CreateOrg [svc_pres]:
  "core_inv s \<Longrightarrow> CreateOrg r s x = Some (s', res) \<Longrightarrow> core_inv s'"
  by (auto simp: CreateOrg_def Let_def intro!: core_inv_orgs_update
      split: if_splits option.splits)

lemma core_inv_CreateTenant [svc_pres]:
  "core_inv s \<Longrightarrow> CreateTenant r s x = Some (s', res) \<Longrightarrow> core_inv s'"
  by (auto simp: CreateTenant_def Let_def intro!: core_inv_tenants_update
      split: if_splits option.splits)

lemma core_inv_CreateGateway [svc_pres]:
  "core_inv s \<Longrightarrow> CreateGateway r s x = Some (s', res) \<Longrightarrow> core_inv s'"
  by (auto simp: CreateGateway_def Let_def intro!: core_inv_gateways_update
      split: if_splits option.splits)

subsection \<open>Idempotency keys\<close>

lemma append_sep_inj:
  assumes "xs @ c # ys = xs' @ c # ys'" and "c \<notin> set xs" and "c \<notin> set xs'"
  shows "xs = xs' \<and> ys = ys'"
proof -
  have take: "takeWhile (\<lambda>x. x \<noteq> c) (zs @ c # ws) = zs" if "c \<notin> set zs" for zs ws
    using that by (induction zs) auto
  have "xs = xs'"
    using take [OF assms(2), of ys] take [OF assms(3), of ys'] assms(1) by simp
  with assms(1) show ?thesis by simp
qed

lemma idem_key_inj:
  assumes "idem_key t c k = idem_key t' c' k'"
    and "CHR '':'' \<notin> set t" "CHR '':'' \<notin> set t'" "CHR '':'' \<notin> set c" "CHR '':'' \<notin> set c'"
  shows "t = t' \<and> c = c' \<and> k = k'"
proof -
  have "t = t' \<and> c @ CHR '':'' # k = c' @ CHR '':'' # k'"
    by (rule append_sep_inj) (use assms in \<open>simp_all add: idem_key_def\<close>)
  moreover from this have "c = c' \<and> k = k'"
    by (intro append_sep_inj) (use assms in simp_all)
  ultimately show ?thesis by simp
qed

subsection \<open>Concrete requests for the witnesses\<close>

definition demo_rt :: rt where
  "demo_rt = \<lparr>rt_now = (\<lambda>_. ''2026-02-24T10:00:00Z''), rt_rand = (\<lambda>_. RandBytes (\<lambda>_. 7)), rt_iter = id\<rparr>"

definition demo_service :: Service where
  "demo_service = (bootstrapDefaults empty_service)\<lparr>s_metrics := Some []\<rparr>"

definition demo_header :: MessageHeader where
  "demo_header = zero_header\<lparr>h_TenantID := ''acme'', h_MessageID := ''m-1'', h_IdempotencyKey := ''k-1''\<rparr>"

definition demo_invoke :: InvokeRequest where
  "demo_invoke = \<lparr>iq_Header = demo_header, iq_Capability = ''observatory.models.infer'',
     iq_Payload = Some [(''input'', JStr ''hello'')], iq_StreamPreference = []\<rparr>"

definition demo_principal :: Principal where
  "demo_principal = \<lparr>p_Subject = ''user-1'', p_TenantID = ''acme'', p_Scopes = [''capability:infer''],
     p_Authenticated = True\<rparr>"

lemma core_inv_demo: "core_inv demo_service"
proof -
  have "NewServiceWithOptions (\<lambda>_. None) (\<lambda>_. None) \<lparr>so_NATSURL = [], so_AuditLogPath = []\<rparr> =
      Inr (bootstrapDefaults empty_service)"
    by (simp add: NewServiceWithOptions_def Let_def)
  then show ?thesis
    unfolding demo_service_def by (simp add: core_inv_new)
qed

end
