(* ===== verification/Mig_Service_Props.thy ===== *)
theory Mig_Service_Props
  imports Mig_Service_Inv
begin

text \<open>
  The properties of the service operations: when an invocation succeeds, what a failing one leaves
  behind, replay under an idempotency key, cancellation, discovery and usage accounting.
\<close>

lemma Invoke_Inr_authorized:
  assumes "Invoke r sel s capability req actor prin = (s', Inr resp)"
  obtains head d where "prepare r (iq_Header req) = Inr head"
    "authorized s head (target_capability capability req) prin d"
    "replay_of s head (target_capability capability req) \<noteq> None \<or>
     \<not> over_quota s (h_TenantID head) \<and> sel = SelResult"
  using assms
proof (cases rule: Invoke_cases)
  case (replayed cached head)
  then obtain d where "authorized s head (target_capability capability req) prin d"
    by (metis Invoke_admit_unauthorized admission.distinct(1) sum.inject(2))
  with replayed show ?thesis by (intro that) auto
next
  case (fresh p)
  with Invoke_admit_pending_ok [OF fresh(4)] show ?thesis by (intro that) auto
qed simp_all

text \<open>
  C2. An invocation succeeds exactly when its header normalises, the capability is registered, the
  principal holds one of its scopes, the message was not cancelled, and either a response is
  cached for the request's idempotency key or the tenant is within its quota and the result
  arrives before the deadline.
\<close>

theorem invoke_success_iff:
  "\<not> is_err (snd (Invoke r sel s capability req actor prin)) \<longleftrightarrow>
    (\<exists>head d. prepare r (iq_Header req) = Inr head \<and>
       authorized s head (target_capability capability req) prin d \<and>
       (replay_of s head (target_capability capability req) \<noteq> None \<or>
        \<not> over_quota s (h_TenantID head) \<and> sel = SelResult))"
  (is "?L \<longleftrightarrow> ?R")
proof
  assume ?R
  then obtain head d where h: "prepare r (iq_Header req) = Inr head"
    and a: "authorized s head (target_capability capability req) prin d"
    and ok: "replay_of s head (target_capability capability req) \<noteq> None \<or>
        \<not> over_quota s (h_TenantID head) \<and> sel = SelResult"
    by blast
  from ok show ?L
    by (auto simp: Invoke_def Invoke_admit_authorized [OF h a] Let_def Invoke_finish_SelResult
        split: option.split)
next
  assume ?L
  then obtain s' resp where "Invoke r sel s capability req actor prin = (s', Inr resp)"
    by (metis is_err_simps(1) obj_sumE prod.collapse)
  then show ?R
    by (rule Invoke_Inr_authorized) blast
qed

theorem invoke_success_iff_witness:
  "\<not> is_err (snd (Invoke demo_rt SelResult demo_service [] demo_invoke ''a'' demo_principal))"
  unfolding invoke_success_iff
proof (intro exI conjI)
  show "prepare demo_rt (iq_Header demo_invoke) = Inr (projr (prepare demo_rt (iq_Header demo_invoke)))"
    by code_simp
  show "authorized demo_service (projr (prepare demo_rt (iq_Header demo_invoke)))
      (target_capability [] demo_invoke) demo_principal infer_capability"
    by code_simp
  show "replay_of demo_service (projr (prepare demo_rt (iq_Header demo_invoke)))
        (target_capability [] demo_invoke) \<noteq> None \<or>
      \<not> over_quota demo_service (h_TenantID (projr (prepare demo_rt (iq_Header demo_invoke)))) \<and>
        SelResult = SelResult"
    unfolding over_quota_code by code_simp
qed

text \<open>
  C18. A failing invocation leaves everything but the error metric as it was: nothing is audited,
  metered or cached. Its code is one of five, the metric counts exactly that code, and the error
  is marked retryable precisely for timeouts and rate limiting.
\<close>

theorem invoke_failure_harmless:
  assumes fail: "Invoke r sel s capability req actor prin = (s', Inl e)"
    and metrics: "s_metrics s = Some ml"
  shows "s' = s\<lparr>s_metrics := Some (ml @ [IncRequestErrors (e_Code e) ''invoke''])\<rparr> \<and>
    e_Code e \<in> {ErrorInvalidRequest, ErrorUnsupportedCapability, ErrorForbidden, ErrorTimeout,
      ErrorRateLimited} \<and>
    (e_Retryable e \<longleftrightarrow> e_Code e = ErrorTimeout \<or> e_Code e = ErrorRateLimited)"
proof -
  have rec: "recordError c ''invoke'' s = s\<lparr>s_metrics := Some (ml @ [IncRequestErrors c ''invoke''])\<rparr>"
    if "c \<noteq> []" for c
    using that metrics by (simp add: recordError_def RecordError_def Let_def)
  from fail show ?thesis
  proof (cases rule: Invoke_cases)
    case (rejected e')
    then have "e = e'" by simp
    with rejected show ?thesis
      unfolding Invoke_admit_def
      by (auto simp: Let_def rec error_code_defs split: sum.splits option.splits if_splits)
  next
    case (timeout p)
    then show ?thesis
      by (auto simp: rec error_code_defs)
  qed simp_all
qed

theorem invoke_failure_harmless_witness:
  "s_metrics demo_service = Some [] \<and>
   fst (Invoke demo_rt SelDeadline demo_service [] demo_invoke ''a'' demo_principal) =
     demo_service\<lparr>s_metrics := Some ([] @ [IncRequestErrors
       (e_Code (mk_error ErrorTimeout ''deadline exceeded'' True)) ''invoke''])\<rparr>"
proof -
  let ?i = "Invoke demo_rt SelDeadline demo_service [] demo_invoke ''a'' demo_principal"
  have "snd ?i = Inl (mk_error ErrorTimeout ''deadline exceeded'' True)"
    by code_simp
  then have "?i = (fst ?i, Inl (mk_error ErrorTimeout ''deadline exceeded'' True))"
    by (metis prod.collapse)
  moreover have m: "s_metrics demo_service = Some []"
    by (simp add: demo_service_def)
  ultimately show ?thesis
    using invoke_failure_harmless [of demo_rt SelDeadline demo_service "[]" demo_invoke "''a''"
        demo_principal "fst ?i"] by blast
qed

text \<open>A keyed reply is found again under every header that forms the same key.\<close>

lemma keyed_reply_cached:
  assumes first: "Invoke r sel s capability req actor prin = (s1, Inr resp)"
    and key: "h_IdempotencyKey (iq_Header req) \<noteq> []"
    and head: "prepare r' (iq_Header req') = Inr head'" and "h_IdempotencyKey head' \<noteq> []"
    and same: "idem_key (h_TenantID head') c' (h_IdempotencyKey head') =
        idem_key (h_TenantID (iq_Header req)) (target_capability capability req) (h_IdempotencyKey (iq_Header req))"
    and c': "target_capability capability' req' = c'" and auth: "authorized s1 head' c' prin' d"
  shows "Invoke r' sel' s1 capability' req' actor' prin' = (s1, Inr (resp\<lparr>ip_Header := head'\<rparr>))"
proof -
  have "\<exists>cached. replay_of s1 head' c' = Some cached \<and> resp\<lparr>ip_Header := head'\<rparr> = cached\<lparr>ip_Header := head'\<rparr>"
    using first
  proof (cases rule: Invoke_cases)
    case (replayed cached head)
    then have "h_TenantID head = h_TenantID (iq_Header req)"
      "h_IdempotencyKey head = h_IdempotencyKey (iq_Header req)"
      using prepare_ok(2,3) by blast+
    with replayed same assms(4) have "replay_of s1 head' c' = Some cached"
      by (auto simp: replay_of_def split: if_splits)
    with replayed show ?thesis by simp
  next
    case (fresh p)
    note p = Invoke_admit_pending_ok [OF fresh(4)]
    have "h_TenantID (pd_Header p) = h_TenantID (iq_Header req)"
      "h_IdempotencyKey (pd_Header p) = h_IdempotencyKey (iq_Header req)"
      using prepare_ok(2,3) [OF p(3)] by simp_all
    with p(2) fresh key same assms(4) have "replay_of s1 head' c' = Some (response_of p)"
      by (simp add: replay_of_def)
    with fresh show ?thesis by simp
  qed simp_all
  then show ?thesis
    using Invoke_admit_authorized [OF head, of s1 capability' prin' d actor'] auth c'
    by (auto simp: Invoke_def Let_def)
qed

text \<open>
  C10. Once an invocation with an idempotency key has succeeded, every later invocation of the same
  tenant, capability and key returns the same response, whatever its payload, actor, message
  identifier, principal or deadline, provided that it is authorised; only the header is the new
  request's own. The second invocation changes no state, so it is not metered again.
\<close>

theorem invoke_idempotent:
  assumes first: "Invoke r sel s capability req actor prin = (s1, Inr resp)"
    and key: "h_IdempotencyKey (iq_Header req) \<noteq> []"
    and head: "prepare r' (iq_Header req') = Inr head'"
    and same: "h_TenantID (iq_Header req') = h_TenantID (iq_Header req)"
      "h_IdempotencyKey (iq_Header req') = h_IdempotencyKey (iq_Header req)"
      "target_capability capability' req' = target_capability capability req"
    and auth: "authorized s1 head' (target_capability capability req) prin' d"
  shows "Invoke r' sel' s1 capability' req' actor' prin' = (s1, Inr (resp\<lparr>ip_Header := head'\<rparr>))"
proof (rule keyed_reply_cached [OF first key head _ _ same(3) auth])
  show "h_IdempotencyKey head' \<noteq> []"
    "idem_key (h_TenantID head') (target_capability capability req) (h_IdempotencyKey head') =
      idem_key (h_TenantID (iq_Header req)) (target_capability capability req) (h_IdempotencyKey (iq_Header req))"
    using prepare_ok(2,3) [OF head] same key by simp_all
qed

definition demo_retry :: InvokeRequest where
  "demo_retry = demo_invoke\<lparr>iq_Header := demo_header\<lparr>h_MessageID := ''m-2''\<rparr>,
     iq_Payload := Some [(''input'', JStr ''changed'')]\<rparr>"

theorem invoke_idempotent_witness:
  "let first = Invoke demo_rt SelResult demo_service [] demo_invoke ''a'' demo_principal in
   Invoke demo_rt SelDeadline (fst first) [] demo_retry ''b'' AnonymousPrincipal =
     (fst first, Inr ((projr (snd first))\<lparr>ip_Header := projr (prepare demo_rt (iq_Header demo_retry))\<rparr>))"
  unfolding Let_def
proof (rule invoke_idempotent [where d = infer_capability])
  show "Invoke demo_rt SelResult demo_service [] demo_invoke ''a'' demo_principal =
    (fst (Invoke demo_rt SelResult demo_service [] demo_invoke ''a'' demo_principal),
     Inr (projr (snd (Invoke demo_rt SelResult demo_service [] demo_invoke ''a'' demo_principal))))"
    by code_simp
  show "prepare demo_rt (iq_Header demo_retry) = Inr (projr (prepare demo_rt (iq_Header demo_retry)))"
    by code_simp
  show "authorized (fst (Invoke demo_rt SelResult demo_service [] demo_invoke ''a'' demo_principal))
    (projr (prepare demo_rt (iq_Header demo_retry))) (target_capability [] demo_invoke)
    AnonymousPrincipal infer_capability"
    by code_simp
qed (code_simp | simp)+

text \<open>
  After a message identifier has been cancelled, no invocation under that identifier succeeds,
  for whatever capability, principal or cached response.
\<close>

theorem cancelled_never_invoked:
  assumes "Cancel r s creq mid = (s1, Inr ack)"
    and "h_MessageID (iq_Header req) = ca_TargetMessageID ack"
  shows "\<exists>e. snd (Invoke r' sel s1 capability req actor prin) = Inl e"
proof (cases "Invoke r' sel s1 capability req actor prin")
  case (Pair s2 res)
  show ?thesis
  proof (cases res)
    case (Inr resp)
    with Pair obtain head d where h: "prepare r' (iq_Header req) = Inr head"
      and a: "authorized s1 head (target_capability capability req) prin d"
      by (auto elim: Invoke_Inr_authorized)
    have tgt: "ca_TargetMessageID ack \<noteq> []" "map_of (s_cancelled s1) (ca_TargetMessageID ack) \<noteq> None"
      using assms(1) by (auto simp: Cancel_def Let_def split: sum.splits if_splits)
    with assms(2) have "h_MessageID head = ca_TargetMessageID ack"
      using prepare_ok(4) [OF h] by simp
    with tgt a show ?thesis
      by (simp add: authorized_def)
  qed (simp add: Pair)
qed

definition demo_cancel :: CancelRequest where
  "demo_cancel = \<lparr>cq_Header = demo_header\<lparr>h_MessageID := ''m-9''\<rparr>, cq_TargetMessageID = ''m-1'', cq_Reason = ''stop''\<rparr>"

theorem cancelled_never_invoked_witness:
  "\<exists>e. snd (Invoke demo_rt SelResult (fst (Cancel demo_rt demo_service demo_cancel [])) [] demo_invoke
     ''a'' demo_principal) = Inl e"
proof (rule cancelled_never_invoked)
  show "Cancel demo_rt demo_service demo_cancel [] = (fst (Cancel demo_rt demo_service demo_cancel []),
     Inr (projr (snd (Cancel demo_rt demo_service demo_cancel []))))"
    by code_simp
  show "h_MessageID (iq_Header demo_invoke) =
     ca_TargetMessageID (projr (snd (Cancel demo_rt demo_service demo_cancel [])))"
    by code_simp
qed

text \<open>
  C30. Discovery returns exactly the registered capabilities whose identifier contains the query and
  one of whose scopes the caller holds, each once and in increasing order of identifier; so the
  answer does not depend on the order in which the runtime iterates over the capability map. It
  changes no state.
\<close>

theorem discover_exact:
  assumes "caps_ok s" and "is_iteration (rt_iter r)" and "Discover r s req prin = (s', Inr resp)"
  shows "s' = s \<and> sorted_wrt (<) (map c_ID (dp_Capabilities resp)) \<and>
    set (dp_Capabilities resp) =
      {d. (\<exists>k. map_of (s_capabilities s) k = Some d) \<and>
          (dq_Query req = [] \<or> sublist (dq_Query req) (c_ID d)) \<and>
          (p_Authenticated prin \<longrightarrow> c_AuthScopes d = [] \<or> set (p_Scopes prin) \<inter> set (c_AuthScopes d) \<noteq> {})}"
proof -
  have ok: "map_ok (s_capabilities s)"
    using assms(1) by (simp add: caps_ok_def)
  have out: "dp_Capabilities resp = sort_key c_ID (filter (visible (dq_Query req) prin)
      (map snd (range_map (rt_iter r) (s_capabilities s))))" and s': "s' = s"
    using assms(3) by (auto simp: Discover_def Let_def split: sum.splits)
  have sorted: "sorted_wrt (<) (map c_ID (dp_Capabilities resp))"
    unfolding out by (rule caps_sorted_distinct [OF assms(1,2)])
  have "set (dp_Capabilities resp) = {d \<in> snd ` set (s_capabilities s). visible (dq_Query req) prin d}"
    unfolding out using set_range_map [OF assms(2) ok] by auto
  also have "snd ` set (s_capabilities s) = {d. \<exists>k. map_of (s_capabilities s) k = Some d}"
    using ok by (force simp: map_of_eq_Some_iff)
  finally show ?thesis
    using s' sorted by (auto simp: visible_def Contains_sublist HasAnyScope_iff)
qed

definition demo_discover :: DiscoverRequest where
  "demo_discover = \<lparr>dq_Header = demo_header, dq_Query = ''models'', dq_IncludeSchemaRefs = False,
     dq_IncludeQoS = False\<rparr>"

theorem discover_exact_witness:
  "set (dp_Capabilities (projr (snd (Discover demo_rt demo_service demo_discover demo_principal)))) =
    {d. (\<exists>k. map_of (s_capabilities demo_service) k = Some d) \<and>
        (dq_Query demo_discover = [] \<or> sublist (dq_Query demo_discover) (c_ID d)) \<and>
        (p_Authenticated demo_principal \<longrightarrow>
          c_AuthScopes d = [] \<or> set (p_Scopes demo_principal) \<inter> set (c_AuthScopes d) \<noteq> {})}"
proof -
  let ?d = "Discover demo_rt demo_service demo_discover demo_principal"
  have "caps_ok demo_service"
    using core_inv_demo by (simp add: core_inv_def)
  moreover have "is_iteration (rt_iter demo_rt)"
    by (simp add: demo_rt_def is_iteration_id)
  moreover have "?d = (fst ?d, Inr (projr (snd ?d)))"
    by code_simp
  ultimately show ?thesis
    using discover_exact [of demo_service demo_rt demo_discover demo_principal] by blast
qed

lemma usage_counts:
  assumes "meter_ok s" and "is_iteration (rt_iter r)"
  shows "us_TotalInvocations (Usage r s) = i64 (int (length (AuditExport s []))) \<and>
    (\<forall>t. t \<noteq> [] \<longrightarrow> mget0 (us_TenantInvocations (Usage r s)) t = i64 (int (length (AuditExport s t)))) \<and>
    (\<forall>c. mget0 (us_CapabilityInvocations (Usage r s)) c = i64 (int (count_capability s c)))"
proof -
  have maps: "map_ok (s_tenantInvocations s)" "map_ok (s_capabilityInvocations s)"
    using assms(1) by (simp_all add: meter_ok_def)
  note rt = range_map_lookup [OF assms(2) maps(1)] and rc = range_map_lookup [OF assms(2) maps(2)]
  have "us_TotalInvocations (Usage r s) = i64 (int (length (s_audit s)))"
    using assms fold_sum_entry [of _ 0] sum_range_map [OF assms(2) maps(2)]
    by (simp add: Usage_def Let_def meter_ok_def)
  moreover have "mget0 (us_TenantInvocations (Usage r s)) t = mget0 (s_tenantInvocations s) t" for t
    by (simp add: Usage_def Let_def mget0_def map_of_fold_copy rt split: option.split)
  moreover have "mget0 (us_CapabilityInvocations (Usage r s)) c = mget0 (s_capabilityInvocations s) c" for c
    by (simp add: Usage_def Let_def mget0_def map_of_fold_copy rc split: option.split)
  ultimately show ?thesis
    using assms(1) by (simp add: meter_ok_def count_tenant_def AuditExport_def)
qed

text \<open>
  The usage report agrees with the audit trail: its total is the number of audited invocations,
  the figure of a tenant is the number of records an audit export for that tenant returns, and
  the figure of a capability is the number of its records, all as int64 counters.
\<close>

theorem usage_exact:
  assumes "meter_ok s" and "is_iteration (rt_iter r)"
  shows "us_TotalInvocations (Usage r s) = i64 (int (length (AuditExport s []))) \<and>
    (\<forall>t. t \<noteq> [] \<longrightarrow> mget0 (us_TenantInvocations (Usage r s)) t = i64 (int (length (AuditExport s t)))) \<and>
    (\<forall>c. mget0 (us_CapabilityInvocations (Usage r s)) c = i64 (int (count_capability s c)))"
  by (rule usage_counts [OF assms])

theorem usage_exact_witness:
  "us_TotalInvocations (Usage demo_rt
     (fst (Invoke demo_rt SelResult demo_service [] demo_invoke ''a'' demo_principal))) = 1"
proof -
  let ?s = "fst (Invoke demo_rt SelResult demo_service [] demo_invoke ''a'' demo_principal)"
  have "meter_ok ?s"
    using core_inv_Invoke [OF core_inv_demo] by (simp add: core_inv_def)
  moreover have "is_iteration (rt_iter demo_rt)"
    by (simp add: demo_rt_def is_iteration_id)
  ultimately have "us_TotalInvocations (Usage demo_rt ?s) = i64 (int (length (AuditExport ?s [])))"
    using usage_exact by blast
  moreover have "length (AuditExport ?s []) = 1"
    by code_simp
  ultimately show ?thesis
    by (simp add: i64_small)
qed


end
