(* ===== verification/Mig_Ledger.thy ===== *)
theory Mig_Ledger
  imports Mig_Service_Props
begin

text \<open>
  An abstract specification of the invocation side of \<^verbatim>\<open>core/pkg/mig/service.go\<close>, and the proof that the service
  implements it. The ledger keeps capabilities, quotas, cancellations, replies and one trail of
  invocations; every figure is counted from the trail. The service keeps int64 counters next to the
  trail and must keep them in step with it. The locale \<open>refinement\<close> lifts the simulation of single
  calls to sequences of calls.
\<close>

subsection \<open>Functional refinement\<close>

fun run_ops :: "('o \<Rightarrow> 's \<Rightarrow> 's \<times> 'r) \<Rightarrow> 'o list \<Rightarrow> 's \<Rightarrow> 's \<times> 'r list" where
  "run_ops step [] s = (s, [])"
| "run_ops step (q # qs) s = (let (s, x) = step q s; (s, xs) = run_ops step qs s in (s, x # xs))"

text \<open>
  The concrete system implements the abstract one as long as its budget lasts: \<open>inv n\<close> holds in
  states from which \<open>n\<close> more operations are covered.
\<close>

locale refinement =
  fixes cstep :: "'o \<Rightarrow> 's \<Rightarrow> 's \<times> 'r"
    and astep :: "'o \<Rightarrow> 'a \<Rightarrow> 'a \<times> 'r"
    and abs :: "'s \<Rightarrow> 'a"
    and inv :: "nat \<Rightarrow> 's \<Rightarrow> bool"
    and ok :: "'o \<Rightarrow> bool"
  assumes step_refines: "inv (Suc n) s \<Longrightarrow> ok q \<Longrightarrow> astep q (abs s) = map_prod abs id (cstep q s)"
    and step_inv: "inv (Suc n) s \<Longrightarrow> ok q \<Longrightarrow> inv n (fst (cstep q s))"
begin

lemma runs_refine:
  "inv (length qs) s \<Longrightarrow> list_all ok qs \<Longrightarrow> run_ops astep qs (abs s) = map_prod abs id (run_ops cstep qs s)"
proof (induction qs arbitrary: s)
  case (Cons q qs)
  obtain s1 x where q: "cstep q s = (s1, x)"
    by (cases "cstep q s")
  have "inv (length qs) s1"
    using step_inv [of "length qs" s q] Cons.prems q by simp
  with Cons.IH [of s1] Cons.prems step_refines [of "length qs" s q] q show ?case
    by (simp add: split_beta)
qed simp

end

subsection \<open>The ledger\<close>

text \<open>
  What the service promises about invocations, without counters, cached totals, metrics or the
  audit file: a trail of invocations from which every figure is counted.
\<close>

record Ledger =
  l_caps :: "string \<Rightarrow> CapabilityDescriptor option"
  l_quotas :: "string \<Rightarrow> int option"
  l_cancelled :: "string \<Rightarrow> string option"
  l_replies :: "string \<Rightarrow> InvokeResponse option"
  l_trail :: "AuditRecord list"

definition ledger :: "Service \<Rightarrow> Ledger" where
  "ledger s = \<lparr>l_caps = map_of (s_capabilities s), l_quotas = map_of (s_quotas s),
     l_cancelled = map_of (s_cancelled s), l_replies = map_of (s_idempotency s), l_trail = s_audit s\<rparr>"

definition spent :: "Ledger \<Rightarrow> string \<Rightarrow> int" where
  "spent L t = int (length (filter (\<lambda>a. a_TenantID a = t) (l_trail L)))"

definition refusal :: "Ledger \<Rightarrow> MessageHeader \<Rightarrow> string \<Rightarrow> Principal \<Rightarrow> MigError option" where
  "refusal L head c prin =
    (if c = [] then Some (invalid ''capability is required'')
     else case l_caps L c of
       None \<Rightarrow> Some (mk_error ErrorUnsupportedCapability ''capability not found'' False)
     | Some d \<Rightarrow>
         if \<not> HasAnyScope prin (c_AuthScopes d)
         then Some (mk_error ErrorForbidden ''insufficient capability scope'' False)
         else map_option (\<lambda>reason. mk_error ErrorTimeout (''invocation cancelled: '' @ reason) True)
                (l_cancelled L (h_MessageID head)))"

definition reply_key :: "MessageHeader \<Rightarrow> string \<Rightarrow> string" where
  "reply_key head c = idem_key (h_TenantID head) c (h_IdempotencyKey head)"

definition ledger_invoke ::
    "rt \<Rightarrow> invoke_select \<Rightarrow> string \<Rightarrow> InvokeRequest \<Rightarrow> string \<Rightarrow> Principal \<Rightarrow> Ledger \<Rightarrow>
     Ledger \<times> (MigError, InvokeResponse) res" where
  "ledger_invoke r sel capability req actor prin L =
    (case prepare r (iq_Header req) of
       Inl e \<Rightarrow> (L, Inl (invalid e))
     | Inr head \<Rightarrow>
         let c = target_capability capability req;
             keyed = (h_IdempotencyKey head \<noteq> []) in
         case refusal L head c prin of
           Some e \<Rightarrow> (L, Inl e)
         | None \<Rightarrow>
             case (if keyed then l_replies L (reply_key head c) else None) of
               Some cached \<Rightarrow> (L, Inr (cached\<lparr>ip_Header := head\<rparr>))
             | None \<Rightarrow>
                 if (case l_quotas L (h_TenantID head) of None \<Rightarrow> False | Some q \<Rightarrow> q \<le> spent L (h_TenantID head))
                 then (L, Inl (mk_error ErrorRateLimited ''tenant quota exceeded'' True))
                 else if sel = SelDeadline then (L, Inl (mk_error ErrorTimeout ''deadline exceeded'' True))
                 else
                   let p = \<lparr>pd_Header = head, pd_Capability = c, pd_Descriptor = the (l_caps L c),
                            pd_Payload = iq_Payload req, pd_Actor = actor, pd_Deadline = invoke_deadline head\<rparr>
                   in (L\<lparr>l_replies := (if keyed then (l_replies L)(reply_key head c \<mapsto> response_of p) else l_replies L),
                         l_trail := l_trail L @ [audit_of r p]\<rparr>, Inr (response_of p)))"

datatype ledger_call =
    LInvoke rt invoke_select string InvokeRequest string Principal
  | LCancel rt CancelRequest string
  | LSetQuota QuotaRequest
  | LAddCapability CapabilityUpsertRequest
  | LAuditExport string
  | LUsage rt string string

datatype ledger_reply =
    RInvoked "(MigError, InvokeResponse) res"
  | RCancelled "(MigError, CancelAck) res"
  | RQuota "(MigError, QuotaResponse) res"
  | RAdded "MigError option"
  | RExport "AuditRecord list"
  | RUsage int int int

text \<open>The calls on the service; a usage report is observed at a tenant and a capability.\<close>

fun service_call_result :: "ledger_call \<Rightarrow> Service \<Rightarrow> Service \<times> ledger_reply" where
  "service_call_result (LInvoke r sel c req actor prin) s = map_prod id RInvoked (Invoke r sel s c req actor prin)"
| "service_call_result (LCancel r req mid) s = map_prod id RCancelled (Cancel r s req mid)"
| "service_call_result (LSetQuota req) s = map_prod id RQuota (SetQuota s req)"
| "service_call_result (LAddCapability req) s = map_prod id RAdded (AddCapability s req)"
| "service_call_result (LAuditExport t) s = (s, RExport (AuditExport s t))"
| "service_call_result (LUsage r t c) s =
    (s, RUsage (us_TotalInvocations (Usage r s)) (mget0 (us_TenantInvocations (Usage r s)) t)
          (mget0 (us_CapabilityInvocations (Usage r s)) c))"

text \<open>The same calls on the ledger.\<close>

fun ledger_call_result :: "ledger_call \<Rightarrow> Ledger \<Rightarrow> Ledger \<times> ledger_reply" where
  "ledger_call_result (LInvoke r sel c req actor prin) L = map_prod id RInvoked (ledger_invoke r sel c req actor prin L)"
| "ledger_call_result (LCancel r req mid) L =
    (case prepare r (cq_Header req) of
       Inl e \<Rightarrow> (L, RCancelled (Inl (invalid e)))
     | Inr head \<Rightarrow>
         let target = (if mid = [] then cq_TargetMessageID req else mid) in
         if target = [] then (L, RCancelled (Inl (invalid ''target message id is required'')))
         else (L\<lparr>l_cancelled := (l_cancelled L)(target \<mapsto> cq_Reason req)\<rparr>,
               RCancelled (Inr \<lparr>ca_Header = head, ca_TargetMessageID = target, ca_Accepted = True, ca_Status = ''cancelled''\<rparr>)))"
| "ledger_call_result (LSetQuota req) L =
    (if qr_TenantID req = [] then (L, RQuota (Inl (invalid ''tenant_id is required'')))
     else if qr_MaxInvocations req \<le> 0 then (L, RQuota (Inl (invalid ''max_invocations must be > 0'')))
     else (L\<lparr>l_quotas := (l_quotas L)(qr_TenantID req \<mapsto> qr_MaxInvocations req)\<rparr>,
           RQuota (Inr \<lparr>qp_TenantID = qr_TenantID req, qp_MaxInvocations = qr_MaxInvocations req\<rparr>)))"
| "ledger_call_result (LAddCapability req) L =
    (let d = cu_Descriptor req in
     if c_ID d = [] \<or> c_Version d = [] then (L, RAdded (Some (invalid ''descriptor.id and descriptor.version are required'')))
     else if c_InputSchemaURI d = [] \<or> c_OutputSchemaURI d = [] then (L, RAdded (Some (invalid ''schema URIs are required'')))
     else (L\<lparr>l_caps := (l_caps L)(c_ID d \<mapsto> d)\<rparr>, RAdded None))"
| "ledger_call_result (LAuditExport t) L = (L, RExport (filter (\<lambda>a. t = [] \<or> a_TenantID a = t) (l_trail L)))"
| "ledger_call_result (LUsage r t c) L =
    (L, RUsage (int (length (l_trail L))) (spent L t) (int (length (filter (\<lambda>a. a_Capability a = c) (l_trail L)))))"

subsection \<open>The service implements the ledger\<close>

definition metered :: "nat \<Rightarrow> Service \<Rightarrow> bool" where
  "metered n s \<longleftrightarrow> core_inv s \<and> int (length (s_audit s)) + int n < 2 ^ 63"

fun iterates :: "ledger_call \<Rightarrow> bool" where
  "iterates (LUsage r _ _) \<longleftrightarrow> is_iteration (rt_iter r)"
| "iterates _ \<longleftrightarrow> True"

lemma ledger_sel [simp]:
  "l_caps (ledger s) = map_of (s_capabilities s)" "l_quotas (ledger s) = map_of (s_quotas s)"
  "l_cancelled (ledger s) = map_of (s_cancelled s)" "l_replies (ledger s) = map_of (s_idempotency s)"
  "l_trail (ledger s) = s_audit s"
  by (simp_all add: ledger_def)

lemma ledger_recordError [simp]: "ledger (recordError c p s) = ledger s"
  by (simp add: ledger_def)

lemma count_exact:
  assumes "metered n s"
  shows "i64 (int (length (filter P (s_audit s)))) = int (length (filter P (s_audit s)))"
proof (rule i64_small)
  have "int (length (filter P (s_audit s))) \<le> int (length (s_audit s))"
    by simp
  also have "\<dots> < 2 ^ 63"
    using assms by (simp add: metered_def)
  finally show "int (length (filter P (s_audit s))) < 2 ^ 63" .
qed simp

lemma spent_metered: "metered n s \<Longrightarrow> mget0 (s_tenantInvocations s) t = spent (ledger s) t"
  using count_exact [of n s "\<lambda>a. a_TenantID a = t"]
  by (simp add: metered_def core_inv_def meter_ok_def count_tenant_def spent_def)

lemma over_quota_ledger:
  assumes "metered n s"
  shows "(case l_quotas (ledger s) t of None \<Rightarrow> False | Some q \<Rightarrow> q \<le> spent (ledger s) t) \<longleftrightarrow> over_quota s t"
  using spent_metered [OF assms, of t] by (auto simp: over_quota_def split: option.split)

lemma ledger_committed:
  "ledger (committed r p s) = (ledger s)
     \<lparr>l_replies := (if h_IdempotencyKey (pd_Header p) \<noteq> []
        then (l_replies (ledger s))(reply_key (pd_Header p) (pd_Capability p) \<mapsto> response_of p) else l_replies (ledger s)),
      l_trail := l_trail (ledger s) @ [audit_of r p]\<rparr>"
  by (simp add: ledger_def reply_key_def)

lemma refusal_authorized:
  "refusal (ledger s) head c prin = None \<Longrightarrow> authorized s head c prin (the (map_of (s_capabilities s) c))"
  by (auto simp: refusal_def authorized_def split: if_splits option.splits)

lemma Invoke_refused:
  assumes "prepare r (iq_Header req) = Inr head" and "refusal (ledger s) head (target_capability capability req) prin = Some e"
  obtains code where "Invoke r sel s capability req actor prin = (recordError code ''invoke'' s, Inl e)"
proof -
  let ?c = "target_capability capability req"
  have "\<exists>code. Invoke_admit r s capability req actor prin = (recordError code ''invoke'' s, Rejected e)"
    using assms(2) unfolding Invoke_admit_def assms(1) sum.case Let_def target_capability_def [symmetric] refusal_def
    by (auto split: if_splits option.splits)
  then obtain code where "Invoke_admit r s capability req actor prin = (recordError code ''invoke'' s, Rejected e)"
    by blast
  then show thesis
    by (intro that [of code]) (simp add: Invoke_def)
qed

lemma ledger_invoke_refines:
  assumes "metered n s"
  shows "ledger_invoke r sel capability req actor prin (ledger s) =
    map_prod ledger id (Invoke r sel s capability req actor prin)"
proof (cases "prepare r (iq_Header req)")
  case (Inl e)
  then show ?thesis
    by (simp add: ledger_invoke_def Invoke_def Invoke_admit_def)
next
  case (Inr head)
  let ?c = "target_capability capability req"
  show ?thesis
  proof (cases "refusal (ledger s) head ?c prin")
    case (Some e)
    obtain code where "Invoke r sel s capability req actor prin = (recordError code ''invoke'' s, Inl e)"
      by (rule Invoke_refused [OF Inr Some])
    then show ?thesis
      using Inr Some by (simp add: ledger_invoke_def Let_def)
  next
    case None
    note adm = Invoke_admit_authorized [OF Inr refusal_authorized [OF None]]
    have rep: "(if h_IdempotencyKey head \<noteq> [] then l_replies (ledger s) (reply_key head ?c) else None) = replay_of s head ?c"
      by (simp add: replay_of_def reply_key_def)
    show ?thesis
      unfolding ledger_invoke_def Inr sum.case Let_def None option.case rep over_quota_ledger [OF assms]
      by (cases sel; cases "replay_of s head ?c"; cases "over_quota s (h_TenantID head)")
        (simp_all add: Invoke_def adm Let_def Invoke_finish_SelResult ledger_committed,
         simp_all add: Invoke_finish_def)
  qed
qed

lemma usage_ledger:
  assumes "metered n s" and "is_iteration (rt_iter r)"
  shows "us_TotalInvocations (Usage r s) = int (length (s_audit s))"
    "mget0 (us_TenantInvocations (Usage r s)) t = spent (ledger s) t"
    "mget0 (us_CapabilityInvocations (Usage r s)) c = int (length (filter (\<lambda>a. a_Capability a = c) (s_audit s)))"
proof -
  have m: "meter_ok s"
    using assms(1) by (simp add: metered_def core_inv_def)
  note u = usage_counts [OF m assms(2)]
  show "us_TotalInvocations (Usage r s) = int (length (s_audit s))"
    using u count_exact [OF assms(1), of "\<lambda>_. True"] by (simp add: AuditExport_def)
  show "mget0 (us_CapabilityInvocations (Usage r s)) c = int (length (filter (\<lambda>a. a_Capability a = c) (s_audit s)))"
    using u count_exact [OF assms(1), of "\<lambda>a. a_Capability a = c"] by (simp add: count_capability_def)
  show "mget0 (us_TenantInvocations (Usage r s)) t = spent (ledger s) t"
  proof -
    have "map_ok (s_tenantInvocations s)"
      using m by (simp add: meter_ok_def)
    then have "mget0 (us_TenantInvocations (Usage r s)) t = mget0 (s_tenantInvocations s) t"
      using range_map_lookup [OF assms(2), of "s_tenantInvocations s"]
      by (simp add: Usage_def Let_def mget0_def map_of_fold_copy split: option.split)
    then show ?thesis
      using spent_metered [OF assms(1)] by simp
  qed
qed

lemma audit_growth:
  "length (s_audit (fst (service_call_result q s))) \<le> Suc (length (s_audit s))"
proof (cases q)
  case (LInvoke r sel c req actor prin)
  obtain s' res where i: "Invoke r sel s c req actor prin = (s', res)"
    by (cases "Invoke r sel s c req actor prin")
  from i have "length (s_audit s') \<le> Suc (length (s_audit s))"
  proof (cases rule: Invoke_cases)
    case (rejected e)
    then have "s' = fst (Invoke_admit r s c req actor prin)"
      by simp
    with Invoke_admit_state [of r s c req actor prin] show ?thesis
      by auto
  qed simp_all
  with LInvoke i show ?thesis by simp
qed (simp_all add: Cancel_def SetQuota_def AddCapability_def Let_def split: sum.split)

lemma core_inv_call: "core_inv s \<Longrightarrow> core_inv (fst (service_call_result q s))"
  by (cases q) (auto simp: intro: svc_pres)

lemma call_refines:
  assumes "metered (Suc n) s" and "iterates q"
  shows "ledger_call_result q (ledger s) = map_prod ledger id (service_call_result q s)"
proof (cases q)
  case (LInvoke r sel c req actor prin)
  then show ?thesis
    by (simp add: ledger_invoke_refines [OF assms(1)] map_prod_def split_beta)
next
  case (LUsage r t c)
  with assms usage_ledger [OF assms(1), of r] show ?thesis
    by simp
qed (simp_all add: Cancel_def SetQuota_def AddCapability_def AuditExport_def ledger_def Let_def split: sum.split)

interpretation service_ledger: refinement service_call_result ledger_call_result ledger metered iterates
proof
  show "ledger_call_result q (ledger s) = map_prod ledger id (service_call_result q s)"
    if "metered (Suc n) s" "iterates q" for n s q
    using that by (rule call_refines)
  show "metered n (fst (service_call_result q s))" if "metered (Suc n) s" "iterates q" for n s q
    using that core_inv_call [of s q] audit_growth [of q s] by (auto simp: metered_def)
qed

text \<open>
  C3. The service implements the ledger: for every sequence of invocations, cancellations, quota and
  capability changes, audit exports and usage reports, the replies are those of the specification
  that counts from its trail, and the state the service ends in stands for the ledger's, as long
  as the audited invocations fit an int64.
\<close>

theorem service_implements_ledger:
  assumes "core_inv s" and "int (length (s_audit s)) + int (length qs) < 2 ^ 63" and "list_all iterates qs"
  shows "run_ops ledger_call_result qs (ledger s) =
    (ledger (fst (run_ops service_call_result qs s)), snd (run_ops service_call_result qs s))"
  using service_ledger.runs_refine [of qs s] assms by (simp add: metered_def map_prod_def split_beta)

definition demo_calls :: "ledger_call list" where
  "demo_calls =
    [LSetQuota \<lparr>qr_TenantID = ''acme'', qr_MaxInvocations = 1\<rparr>,
     LInvoke demo_rt SelResult [] demo_invoke ''a'' demo_principal,
     LInvoke demo_rt SelResult [] (demo_invoke\<lparr>iq_Header := demo_header\<lparr>h_IdempotencyKey := []\<rparr>\<rparr>) ''a'' demo_principal,
     LUsage demo_rt ''acme'' ''observatory.models.infer'']"

theorem service_implements_ledger_witness:
  "run_ops ledger_call_result demo_calls (ledger demo_service) =
    (ledger (fst (run_ops service_call_result demo_calls demo_service)),
     snd (run_ops service_call_result demo_calls demo_service)) \<and>
   snd (run_ops service_call_result demo_calls demo_service) ! 2 =
     RInvoked (Inl (mk_error ErrorRateLimited ''tenant quota exceeded'' True))"
proof -
  have "int (length (s_audit demo_service)) + int (length demo_calls) < 2 ^ 63"
    by (simp add: demo_service_def bootstrapDefaults_def empty_service_def demo_calls_def)
  moreover have "list_all iterates demo_calls"
    by (simp add: demo_calls_def demo_rt_def is_iteration_id)
  moreover have "snd (run_ops service_call_result demo_calls demo_service) ! 2 =
     RInvoked (Inl (mk_error ErrorRateLimited ''tenant quota exceeded'' True))"
    by code_simp
  ultimately show ?thesis
    using service_implements_ledger [OF core_inv_demo] by blast
qed

end
