(* ===== verification/Mig_Events.thy ===== *)
theory Mig_Events
  imports Mig_Service_Inv
begin

text \<open>
  Publication and subscription, the event part of \<^verbatim>\<open>core/pkg/mig/service.go\<close>: buffered channels,
  the append-only log of each topic, replay from a cursor, the mirror to NATS. A panic of the Go
  runtime, a send on or a second close of a closed channel, is the result \<open>None\<close>.

  The invariant \<open>event_inv\<close>: the \<open>i\<close>-th event of a topic carries sequence number \<open>i + 1\<close>, buffers hold at
  most 32 events, and the subscribers of a topic are distinct open channels that belong to no
  other topic.
\<close>

subsection \<open>Channels\<close>

text \<open>\<^verbatim>\<open>make(chan EventMessage, 32)\<close>\<close>

definition chan_capacity :: nat where "chan_capacity = 32"

definition chan_make :: "Service \<Rightarrow> nat \<times> Service" where
  "chan_make s =
    (s_next_chan s,
     s\<lparr>s_chans := AList.update (s_next_chan s) \<lparr>ch_buf = [], ch_closed = False\<rparr> (s_chans s),
       s_next_chan := Suc (s_next_chan s)\<rparr>)"

text \<open>
  The non-blocking send \<^verbatim>\<open>select { case sub <- event: default: }\<close>. A send on a closed channel
  panics, which is \<open>None\<close>.
\<close>

definition chan_try_send :: "nat \<Rightarrow> EventMessage \<Rightarrow> Service \<Rightarrow> Service option" where
  "chan_try_send c ev s =
    (case map_of (s_chans s) c of
       None \<Rightarrow> None
     | Some ch \<Rightarrow>
         if ch_closed ch then None
         else if length (ch_buf ch) < chan_capacity
         then Some (s\<lparr>s_chans := AList.update c (ch\<lparr>ch_buf := ch_buf ch @ [ev]\<rparr>) (s_chans s)\<rparr>)
         else Some s)"

fun send_all :: "nat list \<Rightarrow> EventMessage \<Rightarrow> Service \<Rightarrow> Service option" where
  "send_all [] ev s = Some s"
| "send_all (c # cs) ev s =
    (case chan_try_send c ev s of None \<Rightarrow> None | Some s' \<Rightarrow> send_all cs ev s')"

text \<open>Closing a closed channel panics.\<close>

definition chan_close :: "nat \<Rightarrow> Service \<Rightarrow> Service option" where
  "chan_close c s =
    (case map_of (s_chans s) c of
       None \<Rightarrow> None
     | Some ch \<Rightarrow>
         if ch_closed ch then None
         else Some (s\<lparr>s_chans := AList.update c (ch\<lparr>ch_closed := True\<rparr>) (s_chans s)\<rparr>))"

text \<open>A receive from a channel.\<close>

datatype recv = RecvEvent EventMessage | RecvClosed | RecvBlocks

definition chan_recv :: "nat \<Rightarrow> Service \<Rightarrow> Service \<times> recv" where
  "chan_recv c s =
    (case map_of (s_chans s) c of
       None \<Rightarrow> (s, RecvBlocks)
     | Some ch \<Rightarrow>
         (case ch_buf ch of
            ev # rest \<Rightarrow> (s\<lparr>s_chans := AList.update c (ch\<lparr>ch_buf := rest\<rparr>) (s_chans s)\<rparr>, RecvEvent ev)
          | [] \<Rightarrow> (s, if ch_closed ch then RecvClosed else RecvBlocks)))"

subsection \<open>NATS subjects\<close>

definition sanitizeNATSSubject :: "string \<Rightarrow> string" where
  "sanitizeNATSSubject value = ReplaceAll (ReplaceAll value (CHR '' '') (CHR ''_'')) (CHR ''/'') (CHR ''.'')"

definition sanitizeNATSSegment :: "string \<Rightarrow> string" where
  "sanitizeNATSSegment value =
    (let value = TrimSpace value in
     if value = [] then ''unknown'' else sanitizeNATSSubject value)"

definition event_subject :: "EventMessage \<Rightarrow> string" where
  "event_subject ev =
    ''mig.v0_1.'' @ sanitizeNATSSegment (h_TenantID (ev_Header ev)) @ ''.events.'' @
    sanitizeNATSSubject (ev_Topic ev)"

definition publishEventToNATS :: "EventMessage \<Rightarrow> Service \<Rightarrow> Service" where
  "publishEventToNATS ev s =
    (case s_natsConn s of
       None \<Rightarrow> s
     | Some out \<Rightarrow> s\<lparr>s_natsConn := Some (out @ [(event_subject ev, ev)])\<rparr>)"

subsection \<open>Publish\<close>

text \<open>
  The outer \<open>option\<close> is the panic of a send on a closed channel. The subscribers are visited in
  the order of their list; the sends touch different channels, so no order shows.
\<close>

definition Publish ::
    "rt \<Rightarrow> Service \<Rightarrow> string \<Rightarrow> PublishRequest \<Rightarrow> (Service \<times> (MigError, PublishAck) res) option" where
  "Publish r s topic req =
    (case prepare r (pq_Header req) of
       Inl e \<Rightarrow> Some (recordError ErrorInvalidRequest ''publish'' s, Inl (invalid e))
     | Inr head \<Rightarrow>
         let topic = (if topic = [] then pq_Topic req else topic) in
         if topic = []
         then Some (recordError ErrorInvalidRequest ''publish'' s, Inl (invalid ''topic is required''))
         else if \<not> Contains topic ''.''
         then Some (recordError ErrorInvalidRequest ''publish'' s,
           Inl (invalid ''topic names must be namespaced''))
         else
           let sequence = i64 (int (length (mget_list (s_events s) topic)) + 1);
               event = \<lparr>ev_Header = head, ev_Topic = topic, ev_EventID = newMessageID (rt_rand r 1),
                        ev_Sequence = sequence, ev_Payload = pq_Payload req,
                        ev_PublishedAt = rt_now r 1, ev_Replay = False\<rparr>;
               s = s\<lparr>s_events := AList.update topic (mget_list (s_events s) topic @ [event]) (s_events s)\<rparr>
           in case send_all (mget_list (s_subscribers s) topic) event s of
                None \<Rightarrow> None
              | Some s \<Rightarrow>
                  Some (publishEventToNATS event s,
                    Inr \<lparr>pa_Header = head, pa_Topic = topic, pa_EventID = ev_EventID event,
                         pa_Sequence = sequence, pa_Accepted = True\<rparr>))"

subsection \<open>Subscribe\<close>

definition Subscribe ::
    "Service \<Rightarrow> string \<Rightarrow> string \<Rightarrow> Service \<times> (MigError, EventMessage list \<times> nat) res" where
  "Subscribe s topic resumeCursor =
    (if topic = []
     then (recordError ErrorInvalidRequest ''subscribe'' s, Inl (invalid ''topic is required''))
     else if \<not> Contains topic ''.''
     then (recordError ErrorInvalidRequest ''subscribe'' s, Inl (invalid ''topic names must be namespaced''))
     else
       let start = (if resumeCursor = [] then Some 0
                    else case Atoi resumeCursor of
                      None \<Rightarrow> None
                    | Some i \<Rightarrow> if i < 0 then None else Some i) in
       case start of
         None \<Rightarrow> (recordError ErrorInvalidRequest ''subscribe'' s,
           Inl (invalid ''resume_cursor must be a non-negative integer''))
       | Some start \<Rightarrow>
           let all = mget_list (s_events s) topic;
               start = (if start > int (length all) then int (length all) else start);
               snapshot = map (\<lambda>ev. ev\<lparr>ev_Replay := True\<rparr>) (drop (nat start) all);
               subs = mget_list (s_subscribers s) topic;
               (c, s) = chan_make s
           in (s\<lparr>s_subscribers := AList.update topic (subs @ [c]) (s_subscribers s)\<rparr>, Inr (snapshot, c)))"

text \<open>The two parts of the unsubscribe function: under the lock, and after releasing it.\<close>

definition unsub_delete :: "string \<Rightarrow> nat \<Rightarrow> Service \<Rightarrow> Service" where
  "unsub_delete topic c s =
    (case map_of (s_subscribers s) topic of
       None \<Rightarrow> s
     | Some subs \<Rightarrow> s\<lparr>s_subscribers := AList.update topic (removeAll c subs) (s_subscribers s)\<rparr>)"

definition unsubscribe :: "string \<Rightarrow> nat \<Rightarrow> Service \<Rightarrow> Service option" where
  "unsubscribe topic c s = chan_close c (unsub_delete topic c s)"

subsection \<open>The invariant of topics and channels\<close>

abbreviation topic_log :: "Service \<Rightarrow> string \<Rightarrow> EventMessage list" where
  "topic_log s t \<equiv> mget_list (s_events s) t"

abbreviation topic_subs :: "Service \<Rightarrow> string \<Rightarrow> nat list" where
  "topic_subs s t \<equiv> mget_list (s_subscribers s) t"

definition chan_open :: "Service \<Rightarrow> nat \<Rightarrow> bool" where
  "chan_open s c \<longleftrightarrow> (\<exists>ch. map_of (s_chans s) c = Some ch \<and> \<not> ch_closed ch)"

definition backlog :: "Service \<Rightarrow> nat \<Rightarrow> EventMessage list" where
  "backlog s c = (case map_of (s_chans s) c of None \<Rightarrow> [] | Some ch \<Rightarrow> ch_buf ch)"

definition log_entry_ok :: "string \<Rightarrow> nat \<Rightarrow> EventMessage \<Rightarrow> bool" where
  "log_entry_ok t i ev \<longleftrightarrow> ev_Topic ev = t \<and> ev_Sequence ev = i64 (int i + 1) \<and> \<not> ev_Replay ev \<and>
     header_ok (ev_Header ev)"

definition log_ok :: "Service \<Rightarrow> bool" where
  "log_ok s \<longleftrightarrow>
    (\<forall>t. topic_log s t \<noteq> [] \<longrightarrow> CHR ''.'' \<in> set t) \<and>
    (\<forall>t i. i < length (topic_log s t) \<longrightarrow> log_entry_ok t i (topic_log s t ! i))"

definition chans_ok :: "Service \<Rightarrow> bool" where
  "chans_ok s \<longleftrightarrow> (\<forall>c ch. map_of (s_chans s) c = Some ch \<longrightarrow>
     c < s_next_chan s \<and> length (ch_buf ch) \<le> chan_capacity)"

definition subs_ok :: "Service \<Rightarrow> bool" where
  "subs_ok s \<longleftrightarrow>
    (\<forall>t. distinct (topic_subs s t)) \<and>
    (\<forall>t c. c \<in> set (topic_subs s t) \<longrightarrow> chan_open s c) \<and>
    (\<forall>t t' c. c \<in> set (topic_subs s t) \<longrightarrow> c \<in> set (topic_subs s t') \<longrightarrow> t = t')"

definition event_inv :: "Service \<Rightarrow> bool" where
  "event_inv s \<longleftrightarrow> log_ok s \<and> chans_ok s \<and> subs_ok s"

lemmas event_inv_defs = event_inv_def log_ok_def chans_ok_def subs_ok_def chan_open_def

lemma event_inv_cong:
  assumes "s_events s' = s_events s" "s_subscribers s' = s_subscribers s" "s_chans s' = s_chans s"
    "s_next_chan s' = s_next_chan s"
  shows "event_inv s' = event_inv s"
  using assms by (simp add: event_inv_defs)

lemma event_inv_recordError [simp]: "event_inv (recordError c p s) = event_inv s"
  by (rule event_inv_cong) simp_all

lemma event_inv_new:
  "event_inv (bootstrapDefaults (empty_service\<lparr>s_natsConn := n, s_auditLog := l\<rparr>))"
  by (simp add: event_inv_defs bootstrapDefaults_def empty_service_def)

subsection \<open>Sending to the subscribers\<close>

definition deliver :: "EventMessage \<Rightarrow> EventChan \<Rightarrow> EventChan" where
  "deliver ev ch = (if length (ch_buf ch) < chan_capacity then ch\<lparr>ch_buf := ch_buf ch @ [ev]\<rparr> else ch)"

lemma deliver_closed [simp]: "ch_closed (deliver ev ch) = ch_closed ch"
  by (simp add: deliver_def)

lemma deliver_bound: "length (ch_buf ch) \<le> chan_capacity \<Longrightarrow> length (ch_buf (deliver ev ch)) \<le> chan_capacity"
  by (simp add: deliver_def)

lemma chan_try_send_open:
  assumes "chan_open s c"
  obtains m where "chan_try_send c ev s = Some (s\<lparr>s_chans := m\<rparr>)"
    "map_of m = (map_of (s_chans s))(c := map_option (deliver ev) (map_of (s_chans s) c))"
proof -
  from assms obtain ch where ch: "map_of (s_chans s) c = Some ch" "\<not> ch_closed ch"
    by (auto simp: chan_open_def)
  show thesis
  proof (cases "length (ch_buf ch) < chan_capacity")
    case True
    with ch show thesis
      by (intro that) (auto simp: chan_try_send_def deliver_def)
  next
    case False
    with ch show thesis
      by (intro that [of "s_chans s"]) (auto simp: chan_try_send_def deliver_def)
  qed
qed

lemma send_all_open:
  assumes "distinct cs" and "\<And>c. c \<in> set cs \<Longrightarrow> chan_open s c"
  shows "\<exists>m. send_all cs ev s = Some (s\<lparr>s_chans := m\<rparr>) \<and>
    map_of m = (\<lambda>c. if c \<in> set cs then map_option (deliver ev) (map_of (s_chans s) c)
                    else map_of (s_chans s) c)"
  using assms
proof (induction cs arbitrary: s)
  case Nil
  show ?case
    by (rule exI [of _ "s_chans s"]) simp
next
  case (Cons c cs)
  then have "chan_open s c" by simp
  then obtain m where m: "chan_try_send c ev s = Some (s\<lparr>s_chans := m\<rparr>)"
    "map_of m = (map_of (s_chans s))(c := map_option (deliver ev) (map_of (s_chans s) c))"
    by (rule chan_try_send_open)
  let ?s = "s\<lparr>s_chans := m\<rparr>"
  have "chan_open ?s d" if "d \<in> set cs" for d
  proof -
    have "d \<noteq> c" "chan_open s d"
      using that Cons.prems by auto
    then show ?thesis
      using m(2) by (simp add: chan_open_def)
  qed
  then obtain m' where m': "send_all cs ev ?s = Some (?s\<lparr>s_chans := m'\<rparr>)"
    "map_of m' = (\<lambda>d. if d \<in> set cs then map_option (deliver ev) (map_of m d) else map_of m d)"
    using Cons.IH [of ?s] Cons.prems(1) by (auto cong: if_cong)
  have "send_all (c # cs) ev s = Some (s\<lparr>s_chans := m'\<rparr>)"
    using m(1) m'(1) by simp
  moreover have "map_of m' d = (if d \<in> set (c # cs) then map_option (deliver ev) (map_of (s_chans s) d)
      else map_of (s_chans s) d)" for d
    using Cons.prems(1) by (simp add: m'(2) m(2))
  ultimately show ?case by blast
qed

subsection \<open>Publish\<close>

definition published :: "Service \<Rightarrow> EventMessage \<Rightarrow> Service \<Rightarrow> bool" where
  "published s ev s' \<longleftrightarrow>
    topic_log s' = (topic_log s)(ev_Topic ev := topic_log s (ev_Topic ev) @ [ev]) \<and>
    s_subscribers s' = s_subscribers s \<and> s_next_chan s' = s_next_chan s \<and>
    map_of (s_chans s') = (\<lambda>c. if c \<in> set (topic_subs s (ev_Topic ev))
      then map_option (deliver ev) (map_of (s_chans s) c) else map_of (s_chans s) c) \<and>
    s_natsConn s' = map_option (\<lambda>out. out @ [(event_subject ev, ev)]) (s_natsConn s)"

lemma publishEventToNATS_fields [simp]:
  "s_metrics (publishEventToNATS e s) = s_metrics s"
  "s_serverID (publishEventToNATS e s) = s_serverID s"
  "s_capabilities (publishEventToNATS e s) = s_capabilities s" "s_schemas (publishEventToNATS e s) = s_schemas s"
  "s_events (publishEventToNATS e s) = s_events s" "s_subscribers (publishEventToNATS e s) = s_subscribers s"
  "s_idempotency (publishEventToNATS e s) = s_idempotency s" "s_cancelled (publishEventToNATS e s) = s_cancelled s"
  "s_quotas (publishEventToNATS e s) = s_quotas s" "s_audit (publishEventToNATS e s) = s_audit s"
  "s_connections (publishEventToNATS e s) = s_connections s"
  "s_tenantInvocations (publishEventToNATS e s) = s_tenantInvocations s"
  "s_capabilityInvocations (publishEventToNATS e s) = s_capabilityInvocations s"
  "s_orgs (publishEventToNATS e s) = s_orgs s" "s_tenants (publishEventToNATS e s) = s_tenants s"
  "s_gateways (publishEventToNATS e s) = s_gateways s" "s_natsBinding (publishEventToNATS e s) = s_natsBinding s"
  "s_auditLog (publishEventToNATS e s) = s_auditLog s"
  "s_chans (publishEventToNATS e s) = s_chans s" "s_next_chan (publishEventToNATS e s) = s_next_chan s"
  "s_natsConn (publishEventToNATS e s) = map_option (\<lambda>out. out @ [(event_subject e, e)]) (s_natsConn s)"
  by (simp_all add: publishEventToNATS_def split: option.split)

text \<open>The event a successful publication appends to its topic.\<close>

definition event_of :: "rt \<Rightarrow> Service \<Rightarrow> string \<Rightarrow> MessageHeader \<Rightarrow> jmap \<Rightarrow> EventMessage" where
  "event_of r s t head payload =
    \<lparr>ev_Header = head, ev_Topic = t, ev_EventID = newMessageID (rt_rand r 1),
     ev_Sequence = i64 (int (length (topic_log s t)) + 1), ev_Payload = payload,
     ev_PublishedAt = rt_now r 1, ev_Replay = False\<rparr>"

lemma event_of_sel [simp]:
  "ev_Header (event_of r s t h pl) = h" "ev_Topic (event_of r s t h pl) = t"
  "ev_EventID (event_of r s t h pl) = newMessageID (rt_rand r 1)"
  "ev_Sequence (event_of r s t h pl) = i64 (int (length (topic_log s t)) + 1)"
  "ev_Payload (event_of r s t h pl) = pl" "ev_Replay (event_of r s t h pl) = False"
  by (simp_all add: event_of_def)

lemma Publish_accepted:
  assumes "subs_ok s" and "prepare r (pq_Header req) = Inr head"
    and t: "t = (if topic = [] then pq_Topic req else topic)" "CHR ''.'' \<in> set t"
  shows "\<exists>s'. Publish r s topic req = Some (s', Inr \<lparr>pa_Header = head, pa_Topic = t,
      pa_EventID = newMessageID (rt_rand r 1), pa_Sequence = i64 (int (length (topic_log s t)) + 1),
      pa_Accepted = True\<rparr>) \<and>
    published s (event_of r s t head (pq_Payload req)) s' \<and>
    s' = s\<lparr>s_events := s_events s', s_chans := s_chans s', s_natsConn := s_natsConn s'\<rparr>"
proof -
  let ?ev = "event_of r s t head (pq_Payload req)"
  let ?s1 = "s\<lparr>s_events := AList.update t (topic_log s t @ [?ev]) (s_events s)\<rparr>"
  have "distinct (topic_subs s t)" and "\<And>c. c \<in> set (topic_subs s t) \<Longrightarrow> chan_open ?s1 c"
    using assms(1) by (auto simp: subs_ok_def chan_open_def)
  then obtain m where "send_all (topic_subs s t) ?ev ?s1 = Some (?s1\<lparr>s_chans := m\<rparr>) \<and>
    map_of m = (\<lambda>c. if c \<in> set (topic_subs s t) then map_option (deliver ?ev) (map_of (s_chans ?s1) c)
       else map_of (s_chans ?s1) c)"
    using send_all_open [of "topic_subs s t" ?s1 ?ev] by blast
  then have m: "send_all (topic_subs s t) ?ev ?s1 = Some (?s1\<lparr>s_chans := m\<rparr>)"
    "map_of m = (\<lambda>c. if c \<in> set (topic_subs s t) then map_option (deliver ?ev) (map_of (s_chans s) c)
       else map_of (s_chans s) c)"
    by (simp_all cong: if_cong)
  let ?s2 = "publishEventToNATS ?ev (?s1\<lparr>s_chans := m\<rparr>)"
  have "t \<noteq> []" "Contains t ''.''"
    using t(2) by (auto simp: Contains_char)
  then have "Publish r s topic req = Some (?s2, Inr \<lparr>pa_Header = head, pa_Topic = t,
      pa_EventID = newMessageID (rt_rand r 1), pa_Sequence = i64 (int (length (topic_log s t)) + 1),
      pa_Accepted = True\<rparr>)"
    using m(1) unfolding Publish_def Let_def assms(2) t(1) [symmetric] event_of_def by simp
  moreover have "published s ?ev ?s2"
    using m(2) by (auto simp: published_def fun_eq_iff)
  moreover have "?s2 = s\<lparr>s_events := s_events ?s2, s_chans := s_chans ?s2, s_natsConn := s_natsConn ?s2\<rparr>"
    by (simp add: publishEventToNATS_def split: option.split)
  ultimately show ?thesis by blast
qed

lemma Publish_rejected:
  assumes "prepare r (pq_Header req) = Inl e \<or> CHR ''.'' \<notin> set (if topic = [] then pq_Topic req else topic)"
  obtains e' where
    "Publish r s topic req = Some (recordError ErrorInvalidRequest ''publish'' s, Inl (invalid e'))"
proof (cases "prepare r (pq_Header req)")
  case (Inl e')
  then show thesis by (intro that) (simp add: Publish_def)
next
  case (Inr head)
  let ?t = "if topic = [] then pq_Topic req else topic"
  from Inr assms have "\<not> Contains ?t ''.''"
    by (simp add: Contains_char)
  with Inr show thesis
    by (cases "?t = []") (rule that, simp add: Publish_def Let_def)+
qed

lemma Publish_cases:
  assumes "subs_ok s"
  obtains (accepted) s' head t where
      "prepare r (pq_Header req) = Inr head" "t = (if topic = [] then pq_Topic req else topic)"
      "CHR ''.'' \<in> set t"
      "Publish r s topic req = Some (s', Inr \<lparr>pa_Header = head, pa_Topic = t,
        pa_EventID = newMessageID (rt_rand r 1), pa_Sequence = i64 (int (length (topic_log s t)) + 1),
        pa_Accepted = True\<rparr>)"
      "published s (event_of r s t head (pq_Payload req)) s'"
      "s' = s\<lparr>s_events := s_events s', s_chans := s_chans s', s_natsConn := s_natsConn s'\<rparr>"
  | (rejected) e where
      "Publish r s topic req = Some (recordError ErrorInvalidRequest ''publish'' s, Inl (invalid e))"
proof (cases "prepare r (pq_Header req)")
  case (Inl e)
  then show thesis by (metis Publish_rejected rejected)
next
  case (Inr head)
  show thesis
  proof (cases "CHR ''.'' \<in> set (if topic = [] then pq_Topic req else topic)")
    case True
    with Publish_accepted [OF assms Inr refl] Inr accepted show thesis by blast
  next
    case False
    then show thesis by (metis Publish_rejected rejected)
  qed
qed

lemma event_inv_published:
  assumes inv: "event_inv s" and pub: "published s ev s'"
    and ev: "log_entry_ok (ev_Topic ev) (length (topic_log s (ev_Topic ev))) ev" "CHR ''.'' \<in> set (ev_Topic ev)"
  shows "event_inv s'"
proof -
  have "log_ok s'"
    using inv pub ev by (auto simp: event_inv_def log_ok_def published_def nth_append less_Suc_eq)
  moreover have "chans_ok s'"
    using inv pub by (auto simp: event_inv_def chans_ok_def published_def deliver_bound split: if_splits)
  moreover have "chan_open s' c" if "chan_open s c" for c
    using that pub by (auto simp: chan_open_def published_def)
  then have "subs_ok s'"
    using inv pub by (auto simp: event_inv_def subs_ok_def published_def)
  ultimately show ?thesis
    by (simp add: event_inv_def)
qed

lemma event_inv_Publish:
  assumes "event_inv s" and "Publish r s topic req = Some (s', res)"
  shows "event_inv s'"
proof -
  have so: "subs_ok s"
    using assms(1) by (simp add: event_inv_def)
  from so show ?thesis
  proof (cases rule: Publish_cases [where r = r and req = req and topic = topic])
    case (accepted s1 head t)
    with assms(2) have "s' = s1" by simp
    moreover have "event_inv s1"
      by (rule event_inv_published [OF assms(1) accepted(5)])
        (use accepted(3) prepare_ok(1) [OF accepted(1)] in \<open>simp_all add: log_entry_ok_def add.commute\<close>)
    ultimately show ?thesis by simp
  next
    case (rejected e)
    with assms show ?thesis by auto
  qed
qed

subsection \<open>Subscribe\<close>

definition cursor_start :: "string \<Rightarrow> int option" where
  "cursor_start cur =
    (if cur = [] then Some 0
     else case Atoi cur of None \<Rightarrow> None | Some i \<Rightarrow> if i < 0 then None else Some i)"

lemma Subscribe_eq:
  "Subscribe s topic cur =
    (if CHR ''.'' \<notin> set topic
     then (recordError ErrorInvalidRequest ''subscribe'' s, Inl (invalid
       (if topic = [] then ''topic is required'' else ''topic names must be namespaced'')))
     else case cursor_start cur of
       None \<Rightarrow> (recordError ErrorInvalidRequest ''subscribe'' s,
         Inl (invalid ''resume_cursor must be a non-negative integer''))
     | Some k \<Rightarrow>
         (s\<lparr>s_chans := AList.update (s_next_chan s) \<lparr>ch_buf = [], ch_closed = False\<rparr> (s_chans s),
            s_next_chan := Suc (s_next_chan s),
            s_subscribers := AList.update topic (topic_subs s topic @ [s_next_chan s]) (s_subscribers s)\<rparr>,
          Inr (map (\<lambda>ev. ev\<lparr>ev_Replay := True\<rparr>) (drop (nat k) (topic_log s topic)), s_next_chan s)))"
proof -
  have drop_min: "drop (nat (if k > int (length xs) then int (length xs) else k)) xs = drop (nat k) xs"
    for k and xs :: "EventMessage list"
    by simp
  show ?thesis
    unfolding Subscribe_def cursor_start_def chan_make_def Let_def drop_min
    by (auto simp: Contains_char split: option.split)
qed

lemma Subscribe_ok:
  assumes "Subscribe s topic cur = (s', Inr (snap, c))"
  obtains k where "cursor_start cur = Some k" "0 \<le> k" "CHR ''.'' \<in> set topic"
    "snap = map (\<lambda>ev. ev\<lparr>ev_Replay := True\<rparr>) (drop (nat k) (topic_log s topic))"
    "c = s_next_chan s"
    "s' = s\<lparr>s_chans := AList.update c \<lparr>ch_buf = [], ch_closed = False\<rparr> (s_chans s),
       s_next_chan := Suc c, s_subscribers := AList.update topic (topic_subs s topic @ [c]) (s_subscribers s)\<rparr>"
proof -
  from assms have dot: "CHR ''.'' \<in> set topic"
    by (auto simp: Subscribe_eq split: if_splits)
  with assms obtain k where "cursor_start cur = Some k"
    by (auto simp: Subscribe_eq split: option.splits)
  moreover from this have "0 \<le> k"
    by (auto simp: cursor_start_def split: option.splits if_splits)
  ultimately show thesis
    using assms dot by (intro that) (auto simp: Subscribe_eq)
qed

lemma Subscribe_error_state:
  assumes "Subscribe s topic cur = (s', Inl e)"
  shows "s' = recordError ErrorInvalidRequest ''subscribe'' s"
  using assms by (auto simp: Subscribe_eq split: option.splits if_splits)

lemma fresh_chan: "chans_ok s \<Longrightarrow> map_of (s_chans s) (s_next_chan s) = None"
  by (metis chans_ok_def less_irrefl not_None_eq)

lemma fresh_not_subscribed: "event_inv s \<Longrightarrow> s_next_chan s \<notin> set (topic_subs s t)"
  using fresh_chan [of s] by (fastforce simp: event_inv_def subs_ok_def chan_open_def)

lemma chan_open_subscribe:
  "chan_open (s\<lparr>s_chans := AList.update c \<lparr>ch_buf = [], ch_closed = False\<rparr> m, s_next_chan := n,
     s_subscribers := u\<rparr>) d \<longleftrightarrow> d = c \<or> (\<exists>ch. map_of m d = Some ch \<and> \<not> ch_closed ch)"
  by (auto simp: chan_open_def)

lemma event_inv_Subscribe:
  assumes inv: "event_inv s" and sub: "Subscribe s topic cur = (s', res)"
  shows "event_inv s'"
proof (cases res)
  case (Inl e)
  with assms show ?thesis
    by (auto dest!: Subscribe_error_state)
next
  case (Inr sc)
  then obtain snap c where "Subscribe s topic cur = (s', Inr (snap, c))"
    using sub by (cases sc) simp
  then obtain k where c: "c = s_next_chan s"
    and s': "s' = s\<lparr>s_chans := AList.update c \<lparr>ch_buf = [], ch_closed = False\<rparr> (s_chans s),
       s_next_chan := Suc c, s_subscribers := AList.update topic (topic_subs s topic @ [c]) (s_subscribers s)\<rparr>"
    by (rule Subscribe_ok)
  have "log_ok s'"
    using inv s' by (simp add: event_inv_def log_ok_def)
  moreover have "chans_ok s'"
    using inv s' c by (auto simp: event_inv_def chans_ok_def less_SucI split: if_splits)
  moreover have "subs_ok s'"
  proof -
    have new: "c \<notin> set (topic_subs s t)" for t
      using fresh_not_subscribed [OF inv] c by simp
    moreover have "chan_open s' d" if "d \<in> set (topic_subs s t) \<or> d = c" for d t
      using that inv s' by (auto simp: event_inv_def subs_ok_def chan_open_def)
    ultimately show ?thesis
      using inv s' by (auto simp: event_inv_def subs_ok_def split: if_splits)
  qed
  ultimately show ?thesis
    by (simp add: event_inv_def)
qed

subsection \<open>Receiving, unsubscribing, closing\<close>

lemma chan_recv_event:
  assumes "chan_recv c s = (s', RecvEvent ev)"
  obtains ch where "map_of (s_chans s) c = Some ch" "ch_buf ch = ev # backlog s' c"
    "s' = s\<lparr>s_chans := AList.update c (ch\<lparr>ch_buf := backlog s' c\<rparr>) (s_chans s)\<rparr>"
  using assms by (auto simp: chan_recv_def backlog_def split: option.splits list.splits if_splits)

lemma chan_recv_state: "chan_recv c s = (s', r) \<Longrightarrow> (\<And>ev. r \<noteq> RecvEvent ev) \<Longrightarrow> s' = s"
  by (auto simp: chan_recv_def split: option.splits list.splits if_splits)

lemma event_inv_recv:
  assumes inv: "event_inv s" and "chan_recv c s = (s', r)"
  shows "event_inv s'"
proof (cases r)
  case (RecvEvent ev)
  with assms(2) obtain ch where ch: "map_of (s_chans s) c = Some ch" "ch_buf ch = ev # backlog s' c"
    and s': "s' = s\<lparr>s_chans := AList.update c (ch\<lparr>ch_buf := backlog s' c\<rparr>) (s_chans s)\<rparr>"
    by (auto elim: chan_recv_event)
  define b where "b = backlog s' c"
  have eq: "s_events s' = s_events s" "s_subscribers s' = s_subscribers s" "s_next_chan s' = s_next_chan s"
    "s_chans s' = AList.update c (ch\<lparr>ch_buf := b\<rparr>) (s_chans s)"
    by (subst s', simp add: b_def)+
  have "length (ch_buf ch) \<le> chan_capacity"
    using inv ch(1) unfolding event_inv_def chans_ok_def by blast
  then have "chans_ok s'"
    using inv ch by (auto simp: event_inv_def chans_ok_def eq b_def split: if_splits)
  moreover have "chan_open s' d = chan_open s d" for d
    using ch by (auto simp: chan_open_def eq)
  ultimately show ?thesis
    using inv by (simp add: event_inv_def log_ok_def subs_ok_def eq)
next
  case RecvClosed
  then show ?thesis using assms chan_recv_state by auto
next
  case RecvBlocks
  then show ?thesis using assms chan_recv_state by auto
qed

lemma topic_subs_unsub:
  "topic_subs (unsub_delete topic c s) t = (if t = topic then removeAll c (topic_subs s t) else topic_subs s t)"
  by (simp add: unsub_delete_def mget_list_def split: option.split)

lemma unsub_delete_fields [simp]:
  "s_events (unsub_delete topic c s) = s_events s" "s_chans (unsub_delete topic c s) = s_chans s"
  "s_next_chan (unsub_delete topic c s) = s_next_chan s"
  by (simp_all add: unsub_delete_def split: option.split)

lemma unsub_delete_frame: "\<exists>u. unsub_delete topic c s = s\<lparr>s_subscribers := u\<rparr>"
proof (cases "map_of (s_subscribers s) topic")
  case None
  then have "unsub_delete topic c s = s\<lparr>s_subscribers := s_subscribers s\<rparr>"
    by (simp add: unsub_delete_def)
  then show ?thesis by blast
qed (auto simp: unsub_delete_def)

lemma event_inv_unsub:
  assumes "event_inv s"
  shows "event_inv (unsub_delete topic c s)"
proof -
  have "chan_open (unsub_delete topic c s) d = chan_open s d" for d
    by (simp add: chan_open_def)
  then show ?thesis
    using assms by (auto simp: event_inv_def log_ok_def chans_ok_def subs_ok_def topic_subs_unsub
        distinct_removeAll split: if_splits)
qed

lemma chan_close_open:
  assumes "map_of (s_chans s) c = Some ch" and "\<not> ch_closed ch"
  shows "chan_close c s = Some (s\<lparr>s_chans := AList.update c (ch\<lparr>ch_closed := True\<rparr>) (s_chans s)\<rparr>)"
  using assms by (simp add: chan_close_def)

lemma chan_close_Some:
  assumes "chan_close c s = Some s'"
  obtains ch where "map_of (s_chans s) c = Some ch" "\<not> ch_closed ch"
    "s' = s\<lparr>s_chans := AList.update c (ch\<lparr>ch_closed := True\<rparr>) (s_chans s)\<rparr>"
  using assms by (auto simp: chan_close_def split: option.splits if_splits)

lemma event_inv_close:
  assumes "event_inv s" and "chan_close c s = Some s'" and "\<And>t. c \<notin> set (topic_subs s t)"
  shows "event_inv s'"
proof -
  from assms(2) obtain ch where ch: "map_of (s_chans s) c = Some ch" "\<not> ch_closed ch"
    and s': "s' = s\<lparr>s_chans := AList.update c (ch\<lparr>ch_closed := True\<rparr>) (s_chans s)\<rparr>"
    by (rule chan_close_Some)
  have "chan_open s' d" if "chan_open s d" and "d \<noteq> c" for d
    using that s' by (simp add: chan_open_def)
  moreover have "s_subscribers s' = s_subscribers s"
    using s' by simp
  ultimately have "subs_ok s'"
    using assms(1,3) unfolding event_inv_def subs_ok_def by metis
  moreover have "log_ok s'" "chans_ok s'"
    using assms(1) s' ch by (auto simp: event_inv_def log_ok_def chans_ok_def split: if_splits)
  ultimately show ?thesis
    by (simp add: event_inv_def)
qed

subsection \<open>The core operations do not touch topics or channels\<close>

lemma event_inv_core_ops:
  "event_inv s \<Longrightarrow> event_inv (fst (Discover r s dq p))"
  "event_inv s \<Longrightarrow> event_inv (fst (Cancel r s cq mid))"
  "event_inv s \<Longrightarrow> event_inv (fst (Heartbeat r s hq))"
  "event_inv s \<Longrightarrow> event_inv (fst (AddCapability s aq))"
  "event_inv s \<Longrightarrow> event_inv (fst (AddSchema s sq))"
  "event_inv s \<Longrightarrow> event_inv (fst (SetQuota s qq))"
  "event_inv s \<Longrightarrow> event_inv (Close s)"
  "event_inv s \<Longrightarrow> event_inv (SetMetrics m s)"
  "event_inv s \<Longrightarrow> CreateOrg r s og = Some (s', ores) \<Longrightarrow> event_inv s'"
  "event_inv s \<Longrightarrow> CreateTenant r s tn = Some (s', tres) \<Longrightarrow> event_inv s'"
  "event_inv s \<Longrightarrow> CreateGateway r s gw = Some (s', gres) \<Longrightarrow> event_inv s'"
  by (auto simp: Discover_def Cancel_def Heartbeat_def AddCapability_def AddSchema_def SetQuota_def
      Close_def SetMetrics_def CreateOrg_def CreateTenant_def CreateGateway_def Let_def event_inv_defs
      split: sum.splits option.splits if_splits)

subsection \<open>Properties\<close>

lemma backlog_published:
  assumes "published s ev s'" and "event_inv s"
  shows "backlog s' c =
    (if c \<in> set (topic_subs s (ev_Topic ev)) \<and> length (backlog s c) < chan_capacity
     then backlog s c @ [ev] else backlog s c)"
proof (cases "c \<in> set (topic_subs s (ev_Topic ev))")
  case True
  then obtain ch where "map_of (s_chans s) c = Some ch"
    using assms(2) by (fastforce simp: event_inv_def subs_ok_def chan_open_def)
  with True assms(1) show ?thesis
    by (simp add: published_def backlog_def deliver_def)
next
  case False
  with assms(1) show ?thesis
    by (simp add: published_def backlog_def)
qed

text \<open>
  C7. A well-formed publication never panics. It appends one event to the log of its topic and to
  no other, numbers it with the length of the log, hands it to every subscriber of the topic
  whose buffer of 32 has room and to nobody else, mirrors it once to NATS if connected, and
  changes nothing else.
\<close>

theorem publish_effect:
  assumes inv: "event_inv s" and head: "prepare r (pq_Header req) = Inr head"
    and t: "t = (if topic = [] then pq_Topic req else topic)" "CHR ''.'' \<in> set t"
  shows "\<exists>s' ack ev. Publish r s topic req = Some (s', Inr ack) \<and>
    pa_Accepted ack \<and> pa_Topic ack = t \<and> pa_Sequence ack = ev_Sequence ev \<and> pa_EventID ack = ev_EventID ev \<and>
    ev_Payload ev = pq_Payload req \<and> h_TenantID (ev_Header ev) = h_TenantID (pq_Header req) \<and>
    ev_Sequence ev = i64 (int (length (topic_log s' t))) \<and>
    topic_log s' = (topic_log s)(t := topic_log s t @ [ev]) \<and>
    backlog s' = (\<lambda>c. if c \<in> set (topic_subs s t) \<and> length (backlog s c) < 32
                      then backlog s c @ [ev] else backlog s c) \<and>
    s_natsConn s' = map_option (\<lambda>out. out @ [(event_subject ev, ev)]) (s_natsConn s) \<and>
    s' = s\<lparr>s_events := s_events s', s_chans := s_chans s', s_natsConn := s_natsConn s'\<rparr>"
proof -
  have "subs_ok s"
    using inv by (simp add: event_inv_def)
  from Publish_accepted [OF this head t] obtain s' where
    p: "Publish r s topic req = Some (s', Inr \<lparr>pa_Header = head, pa_Topic = t,
      pa_EventID = newMessageID (rt_rand r 1), pa_Sequence = i64 (int (length (topic_log s t)) + 1),
      pa_Accepted = True\<rparr>)"
    and pub: "published s (event_of r s t head (pq_Payload req)) s'"
    and fr: "s' = s\<lparr>s_events := s_events s', s_chans := s_chans s', s_natsConn := s_natsConn s'\<rparr>"
    by blast
  have "backlog s' = (\<lambda>c. if c \<in> set (topic_subs s t) \<and> length (backlog s c) < 32
      then backlog s c @ [event_of r s t head (pq_Payload req)] else backlog s c)"
    using backlog_published [OF pub inv] by (simp add: fun_eq_iff chan_capacity_def)
  moreover have "s_natsConn s' = map_option (\<lambda>out. out @ [(event_subject (event_of r s t head (pq_Payload req)),
      event_of r s t head (pq_Payload req))]) (s_natsConn s)"
    and "topic_log s' = (topic_log s)(t := topic_log s t @ [event_of r s t head (pq_Payload req)])"
    using pub unfolding published_def event_of_sel by blast+
  ultimately show ?thesis
    using p fr prepare_ok(2) [OF head]
    by (intro exI [of _ s'] exI [of _ "\<lparr>pa_Header = head, pa_Topic = t,
      pa_EventID = newMessageID (rt_rand r 1), pa_Sequence = i64 (int (length (topic_log s t)) + 1),
      pa_Accepted = True\<rparr>"] exI [of _ "event_of r s t head (pq_Payload req)"] conjI)
      (assumption | simp add: add.commute)+
qed

text \<open>
  Resuming from cursor \<open>n\<close> replays exactly the events with sequence numbers \<open>n + 1\<close>, \<open>n + 2\<close>, \<open>\<dots>\<close> in
  order, marked as replayed, and attaches a fresh channel under the same lock, so nothing can be
  published between the replay and the attachment. The log itself is unchanged.
\<close>

theorem resume_cursor_exact:
  assumes inv: "event_inv s" and "CHR ''.'' \<in> set topic" and "n \<le> length (topic_log s topic)"
    and "int (length (topic_log s topic)) < 2 ^ 63"
  shows "\<exists>s' c. Subscribe s topic (show_nat n) =
      (s', Inr (map (\<lambda>ev. ev\<lparr>ev_Replay := True\<rparr>) (drop n (topic_log s topic)), c)) \<and>
    map ev_Sequence (drop n (topic_log s topic)) = map int [Suc n..<Suc (length (topic_log s topic))] \<and>
    topic_log s' = topic_log s \<and> topic_subs s' topic = topic_subs s topic @ [c] \<and>
    (\<forall>t. c \<notin> set (topic_subs s t)) \<and> backlog s' c = []"
proof -
  let ?log = "topic_log s topic"
  have "cursor_start (show_nat n) = Some (int n)"
    using show_nat_digits [of n] Atoi_show_nat [of n] assms(3,4) by (simp add: cursor_start_def)
  moreover have "map ev_Sequence (drop n ?log) = map int [Suc n..<Suc (length ?log)]"
  proof (rule nth_equalityI)
    show "length (map ev_Sequence (drop n ?log)) = length (map int [Suc n..<Suc (length ?log)])"
      using assms(3) by (simp del: upt_Suc)
    fix i assume "i < length (map ev_Sequence (drop n ?log))"
    then have i: "n + i < length ?log" by simp
    then have "ev_Sequence (?log ! (n + i)) = i64 (int (n + i) + 1)"
      using inv unfolding event_inv_def log_ok_def log_entry_ok_def by blast
    also have "\<dots> = int (n + i) + 1"
      using i assms(4) by (intro i64_small) linarith+
    finally show "map ev_Sequence (drop n ?log) ! i = map int [Suc n..<Suc (length ?log)] ! i"
      using i assms(3) by (simp del: upt_Suc)
  qed
  ultimately show ?thesis
    using assms(2) fresh_not_subscribed [OF inv]
    by (simp add: Subscribe_eq backlog_def fun_eq_iff)
qed

subsubsection \<open>Witnesses\<close>

definition demo_publish :: PublishRequest where
  "demo_publish = \<lparr>pq_Header = demo_header, pq_Topic = ''a.b'', pq_Key = [],
     pq_Payload = Some [(''n'', JNum 1 0)]\<rparr>"

definition demo_published :: Service where
  "demo_published = (case Publish demo_rt demo_service [] demo_publish of
     Some (s, _) \<Rightarrow> s | None \<Rightarrow> demo_service)"

lemma event_inv_demo: "event_inv demo_service"
  by (simp add: event_inv_defs demo_service_def bootstrapDefaults_def empty_service_def)

lemma event_inv_demo_published: "event_inv demo_published"
proof -
  have "Publish demo_rt demo_service [] demo_publish \<noteq> None"
    by code_simp
  then obtain s' res where "Publish demo_rt demo_service [] demo_publish = Some (s', res)"
    by auto
  then show ?thesis
    using event_inv_Publish [OF event_inv_demo] by (simp add: demo_published_def)
qed

theorem publish_effect_witness:
  "\<exists>s' ack ev. Publish demo_rt demo_service [] demo_publish = Some (s', Inr ack) \<and>
     topic_log s' = (topic_log demo_service)(''a.b'' := topic_log demo_service ''a.b'' @ [ev])"
proof -
  have "prepare demo_rt (pq_Header demo_publish) = Inr (projr (prepare demo_rt (pq_Header demo_publish)))"
    by code_simp
  from publish_effect [OF event_inv_demo this, of "''a.b''" "[]"] show ?thesis
    by (auto simp: demo_publish_def)
qed

theorem resume_cursor_exact_witness:
  "length (topic_log demo_published ''a.b'') = 1 \<and>
   (\<exists>s' c. Subscribe demo_published ''a.b'' (show_nat 0) =
      (s', Inr (map (\<lambda>ev. ev\<lparr>ev_Replay := True\<rparr>) (drop 0 (topic_log demo_published ''a.b'')), c)))"
proof -
  have l: "length (topic_log demo_published ''a.b'') = 1"
    by code_simp
  then have "0 \<le> length (topic_log demo_published ''a.b'')"
    "int (length (topic_log demo_published ''a.b'')) < 2 ^ 63"
    by simp_all
  from resume_cursor_exact [OF event_inv_demo_published _ this] l show ?thesis
    by auto
qed

end
