(* ===== verification/Mig_Connections.thy ===== *)
theory Mig_Connections
  imports Mig_Service_Inv
begin

text \<open>
  The registry of long-lived connections, \<^verbatim>\<open>core/pkg/mig/connections.go\<close>: registration, the unregister
  function it returns, and the filtered listing with its summary.
\<close>

record ConnectionFilters =
  cf_TenantID :: string
  cf_Kind :: string
  cf_Protocol :: string

text \<open>
  \<open>None\<close> is the panic of slicing a generated identifier that is too short. The second component is
  the identifier, which is also what the returned unregister function captures.
\<close>

definition RegisterConnection ::
    "rt \<Rightarrow> Service \<Rightarrow> ConnectionSnapshot \<Rightarrow> (Service \<times> string) option" where
  "RegisterConnection r s conn =
    (case (if cs_ID conn = [] then map_option (\<lambda>i. ''conn-'' @ i) (short_id (rt_rand r 0))
           else Some (cs_ID conn)) of
       None \<Rightarrow> None
     | Some i \<Rightarrow>
         let conn = conn\<lparr>cs_ID := i\<rparr>;
             conn = (if cs_StartedAt conn = [] then conn\<lparr>cs_StartedAt := rt_now r 0\<rparr> else conn);
             conn = (if cs_Meta conn = None then conn\<lparr>cs_Meta := Some []\<rparr> else conn)
         in Some (s\<lparr>s_connections := AList.update (cs_ID conn) conn (s_connections s)\<rparr>, cs_ID conn))"

definition unregister :: "string \<Rightarrow> Service \<Rightarrow> Service" where
  "unregister i s = s\<lparr>s_connections := AList.delete i (s_connections s)\<rparr>"

definition bump :: "string \<Rightarrow> (string, int) gomap \<Rightarrow> (string, int) gomap" where
  "bump k m = AList.update k (i64 (mget0 m k + 1)) m"

definition conn_matches :: "string \<Rightarrow> string \<Rightarrow> string \<Rightarrow> ConnectionSnapshot \<Rightarrow> bool" where
  "conn_matches tenant kind protocol conn \<longleftrightarrow>
    \<not> (tenant \<noteq> [] \<and> cs_TenantID conn \<noteq> tenant) \<and> \<not> (kind \<noteq> [] \<and> cs_Kind conn \<noteq> kind) \<and>
    \<not> (protocol \<noteq> [] \<and> cs_Protocol conn \<noteq> protocol)"

definition count_conn :: "ConnectionSnapshot \<Rightarrow> ConnectionSummary \<Rightarrow> ConnectionSummary" where
  "count_conn conn summary =
    (let summary = summary\<lparr>sm_Total := i64 (sm_Total summary + 1)\<rparr>;
         summary = (if cs_Protocol conn \<noteq> []
                    then summary\<lparr>sm_ByProtocol := bump (cs_Protocol conn) (sm_ByProtocol summary)\<rparr> else summary);
         summary = (if cs_Kind conn \<noteq> []
                    then summary\<lparr>sm_ByKind := bump (cs_Kind conn) (sm_ByKind summary)\<rparr> else summary)
     in (if cs_TenantID conn \<noteq> []
         then summary\<lparr>sm_ByTenant := bump (cs_TenantID conn) (sm_ByTenant summary)\<rparr> else summary))"

fun collect_conns ::
    "string \<Rightarrow> string \<Rightarrow> string \<Rightarrow> ConnectionSnapshot list \<Rightarrow> ConnectionSnapshot list \<times> ConnectionSummary \<Rightarrow>
     ConnectionSnapshot list \<times> ConnectionSummary" where
  "collect_conns tenant kind protocol [] acc = acc"
| "collect_conns tenant kind protocol (conn # rest) (out, summary) =
    (if conn_matches tenant kind protocol conn
     then collect_conns tenant kind protocol rest (out @ [conn], count_conn conn summary)
     else collect_conns tenant kind protocol rest (out, summary))"

definition sort_newest :: "ConnectionSnapshot list \<Rightarrow> ConnectionSnapshot list" where
  "sort_newest cs = rev (sort_key cs_StartedAt (rev cs))"

definition Connections :: "rt \<Rightarrow> Service \<Rightarrow> ConnectionFilters \<Rightarrow> ConnectionsResponse" where
  "Connections r s filters =
    (let tenant = TrimSpace (cf_TenantID filters);
         kind = TrimSpace (cf_Kind filters);
         protocol = TrimSpace (cf_Protocol filters);
         summary = \<lparr>sm_Total = 0, sm_ByProtocol = [], sm_ByKind = [], sm_ByTenant = [],
                    sm_NATSBindingActive = (s_natsBinding s \<noteq> None)\<rparr>;
         (connections, summary) =
           collect_conns tenant kind protocol (map snd (range_map (rt_iter r) (s_connections s))) ([], summary)
     in \<lparr>cr_GeneratedAt = rt_now r 0, cr_Summary = summary, cr_Connections = sort_newest connections,
         cr_FilterTenant = tenant, cr_FilterKind = kind, cr_FilterProto = protocol\<rparr>)"

subsection \<open>The listing\<close>

lemma mget0_bump: "mget0 (bump k m) k' = (if k' = k then i64 (mget0 m k + 1) else mget0 m k')"
  by (simp add: bump_def)

definition summary_counts :: "ConnectionSnapshot list \<Rightarrow> ConnectionSummary \<Rightarrow> bool" where
  "summary_counts cs sm \<longleftrightarrow>
    sm_Total sm = i64 (int (length cs)) \<and>
    (\<forall>k. k \<noteq> [] \<longrightarrow>
      mget0 (sm_ByProtocol sm) k = i64 (int (length (filter (\<lambda>c. cs_Protocol c = k) cs))) \<and>
      mget0 (sm_ByKind sm) k = i64 (int (length (filter (\<lambda>c. cs_Kind c = k) cs))) \<and>
      mget0 (sm_ByTenant sm) k = i64 (int (length (filter (\<lambda>c. cs_TenantID c = k) cs))))"

lemma summary_counts_step: "summary_counts cs sm \<Longrightarrow> summary_counts (cs @ [c]) (count_conn c sm)"
  by (simp add: summary_counts_def count_conn_def Let_def mget0_bump add.commute)

lemma count_conn_nats [simp]: "sm_NATSBindingActive (count_conn c sm) = sm_NATSBindingActive sm"
  by (simp add: count_conn_def Let_def)

lemma collect_conns_spec:
  assumes "collect_conns t k p cs (out, sm) = (out', sm')" and "summary_counts out sm"
  shows "out' = out @ filter (conn_matches t k p) cs \<and> summary_counts out' sm' \<and>
    sm_NATSBindingActive sm' = sm_NATSBindingActive sm"
  using assms
proof (induction cs arbitrary: out sm)
  case (Cons c cs)
  show ?case
  proof (cases "conn_matches t k p c")
    case True
    then have "collect_conns t k p cs (out @ [c], count_conn c sm) = (out', sm')"
      using Cons.prems(1) by simp
    from Cons.IH [OF this summary_counts_step [OF Cons.prems(2)]] True
    show ?thesis by auto
  next
    case False
    then have "collect_conns t k p cs (out, sm) = (out', sm')"
      using Cons.prems(1) by simp
    from Cons.IH [OF this Cons.prems(2)] False show ?thesis by auto
  qed
qed simp

lemma sort_newest_mset: "mset (sort_newest cs) = mset cs"
  by (simp add: sort_newest_def)

lemma sort_newest_sorted: "sorted_wrt (\<ge>) (map cs_StartedAt (sort_newest cs))"
proof -
  have "sorted (rev (map cs_StartedAt (sort_newest cs)))"
    by (simp add: sort_newest_def rev_map)
  then show ?thesis
    by (simp add: sorted_wrt_rev)
qed

lemma RegisterConnection_ok:
  assumes "RegisterConnection r s conn = Some (s', i)"
  obtains conn' where "s' = s\<lparr>s_connections := AList.update i conn' (s_connections s)\<rparr>" "cs_ID conn' = i"
    "i \<noteq> []" "cs_TenantID conn' = cs_TenantID conn" "cs_Kind conn' = cs_Kind conn"
    "cs_Protocol conn' = cs_Protocol conn" "cs_Actor conn' = cs_Actor conn" "cs_Meta conn' \<noteq> None"
proof (cases "if cs_ID conn = [] then map_option (\<lambda>i. ''conn-'' @ i) (short_id (rt_rand r 0)) else Some (cs_ID conn)")
  case None
  with assms show thesis
    unfolding RegisterConnection_def by (simp only: option.case) simp
next
  case (Some i0)
  let ?c1 = "conn\<lparr>cs_ID := i0\<rparr>"
  let ?c2 = "if cs_StartedAt ?c1 = [] then ?c1\<lparr>cs_StartedAt := rt_now r 0\<rparr> else ?c1"
  let ?c3 = "if cs_Meta ?c2 = None then ?c2\<lparr>cs_Meta := Some []\<rparr> else ?c2"
  have c3: "cs_ID ?c3 = i0" "cs_TenantID ?c3 = cs_TenantID conn" "cs_Kind ?c3 = cs_Kind conn"
    "cs_Protocol ?c3 = cs_Protocol conn" "cs_Actor ?c3 = cs_Actor conn" "cs_Meta ?c3 \<noteq> None"
    by simp_all
  have "i0 \<noteq> []"
    using Some by (cases "cs_ID conn = []") auto
  moreover have "(s', i) = (s\<lparr>s_connections := AList.update (cs_ID ?c3) ?c3 (s_connections s)\<rparr>, cs_ID ?c3)"
    using assms unfolding RegisterConnection_def Some option.case Let_def by (rule option.inject [THEN iffD1, THEN sym])
  ultimately show thesis
    using c3 by (intro that [of ?c3]) simp_all
qed

lemma RegisterConnection_total:
  assumes "entropy_ok (rt_rand r 0)"
  shows "RegisterConnection r s conn \<noteq> None"
  using short_id_ok [OF assms] by (auto simp: RegisterConnection_def Let_def split: option.splits)

subsection \<open>Properties\<close>

lemma summary_counts_mset: "summary_counts cs sm \<Longrightarrow> mset cs = mset cs' \<Longrightarrow> summary_counts cs' sm"
proof -
  assume "summary_counts cs sm" and eq: "mset cs = mset cs'"
  moreover have "length (filter P cs) = length (filter P cs')" for P
    by (metis eq mset_filter size_mset)
  moreover have "length cs = length cs'"
    by (metis eq size_mset)
  ultimately show ?thesis
    by (simp add: summary_counts_def)
qed

text \<open>A listing has exactly the matching connections, and its summary counts them.\<close>

lemma connections_listed:
  assumes "map_ok (s_connections s)" and "is_iteration (rt_iter r)"
  shows "mset (cr_Connections (Connections r s f)) =
      mset (filter (conn_matches (TrimSpace (cf_TenantID f)) (TrimSpace (cf_Kind f)) (TrimSpace (cf_Protocol f)))
        (map snd (s_connections s)))" (is ?listed)
    and "summary_counts (cr_Connections (Connections r s f)) (cr_Summary (Connections r s f))" (is ?counted)
    and "sm_NATSBindingActive (cr_Summary (Connections r s f)) \<longleftrightarrow> s_natsBinding s \<noteq> None" (is ?active)
    and "sorted_wrt (\<ge>) (map cs_StartedAt (cr_Connections (Connections r s f)))" (is ?sorted)
proof -
  let ?t = "TrimSpace (cf_TenantID f)" and ?k = "TrimSpace (cf_Kind f)" and ?p = "TrimSpace (cf_Protocol f)"
  let ?cs = "map snd (range_map (rt_iter r) (s_connections s))"
  let ?sm = "\<lparr>sm_Total = 0, sm_ByProtocol = [], sm_ByKind = [], sm_ByTenant = [],
    sm_NATSBindingActive = (s_natsBinding s \<noteq> None)\<rparr>"
  obtain out sm where c: "collect_conns ?t ?k ?p ?cs ([], ?sm) = (out, sm)"
    by (cases "collect_conns ?t ?k ?p ?cs ([], ?sm)")
  have "summary_counts [] ?sm"
    by (simp add: summary_counts_def)
  note spec = collect_conns_spec [OF c this]
  then have out: "out = filter (conn_matches ?t ?k ?p) ?cs" by simp
  from spec have sm: "summary_counts out sm" "sm_NATSBindingActive sm = (s_natsBinding s \<noteq> None)"
    by auto
  have resp: "cr_Connections (Connections r s f) = sort_newest out" "cr_Summary (Connections r s f) = sm"
    using c by (simp_all add: Connections_def Let_def)
  have "mset ?cs = mset (map snd (s_connections s))"
    using mset_range_map [OF assms(2,1)] by simp
  then have "mset out = mset (filter (conn_matches ?t ?k ?p) (map snd (s_connections s)))"
    unfolding out by (metis mset_filter)
  then show ?listed ?counted ?active ?sorted
    using sm summary_counts_mset [OF sm(1), of "sort_newest out"]
    by (simp_all add: resp sort_newest_mset sort_newest_sorted)
qed


text \<open>
  Registering a connection under an unused identifier makes it visible under that identifier,
  and running the returned unregister function restores the registry.
\<close>

theorem register_unregister:
  assumes "map_ok (s_connections s)" and "RegisterConnection r s conn = Some (s', i)"
    and "map_of (s_connections s) i = None"
  shows "(\<exists>c. map_of (s_connections s') i = Some c \<and> cs_ID c = i \<and> cs_TenantID c = cs_TenantID conn) \<and>
    length (s_connections s') = Suc (length (s_connections s)) \<and>
    map_of (s_connections (unregister i s')) = map_of (s_connections s)"
proof -
  from assms(2) obtain c where s': "s' = s\<lparr>s_connections := AList.update i c (s_connections s)\<rparr>"
    and "cs_ID c = i" "cs_TenantID c = cs_TenantID conn"
    by (rule RegisterConnection_ok)
  then show ?thesis
    using go.get_del_put [OF assms(1,3), of c] go.size_put_fresh [OF assms(1,3), of c]
    by (simp add: unregister_def)
qed

subsubsection \<open>Witnesses\<close>

definition demo_conn :: ConnectionSnapshot where
  "demo_conn = \<lparr>cs_ID = [], cs_Protocol = ''http'', cs_Kind = ''ws_stream'', cs_TenantID = ''acme'',
     cs_Actor = ''user-1'', cs_RemoteAddr = [], cs_StartedAt = [], cs_Meta = None\<rparr>"


theorem register_unregister_witness:
  "\<exists>s' i. RegisterConnection demo_rt demo_service demo_conn = Some (s', i) \<and>
     map_of (s_connections (unregister i s')) = map_of (s_connections demo_service)"
proof -
  have e: "s_connections demo_service = []"
    by (simp add: demo_service_def bootstrapDefaults_def empty_service_def)
  have "RegisterConnection demo_rt demo_service demo_conn \<noteq> None"
    by (rule RegisterConnection_total) (simp add: demo_rt_def entropy_ok_def)
  then obtain s' i where reg: "RegisterConnection demo_rt demo_service demo_conn = Some (s', i)"
    by auto
  then show ?thesis
    using register_unregister [OF _ reg] e by simp
qed

end
