(* ===== verification/Mig_Nats_Lifecycle.thy ===== *)
theory Mig_Nats_Lifecycle
  imports Mig_Service_Inv
begin

text \<open>
  Starting and closing the NATS binding, \<^verbatim>\<open>core/pkg/mig/nats_binding.go\<close>: the subjects it subscribes to, in the
  order in which the runtime visits the map of handlers, and giving up when one subscription fails.
  Subscribing belongs to \<^verbatim>\<open>nats.go\<close> and is an argument.
\<close>

definition nats_subjects :: "string list" where
  "nats_subjects =
    [''mig.v0_1.*.hello'', ''mig.v0_1.*.discover'', ''mig.v0_1.*.invoke.>'', ''mig.v0_1.*.events.>'',
     ''mig.v0_1.*.control.cancel.>'', ''mig.v0_1.*.control.heartbeat'']"

definition NATSBinding_Close :: "NATSBinding \<Rightarrow> NATSBinding" where
  "NATSBinding_Close b = b\<lparr>nb_subs := []\<rparr>"

text \<open>\<open>subscribe\<close> is the outcome of subscribing to a subject, \<open>Some e\<close> an error.\<close>

fun subscribe_all ::
    "(string \<Rightarrow> string option) \<Rightarrow> string list \<Rightarrow> NATSBinding \<Rightarrow> NATSBinding \<times> string option" where
  "subscribe_all subscribe [] b = (b, None)"
| "subscribe_all subscribe (x # xs) b =
    (case subscribe x of
       Some e \<Rightarrow> (NATSBinding_Close b, Some (''subscribe '' @ x @ '': '' @ e))
     | None \<Rightarrow> subscribe_all subscribe xs (b\<lparr>nb_subs := nb_subs b @ [x]\<rparr>))"

definition StartNATSBinding ::
    "rt \<Rightarrow> (string \<Rightarrow> string option) \<Rightarrow> Service \<Rightarrow> Service \<times> (string, NATSBinding) res" where
  "StartNATSBinding r subscribe s =
    (case s_natsBinding s of
       Some b \<Rightarrow> (s, Inr b)
     | None \<Rightarrow>
         if s_natsConn s = None then (s, Inl ''nats connection is not configured'')
         else case subscribe_all subscribe (rt_iter r nats_subjects) \<lparr>nb_subs = []\<rparr> of
           (b, Some e) \<Rightarrow> (s, Inl e)
         | (b, None) \<Rightarrow> (s\<lparr>s_natsBinding := Some b\<rparr>, Inr b))"

lemma StartNATSBinding_state_rule:
  assumes "P s" and "\<And>b. P (s\<lparr>s_natsBinding := b\<rparr>)"
  shows "P (fst (StartNATSBinding r subscribe s))"
  unfolding StartNATSBinding_def by (simp add: assms split: option.split prod.split)

lemma core_inv_natsBinding [simp]: "core_inv (s\<lparr>s_natsBinding := b\<rparr>) = core_inv s"
  by (simp add: core_inv_defs)

lemma core_inv_StartNATSBinding [svc_pres]:
  "core_inv s \<Longrightarrow> core_inv (fst (StartNATSBinding r subscribe s))"
  by (rule StartNATSBinding_state_rule) simp_all

end
