(* ===== verification/Mig_System.thy ===== *)
theory Mig_System
  imports Mig_Events Mig_Connections Mig_Nats_Lifecycle
begin

text \<open>
  The concurrent gateway. Every handler goroutine works on the service in critical sections; this
  theory interleaves them. An action is one critical section: a confined call, a publication, a
  subscription, a receive from a channel, the locked and the unlocked half of an unsubscription,
  the admission and the completion of an invocation.

  \<open>sys_step\<close> is the step relation, \<open>reachable\<close> the states a started gateway can get to, \<open>sys_inv\<close> its
  invariant, proved by rule induction. \<open>exec\<close> computes the relation.
  Recording an error metric is taken as part of the critical section that precedes it.
\<close>

subsection \<open>Runs\<close>

text \<open>A run of a labelled transition relation with the actions it takes.\<close>

inductive run :: "('s \<Rightarrow> 'a \<Rightarrow> 's \<Rightarrow> bool) \<Rightarrow> 's \<Rightarrow> 'a list \<Rightarrow> 's \<Rightarrow> bool"
  for step :: "'s \<Rightarrow> 'a \<Rightarrow> 's \<Rightarrow> bool" where
  run_nil: "run step s [] s"
| run_step: "step s a s' \<Longrightarrow> run step s' as s'' \<Longrightarrow> run step s (a # as) s''"

inductive_simps run_nil_iff [simp]: "run step s [] s'"
inductive_simps run_step_iff: "run step s (a # as) s''"

lemma run_append: "run step s as s' \<Longrightarrow> run step s' bs s'' \<Longrightarrow> run step s (as @ bs) s''"
  by (induction rule: run.induct) (auto intro: run_step)

lemma run_invariant:
  assumes "run step s as s'" and "I s" and "\<And>u a u'. step u a u' \<Longrightarrow> I u \<Longrightarrow> I u'"
  shows "I s'"
  using assms by (induction rule: run.induct) auto

lemma run_mono:
  assumes "run step s as s'" and "\<And>u a u'. step u a u' \<Longrightarrow> step' u a u'"
  shows "run step' s as s'"
  using assms by (induction rule: run.induct) (auto intro: run.intros)

subsection \<open>Actions\<close>

text \<open>Calls whose effect is confined to the service.\<close>

datatype service_call =
    SDiscover rt DiscoverRequest Principal
  | SCancel rt CancelRequest string
  | SHeartbeat rt HeartbeatRequest
  | SAddCapability CapabilityUpsertRequest
  | SAddSchema SchemaUpsertRequest
  | SSetQuota QuotaRequest
  | SCreateOrg rt Org
  | SCreateTenant rt Tenant
  | SCreateGateway rt Gateway
  | SRegister rt ConnectionSnapshot
  | SUnregister string
  | SSetMetrics "Metrics option"
  | SStartNATS rt "string \<Rightarrow> string option"
  | SClose

fun call :: "service_call \<Rightarrow> Service \<Rightarrow> Service option" where
  "call (SDiscover r q p) s = Some (fst (Discover r s q p))"
| "call (SCancel r q m) s = Some (fst (Cancel r s q m))"
| "call (SHeartbeat r q) s = Some (fst (Heartbeat r s q))"
| "call (SAddCapability q) s = Some (fst (AddCapability s q))"
| "call (SAddSchema q) s = Some (fst (AddSchema s q))"
| "call (SSetQuota q) s = Some (fst (SetQuota s q))"
| "call (SCreateOrg r x) s = map_option fst (CreateOrg r s x)"
| "call (SCreateTenant r x) s = map_option fst (CreateTenant r s x)"
| "call (SCreateGateway r x) s = map_option fst (CreateGateway r s x)"
| "call (SRegister r x) s = map_option fst (RegisterConnection r s x)"
| "call (SUnregister i) s = Some (unregister i s)"
| "call (SSetMetrics m) s = Some (SetMetrics m s)"
| "call (SStartNATS r subscribe) s = Some (fst (StartNATSBinding r subscribe s))"
| "call SClose s = Some (Close s)"

datatype action =
    ACall service_call
  | APublish rt string PublishRequest
  | ASubscribe string string
  | AReceive nat EventMessage
  | AUnsub string nat
  | AClose nat
  | AAdmit rt string InvokeRequest string Principal
  | AFinish rt invoke_select Pending

text \<open>
  The gateway with the goroutines that hold parts of its state: invocations past admission,
  subscriptions a handler reads from, and channels taken out of the subscriber map but not yet
  closed, since \<^verbatim>\<open>unsub\<close> closes the channel after releasing the mutex.
\<close>

record System =
  y_svc :: Service
  y_pending :: "Pending list"
  y_subs :: "(string \<times> nat) list"
  y_closing :: "nat list"

inductive sys_step :: "System \<Rightarrow> action \<Rightarrow> System \<Rightarrow> bool" where
  step_call: "call c (y_svc y) = Some s \<Longrightarrow> sys_step y (ACall c) (y\<lparr>y_svc := s\<rparr>)"
| step_publish: "Publish r (y_svc y) topic req = Some (s, res) \<Longrightarrow>
    sys_step y (APublish r topic req) (y\<lparr>y_svc := s\<rparr>)"
| step_subscribe: "Subscribe (y_svc y) topic cur = (s, Inr (snap, c)) \<Longrightarrow>
    sys_step y (ASubscribe topic cur) (y\<lparr>y_svc := s, y_subs := (topic, c) # y_subs y\<rparr>)"
| step_subscribe_error: "Subscribe (y_svc y) topic cur = (s, Inl e) \<Longrightarrow>
    sys_step y (ASubscribe topic cur) (y\<lparr>y_svc := s\<rparr>)"
| step_receive: "(topic, c) \<in> set (y_subs y) \<Longrightarrow> chan_recv c (y_svc y) = (s, RecvEvent ev) \<Longrightarrow>
    sys_step y (AReceive c ev) (y\<lparr>y_svc := s\<rparr>)"
| step_unsub: "(topic, c) \<in> set (y_subs y) \<Longrightarrow>
    sys_step y (AUnsub topic c)
      (y\<lparr>y_svc := unsub_delete topic c (y_svc y), y_subs := remove1 (topic, c) (y_subs y),
         y_closing := c # y_closing y\<rparr>)"
| step_close: "c \<in> set (y_closing y) \<Longrightarrow> chan_close c (y_svc y) = Some s \<Longrightarrow>
    sys_step y (AClose c) (y\<lparr>y_svc := s, y_closing := remove1 c (y_closing y)\<rparr>)"
| step_admit: "Invoke_admit r (y_svc y) capability req actor prin = (s, a) \<Longrightarrow>
    sys_step y (AAdmit r capability req actor prin)
      (y\<lparr>y_svc := s, y_pending := (case a of Admitted p \<Rightarrow> p # y_pending y | _ \<Rightarrow> y_pending y)\<rparr>)"
| step_finish: "p \<in> set (y_pending y) \<Longrightarrow>
    sys_step y (AFinish r sel p)
      (y\<lparr>y_svc := fst (Invoke_finish r sel p (y_svc y)), y_pending := remove1 p (y_pending y)\<rparr>)"

inductive_cases step_callE: "sys_step y (ACall c) y'"
inductive_cases step_publishE: "sys_step y (APublish r topic req) y'"
inductive_cases step_subscribeE: "sys_step y (ASubscribe topic cur) y'"
inductive_cases step_receiveE: "sys_step y (AReceive c ev) y'"
inductive_cases step_unsubE: "sys_step y (AUnsub topic c) y'"
inductive_cases step_closeE: "sys_step y (AClose c) y'"
inductive_cases step_admitE: "sys_step y (AAdmit r capability req actor prin) y'"
inductive_cases step_finishE: "sys_step y (AFinish r sel p) y'"

lemmas step_cases = step_callE step_publishE step_subscribeE step_receiveE step_unsubE step_closeE
  step_admitE step_finishE

definition sys_init :: "System \<Rightarrow> bool" where
  "sys_init y \<longleftrightarrow> (\<exists>connect openlog opts. NewServiceWithOptions connect openlog opts = Inr (y_svc y)) \<and>
     y_pending y = [] \<and> y_subs y = [] \<and> y_closing y = []"

definition reachable :: "System \<Rightarrow> bool" where
  "reachable y \<longleftrightarrow> (\<exists>y0 as. sys_init y0 \<and> run sys_step y0 as y)"

subsection \<open>The invariant of the system\<close>

definition subs_inv :: "Service \<Rightarrow> (string \<times> nat) list \<Rightarrow> nat list \<Rightarrow> bool" where
  "subs_inv s subs closing \<longleftrightarrow>
    distinct (map snd subs @ closing) \<and>
    (\<forall>t c. (t, c) \<in> set subs \<longleftrightarrow> c \<in> set (topic_subs s t)) \<and>
    (\<forall>c \<in> set closing. chan_open s c)"

definition sys_inv :: "System \<Rightarrow> bool" where
  "sys_inv y \<longleftrightarrow> core_inv (y_svc y) \<and> event_inv (y_svc y) \<and> map_ok (s_connections (y_svc y)) \<and>
     (\<forall>p \<in> set (y_pending y). pending_ok p) \<and> subs_inv (y_svc y) (y_subs y) (y_closing y)"

lemma subs_inv_cong:
  assumes "subs_inv s subs closing" and "s_subscribers s' = s_subscribers s"
    and "\<And>c. chan_open s c \<Longrightarrow> chan_open s' c"
  shows "subs_inv s' subs closing"
  using assms by (auto simp: subs_inv_def)

text \<open>What a confined call leaves alone.\<close>

definition same_events :: "Service \<Rightarrow> Service \<Rightarrow> bool" where
  "same_events s s' \<longleftrightarrow> s_events s' = s_events s \<and> s_subscribers s' = s_subscribers s \<and>
     s_chans s' = s_chans s \<and> s_next_chan s' = s_next_chan s"

lemma same_events_event_inv: "same_events s s' \<Longrightarrow> event_inv s' = event_inv s"
  unfolding same_events_def by (rule event_inv_cong) simp_all

lemma same_events_subs_inv: "same_events s s' \<Longrightarrow> subs_inv s subs cl \<Longrightarrow> subs_inv s' subs cl"
  by (erule subs_inv_cong) (auto simp: same_events_def chan_open_def)

lemma same_events_recordError [simp]: "same_events s (recordError c p s)"
  by (simp add: same_events_def)

lemma same_events_refl [simp]: "same_events s s"
  by (simp add: same_events_def)

lemma same_events_admit: "same_events s (fst (Invoke_admit r s capability req actor prin))"
  by (rule Invoke_admit_state_rule) simp_all

lemma same_events_finish: "same_events s (fst (Invoke_finish r sel p s))"
  by (cases sel) (simp_all add: Invoke_finish_SelResult same_events_def, simp_all add: Invoke_finish_def)

lemma call_same_events:
  assumes "call c s = Some s'"
  shows "same_events s s'"
proof (cases c)
  case (SStartNATS r subscribe)
  have "same_events s (fst (StartNATSBinding r subscribe s))"
    by (rule StartNATSBinding_state_rule) (simp_all add: same_events_def)
  with assms SStartNATS show ?thesis by simp
qed (use assms in \<open>auto simp: same_events_def Discover_def Cancel_def Heartbeat_def AddCapability_def
      AddSchema_def SetQuota_def Close_def SetMetrics_def CreateOrg_def CreateTenant_def
      CreateGateway_def RegisterConnection_def unregister_def Let_def
      split: sum.splits option.splits if_splits\<close>)

lemma call_core_inv:
  assumes "call c s = Some s'" and "core_inv s"
  shows "core_inv s'"
proof (cases c)
  case (SRegister r x)
  with assms obtain i where "RegisterConnection r s x = Some (s', i)"
    by auto
  then show ?thesis
    using assms(2) by (elim RegisterConnection_ok) simp
qed (use assms in \<open>auto simp: unregister_def intro: svc_pres\<close>)

lemma call_connections:
  assumes "call c s = Some s'" and "map_ok (s_connections s)"
  shows "map_ok (s_connections s')"
proof (cases c)
  case (SRegister r x)
  with assms obtain i where "RegisterConnection r s x = Some (s', i)"
    by auto
  then show ?thesis
    using assms(2) by (elim RegisterConnection_ok) (simp add: distinct_update)
next
  case (SStartNATS r subscribe)
  have "s_connections (fst (StartNATSBinding r subscribe s)) = s_connections s"
    by (rule StartNATSBinding_state_rule) simp_all
  with assms SStartNATS show ?thesis by simp
qed (use assms in \<open>auto simp: Discover_def Cancel_def Heartbeat_def AddCapability_def AddSchema_def
      SetQuota_def Close_def SetMetrics_def CreateOrg_def CreateTenant_def CreateGateway_def
      unregister_def distinct_delete Let_def
      split: sum.splits option.splits if_splits\<close>)

text \<open>Publishing keeps the core of the service and every open channel.\<close>

lemma Publish_frame:
  assumes "subs_ok s" and "Publish r s topic req = Some (s', res)"
  shows "core_inv s' = core_inv s" "s_connections s' = s_connections s" "s_subscribers s' = s_subscribers s"
    "s_next_chan s' = s_next_chan s" "chan_open s' c = chan_open s c"
    "s_tenantInvocations s' = s_tenantInvocations s" "s_quotas s' = s_quotas s" "s_cancelled s' = s_cancelled s"
proof -
  have "core_inv s' = core_inv s \<and> s_connections s' = s_connections s \<and> s_subscribers s' = s_subscribers s \<and>
    s_next_chan s' = s_next_chan s \<and> chan_open s' c = chan_open s c \<and>
    s_tenantInvocations s' = s_tenantInvocations s \<and> s_quotas s' = s_quotas s \<and> s_cancelled s' = s_cancelled s"
    using assms(1)
  proof (cases rule: Publish_cases [where r = r and req = req and topic = topic])
    case (accepted s1 head t)
    then have eq: "s' = s1" using assms(2) by simp
    define ev ch nc where "ev = s_events s1" and "ch = s_chans s1" and "nc = s_natsConn s1"
    have s1: "s1 = s\<lparr>s_events := ev, s_chans := ch, s_natsConn := nc\<rparr>"
      using accepted(6) by (simp only: ev_def ch_def nc_def)
    have "chan_open s1 c = chan_open s c"
      using accepted(5) by (auto simp: published_def chan_open_def)
    then show ?thesis
      unfolding eq by (simp add: s1 core_inv_defs)
  next
    case (rejected e)
    then have "s' = recordError ErrorInvalidRequest ''publish'' s" using assms(2) by simp
    then show ?thesis by (simp add: chan_open_def)
  qed
  then show "core_inv s' = core_inv s" "s_connections s' = s_connections s" "s_subscribers s' = s_subscribers s"
    "s_next_chan s' = s_next_chan s" "chan_open s' c = chan_open s c"
    "s_tenantInvocations s' = s_tenantInvocations s" "s_quotas s' = s_quotas s" "s_cancelled s' = s_cancelled s"
    by blast+
qed

lemma core_inv_event_fields [simp]:
  "core_inv (s\<lparr>s_chans := a\<rparr>) = core_inv s" "core_inv (s\<lparr>s_next_chan := n\<rparr>) = core_inv s"
  "core_inv (s\<lparr>s_subscribers := u\<rparr>) = core_inv s"
  by (simp_all add: core_inv_defs)

lemma connections_chans: "s_connections (s\<lparr>s_chans := m\<rparr>) = s_connections s"
  by simp

lemma chan_recv_frame:
  assumes "chan_recv c s = (s', res)"
  shows "s' = s\<lparr>s_chans := s_chans s'\<rparr>"
  using assms by (auto simp: chan_recv_def split: option.splits list.splits if_splits)

lemma distinct_snd_remove1:
  assumes "distinct (map snd xs @ ys)" and "(t, c) \<in> set xs"
  shows "distinct (map snd (remove1 (t, c) xs) @ c # ys)"
    and "set (remove1 (t, c) xs) = set xs - {(t, c)}"
    and "\<And>t'. (t', c) \<in> set xs \<Longrightarrow> t' = t"
proof -
  have d: "distinct xs" "inj_on snd (set xs)"
    using assms(1) by (auto simp: distinct_map)
  then show r: "set (remove1 (t, c) xs) = set xs - {(t, c)}"
    by simp
  show u: "\<And>t'. (t', c) \<in> set xs \<Longrightarrow> t' = t"
    using d(2) assms(2) by (force simp: inj_on_def)
  have "distinct (map snd (remove1 (t, c) xs))"
    using d by (simp add: distinct_map inj_on_diff)
  moreover have "c \<notin> snd ` set (remove1 (t, c) xs)"
    using u by (auto simp: r)
  ultimately show "distinct (map snd (remove1 (t, c) xs) @ c # ys)"
    using assms by (auto simp: r)
qed

lemma subs_inv_subscribe:
  assumes inv: "event_inv s" and "subs_inv s subs closing" and "Subscribe s topic cur = (s', Inr (snap, c))"
  shows "subs_inv s' ((topic, c) # subs) closing"
proof -
  from assms(3) obtain k where c: "c = s_next_chan s"
    and s': "s' = s\<lparr>s_chans := AList.update c \<lparr>ch_buf = [], ch_closed = False\<rparr> (s_chans s),
       s_next_chan := Suc c, s_subscribers := AList.update topic (topic_subs s topic @ [c]) (s_subscribers s)\<rparr>"
    by (rule Subscribe_ok)
  have new: "\<And>t. c \<notin> set (topic_subs s t)" "\<not> chan_open s c"
    using fresh_not_subscribed [OF inv] fresh_chan [of s] inv
    by (simp_all add: c chan_open_def event_inv_def)
  then have "c \<notin> snd ` set subs" "c \<notin> set closing"
    using assms(2) by (auto simp: subs_inv_def)
  then show ?thesis
    using assms(2) new(1) unfolding s' subs_inv_def chan_open_subscribe
    by (auto simp: chan_open_def split: if_splits)
qed

lemma subs_inv_unsub:
  assumes "event_inv s" and "subs_inv s subs closing" and "(topic, c) \<in> set subs"
  shows "subs_inv (unsub_delete topic c s) (remove1 (topic, c) subs) (c # closing)"
proof -
  have d: "distinct (map snd subs @ closing)"
    using assms(2) by (simp add: subs_inv_def)
  have "chan_open s c"
    using assms by (auto simp: subs_inv_def event_inv_def subs_ok_def)
  then show ?thesis
    using assms(2) distinct_snd_remove1 [OF d assms(3)]
    by (auto simp: subs_inv_def topic_subs_unsub chan_open_def)
qed

lemma subs_inv_close:
  assumes "subs_inv s subs closing" and "c \<in> set closing" and "chan_close c s = Some s'"
  shows "subs_inv s' subs (remove1 c closing)"
proof -
  from assms(3) obtain ch where
    s': "s' = s\<lparr>s_chans := AList.update c (ch\<lparr>ch_closed := True\<rparr>) (s_chans s)\<rparr>"
    by (rule chan_close_Some)
  have "distinct closing"
    using assms(1) by (simp add: subs_inv_def)
  then show ?thesis
    using assms(1) by (auto simp: subs_inv_def s' chan_open_def)
qed

lemma closing_not_subscribed:
  "subs_inv s subs closing \<Longrightarrow> c \<in> set closing \<Longrightarrow> c \<notin> set (topic_subs s t)"
  by (force simp: subs_inv_def)

lemma subs_inv_recv:
  assumes "subs_inv s subs closing" and "chan_recv c s = (s', RecvEvent ev)"
  shows "subs_inv s' subs closing"
proof -
  from assms(2) obtain ch where ch: "map_of (s_chans s) c = Some ch"
    and s': "s' = s\<lparr>s_chans := AList.update c (ch\<lparr>ch_buf := backlog s' c\<rparr>) (s_chans s)\<rparr>"
    by (rule chan_recv_event)
  define b where "b = backlog s' c"
  have s'': "s' = s\<lparr>s_chans := AList.update c (ch\<lparr>ch_buf := b\<rparr>) (s_chans s)\<rparr>"
    using s' by (simp only: b_def)
  show ?thesis
    using assms(1) by (rule subs_inv_cong) (use ch in \<open>auto simp: s'' chan_open_def\<close>)
qed


lemma sys_inv_step:
  assumes "sys_step y a y'" and "sys_inv y"
  shows "sys_inv y'"
  using assms
proof (induction rule: sys_step.induct)
  case (step_call c y s)
  then show ?case
    using call_same_events [OF step_call.hyps] call_core_inv call_connections
    by (auto simp: sys_inv_def same_events_event_inv same_events_subs_inv)
next
  case (step_publish r y topic req s res)
  then have so: "subs_ok (y_svc y)" by (simp add: sys_inv_def event_inv_def)
  from step_publish show ?case
    using Publish_frame [OF so step_publish.hyps] event_inv_Publish [OF _ step_publish.hyps]
    by (auto simp: sys_inv_def intro: subs_inv_cong)
next
  case (step_subscribe y topic cur s snap c)
  then have "core_inv s" "s_connections s = s_connections (y_svc y)"
    by (auto simp: sys_inv_def elim: Subscribe_ok)
  then show ?case
    using step_subscribe subs_inv_subscribe event_inv_Subscribe by (auto simp: sys_inv_def)
next
  case (step_subscribe_error y topic cur s e)
  then have "s = recordError ErrorInvalidRequest ''subscribe'' (y_svc y)"
    by (blast dest: Subscribe_error_state)
  then show ?case
    using step_subscribe_error
    by (simp add: sys_inv_def same_events_subs_inv [OF same_events_recordError])
next
  case (step_receive topic c y s ev)
  then have "core_inv s \<and> s_connections s = s_connections (y_svc y)"
    by (metis chan_recv_frame sys_inv_def core_inv_event_fields(1) connections_chans)
  then show ?case
    using step_receive subs_inv_recv event_inv_recv by (auto simp: sys_inv_def)
next
  case (step_unsub topic c y)
  let ?s = "unsub_delete topic c (y_svc y)"
  have "core_inv ?s = core_inv (y_svc y)" "s_connections ?s = s_connections (y_svc y)"
    using unsub_delete_frame [of topic c "y_svc y"] by auto
  moreover have "subs_inv ?s (remove1 (topic, c) (y_subs y)) (c # y_closing y)"
    by (rule subs_inv_unsub) (use step_unsub in \<open>simp_all add: sys_inv_def\<close>)
  ultimately show ?case
    using step_unsub event_inv_unsub [of "y_svc y" topic c] by (simp add: sys_inv_def)
next
  case (step_close c y s)
  then have "event_inv s"
    using event_inv_close closing_not_subscribed unfolding sys_inv_def by blast
  moreover have "core_inv s" "s_connections s = s_connections (y_svc y)"
    using step_close by (auto simp: sys_inv_def elim: chan_close_Some)
  ultimately show ?case
    using step_close subs_inv_close by (auto simp: sys_inv_def)
next
  case (step_admit r y capability req actor prin s a)
  obtain m where "s = (y_svc y)\<lparr>s_metrics := m\<rparr>"
    using Invoke_admit_state [of r "y_svc y" capability req actor prin] step_admit.hyps by auto
  moreover have "same_events (y_svc y) s"
    using same_events_admit [of "y_svc y" r capability req actor prin] step_admit.hyps by simp
  moreover have "pending_ok p" if "a = Admitted p" for p
    using step_admit.hyps that Invoke_admit_pending_ok(1) by blast
  ultimately show ?case
    using step_admit.prems
    by (auto simp: sys_inv_def same_events_event_inv same_events_subs_inv split: admission.splits)
next
  case (step_finish p y r sel)
  have "s_connections (fst (Invoke_finish r sel p (y_svc y))) = s_connections (y_svc y)"
    by (cases sel) (simp_all add: Invoke_finish_SelResult, simp add: Invoke_finish_def)
  moreover have "pending_ok p"
    using step_finish by (simp add: sys_inv_def)
  ultimately show ?case
    using step_finish.prems same_events_finish [of "y_svc y" r sel p] core_inv_finish
    by (auto simp: sys_inv_def same_events_event_inv same_events_subs_inv
        dest: subsetD [OF set_remove1_subset])
qed

lemma sys_inv_init:
  assumes "sys_init y"
  shows "sys_inv y"
proof -
  from assms obtain connect openlog opts where new: "NewServiceWithOptions connect openlog opts = Inr (y_svc y)"
    and rest: "y_pending y = []" "y_subs y = []" "y_closing y = []"
    by (auto simp: sys_init_def)
  from new obtain nats log where
    s: "y_svc y = bootstrapDefaults (empty_service\<lparr>s_natsConn := nats, s_auditLog := log\<rparr>)"
    by (rule NewServiceWithOptions_cases)
  have "s_subscribers (y_svc y) = []" "s_connections (y_svc y) = []"
    by (simp_all add: s bootstrapDefaults_def empty_service_def)
  moreover have "event_inv (y_svc y)"
    unfolding s by (rule event_inv_new)
  ultimately show ?thesis
    using core_inv_new [OF new] rest by (simp add: sys_inv_def subs_inv_def)
qed

lemma sys_inv_run: "run sys_step y as y' \<Longrightarrow> sys_inv y \<Longrightarrow> sys_inv y'"
  using run_invariant [where I = sys_inv] sys_inv_step by blast

lemma reachable_inv: "reachable y \<Longrightarrow> sys_inv y"
  by (auto simp: reachable_def intro: sys_inv_init sys_inv_run)

subsection \<open>Panics\<close>

text \<open>
  The actions on which the Go code would panic: a send on a closed channel, closing a closed
  channel, slicing a short identifier.
\<close>

fun panics :: "System \<Rightarrow> action \<Rightarrow> bool" where
  "panics y (ACall c) \<longleftrightarrow> call c (y_svc y) = None"
| "panics y (APublish r topic req) \<longleftrightarrow> Publish r (y_svc y) topic req = None"
| "panics y (AClose c) \<longleftrightarrow> c \<in> set (y_closing y) \<and> chan_close c (y_svc y) = None"
| "panics y _ \<longleftrightarrow> False"

fun clock_ok :: "action \<Rightarrow> bool" where
  "clock_ok (ACall (SCreateOrg r _)) \<longleftrightarrow> entropy_ok (rt_rand r 0)"
| "clock_ok (ACall (SCreateTenant r _)) \<longleftrightarrow> entropy_ok (rt_rand r 0)"
| "clock_ok (ACall (SCreateGateway r _)) \<longleftrightarrow> entropy_ok (rt_rand r 0)"
| "clock_ok (ACall (SRegister r _)) \<longleftrightarrow> entropy_ok (rt_rand r 0)"
| "clock_ok _ \<longleftrightarrow> True"

lemma call_no_panic:
  assumes "clock_ok (ACall c)"
  shows "call c s \<noteq> None"
proof (cases c)
  case (SCreateOrg r x)
  with assms short_id_ok [of "rt_rand r 0"] show ?thesis
    by (auto simp: CreateOrg_def Let_def split: option.splits)
next
  case (SCreateTenant r x)
  with assms short_id_ok [of "rt_rand r 0"] show ?thesis
    by (auto simp: CreateTenant_def Let_def split: option.splits)
next
  case (SCreateGateway r x)
  with assms short_id_ok [of "rt_rand r 0"] show ?thesis
    by (auto simp: CreateGateway_def Let_def split: option.splits)
next
  case (SRegister r x)
  with assms RegisterConnection_total show ?thesis
    by (auto simp: option.map_disc_iff)
qed simp_all

lemma Publish_no_panic: "subs_ok s \<Longrightarrow> Publish r s topic req \<noteq> None"
  by (cases rule: Publish_cases [where r = r and req = req and topic = topic and s = s]) auto

text \<open>
  C4. Under every interleaving of publications, subscriptions, deliveries, unsubscriptions,
  invocations and administrative calls, no action panics: a channel taken out of the subscriber
  map is open until its owner closes it and is never sent to again, although it is closed only
  after the mutex has been released. The only other source of panics, slicing a generated
  identifier, is excluded as long as the clock behind the fallback identifier reads at least
  eight digits.
\<close>

theorem system_never_panics:
  assumes "reachable y" and "clock_ok a"
  shows "\<not> panics y a"
proof -
  have inv: "sys_inv y"
    using assms(1) by (rule reachable_inv)
  show ?thesis
  proof (cases a)
    case (ACall c)
    with assms(2) call_no_panic show ?thesis by simp
  next
    case (APublish r topic req)
    with inv Publish_no_panic show ?thesis by (simp add: sys_inv_def event_inv_def)
  next
    case (AClose c)
    with inv show ?thesis
      by (auto simp: sys_inv_def subs_inv_def chan_open_def chan_close_def)
  qed simp_all
qed

text \<open>
  C9. In every reachable state the usage counters agree with the audit trail, descriptors,
  organisations, tenants and gateways are stored under their identifiers with existing parents,
  at most 32 events are buffered per channel, and the channels registered for a topic are exactly
  those a live subscription reads from: none is leaked and none is shared.
\<close>

theorem system_consistent:
  assumes "reachable y"
  shows "(\<forall>t. mget0 (s_tenantInvocations (y_svc y)) t = i64 (int (length (AuditExport (y_svc y) t))) \<or> t = []) \<and>
    (\<forall>k x. map_of (s_tenants (y_svc y)) k = Some x \<longrightarrow> tn_ID x = k \<and> map_of (s_orgs (y_svc y)) (tn_OrgID x) \<noteq> None) \<and>
    (\<forall>k x. map_of (s_gateways (y_svc y)) k = Some x \<longrightarrow> gw_ID x = k \<and> map_of (s_tenants (y_svc y)) (gw_TenantID x) \<noteq> None) \<and>
    (\<forall>c ch. map_of (s_chans (y_svc y)) c = Some ch \<longrightarrow> length (ch_buf ch) \<le> 32) \<and>
    (\<forall>t c. c \<in> set (topic_subs (y_svc y) t) \<longleftrightarrow> (t, c) \<in> set (y_subs y)) \<and>
    distinct (map snd (y_subs y))"
proof -
  have inv: "sys_inv y"
    using assms by (rule reachable_inv)
  then have "meter_ok (y_svc y)" "cloud_ok (y_svc y)" "chans_ok (y_svc y)" "subs_inv (y_svc y) (y_subs y) (y_closing y)"
    by (simp_all add: sys_inv_def core_inv_def event_inv_def)
  then show ?thesis
    by (auto simp: meter_ok_def AuditExport_def count_tenant_def cloud_ok_def chans_ok_def
        chan_capacity_def subs_inv_def)
qed

subsection \<open>An interpreter for actions\<close>

text \<open>The step relation is deterministic in its label; this function computes it.\<close>

fun exec :: "action \<Rightarrow> System \<Rightarrow> System option" where
  "exec (ACall c) y = map_option (\<lambda>s. y\<lparr>y_svc := s\<rparr>) (call c (y_svc y))"
| "exec (APublish r topic req) y =
    map_option (\<lambda>(s, _). y\<lparr>y_svc := s\<rparr>) (Publish r (y_svc y) topic req)"
| "exec (ASubscribe topic cur) y =
    (case Subscribe (y_svc y) topic cur of
       (s, Inr (snap, c)) \<Rightarrow> Some (y\<lparr>y_svc := s, y_subs := (topic, c) # y_subs y\<rparr>)
     | (s, Inl _) \<Rightarrow> Some (y\<lparr>y_svc := s\<rparr>))"
| "exec (AReceive c ev) y =
    (if c \<in> snd ` set (y_subs y) \<and> snd (chan_recv c (y_svc y)) = RecvEvent ev
     then Some (y\<lparr>y_svc := fst (chan_recv c (y_svc y))\<rparr>) else None)"
| "exec (AUnsub topic c) y =
    (if (topic, c) \<in> set (y_subs y)
     then Some (y\<lparr>y_svc := unsub_delete topic c (y_svc y), y_subs := remove1 (topic, c) (y_subs y),
            y_closing := c # y_closing y\<rparr>)
     else None)"
| "exec (AClose c) y =
    (if c \<in> set (y_closing y)
     then map_option (\<lambda>s. y\<lparr>y_svc := s, y_closing := remove1 c (y_closing y)\<rparr>) (chan_close c (y_svc y))
     else None)"
| "exec (AAdmit r capability req actor prin) y =
    (case Invoke_admit r (y_svc y) capability req actor prin of
       (s, a) \<Rightarrow> Some (y\<lparr>y_svc := s,
         y_pending := (case a of Admitted p \<Rightarrow> p # y_pending y | _ \<Rightarrow> y_pending y)\<rparr>))"
| "exec (AFinish r sel p) y =
    (if p \<in> set (y_pending y)
     then Some (y\<lparr>y_svc := fst (Invoke_finish r sel p (y_svc y)), y_pending := remove1 p (y_pending y)\<rparr>)
     else None)"

fun execs :: "action list \<Rightarrow> System \<Rightarrow> System option" where
  "execs [] y = Some y"
| "execs (a # as) y = (case exec a y of None \<Rightarrow> None | Some y' \<Rightarrow> execs as y')"

lemma exec_sound:
  assumes "exec a y = Some y'"
  shows "sys_step y a y'"
proof (cases a)
  case (APublish r topic req)
  with assms show ?thesis by (auto intro: step_publish)
next
  case (ASubscribe topic cur)
  with assms show ?thesis
    by (auto split: prod.splits sum.splits intro: step_subscribe step_subscribe_error)
next
  case (AReceive c ev)
  with assms obtain t where "(t, c) \<in> set (y_subs y)" and rc: "snd (chan_recv c (y_svc y)) = RecvEvent ev"
    and y': "y' = y\<lparr>y_svc := fst (chan_recv c (y_svc y))\<rparr>"
    by (auto split: if_splits)
  then show ?thesis
    unfolding AReceive y' by (intro step_receive) (simp_all add: prod_eq_iff)
next
  case (AAdmit r capability req actor prin)
  with assms show ?thesis by (auto split: prod.splits intro: step_admit)
qed (use assms in \<open>auto intro: sys_step.intros split: if_splits\<close>)

lemma exec_complete: "sys_step y a y' \<Longrightarrow> exec a y = Some y'"
  by (induction rule: sys_step.induct) (auto simp: image_iff intro!: bexI)

lemma exec_iff: "sys_step y a y' \<longleftrightarrow> exec a y = Some y'"
  using exec_sound exec_complete by blast

lemma execs_run: "execs as y = Some y' \<longleftrightarrow> run sys_step y as y'"
  by (induction as arbitrary: y) (auto simp: run_step_iff exec_iff split: option.split)

subsection \<open>Requests as steps of the system\<close>

lemma reachable_run: "reachable y \<Longrightarrow> run sys_step y as y' \<Longrightarrow> reachable y'"
  by (auto simp: reachable_def intro: run_append)

lemma reachable_step: "reachable y \<Longrightarrow> sys_step y a y' \<Longrightarrow> reachable y'"
  by (rule reachable_run [where as = "[a]"]) (auto simp: run_step_iff)

lemma reachable_call: "reachable y \<Longrightarrow> call c (y_svc y) = Some s \<Longrightarrow> reachable (y\<lparr>y_svc := s\<rparr>)"
  by (erule reachable_step) (rule step_call)

text \<open>An invocation that nothing interrupts is an admission followed by its completion.\<close>

lemma reachable_Invoke:
  assumes "reachable y"
  shows "reachable (y\<lparr>y_svc := fst (Invoke r sel (y_svc y) capability req actor prin)\<rparr>)"
proof (cases "Invoke_admit r (y_svc y) capability req actor prin")
  case (Pair s a)
  note admit = reachable_step [OF assms step_admit [of r y capability req actor prin, OF Pair]]
  show ?thesis
  proof (cases a)
    case (Admitted p)
    let ?y = "y\<lparr>y_svc := s, y_pending := p # y_pending y\<rparr>"
    have "reachable ?y" and "p \<in> set (y_pending ?y)"
      using admit Admitted by simp_all
    from reachable_step [OF this(1) step_finish [OF this(2), of r sel]] show ?thesis
      using Pair Admitted by (simp add: Invoke_def)
  qed (use admit Pair in \<open>simp_all add: Invoke_def\<close>)
qed

lemma reachable_Publish:
  "reachable y \<Longrightarrow> Publish r (y_svc y) topic req = Some (s, res) \<Longrightarrow> reachable (y\<lparr>y_svc := s\<rparr>)"
  by (erule reachable_step) (rule step_publish)

lemma reachable_same [simp]: "reachable y \<Longrightarrow> reachable (y\<lparr>y_svc := y_svc y\<rparr>)"
  by simp

lemma reachable_Publish_total:
  assumes "reachable y"
  obtains s res where "Publish r (y_svc y) topic req = Some (s, res)" "reachable (y\<lparr>y_svc := s\<rparr>)"
proof -
  have "subs_ok (y_svc y)"
    using reachable_inv [OF assms] by (simp add: sys_inv_def event_inv_def)
  with Publish_no_panic obtain s res where "Publish r (y_svc y) topic req = Some (s, res)"
    by fastforce
  with reachable_Publish [OF assms] show thesis by (blast intro: that)
qed

lemmas reachable_calls =
  reachable_call [where c = "SDiscover r q p" for r q p, simplified]
  reachable_call [where c = "SCancel r q m" for r q m, simplified]
  reachable_call [where c = "SHeartbeat r q" for r q, simplified]

subsection \<open>Witnesses\<close>

definition demo_system :: System where
  "demo_system = \<lparr>y_svc = bootstrapDefaults empty_service, y_pending = [], y_subs = [], y_closing = []\<rparr>"

definition anon_invoke :: InvokeRequest where
  "anon_invoke = demo_invoke\<lparr>iq_Header := zero_header\<lparr>h_TenantID := ''acme''\<rparr>\<rparr>"

definition demo_pending :: Pending where
  "demo_pending = (case Invoke_admit demo_rt (bootstrapDefaults empty_service) [] anon_invoke ''u'' AnonymousPrincipal of
     (_, Admitted p) \<Rightarrow> p)"

definition demo_quota :: action where
  "demo_quota = ACall (SSetQuota \<lparr>qr_TenantID = ''acme'', qr_MaxInvocations = 1\<rparr>)"

definition demo_admit :: action where
  "demo_admit = AAdmit demo_rt [] anon_invoke ''u'' AnonymousPrincipal"

definition demo_finish :: action where
  "demo_finish = AFinish demo_rt SelResult demo_pending"

lemma demo_system_init: "sys_init demo_system"
proof -
  have "NewServiceWithOptions (\<lambda>_. None) (\<lambda>_. None) \<lparr>so_NATSURL = [], so_AuditLogPath = []\<rparr> =
      Inr (bootstrapDefaults empty_service)"
    by (simp add: NewServiceWithOptions_def Let_def)
  then show ?thesis
    unfolding sys_init_def demo_system_def by auto
qed

lemma reachable_execs: "execs as demo_system = Some y \<Longrightarrow> reachable y"
  unfolding reachable_def execs_run using demo_system_init by blast

lemma reachable_demo: "reachable demo_system"
  by (rule reachable_execs [of "[]"]) simp

definition demo_state :: System where
  "demo_state = the (execs [demo_admit, demo_finish, ASubscribe ''a.b'' [], APublish demo_rt [] demo_publish] demo_system)"

definition demo_event :: EventMessage where
  "demo_event = hd (topic_log (y_svc demo_state) ''a.b'')"

definition demo_received :: System where
  "demo_received = the (execs [AReceive 0 demo_event] demo_state)"

lemma demo_state_reachable: "reachable demo_state"
proof (rule reachable_execs)
  show "execs [demo_admit, demo_finish, ASubscribe ''a.b'' [], APublish demo_rt [] demo_publish] demo_system =
      Some demo_state"
    by code_simp
qed

lemma demo_received_run: "run sys_step demo_state [AReceive 0 demo_event] demo_received"
  unfolding execs_run [symmetric] by code_simp

theorem system_never_panics_witness: "\<not> panics demo_state (APublish demo_rt [] demo_publish)"
  using system_never_panics [OF demo_state_reachable, of "APublish demo_rt [] demo_publish"] by simp

theorem system_consistent_witness:
  "s_audit (y_svc demo_state) \<noteq> [] \<and>
   mget0 (s_tenantInvocations (y_svc demo_state)) ''acme'' = i64 (int (length (AuditExport (y_svc demo_state) ''acme'')))"
proof -
  have "s_audit (y_svc demo_state) \<noteq> []"
    by code_simp
  then show ?thesis
    using system_consistent [OF demo_state_reachable] by blast
qed

end
