(* ===== verification/Mig_Delivery.thy ===== *)
theory Mig_Delivery
  imports Mig_System
begin

text \<open>
  What a subscriber of the concurrent gateway sees. The locales \<open>feed\<close> and \<open>lossless_feed\<close> state what a
  subscriber relies on; they are interpreted on the step relation, with the topic log as what is
  written and the channel as the buffer.
\<close>

subsection \<open>What a subscriber sees\<close>

text \<open>
  The contract between the broker and a reader of one channel: a step appends to the log, puts
  some of what it appended at the end of the buffer, in order, and hands over what it delivers
  from the front of the buffer.
\<close>

locale feed =
  fixes step :: "'s \<Rightarrow> 'a \<Rightarrow> 's \<Rightarrow> bool" and log :: "'s \<Rightarrow> 'e list" and buf :: "'s \<Rightarrow> 'e list"
    and got :: "'a \<Rightarrow> 'e list" and live :: "'s \<Rightarrow> bool"
  assumes live_step: "step s a s' \<Longrightarrow> live s \<Longrightarrow> live s'"
    and feed_step: "step s a s' \<Longrightarrow> live s \<Longrightarrow>
      \<exists>new kept. log s' = log s @ new \<and> subseq kept new \<and> buf s @ kept = got a @ buf s'"
begin

lemma delivered_in_order:
  assumes "run step s as s'" and "live s"
  shows "\<exists>new kept. log s' = log s @ new \<and> subseq kept new \<and> buf s @ kept = concat (map got as) @ buf s'"
  using assms
proof (induction rule: run.induct)
  case (run_nil s)
  show ?case by (intro exI [of _ "[]"]) simp
next
  case (run_step s a s' as s'')
  from feed_step [OF run_step.hyps(1) run_step.prems] obtain n1 k1
    where 1: "log s' = log s @ n1" "subseq k1 n1" "buf s @ k1 = got a @ buf s'"
    by blast
  from run_step.IH live_step [OF run_step.hyps(1) run_step.prems] obtain n2 k2
    where 2: "log s'' = log s' @ n2" "subseq k2 n2" "buf s' @ k2 = concat (map got as) @ buf s''"
    by blast
  have "buf s @ (k1 @ k2) = concat (map got (a # as)) @ buf s''"
    using 1(3) 2(3) by (metis append_assoc concat.simps(2) list.simps(9))
  moreover have "subseq (k1 @ k2) (n1 @ n2)"
    using 1(2) 2(2) by (rule list_emb_append_mono)
  ultimately show ?case
    using 1(1) 2(1) by (intro exI [of _ "n1 @ n2"] exI [of _ "k1 @ k2"]) simp
qed

end

text \<open>While the buffer has room, everything appended is kept.\<close>

locale lossless_feed = feed +
  fixes cap :: nat
  assumes keeps_with_room: "step s a s' \<Longrightarrow> live s \<Longrightarrow> length (buf s) < cap \<Longrightarrow> log s' = log s @ new \<Longrightarrow>
      buf s @ new = got a @ buf s'"
begin

lemma nothing_lost:
  assumes "run step s as s'" and "live s" and "length (log s') + length (buf s) \<le> length (log s) + cap"
  shows "concat (map got as) @ buf s' = buf s @ drop (length (log s)) (log s')"
  using assms
proof (induction rule: run.induct)
  case (run_step s a s' as s'')
  from feed_step [OF run_step.hyps(1) run_step.prems(1)] obtain new kept
    where 1: "log s' = log s @ new" "subseq kept new" "buf s @ kept = got a @ buf s'"
    by blast
  have live': "live s'"
    using live_step [OF run_step.hyps(1) run_step.prems(1)] .
  from delivered_in_order [OF run_step.hyps(2) live'] obtain n2
    where 2: "log s'' = log s' @ n2" by blast
  have kept: "buf s @ new = got a @ buf s'"
  proof (cases "new = []")
    case True
    with 1 show ?thesis by (auto dest: list_emb_Nil2)
  next
    case False
    with run_step.prems(2) 1(1) 2 have "length (buf s) < cap"
      by (cases new) auto
    from keeps_with_room [OF run_step.hyps(1) run_step.prems(1) this 1(1)] show ?thesis .
  qed
  then have "length (buf s') \<le> length (buf s) + length new"
    by (metis le_add2 length_append)
  then have "concat (map got as) @ buf s'' = buf s' @ drop (length (log s')) (log s'')"
    using run_step.IH [OF live'] run_step.prems(2) 1(1) by simp
  then show ?case
    using kept 1(1) 2 by simp
qed simp

end


fun received :: "nat \<Rightarrow> action \<Rightarrow> EventMessage list" where
  "received c (AReceive d ev) = (if d = c then [ev] else [])"
| "received c _ = []"

definition feed_quiet :: "nat \<Rightarrow> System \<Rightarrow> action \<Rightarrow> System \<Rightarrow> bool" where
  "feed_quiet c y a y' \<longleftrightarrow> topic_log (y_svc y') = topic_log (y_svc y) \<and>
     received c a @ backlog (y_svc y') c = backlog (y_svc y) c"

definition feed_news :: "nat \<Rightarrow> System \<Rightarrow> action \<Rightarrow> System \<Rightarrow> bool" where
  "feed_news c y a y' \<longleftrightarrow> received c a = [] \<and>
     (\<exists>t ev. topic_log (y_svc y') = (topic_log (y_svc y))(t := topic_log (y_svc y) t @ [ev]) \<and>
       backlog (y_svc y') c =
         (if c \<in> set (topic_subs (y_svc y) t) \<and> length (backlog (y_svc y) c) < chan_capacity
          then backlog (y_svc y) c @ [ev] else backlog (y_svc y) c))"

lemma same_events_quiet:
  "same_events (y_svc y) (y_svc y') \<Longrightarrow> received c a = [] \<Longrightarrow> feed_quiet c y a y'"
  by (simp add: feed_quiet_def same_events_def backlog_def)

lemma step_feed:
  assumes "sys_step y a y'" and "sys_inv y" and "c \<noteq> s_next_chan (y_svc y)"
  shows "feed_quiet c y a y' \<or> feed_news c y a y'"
  using assms
proof (induction rule: sys_step.induct)
  case (step_call cl y s)
  then show ?case using call_same_events same_events_quiet by simp
next
  case (step_publish r y topic req s res)
  then have inv: "event_inv (y_svc y)" and so: "subs_ok (y_svc y)"
    by (simp_all add: sys_inv_def event_inv_def)
  from so show ?case
  proof (cases rule: Publish_cases [where r = r and req = req and topic = topic])
    case (accepted s1 head t)
    then have "s = s1" using step_publish.hyps by simp
    with accepted(5) backlog_published [OF accepted(5) inv, of c]
    have "feed_news c y (APublish r topic req) (y\<lparr>y_svc := s\<rparr>)"
      unfolding feed_news_def published_def event_of_sel
      by (intro conjI exI [of _ t] exI [of _ "event_of r (y_svc y) t head (pq_Payload req)"]) simp_all
    then show ?thesis ..
  next
    case (rejected e)
    then have "s = recordError ErrorInvalidRequest ''publish'' (y_svc y)"
      using step_publish.hyps by simp
    then show ?thesis using same_events_quiet [of y "y\<lparr>y_svc := s\<rparr>"] by simp
  qed
next
  case (step_subscribe y topic cur s snap d)
  then have "d = s_next_chan (y_svc y)" "s = (y_svc y)\<lparr>s_chans := AList.update d \<lparr>ch_buf = [], ch_closed = False\<rparr> (s_chans (y_svc y)),
       s_next_chan := Suc d, s_subscribers := AList.update topic (topic_subs (y_svc y) topic @ [d]) (s_subscribers (y_svc y))\<rparr>"
    by (auto elim: Subscribe_ok)
  then show ?case
    using step_subscribe.prems by (simp add: feed_quiet_def backlog_def)
next
  case (step_subscribe_error y topic cur s e)
  then have "s = recordError ErrorInvalidRequest ''subscribe'' (y_svc y)"
    by (blast dest: Subscribe_error_state)
  then show ?case using same_events_quiet [of y "y\<lparr>y_svc := s\<rparr>"] by simp
next
  case (step_receive topic d y s ev)
  from step_receive.hyps(2) obtain ch where ch: "map_of (s_chans (y_svc y)) d = Some ch" "ch_buf ch = ev # backlog s d"
    and s: "s = (y_svc y)\<lparr>s_chans := AList.update d (ch\<lparr>ch_buf := backlog s d\<rparr>) (s_chans (y_svc y))\<rparr>"
    by (rule chan_recv_event)
  define b where "b = backlog s d"
  have s': "s = (y_svc y)\<lparr>s_chans := AList.update d (ch\<lparr>ch_buf := b\<rparr>) (s_chans (y_svc y))\<rparr>"
    using s by (simp only: b_def)
  have "ch_buf ch = ev # b"
    using ch(2) by (simp add: b_def)
  then show ?case
    using ch(1) unfolding feed_quiet_def by (auto simp: s' backlog_def)
next
  case (step_unsub topic d y)
  show ?case by (simp add: feed_quiet_def backlog_def)
next
  case (step_close d y s)
  from step_close.hyps(2) obtain ch where "map_of (s_chans (y_svc y)) d = Some ch"
    "s = (y_svc y)\<lparr>s_chans := AList.update d (ch\<lparr>ch_closed := True\<rparr>) (s_chans (y_svc y))\<rparr>"
    by (rule chan_close_Some)
  then show ?case by (simp add: feed_quiet_def backlog_def)
next
  case (step_admit r y capability req actor prin s a)
  then have "same_events (y_svc y) s"
    using same_events_admit [of "y_svc y" r capability req actor prin] by simp
  then show ?case using same_events_quiet by simp
next
  case (step_finish p y r sel)
  then show ?case using same_events_finish same_events_quiet by simp
qed

text \<open>A channel never changes topic: it is attached once, when it is made.\<close>

definition attached_only :: "string \<Rightarrow> nat \<Rightarrow> System \<Rightarrow> bool" where
  "attached_only t c y \<longleftrightarrow> sys_inv y \<and> c < s_next_chan (y_svc y) \<and> (\<forall>t'. t' \<noteq> t \<longrightarrow> c \<notin> set (topic_subs (y_svc y) t'))"

lemma step_subs:
  assumes "sys_step y a y'" and "sys_inv y" and "c < s_next_chan (y_svc y)"
  shows "s_next_chan (y_svc y) \<le> s_next_chan (y_svc y') \<and>
    (\<forall>t. c \<in> set (topic_subs (y_svc y') t) \<longleftrightarrow> c \<in> set (topic_subs (y_svc y) t) \<and> a \<noteq> AUnsub t c)"
  using assms
proof (induction rule: sys_step.induct)
  case (step_call cl y s)
  then show ?case using call_same_events by (auto simp: same_events_def)
next
  case (step_publish r y topic req s res)
  then show ?case using Publish_frame by (auto simp: sys_inv_def event_inv_def)
next
  case (step_subscribe y topic cur s snap d)
  then show ?case by (auto elim!: Subscribe_ok split: if_splits)
next
  case (step_subscribe_error y topic cur s e)
  then show ?case by (auto dest: Subscribe_error_state)
next
  case (step_receive topic d y s ev)
  then obtain m where "s = (y_svc y)\<lparr>s_chans := m\<rparr>" by (blast dest: chan_recv_frame)
  then show ?case by simp
next
  case (step_unsub topic d y)
  then show ?case by (auto simp: topic_subs_unsub)
next
  case (step_close d y s)
  then show ?case by (auto elim: chan_close_Some)
next
  case (step_admit r y capability req actor prin s a)
  then show ?case
    using same_events_admit [of "y_svc y" r capability req actor prin] by (auto simp: same_events_def)
next
  case (step_finish p y r sel)
  then show ?case using same_events_finish [of "y_svc y" r sel p] by (auto simp: same_events_def)
qed

lemma attached_only_step: "sys_step y a y' \<Longrightarrow> attached_only t c y \<Longrightarrow> attached_only t c y'"
  unfolding attached_only_def using step_subs sys_inv_step by (metis order_less_le_trans)


interpretation topic_feed: feed sys_step "\<lambda>y. topic_log (y_svc y) t" "\<lambda>y. backlog (y_svc y) c" "received c"
    "attached_only t c" for t c
proof
  fix y a y'
  assume step: "sys_step y a y'" and live: "attached_only t c y"
  show "attached_only t c y'"
    using step live by (rule attached_only_step)
  have "feed_quiet c y a y' \<or> feed_news c y a y'"
    using step_feed [OF step] live by (simp add: attached_only_def)
  then show "\<exists>new kept. topic_log (y_svc y') t = topic_log (y_svc y) t @ new \<and> subseq kept new \<and>
      backlog (y_svc y) c @ kept = received c a @ backlog (y_svc y') c"
  proof
    assume "feed_quiet c y a y'"
    then show ?thesis by (intro exI [of _ "[]"]) (simp add: feed_quiet_def)
  next
    assume "feed_news c y a y'"
    then obtain t0 ev where n: "received c a = []"
      "topic_log (y_svc y') = (topic_log (y_svc y))(t0 := topic_log (y_svc y) t0 @ [ev])"
      "backlog (y_svc y') c =
         (if c \<in> set (topic_subs (y_svc y) t0) \<and> length (backlog (y_svc y) c) < chan_capacity
          then backlog (y_svc y) c @ [ev] else backlog (y_svc y) c)"
      by (auto simp: feed_news_def)
    let ?new = "if t0 = t then [ev] else []"
    let ?kept = "if c \<in> set (topic_subs (y_svc y) t0) \<and> length (backlog (y_svc y) c) < chan_capacity
      then [ev] else []"
    have "topic_log (y_svc y') t = topic_log (y_svc y) t @ ?new"
      using n(2) by (auto simp: fun_eq_iff)
    moreover have "subseq ?kept ?new"
      using live by (auto simp: attached_only_def)
    moreover have "backlog (y_svc y) c @ ?kept = received c a @ backlog (y_svc y') c"
      by (simp add: n(1,3))
    ultimately show ?thesis by blast
  qed
qed

text \<open>The same channel while its owner does not unsubscribe.\<close>

definition kept_step :: "string \<Rightarrow> nat \<Rightarrow> System \<Rightarrow> action \<Rightarrow> System \<Rightarrow> bool" where
  "kept_step t c y a y' \<longleftrightarrow> sys_step y a y' \<and> a \<noteq> AUnsub t c"

definition attached :: "string \<Rightarrow> nat \<Rightarrow> System \<Rightarrow> bool" where
  "attached t c y \<longleftrightarrow> attached_only t c y \<and> c \<in> set (topic_subs (y_svc y) t)"

interpretation kept_feed: lossless_feed "kept_step t c" "\<lambda>y. topic_log (y_svc y) t"
    "\<lambda>y. backlog (y_svc y) c" "received c" "attached t c" chan_capacity for t c
proof
  fix y a y' new
  assume k: "kept_step t c y a y'" and live: "attached t c y"
  then have step: "sys_step y a y'" and only: "attached_only t c y"
    by (simp_all add: kept_step_def attached_def)
  show "attached t c y'"
    using attached_only_step [OF step only] step_subs [OF step, of c] only k live
    by (simp add: attached_def kept_step_def attached_only_def)
  show "\<exists>new kept. topic_log (y_svc y') t = topic_log (y_svc y) t @ new \<and> subseq kept new \<and>
      backlog (y_svc y) c @ kept = received c a @ backlog (y_svc y') c"
    using step only by (rule topic_feed.feed_step)
  assume room: "length (backlog (y_svc y) c) < chan_capacity"
    and new: "topic_log (y_svc y') t = topic_log (y_svc y) t @ new"
  have "feed_quiet c y a y' \<or> feed_news c y a y'"
    using step_feed [OF step] only by (simp add: attached_only_def)
  then show "backlog (y_svc y) c @ new = received c a @ backlog (y_svc y') c"
  proof
    assume "feed_quiet c y a y'"
    with new show ?thesis by (simp add: feed_quiet_def)
  next
    assume "feed_news c y a y'"
    then obtain t0 ev where "received c a = []" and
      log: "topic_log (y_svc y') = (topic_log (y_svc y))(t0 := topic_log (y_svc y) t0 @ [ev])" and
      "backlog (y_svc y') c =
         (if c \<in> set (topic_subs (y_svc y) t0) then backlog (y_svc y) c @ [ev] else backlog (y_svc y) c)"
      using room by (auto simp: feed_news_def)
    moreover have "new = (if t0 = t then [ev] else [])"
      using fun_cong [OF log, of t] new by (auto split: if_splits)
    moreover have "c \<in> set (topic_subs (y_svc y) t0) \<longleftrightarrow> t0 = t"
      using live by (auto simp: attached_def attached_only_def)
    ultimately show ?thesis by simp
  qed
qed

lemma subscribed_attached:
  assumes "sys_inv y" and "(t, c) \<in> set (y_subs y)"
  shows "attached t c y"
proof -
  have c: "c \<in> set (topic_subs (y_svc y) t)"
    using assms by (simp add: sys_inv_def subs_inv_def)
  then have "chan_open (y_svc y) c"
    using assms(1) unfolding sys_inv_def event_inv_def subs_ok_def by blast
  then have "c < s_next_chan (y_svc y)"
    using assms(1) unfolding sys_inv_def event_inv_def chans_ok_def chan_open_def by blast
  moreover have "c \<notin> set (topic_subs (y_svc y) t')" if "t' \<noteq> t" for t'
    using assms(1) c that unfolding sys_inv_def event_inv_def subs_ok_def by blast
  ultimately show ?thesis
    using assms(1) c by (simp add: attached_def attached_only_def)
qed


text \<open>
  C15. Whatever else the gateway does, a subscriber receives events of its topic in the order of the
  topic's log and none twice: what it has received, followed by what its channel still buffers,
  extends what was buffered by a subsequence of the events published meanwhile.
\<close>

theorem delivery_in_order:
  assumes "reachable y" and "(t, c) \<in> set (y_subs y)" and "run sys_step y as y'"
  shows "\<exists>new kept. topic_log (y_svc y') t = topic_log (y_svc y) t @ new \<and> subseq kept new \<and>
    concat (map (received c) as) @ backlog (y_svc y') c = backlog (y_svc y) c @ kept"
proof -
  have "attached_only t c y"
    using subscribed_attached [OF reachable_inv [OF assms(1)] assms(2)] by (simp add: attached_def)
  from topic_feed.delivered_in_order [OF assms(3) this] show ?thesis
    by metis
qed

lemma Subscribe_step:
  assumes "sys_step y (ASubscribe t cur) y1" and "Subscribe (y_svc y) t cur = (s, Inr (snap, c))"
  shows "y1 = y\<lparr>y_svc := s, y_subs := (t, c) # y_subs y\<rparr>"
  using assms by (auto elim: step_subscribeE)


subsection \<open>Witnesses\<close>

theorem delivery_in_order_witness:
  "\<exists>new kept. topic_log (y_svc demo_received) ''a.b'' = topic_log (y_svc demo_state) ''a.b'' @ new \<and>
     subseq kept new \<and>
     concat (map (received 0) [AReceive 0 demo_event]) @ backlog (y_svc demo_received) 0 =
       backlog (y_svc demo_state) 0 @ kept"
proof -
  have "(''a.b'', 0) \<in> set (y_subs demo_state)"
    by code_simp
  from delivery_in_order [OF demo_state_reachable this demo_received_run] show ?thesis .
qed


end
