(* ===== verification/Mig_Accounting.thy ===== *)
theory Mig_Accounting
  imports Mig_Delivery
begin

text \<open>
  What the concurrent gateway keeps account of: how far concurrent invocations can exceed a quota,
  cancellations that are never undone, and logs that only grow.
\<close>

subsection \<open>Quotas under concurrency\<close>

definition inflight :: "System \<Rightarrow> string \<Rightarrow> nat" where
  "inflight y t = length (filter (\<lambda>p. h_TenantID (pd_Header p) = t) (y_pending y))"

abbreviation used :: "System \<Rightarrow> string \<Rightarrow> int" where
  "used y t \<equiv> mget0 (s_tenantInvocations (y_svc y)) t"

abbreviation quota :: "System \<Rightarrow> string \<Rightarrow> int option" where
  "quota y t \<equiv> map_of (s_quotas (y_svc y)) t"

text \<open>Steps that keep the quota of a tenant and have at most \<open>M\<close> of its invocations in flight.\<close>

definition quota_step :: "nat \<Rightarrow> string \<Rightarrow> System \<Rightarrow> action \<Rightarrow> System \<Rightarrow> bool" where
  "quota_step M t y a y' \<longleftrightarrow> sys_step y a y' \<and> inflight y' t \<le> M \<and>
     (\<forall>q. a = ACall (SSetQuota q) \<longrightarrow> qr_TenantID q \<noteq> t)"

lemma call_metering:
  assumes "call c s = Some s'"
  shows "s_tenantInvocations s' = s_tenantInvocations s \<and> s_audit s' = s_audit s \<and>
    ((\<forall>q. c = SSetQuota q \<longrightarrow> qr_TenantID q \<noteq> t) \<longrightarrow> map_of (s_quotas s') t = map_of (s_quotas s) t) \<and>
    dom (map_of (s_cancelled s)) \<subseteq> dom (map_of (s_cancelled s'))"
proof (cases c)
  case (SStartNATS r subscribe)
  have "s_tenantInvocations (fst (StartNATSBinding r subscribe s)) = s_tenantInvocations s \<and>
      s_audit (fst (StartNATSBinding r subscribe s)) = s_audit s \<and>
      s_quotas (fst (StartNATSBinding r subscribe s)) = s_quotas s \<and>
      s_cancelled (fst (StartNATSBinding r subscribe s)) = s_cancelled s"
    by (rule StartNATSBinding_state_rule) simp_all
  with assms SStartNATS show ?thesis by simp
qed (use assms in \<open>auto simp: Discover_def Cancel_def Heartbeat_def AddCapability_def
      AddSchema_def SetQuota_def Close_def SetMetrics_def CreateOrg_def CreateTenant_def
      CreateGateway_def RegisterConnection_def unregister_def Let_def
      split: sum.splits option.splits if_splits\<close>)

text \<open>How a step changes what the quota check reads.\<close>

definition same_meter :: "Service \<Rightarrow> Service \<Rightarrow> bool" where
  "same_meter s s' \<longleftrightarrow> s_tenantInvocations s' = s_tenantInvocations s \<and> s_quotas s' = s_quotas s \<and>
     s_cancelled s' = s_cancelled s \<and> s_audit s' = s_audit s"

lemma same_meter_recordError [simp]: "same_meter s (recordError c p s)"
  by (simp add: same_meter_def)

lemma same_meter_admit: "same_meter s (fst (Invoke_admit r s capability req actor prin))"
  by (rule Invoke_admit_state_rule) (simp_all add: same_meter_def)

lemma Publish_audit:
  assumes "subs_ok s" and "Publish r s topic req = Some (s', res)"
  shows "s_audit s' = s_audit s"
  using assms(1)
proof (cases rule: Publish_cases [where r = r and req = req and topic = topic])
  case (accepted s1 head t)
  then have "s' = s\<lparr>s_events := s_events s1, s_chans := s_chans s1, s_natsConn := s_natsConn s1\<rparr>"
    using assms(2) by simp
  then show ?thesis by simp
next
  case (rejected e)
  then show ?thesis using assms(2) by auto
qed

lemma step_metering:
  assumes "sys_step y a y'" and "sys_inv y" and "\<And>r sel p. a \<noteq> AFinish r sel p"
  shows "s_tenantInvocations (y_svc y') = s_tenantInvocations (y_svc y) \<and> s_audit (y_svc y') = s_audit (y_svc y) \<and>
    ((\<forall>q. a = ACall (SSetQuota q) \<longrightarrow> qr_TenantID q \<noteq> t) \<longrightarrow> quota y' t = quota y t) \<and>
    dom (map_of (s_cancelled (y_svc y))) \<subseteq> dom (map_of (s_cancelled (y_svc y')))"
  using assms
proof (induction rule: sys_step.induct)
  case (step_call c y s)
  then show ?case using call_metering [OF step_call.hyps, of t] by simp
next
  case (step_publish r y topic req s res)
  then have so: "subs_ok (y_svc y)"
    by (simp add: sys_inv_def event_inv_def)
  then show ?case
    using Publish_frame [OF so step_publish.hyps] Publish_audit [OF so step_publish.hyps] by simp
next
  case (step_subscribe y topic cur s snap c)
  then show ?case by (auto elim: Subscribe_ok)
next
  case (step_subscribe_error y topic cur s e)
  then show ?case by (auto dest: Subscribe_error_state)
next
  case (step_receive topic c y s ev)
  then obtain m where "s = (y_svc y)\<lparr>s_chans := m\<rparr>"
    by (blast dest: chan_recv_frame)
  then show ?case by simp
next
  case (step_unsub topic c y)
  then show ?case using unsub_delete_frame [of topic c "y_svc y"] by auto
next
  case (step_close c y s)
  then show ?case by (auto elim: chan_close_Some)
next
  case (step_admit r y capability req actor prin s a)
  then show ?case
    using same_meter_admit [of "y_svc y" r capability req actor prin] by (simp add: same_meter_def)
next
  case (step_finish p y r sel)
  then show ?case by blast
qed

lemma length_filter_remove1:
  "x \<in> set xs \<Longrightarrow> length (filter P xs) = length (filter P (remove1 x xs)) + (if P x then 1 else 0)"
  by (induction xs) auto

lemma admit_within_quota:
  assumes "Invoke_admit r s capability req actor prin = (s', Admitted p)"
    and "map_of (s_quotas s) (h_TenantID (pd_Header p)) = Some q"
  shows "mget0 (s_tenantInvocations s) (h_TenantID (pd_Header p)) < q"
  using Invoke_admit_pending_ok(6) [OF assms(1)] assms(2) by (simp add: over_quota_def)

lemma quota_step_bound:
  assumes step: "quota_step M t y a y'" and inv: "sys_inv y" and q: "quota y t = Some q"
    and M: "1 \<le> M" "q + int M \<le> 2 ^ 63" and bound: "used y t + int (inflight y t) < q + int M"
  shows "used y' t + int (inflight y' t) < q + int M \<and> quota y' t = Some q"
proof (cases "\<exists>r sel p. a = AFinish r sel p")
  case True
  then obtain r sel p where a: "a = AFinish r sel p" by blast
  with step have p: "p \<in> set (y_pending y)"
    and y': "y' = y\<lparr>y_svc := fst (Invoke_finish r sel p (y_svc y)), y_pending := remove1 p (y_pending y)\<rparr>"
    by (auto simp: quota_step_def elim: step_finishE)
  let ?P = "\<lambda>p. h_TenantID (pd_Header p) = t"
  have infl: "inflight y t = inflight y' t + (if ?P p then 1 else 0)"
    using length_filter_remove1 [OF p, of ?P] by (simp add: inflight_def y')
  show ?thesis
  proof (cases sel)
    case SelDeadline
    then have "used y' t = used y t" "quota y' t = quota y t"
      by (simp_all add: y' Invoke_finish_def)
    with infl bound q show ?thesis by simp
  next
    case SelResult
    have "in_i64 (used y t)"
      using inv i64_range by (simp add: sys_inv_def core_inv_def meter_ok_def)
    then have "i64 (used y t + 1) = used y t + 1" if "?P p"
      using infl bound M that by (intro i64_id) (simp add: in_i64_def)
    then have "used y' t = used y t + (if ?P p then 1 else 0)"
      by (auto simp: y' SelResult Invoke_finish_SelResult)
    moreover have "quota y' t = quota y t"
      by (simp add: y' SelResult Invoke_finish_SelResult)
    ultimately show ?thesis using infl bound q by (auto split: if_splits)
  qed
next
  case False
  from step have st: "sys_step y a y'" and le: "inflight y' t \<le> M"
    and nq: "\<forall>q. a = ACall (SSetQuota q) \<longrightarrow> qr_TenantID q \<noteq> t"
    by (simp_all add: quota_step_def)
  have same: "used y' t = used y t" "quota y' t = quota y t"
    using step_metering [OF st inv, of t] False nq by auto
  have "inflight y' t = inflight y t \<or> used y t < q"
    using st
  proof (cases rule: sys_step.cases)
    case (step_admit r capability req actor prin s adm)
    then show ?thesis
      using admit_within_quota [of r "y_svc y" capability req actor prin s] q
      by (cases adm) (auto simp: inflight_def)
  qed (use False in \<open>simp_all add: inflight_def\<close>)
  then show ?thesis
    using same le bound q by auto
qed

lemma quota_run_bound:
  assumes "run (quota_step M t) y as y'" and "sys_inv y" and "quota y t = Some q"
    and "1 \<le> M" "q + int M \<le> 2 ^ 63" and "used y t + int (inflight y t) < q + int M"
  shows "used y' t + int (inflight y' t) < q + int M"
  using assms
proof (induction rule: run.induct)
  case (run_step y a y' as y'')
  from quota_step_bound [OF run_step.hyps(1) run_step.prems] run_step show ?case
    by (auto simp: quota_step_def intro: sys_inv_step)
qed simp


subsection \<open>Cancellation and history\<close>

lemma step_history:
  assumes "sys_step y a y'" and "sys_inv y"
  shows "prefix (s_audit (y_svc y)) (s_audit (y_svc y')) \<and>
    dom (map_of (s_cancelled (y_svc y))) \<subseteq> dom (map_of (s_cancelled (y_svc y')))"
proof (cases "\<exists>r sel p. a = AFinish r sel p")
  case True
  then obtain r sel p where "a = AFinish r sel p" by blast
  with assms(1) have "y_svc y' = fst (Invoke_finish r sel p (y_svc y))"
    by (auto elim: step_finishE)
  then show ?thesis
    by (cases sel) (simp_all add: Invoke_finish_SelResult, simp add: Invoke_finish_def)
next
  case False
  with step_metering [OF assms] show ?thesis by auto
qed

lemma step_log_prefix:
  assumes "sys_step y a y'" and "sys_inv y"
  shows "prefix (topic_log (y_svc y) t) (topic_log (y_svc y') t)"
proof -
  have "feed_quiet (Suc (s_next_chan (y_svc y))) y a y' \<or> feed_news (Suc (s_next_chan (y_svc y))) y a y'"
    using assms by (rule step_feed) simp
  then show ?thesis
    by (auto simp: feed_quiet_def feed_news_def)
qed

lemma run_history:
  assumes "run sys_step y as y'" and "sys_inv y"
  shows "prefix (s_audit (y_svc y)) (s_audit (y_svc y')) \<and>
    (\<forall>t. prefix (topic_log (y_svc y) t) (topic_log (y_svc y') t)) \<and>
    dom (map_of (s_cancelled (y_svc y))) \<subseteq> dom (map_of (s_cancelled (y_svc y')))"
  using assms
proof (induction rule: run.induct)
  case (run_step y a y' as y'')
  have inv': "sys_inv y'"
    using run_step.hyps(1) run_step.prems by (rule sys_inv_step)
  from run_step.IH [OF inv'] step_history [OF run_step.hyps(1) run_step.prems]
    step_log_prefix [OF run_step.hyps(1) run_step.prems]
  show ?case
    by (meson subset_trans prefix_order.trans)
qed simp

lemma cancelled_rejected:
  assumes "map_of (s_cancelled s) (h_MessageID (iq_Header req)) \<noteq> None" and "h_MessageID (iq_Header req) \<noteq> []"
  shows "\<exists>e. snd (Invoke_admit r s capability req actor prin) = Rejected e"
proof (rule ccontr)
  obtain s' a where adm: "Invoke_admit r s capability req actor prin = (s', a)"
    by (cases "Invoke_admit r s capability req actor prin")
  assume "\<nexists>e. snd (Invoke_admit r s capability req actor prin) = Rejected e"
  with adm obtain head d where "prepare r (iq_Header req) = Inr head"
    "authorized s head (target_capability capability req) prin d"
    by (metis Invoke_admit_unauthorized snd_conv)
  with assms show False
    using prepare_ok(4) by (auto simp: authorized_def)
qed

text \<open>
  C32. History is never rewritten: along every run the audit trail and the log of every topic only grow
  at the end, and a cancelled message stays cancelled.
\<close>

theorem history_append_only:
  assumes "reachable y" and "run sys_step y as y'"
  shows "prefix (s_audit (y_svc y)) (s_audit (y_svc y')) \<and>
    (\<forall>t. prefix (topic_log (y_svc y) t) (topic_log (y_svc y') t)) \<and>
    dom (map_of (s_cancelled (y_svc y))) \<subseteq> dom (map_of (s_cancelled (y_svc y')))"
  using run_history [OF assms(2) reachable_inv [OF assms(1)]] .

text \<open>
  C31. Cancellation is final: once a message identifier is cancelled, whatever happens in between, no
  later invocation under it passes admission, for any principal and capability.
\<close>

theorem cancel_is_final:
  assumes "reachable y" and "Cancel r (y_svc y) creq m = (s, Inr ack)"
    and "run sys_step (y\<lparr>y_svc := s\<rparr>) as y'" and "h_MessageID (iq_Header req) = ca_TargetMessageID ack"
  shows "\<exists>e. snd (Invoke_admit r' (y_svc y') capability req actor prin) = Rejected e"
proof -
  have c: "map_of (s_cancelled s) (ca_TargetMessageID ack) \<noteq> None" "ca_TargetMessageID ack \<noteq> []"
    using assms(2) by (auto simp: Cancel_def Let_def split: sum.splits if_splits)
  have "sys_step y (ACall (SCancel r creq m)) (y\<lparr>y_svc := s\<rparr>)"
    using assms(2) by (intro step_call) simp
  then have "sys_inv (y\<lparr>y_svc := s\<rparr>)"
    using reachable_inv [OF assms(1)] by (rule sys_inv_step)
  with run_history [OF assms(3)] c show ?thesis
    using assms(4) by (intro cancelled_rejected) auto
qed

subsection \<open>Witnesses\<close>



theorem history_append_only_witness:
  "prefix (s_audit (y_svc demo_state)) (s_audit (y_svc demo_received))"
  using history_append_only [OF demo_state_reachable demo_received_run] by blast

theorem cancel_is_final_witness:
  "\<exists>s ack. Cancel demo_rt (y_svc demo_state) \<lparr>cq_Header = demo_header, cq_TargetMessageID = ''m-1'', cq_Reason = []\<rparr> [] =
       (s, Inr ack) \<and>
     (\<exists>e. snd (Invoke_admit demo_rt s [] demo_invoke ''u'' demo_principal) = Rejected e)"
proof -
  let ?r = "Cancel demo_rt (y_svc demo_state) \<lparr>cq_Header = demo_header, cq_TargetMessageID = ''m-1'', cq_Reason = []\<rparr> []"
  have c: "?r = (fst ?r, Inr (projr (snd ?r)))" "h_MessageID (iq_Header demo_invoke) = ca_TargetMessageID (projr (snd ?r))"
    by code_simp+
  from cancel_is_final [OF demo_state_reachable c(1) run_nil c(2), of demo_rt "[]" "''u''" demo_principal]
  have "\<exists>e. snd (Invoke_admit demo_rt (fst ?r) [] demo_invoke ''u'' demo_principal) = Rejected e"
    by simp
  with c(1) show ?thesis by blast
qed

end
