(* ===== verification/Mig_Liveness.thy ===== *)
theory Mig_Liveness
  imports Mig_Accounting
begin

text \<open>
  Progress of the concurrent system of \<open>Mig_System\<close>: once no new request arrives, the work under way,
  invocations past admission, buffered events, subscriptions whose client leaves and channels about
  to be closed, comes to an end, and never gets stuck before.
\<close>

subsection \<open>Work in progress\<close>

text \<open>The actions by which goroutines already under way make progress.\<close>

fun drains :: "action \<Rightarrow> bool" where
  "drains (AFinish _ _ _) \<longleftrightarrow> True"
| "drains (AReceive _ _) \<longleftrightarrow> True"
| "drains (AUnsub _ _) \<longleftrightarrow> True"
| "drains (AClose _) \<longleftrightarrow> True"
| "drains _ \<longleftrightarrow> False"

definition buffered :: "System \<Rightarrow> nat" where
  "buffered y = sum_list (map (\<lambda>tc. length (backlog (y_svc y) (snd tc))) (y_subs y))"

definition workload :: "System \<Rightarrow> nat" where
  "workload y = length (y_pending y) + buffered y + 2 * length (y_subs y) + length (y_closing y)"

definition idle :: "System \<Rightarrow> bool" where
  "idle y \<longleftrightarrow> y_pending y = [] \<and> y_subs y = [] \<and> y_closing y = []"

lemma sum_list_less:
  fixes f g :: "'a \<Rightarrow> nat"
  assumes "\<And>x. x \<in> set xs \<Longrightarrow> f x \<le> g x" and "z \<in> set xs" and "f z < g z"
  shows "sum_list (map f xs) < sum_list (map g xs)"
  using assms
proof (induction xs)
  case (Cons x xs)
  have le: "sum_list (map f xs) \<le> sum_list (map g xs)"
    using Cons.prems(1) by (intro sum_list_mono) simp
  show ?case
  proof (cases "z = x")
    case True
    then show ?thesis using Cons.prems(3) le by simp
  next
    case False
    have "sum_list (map f xs) < sum_list (map g xs)"
      by (rule Cons.IH) (use Cons.prems False in simp_all)
    moreover have "f x \<le> g x"
      using Cons.prems(1) by simp
    ultimately show ?thesis by simp
  qed
qed simp

lemma sum_list_remove1_le: "sum_list (map f (remove1 x xs)) \<le> (sum_list (map f xs) :: nat)"
  by (induction xs) auto

lemma backlog_recv:
  assumes "chan_recv c s = (s', RecvEvent ev)"
  shows "backlog s c = ev # backlog s' c" "d \<noteq> c \<Longrightarrow> backlog s' d = backlog s d"
proof -
  from assms obtain ch where ch: "map_of (s_chans s) c = Some ch" "ch_buf ch = ev # backlog s' c"
    and s': "s' = s\<lparr>s_chans := AList.update c (ch\<lparr>ch_buf := backlog s' c\<rparr>) (s_chans s)\<rparr>"
    by (rule chan_recv_event)
  then show "backlog s c = ev # backlog s' c"
    by (simp add: backlog_def)
  show "backlog s' d = backlog s d" if "d \<noteq> c"
    using that by (subst s') (simp add: backlog_def)
qed

lemma backlog_close: "chan_close c s = Some s' \<Longrightarrow> backlog s' d = backlog s d"
  by (erule chan_close_Some) (simp add: backlog_def)

lemma workload_decreases:
  assumes "sys_step y a y'" and "drains a"
  shows "workload y' < workload y"
  using assms
proof (cases rule: sys_step.cases)
  case (step_receive topic c s ev)
  let ?len = "\<lambda>s tc. length (backlog s (snd tc))"
  have "sum_list (map (?len s) (y_subs y)) < sum_list (map (?len (y_svc y)) (y_subs y))"
  proof (rule sum_list_less [of _ _ _ "(topic, c)"])
    show "?len s tc \<le> ?len (y_svc y) tc" for tc
      using backlog_recv [OF step_receive(4)] by (cases "snd tc = c") simp_all
    show "?len s (topic, c) < ?len (y_svc y) (topic, c)"
      using backlog_recv(1) [OF step_receive(4)] by simp
  qed (rule step_receive)
  then show ?thesis
    by (simp add: workload_def buffered_def step_receive(2))
next
  case (step_unsub topic c)
  have "backlog (unsub_delete topic c (y_svc y)) d = backlog (y_svc y) d" for d
    by (simp add: backlog_def)
  moreover have "Suc (length (remove1 (topic, c) (y_subs y))) = length (y_subs y)"
    using step_unsub(3) by (simp add: length_remove1) (metis Suc_pred length_pos_if_in_set)
  ultimately show ?thesis
    using sum_list_remove1_le [of "\<lambda>tc. length (backlog (y_svc y) (snd tc))" "(topic, c)" "y_subs y"]
    by (simp add: workload_def buffered_def step_unsub(2))
next
  case (step_close c s)
  then show ?thesis
    using length_pos_if_in_set [OF step_close(3)]
    by (simp add: workload_def buffered_def backlog_close [OF step_close(4)] length_remove1)
next
  case (step_finish p r sel)
  have "backlog (fst (Invoke_finish r sel p (y_svc y))) d = backlog (y_svc y) d" for d
    using same_events_finish [of "y_svc y" r sel p] by (simp add: same_events_def backlog_def)
  with step_finish show ?thesis
    using length_pos_if_in_set [OF step_finish(3)] by (simp add: workload_def buffered_def length_remove1)
qed simp_all

lemma idle_or_drains:
  assumes "sys_inv y" and "\<not> idle y"
  shows "\<exists>a y'. drains a \<and> sys_step y a y'"
proof (cases "y_pending y")
  case (Cons p ps)
  then have "p \<in> set (y_pending y)"
    by simp
  from step_finish [OF this, of undefined SelResult] show ?thesis
    using drains.simps(1) by blast
next
  case Nil
  show ?thesis
  proof (cases "y_subs y")
    case (Cons tc tcs)
    then have "(fst tc, snd tc) \<in> set (y_subs y)"
      by simp
    from step_unsub [OF this] show ?thesis
      using drains.simps(3) by blast
  next
    case None: Nil
    with Nil assms(2) obtain c cs where c: "y_closing y = c # cs"
      by (auto simp: idle_def neq_Nil_conv)
    then have "chan_open (y_svc y) c" "c \<in> set (y_closing y)"
      using assms(1) by (auto simp: sys_inv_def subs_inv_def)
    then obtain s where "chan_close c (y_svc y) = Some s"
      by (auto simp: chan_open_def chan_close_def)
    from step_close [OF \<open>c \<in> set (y_closing y)\<close> this] show ?thesis
      using drains.simps(4) by blast
  qed
qed

lemma drain_run_bounded:
  assumes "run sys_step y as y'" and "list_all drains as"
  shows "length as + workload y' \<le> workload y"
  using assms
proof (induction rule: run.induct)
  case (run_step y a y' as y'')
  then show ?case
    using workload_decreases [OF run_step(1)] by simp
qed simp

lemma idle_subs:
  assumes "sys_inv y" and "idle y"
  shows "topic_subs (y_svc y) t = []"
  using assms by (simp add: sys_inv_def subs_inv_def idle_def)

text \<open>
  C20. Draining terminates: from any reachable state, a sequence of steps of work already under way is
  no longer than the workload, whatever the order, and it can be continued exactly as long as
  something is left to do. So no invocation, subscription or closing channel gets stuck.
\<close>

theorem drain_terminates:
  assumes "reachable y" and "run sys_step y as y'" and "list_all drains as"
  shows "length as \<le> workload y \<and> ((\<exists>a y''. drains a \<and> sys_step y' a y'') \<longleftrightarrow> \<not> idle y')"
proof -
  have "sys_inv y'"
    using sys_inv_run [OF assms(2) reachable_inv [OF assms(1)]] .
  moreover have "\<not> sys_step y' a y''" if "idle y'" "drains a" for a y''
    using that by (cases a) (auto simp: idle_def elim: step_cases)
  ultimately show ?thesis
    using drain_run_bounded [OF assms(2,3)] idle_or_drains by auto
qed

lemma drain_exists:
  assumes "sys_inv y"
  shows "\<exists>as y'. list_all drains as \<and> run sys_step y as y' \<and> idle y'"
  using assms
proof (induction "workload y" arbitrary: y rule: less_induct)
  case less
  show ?case
  proof (cases "idle y")
    case True
    then show ?thesis by (intro exI [of _ "[]"] exI [of _ y]) simp
  next
    case False
    with idle_or_drains [OF less.prems] obtain a y1 where a: "drains a" "sys_step y a y1"
      by blast
    from less.hyps [OF workload_decreases [OF a(2,1)] sys_inv_step [OF a(2) less.prems]]
    obtain as y' where "list_all drains as" "run sys_step y1 as y'" "idle y'"
      by blast
    with a show ?thesis
      by (intro exI [of _ "a # as"] exI [of _ y']) (auto simp: run_step_iff)
  qed
qed


subsection \<open>Witnesses\<close>

theorem drain_terminates_witness:
  "length [AReceive 0 demo_event] \<le> workload demo_state \<and>
   ((\<exists>a y''. drains a \<and> sys_step demo_received a y'') \<longleftrightarrow> \<not> idle demo_received)"
  by (rule drain_terminates [OF demo_state_reachable demo_received_run]) simp


end
