(* ===== verification/Mig_Http.thy ===== *)
theory Mig_Http
  imports Mig_Events Mig_Connections
begin

text \<open>
  The HTTP binding, \<^verbatim>\<open>core/pkg/mig/http.go\<close>, with the middleware of \<^verbatim>\<open>auth.go\<close> and \<^verbatim>\<open>metrics.go\<close>: one
  function per handler, the route table, and the handler \<^verbatim>\<open>migd\<close> serves.

  A handler takes the principal stored in the request context, the request and what decoding its
  body gives; its result is the service and the response, \<open>None\<close> being a panic. The clock and
  randomness that \<open>writeMigError\<close> reads are the third readings of the runtime. What a stream handler
  meets while its connection is open, failing writes included, is an argument.
\<close>

subsection \<open>Requests and responses\<close>

text \<open>What decoding the request body gives: there is none, it is refused with a message, or a value.\<close>

datatype 'a body = NoBody | BadJSON string | Decoded 'a

datatype payload =
    PText string
  | PHtml
  | PError ErrorEnvelope
  | PErrorMessage string
  | PHello HelloResponse
  | PDiscover DiscoverResponse
  | PInvoke InvokeResponse
  | PPublish PublishAck
  | PCancel CancelAck
  | PHeartbeat HeartbeatAck
  | PDescriptor CapabilityDescriptor
  | PCapabilities "CapabilityDescriptor list"
  | PUri string
  | PHealth ConformanceHealthReport
  | PConnections ConnectionsResponse
  | PPolicy PolicyValidateResponse
  | PQuota QuotaResponse
  | PRecords "AuditRecord list"
  | POrg Org
  | PTenant Tenant
  | PGateway Gateway
  | PUsage UsageSnapshot
  | PMetrics Metrics
  | PSse "EventMessage list"
  | PFrames "StreamFrame list"

record HttpResponse =
  rp_Status :: int
  rp_ContentType :: string
  rp_Body :: payload

text \<open>\<^verbatim>\<open>http.Error\<close>\<close>

definition http_error :: "string \<Rightarrow> int \<Rightarrow> HttpResponse" where
  "http_error msg status =
    \<lparr>rp_Status = status, rp_ContentType = ''text/plain; charset=utf-8'', rp_Body = PText msg\<rparr>"

definition decodeJSON :: "'a body \<Rightarrow> (HttpResponse, 'a) res" where
  "decodeJSON b =
    (case b of
       NoBody \<Rightarrow> Inl (http_error ''request body required'' 400)
     | BadJSON e \<Rightarrow> Inl (http_error (''invalid JSON body: '' @ e) 400)
     | Decoded m \<Rightarrow> Inr m)"

definition writeJSON :: "int \<Rightarrow> payload \<Rightarrow> HttpResponse" where
  "writeJSON status p = \<lparr>rp_Status = status, rp_ContentType = ''application/json'', rp_Body = p\<rparr>"

definition writeMigError :: "rt \<Rightarrow> MessageHeader \<Rightarrow> int \<Rightarrow> MigError \<Rightarrow> HttpResponse" where
  "writeMigError r header status migErr =
    (let header = (if h_TenantID header = [] then header\<lparr>h_TenantID := ''unknown''\<rparr> else header);
         header = (if h_MessageID header = [] then header\<lparr>h_MessageID := newMessageID (rt_rand r 2)\<rparr> else header);
         header = (if h_MIGVersion header = [] then header\<lparr>h_MIGVersion := MIGVersion\<rparr> else header);
         header = (if h_Timestamp header = [] then header\<lparr>h_Timestamp := rt_now r 2\<rparr> else header)
     in writeJSON status (PError \<lparr>env_Header = header, env_Error = migErr\<rparr>))"

definition writeErrorMessage :: "int \<Rightarrow> MigError \<Rightarrow> HttpResponse" where
  "writeErrorMessage status e = writeJSON status (PErrorMessage (e_Message e))"

subsection \<open>Protocol handlers\<close>

definition handleHello ::
    "rt \<Rightarrow> Principal option \<Rightarrow> HttpRequest \<Rightarrow> HelloRequest body \<Rightarrow> Service \<Rightarrow> Service \<times> HttpResponse" where
  "handleHello r ctx hr body s =
    (let prin = principalFromContext ctx in
     case decodeJSON body of
       Inl resp \<Rightarrow> (s, resp)
     | Inr req \<Rightarrow>
         case applyPrincipalHeader (hq_Header req) prin hr of
           (h, Some e) \<Rightarrow> (s, writeMigError r h 403 e)
         | (h, None) \<Rightarrow>
             case Hello r s (req\<lparr>hq_Header := h\<rparr>) of
               Inl e \<Rightarrow> (s, writeMigError r h 400 e)
             | Inr resp \<Rightarrow> (s, writeJSON 200 (PHello resp)))"

definition handleDiscover ::
    "rt \<Rightarrow> Principal option \<Rightarrow> HttpRequest \<Rightarrow> DiscoverRequest body \<Rightarrow> Service \<Rightarrow> Service \<times> HttpResponse" where
  "handleDiscover r ctx hr body s =
    (let prin = principalFromContext ctx in
     case decodeJSON body of
       Inl resp \<Rightarrow> (s, resp)
     | Inr req \<Rightarrow>
         case applyPrincipalHeader (dq_Header req) prin hr of
           (h, Some e) \<Rightarrow> (s, writeMigError r h 403 e)
         | (h, None) \<Rightarrow>
             case Discover r s (req\<lparr>dq_Header := h\<rparr>) prin of
               (s, Inl e) \<Rightarrow> (s, writeMigError r (aliased r h) 400 e)
             | (s, Inr resp) \<Rightarrow> (s, writeJSON 200 (PDiscover resp)))"

definition invoke_status :: "MigError \<Rightarrow> int" where
  "invoke_status e =
    (if e_Code e = ErrorUnsupportedCapability then 404
     else if e_Code e = ErrorTimeout then 504
     else if e_Code e = ErrorRateLimited then 429
     else if e_Code e = ErrorForbidden then 403
     else 400)"

definition http_actor :: "Principal \<Rightarrow> HttpRequest \<Rightarrow> string" where
  "http_actor prin hr =
    (if p_Subject prin = []
     then (let actor = header_get hr ''X-Actor'' in if actor = [] then ''anonymous'' else actor)
     else p_Subject prin)"

definition handleInvoke ::
    "rt \<Rightarrow> invoke_select \<Rightarrow> Principal option \<Rightarrow> HttpRequest \<Rightarrow> string \<Rightarrow> InvokeRequest body \<Rightarrow>
     Service \<Rightarrow> Service \<times> HttpResponse" where
  "handleInvoke r sel ctx hr capability body s =
    (let prin = principalFromContext ctx in
     case decodeJSON body of
       Inl resp \<Rightarrow> (s, resp)
     | Inr req \<Rightarrow>
         case applyPrincipalHeader (iq_Header req) prin hr of
           (h, Some e) \<Rightarrow> (s, writeMigError r h 403 e)
         | (h, None) \<Rightarrow>
             case Invoke r sel s capability (req\<lparr>iq_Header := h\<rparr>) (http_actor prin hr) prin of
               (s, Inl e) \<Rightarrow> (s, writeMigError r (aliased r h) (invoke_status e) e)
             | (s, Inr resp) \<Rightarrow> (s, writeJSON 200 (PInvoke resp)))"

definition handlePublish ::
    "rt \<Rightarrow> Principal option \<Rightarrow> HttpRequest \<Rightarrow> string \<Rightarrow> PublishRequest body \<Rightarrow>
     Service \<Rightarrow> (Service \<times> HttpResponse) option" where
  "handlePublish r ctx hr topic body s =
    (let prin = principalFromContext ctx in
     case decodeJSON body of
       Inl resp \<Rightarrow> Some (s, resp)
     | Inr req \<Rightarrow>
         case applyPrincipalHeader (pq_Header req) prin hr of
           (h, Some e) \<Rightarrow> Some (s, writeMigError r h 403 e)
         | (h, None) \<Rightarrow>
             case Publish r s topic (req\<lparr>pq_Header := h\<rparr>) of
               None \<Rightarrow> None
             | Some (s, Inl e) \<Rightarrow> Some (s, writeMigError r (aliased r h) 400 e)
             | Some (s, Inr resp) \<Rightarrow> Some (s, writeJSON 200 (PPublish resp)))"

definition handleCancel ::
    "rt \<Rightarrow> Principal option \<Rightarrow> HttpRequest \<Rightarrow> string \<Rightarrow> CancelRequest body \<Rightarrow> Service \<Rightarrow> Service \<times> HttpResponse" where
  "handleCancel r ctx hr messageID body s =
    (let prin = principalFromContext ctx in
     case decodeJSON body of
       Inl resp \<Rightarrow> (s, resp)
     | Inr req \<Rightarrow>
         case applyPrincipalHeader (cq_Header req) prin hr of
           (h, Some e) \<Rightarrow> (s, writeMigError r h 403 e)
         | (h, None) \<Rightarrow>
             case Cancel r s (req\<lparr>cq_Header := h\<rparr>) messageID of
               (s, Inl e) \<Rightarrow> (s, writeMigError r (aliased r h) 400 e)
             | (s, Inr resp) \<Rightarrow> (s, writeJSON 200 (PCancel resp)))"

definition handleHeartbeat ::
    "rt \<Rightarrow> Principal option \<Rightarrow> HttpRequest \<Rightarrow> HeartbeatRequest body \<Rightarrow> Service \<Rightarrow> Service \<times> HttpResponse" where
  "handleHeartbeat r ctx hr body s =
    (let prin = principalFromContext ctx in
     case decodeJSON body of
       Inl resp \<Rightarrow> (s, resp)
     | Inr req \<Rightarrow>
         case applyPrincipalHeader (bq_Header req) prin hr of
           (h, Some e) \<Rightarrow> (s, writeMigError r h 403 e)
         | (h, None) \<Rightarrow>
             case Heartbeat r s (req\<lparr>bq_Header := h\<rparr>) of
               (s, Inl e) \<Rightarrow> (s, writeMigError r (aliased r h) 400 e)
             | (s, Inr resp) \<Rightarrow> (s, writeJSON 200 (PHeartbeat resp)))"

subsection \<open>Server-sent events\<close>

text \<open>\<open>if s.metrics != nil\<close> around the stream gauge; the deferred call keeps the receiver it captured.\<close>

definition inc_stream :: "string \<Rightarrow> Service \<Rightarrow> Service" where
  "inc_stream t s = (case s_metrics s of None \<Rightarrow> s | Some m \<Rightarrow> s\<lparr>s_metrics := Some (IncActiveStream t m)\<rparr>)"

definition dec_stream :: "bool \<Rightarrow> string \<Rightarrow> Service \<Rightarrow> Service" where
  "dec_stream metered t s =
    (if metered
     then (case s_metrics s of None \<Rightarrow> s | Some m \<Rightarrow> s\<lparr>s_metrics := Some (DecActiveStream t m)\<rparr>)
     else s)"

definition stream_tenant :: "Principal \<Rightarrow> HttpRequest \<Rightarrow> string" where
  "stream_tenant prin hr = (if p_TenantID prin \<noteq> [] then p_TenantID prin else tenantFromRequest hr)"

text \<open>
  What the stream loop of an open subscription meets: for every event it tries to send, whether
  the write succeeds; for the live part, what the \<^verbatim>\<open>select\<close> yields.
\<close>

datatype sse_input = SseDone | SseClosed | SseEvent EventMessage bool

fun sse_replay :: "EventMessage list \<Rightarrow> bool list \<Rightarrow> EventMessage list \<times> bool" where
  "sse_replay [] oks = ([], True)"
| "sse_replay (ev # evs) [] = ([], False)"
| "sse_replay (ev # evs) (ok # oks) =
    (if ok then (let (out, go) = sse_replay evs oks in (ev # out, go)) else ([], False))"

fun sse_live :: "sse_input list \<Rightarrow> EventMessage list" where
  "sse_live [] = []"
| "sse_live (SseDone # is) = []"
| "sse_live (SseClosed # is) = []"
| "sse_live (SseEvent ev ok # is) = (if ok then ev # sse_live is else [])"

text \<open>
  \<open>env\<close> is what the rest of the gateway does to the service while the stream is open, including
  what the loop itself receives from its channel. The deferred calls run in reverse order.
\<close>

definition handleSubscribe ::
    "rt \<Rightarrow> (Service \<Rightarrow> Service) \<Rightarrow> bool \<Rightarrow> bool list \<Rightarrow> sse_input list \<Rightarrow> Principal option \<Rightarrow> HttpRequest \<Rightarrow> string \<Rightarrow>
     Service \<Rightarrow> (Service \<times> HttpResponse) option" where
  "handleSubscribe r env flusher oks inputs ctx hr topic s =
    (let metered = (s_metrics s \<noteq> None);
         s = inc_stream ''sse'' s;
         prin = principalFromContext ctx;
         resumeCursor = query_get hr ''resume_cursor''
     in case Subscribe s topic resumeCursor of
          (s, Inl e) \<Rightarrow>
            Some (dec_stream metered ''sse'' s,
                  writeMigError r (zero_header\<lparr>h_TenantID := tenantFromRequest hr\<rparr>) 400 e)
        | (s, Inr (events, c)) \<Rightarrow>
            case RegisterConnection r s
              \<lparr>cs_ID = [], cs_Protocol = ''http'', cs_Kind = ''sse_subscribe'', cs_TenantID = stream_tenant prin hr,
               cs_Actor = p_Subject prin, cs_RemoteAddr = r_RemoteAddr hr, cs_StartedAt = [],
               cs_Meta = Some [(''topic'', JStr topic), (''resume_cursor'', JStr resumeCursor)]\<rparr> of
              None \<Rightarrow> None
            | Some (s, connID) \<Rightarrow>
                let (s, resp) =
                  (if \<not> flusher then (s, http_error ''streaming unsupported'' 500)
                   else
                     let (replayed, go) = sse_replay events oks;
                         live = (if go then sse_live inputs else [])
                     in (env s, \<lparr>rp_Status = 200, rp_ContentType = ''text/event-stream'',
                                 rp_Body = PSse (replayed @ live)\<rparr>))
                in case unsubscribe topic c (unregister connID s) of
                     None \<Rightarrow> None
                   | Some s \<Rightarrow> Some (dec_stream metered ''sse'' s, resp))"

subsection \<open>The websocket stream\<close>

definition frame_action :: "StreamFrame \<Rightarrow> string" where
  "frame_action frame =
    (case f_Payload frame of
       None \<Rightarrow> []
     | Some es \<Rightarrow> (case map_of es ''action'' of Some (JStr raw) \<Rightarrow> ToLower (TrimSpace raw) | _ \<Rightarrow> []))"

text \<open>
  One iteration of the loop after a frame has been read: the state, the reply, and whether a
  failing write of the reply ends the loop.
\<close>

definition stream_frame ::
    "rt \<Rightarrow> invoke_select \<Rightarrow> Principal \<Rightarrow> HttpRequest \<Rightarrow> StreamFrame \<Rightarrow> Service \<Rightarrow> Service \<times> StreamFrame \<times> bool" where
  "stream_frame r sel prin hr frame s =
    (let streamID = (if f_StreamID frame = [] then ''stream-'' @ h_MessageID (f_Header frame) else f_StreamID frame)
     in case applyPrincipalHeader (f_Header frame) prin hr of
       (h, Some e) \<Rightarrow>
         (s, \<lparr>f_Header = h, f_StreamID = streamID, f_Capability = f_Capability frame, f_Kind = ''error'',
              f_Payload = None, f_EndStream = True, f_Error = Some e\<rparr>, False)
     | (h, None) \<Rightarrow>
         if f_Kind frame = ''request'' then
           let invokeReq = \<lparr>iq_Header = h, iq_Capability = f_Capability frame, iq_Payload = f_Payload frame,
                            iq_StreamPreference = []\<rparr>;
               actor = (if p_Subject prin = [] then ''anonymous'' else p_Subject prin);
               (s, res) = Invoke r sel s (f_Capability frame) invokeReq actor prin;
               out = \<lparr>f_Header = aliased r h, f_StreamID = streamID, f_Capability = f_Capability frame,
                      f_Kind = ''response'', f_Payload = None, f_EndStream = True, f_Error = None\<rparr>
           in (s, (case res of
                     Inl e \<Rightarrow> out\<lparr>f_Kind := ''error'', f_Error := Some e\<rparr>
                   | Inr resp \<Rightarrow> out\<lparr>f_Payload := ip_Payload resp\<rparr>), True)
         else if f_Kind frame = ''control'' then
           if frame_action frame \<noteq> ''cancel'' then
             (s, \<lparr>f_Header = h, f_StreamID = streamID, f_Capability = [], f_Kind = ''error'',
                  f_Payload = None, f_EndStream = True,
                  f_Error = Some (mk_error ErrorInvalidRequest ''unsupported control action'' False)\<rparr>, False)
           else
             let cancelReq = \<lparr>cq_Header = h, cq_TargetMessageID = h_MessageID h,
                              cq_Reason = ''websocket control cancel''\<rparr>;
                 (s, res) = Cancel r s cancelReq (cq_TargetMessageID cancelReq);
                 out = \<lparr>f_Header = aliased r h, f_StreamID = streamID, f_Capability = [],
                        f_Kind = ''control'', f_Payload = None, f_EndStream = True, f_Error = None\<rparr>
             in (s, (case res of
                       Inl e \<Rightarrow> out\<lparr>f_Kind := ''error'', f_Error := Some e\<rparr>
                     | Inr ack \<Rightarrow> out\<lparr>f_Payload := Some [(''accepted'', JBool (ca_Accepted ack)),
                                                      (''status'', JStr (ca_Status ack))]\<rparr>), True)
         else
           (s, \<lparr>f_Header = h, f_StreamID = streamID, f_Capability = f_Capability frame, f_Kind = ''error'',
                f_Payload = None, f_EndStream = True,
                f_Error = Some (mk_error ErrorInvalidRequest ''frame.kind must be request or control'' False)\<rparr>, False))"

text \<open>
  What the loop meets at one iteration: what the rest of the gateway did since the last one, the
  frame read, the runtime of the call, and whether the reply can be written. The list ends where
  reading fails.
\<close>

record ws_input =
  wi_env :: "Service \<Rightarrow> Service"
  wi_rt :: rt
  wi_sel :: invoke_select
  wi_frame :: StreamFrame
  wi_ok :: bool

fun stream_loop ::
    "Principal \<Rightarrow> HttpRequest \<Rightarrow> ws_input list \<Rightarrow> Service \<Rightarrow> Service \<times> StreamFrame list" where
  "stream_loop prin hr [] s = (s, [])"
| "stream_loop prin hr (i # is) s =
    (let (s, out, fatal) = stream_frame (wi_rt i) (wi_sel i) prin hr (wi_frame i) (wi_env i s)
     in if wi_ok i
        then (let (s, outs) = stream_loop prin hr is s in (s, out # outs))
        else if fatal then (s, [])
        else stream_loop prin hr is s)"

text \<open>The websocket library upgrades the connection, or answers with an error and a status of its own.\<close>

definition handleStream ::
    "rt \<Rightarrow> (string \<times> int) option \<Rightarrow> ws_input list \<Rightarrow> Principal option \<Rightarrow> HttpRequest \<Rightarrow> Service \<Rightarrow> (Service \<times> HttpResponse) option" where
  "handleStream r refused inputs ctx hr s =
    (let metered = (s_metrics s \<noteq> None);
         s = inc_stream ''websocket'' s;
         prin = principalFromContext ctx
     in case refused of
          Some (msg, status) \<Rightarrow> Some (dec_stream metered ''websocket'' s, http_error msg status)
        | None \<Rightarrow>
          case RegisterConnection r s
            \<lparr>cs_ID = [], cs_Protocol = ''http'', cs_Kind = ''ws_stream'', cs_TenantID = stream_tenant prin hr,
             cs_Actor = p_Subject prin, cs_RemoteAddr = r_RemoteAddr hr, cs_StartedAt = [],
             cs_Meta = Some [(''path'', JStr (r_Path hr))]\<rparr> of
            None \<Rightarrow> None
          | Some (s, connID) \<Rightarrow>
              let (s, outs) = stream_loop prin hr inputs s
              in Some (dec_stream metered ''websocket'' (unregister connID s),
                   \<lparr>rp_Status = 200, rp_ContentType = [], rp_Body = PFrames outs\<rparr>))"

subsection \<open>Administration, policy and cloud handlers\<close>

definition handleAddCapability :: "CapabilityUpsertRequest body \<Rightarrow> Service \<Rightarrow> Service \<times> HttpResponse" where
  "handleAddCapability body s =
    (case decodeJSON body of
       Inl resp \<Rightarrow> (s, resp)
     | Inr req \<Rightarrow>
         case AddCapability s req of
           (s, Some e) \<Rightarrow> (s, writeErrorMessage 400 e)
         | (s, None) \<Rightarrow> (s, writeJSON 201 (PDescriptor (cu_Descriptor req))))"

definition handleListCapabilities :: "rt \<Rightarrow> Service \<Rightarrow> HttpResponse" where
  "handleListCapabilities r s = writeJSON 200 (PCapabilities (ListCapabilities r s))"

definition handleAddSchema :: "SchemaUpsertRequest body \<Rightarrow> Service \<Rightarrow> Service \<times> HttpResponse" where
  "handleAddSchema body s =
    (case decodeJSON body of
       Inl resp \<Rightarrow> (s, resp)
     | Inr req \<Rightarrow>
         case AddSchema s req of
           (s, Some e) \<Rightarrow> (s, writeErrorMessage 400 e)
         | (s, None) \<Rightarrow> (s, writeJSON 201 (PUri (su_URI req))))"

definition handleConformanceHealth :: "Service \<Rightarrow> HttpResponse" where
  "handleConformanceHealth s = writeJSON 200 (PHealth (ConformanceHealth s))"

definition handleConnections :: "rt \<Rightarrow> HttpRequest \<Rightarrow> Service \<Rightarrow> HttpResponse" where
  "handleConnections r hr s =
    writeJSON 200 (PConnections (Connections r s
      \<lparr>cf_TenantID = query_get hr ''tenant_id'', cf_Kind = query_get hr ''kind'', cf_Protocol = query_get hr ''protocol''\<rparr>))"

definition handleUI :: HttpResponse where
  "handleUI = \<lparr>rp_Status = 200, rp_ContentType = ''text/html; charset=utf-8'', rp_Body = PHtml\<rparr>"

definition handlePolicyValidate ::
    "rt \<Rightarrow> Principal option \<Rightarrow> PolicyValidateRequest body \<Rightarrow> Service \<Rightarrow> HttpResponse" where
  "handlePolicyValidate r ctx body s =
    (let prin = principalFromContext ctx in
     case decodeJSON body of
       Inl resp \<Rightarrow> resp
     | Inr req \<Rightarrow>
         if p_TenantID prin \<noteq> [] \<and> pv_TenantID req \<noteq> p_TenantID prin
         then writeMigError r (zero_header\<lparr>h_TenantID := pv_TenantID req\<rparr>) 403 tenant_mismatch
         else case ValidatePolicy s req of
           Inl e \<Rightarrow> writeErrorMessage 400 e
         | Inr resp \<Rightarrow> writeJSON 200 (PPolicy resp))"

definition handleSetQuota ::
    "rt \<Rightarrow> Principal option \<Rightarrow> QuotaRequest body \<Rightarrow> Service \<Rightarrow> Service \<times> HttpResponse" where
  "handleSetQuota r ctx body s =
    (let prin = principalFromContext ctx in
     case decodeJSON body of
       Inl resp \<Rightarrow> (s, resp)
     | Inr req \<Rightarrow>
         if p_TenantID prin \<noteq> [] \<and> qr_TenantID req \<noteq> p_TenantID prin
         then (s, writeMigError r (zero_header\<lparr>h_TenantID := qr_TenantID req\<rparr>) 403 tenant_mismatch)
         else case SetQuota s req of
           (s, Inl e) \<Rightarrow> (s, writeErrorMessage 400 e)
         | (s, Inr resp) \<Rightarrow> (s, writeJSON 200 (PQuota resp)))"

definition handleAuditExport :: "HttpRequest \<Rightarrow> Service \<Rightarrow> HttpResponse" where
  "handleAuditExport hr s = writeJSON 200 (PRecords (AuditExport s (query_get hr ''tenant_id'')))"

definition handleCreateOrg :: "rt \<Rightarrow> Org body \<Rightarrow> Service \<Rightarrow> (Service \<times> HttpResponse) option" where
  "handleCreateOrg r body s =
    (case decodeJSON body of
       Inl resp \<Rightarrow> Some (s, resp)
     | Inr org \<Rightarrow>
         case CreateOrg r s org of
           None \<Rightarrow> None
         | Some (s, Inl e) \<Rightarrow> Some (s, writeErrorMessage 400 e)
         | Some (s, Inr resp) \<Rightarrow> Some (s, writeJSON 201 (POrg resp)))"

definition handleCreateTenant :: "rt \<Rightarrow> Tenant body \<Rightarrow> Service \<Rightarrow> (Service \<times> HttpResponse) option" where
  "handleCreateTenant r body s =
    (case decodeJSON body of
       Inl resp \<Rightarrow> Some (s, resp)
     | Inr tenant \<Rightarrow>
         case CreateTenant r s tenant of
           None \<Rightarrow> None
         | Some (s, Inl e) \<Rightarrow> Some (s, writeErrorMessage (if e_Code e = ErrorNotFound then 404 else 400) e)
         | Some (s, Inr resp) \<Rightarrow> Some (s, writeJSON 201 (PTenant resp)))"

definition handleCreateGateway :: "rt \<Rightarrow> Gateway body \<Rightarrow> Service \<Rightarrow> (Service \<times> HttpResponse) option" where
  "handleCreateGateway r body s =
    (case decodeJSON body of
       Inl resp \<Rightarrow> Some (s, resp)
     | Inr gw \<Rightarrow>
         case CreateGateway r s gw of
           None \<Rightarrow> None
         | Some (s, Inl e) \<Rightarrow> Some (s, writeErrorMessage (if e_Code e = ErrorNotFound then 404 else 400) e)
         | Some (s, Inr resp) \<Rightarrow> Some (s, writeJSON 201 (PGateway resp)))"

definition handleUsage :: "rt \<Rightarrow> Service \<Rightarrow> HttpResponse" where
  "handleUsage r s = writeJSON 200 (PUsage (Usage r s))"

subsection \<open>Routing\<close>

datatype segment = Lit string | Wild

datatype route =
    RHello | RDiscover | RInvoke | RPublish | RSubscribe | RCancel | RHeartbeat | RStream
  | RAddCapability | RListCapabilities | RAddSchema | RConformanceHealth | RConnections | RUI
  | RPolicyValidate | RSetQuota | RAuditExport | RCreateOrg | RCreateTenant | RCreateGateway | RUsage
  | RMetrics

text \<open>The patterns registered with the \<^verbatim>\<open>ServeMux\<close>; an empty method is any method.\<close>

definition http_routes :: "(string \<times> segment list \<times> route) list" where
  "http_routes =
    [(''POST'', [Lit ''mig'', Lit ''v0.1'', Lit ''hello''], RHello),
     (''POST'', [Lit ''mig'', Lit ''v0.1'', Lit ''discover''], RDiscover),
     (''POST'', [Lit ''mig'', Lit ''v0.1'', Lit ''invoke'', Wild], RInvoke),
     (''POST'', [Lit ''mig'', Lit ''v0.1'', Lit ''publish'', Wild], RPublish),
     (''GET'', [Lit ''mig'', Lit ''v0.1'', Lit ''subscribe'', Wild], RSubscribe),
     (''POST'', [Lit ''mig'', Lit ''v0.1'', Lit ''cancel'', Wild], RCancel),
     (''POST'', [Lit ''mig'', Lit ''v0.1'', Lit ''heartbeat''], RHeartbeat),
     (''GET'', [Lit ''mig'', Lit ''v0.1'', Lit ''stream''], RStream),
     (''POST'', [Lit ''admin'', Lit ''v0.1'', Lit ''capabilities''], RAddCapability),
     (''GET'', [Lit ''admin'', Lit ''v0.1'', Lit ''capabilities''], RListCapabilities),
     (''POST'', [Lit ''admin'', Lit ''v0.1'', Lit ''schemas''], RAddSchema),
     (''GET'', [Lit ''admin'', Lit ''v0.1'', Lit ''health'', Lit ''conformance''], RConformanceHealth),
     (''GET'', [Lit ''admin'', Lit ''v0.1'', Lit ''connections''], RConnections),
     (''GET'', [Lit ''ui''], RUI),
     (''POST'', [Lit ''pro'', Lit ''v0.1'', Lit ''policies'', Lit ''validate''], RPolicyValidate),
     (''POST'', [Lit ''pro'', Lit ''v0.1'', Lit ''quotas''], RSetQuota),
     (''GET'', [Lit ''pro'', Lit ''v0.1'', Lit ''audit'', Lit ''export''], RAuditExport),
     (''POST'', [Lit ''cloud'', Lit ''v0.1'', Lit ''orgs''], RCreateOrg),
     (''POST'', [Lit ''cloud'', Lit ''v0.1'', Lit ''tenants''], RCreateTenant),
     (''POST'', [Lit ''cloud'', Lit ''v0.1'', Lit ''gateways''], RCreateGateway),
     (''GET'', [Lit ''cloud'', Lit ''v0.1'', Lit ''usage''], RUsage)]"

text \<open>The metrics endpoint is registered when metrics are enabled.\<close>

definition mux_routes :: "bool \<Rightarrow> (string \<times> segment list \<times> route) list" where
  "mux_routes metrics = http_routes @ (if metrics then [([], [Lit ''metrics''], RMetrics)] else [])"

text \<open>A wildcard matches one non-empty segment and yields it; a GET pattern also serves HEAD.\<close>

fun match_path :: "segment list \<Rightarrow> string list \<Rightarrow> string list option" where
  "match_path [] [] = Some []"
| "match_path (Lit l # ps) (x # xs) = (if x = l then match_path ps xs else None)"
| "match_path (Wild # ps) (x # xs) = (if x = [] then None else map_option ((#) x) (match_path ps xs))"
| "match_path _ _ = None"

definition match_method :: "string \<Rightarrow> string \<Rightarrow> bool" where
  "match_method pat m \<longleftrightarrow> pat = [] \<or> m = pat \<or> (pat = ''GET'' \<and> m = ''HEAD'')"

datatype routing = NoRoute | WrongMethod | Routed route "string list"

definition path_segments :: "string \<Rightarrow> string list" where
  "path_segments path = split_on (CHR ''/'') (TrimPrefix path ''/'')"

definition find_route :: "bool \<Rightarrow> string \<Rightarrow> string \<Rightarrow> routing" where
  "find_route metrics method path =
    (let xs = path_segments path;
         hits = filter (\<lambda>(_, ps, _). match_path ps xs \<noteq> None) (mux_routes metrics)
     in if \<not> HasPrefix path ''/'' then NoRoute
        else case filter (\<lambda>(m, _, _). match_method m method) hits of
          (_, ps, rt) # _ \<Rightarrow> Routed rt (the (match_path ps xs))
        | [] \<Rightarrow> if hits = [] then NoRoute else WrongMethod)"


text \<open>What decoding the body of the request gives, for each type a handler may decode it to.\<close>

record Bodies =
  b_Hello :: "HelloRequest body"
  b_Discover :: "DiscoverRequest body"
  b_Invoke :: "InvokeRequest body"
  b_Publish :: "PublishRequest body"
  b_Cancel :: "CancelRequest body"
  b_Heartbeat :: "HeartbeatRequest body"
  b_Capability :: "CapabilityUpsertRequest body"
  b_Schema :: "SchemaUpsertRequest body"
  b_Policy :: "PolicyValidateRequest body"
  b_Quota :: "QuotaRequest body"
  b_Org :: "Org body"
  b_Tenant :: "Tenant body"
  b_Gateway :: "Gateway body"

text \<open>
  A response writer: the status lines it was asked to write, how often it was flushed, and what
  taking over its connection and pushing give. \<open>None\<close> stands for an interface it does not implement.
\<close>

record response_writer =
  rw_Statuses :: "int list"
  rw_Flushes :: "nat option"
  rw_Hijack :: "(string, string) res option"
  rw_Push :: "(string \<Rightarrow> string option) option"

text \<open>The writer of an HTTP/1.1 server.\<close>

definition server_writer :: response_writer where
  "server_writer = \<lparr>rw_Statuses = [], rw_Flushes = Some 0, rw_Hijack = Some (Inr ''conn''), rw_Push = None\<rparr>"

text \<open>What a stream handler meets while its connection is open.\<close>

record Session =
  k_env :: "Service \<Rightarrow> Service"
  k_writer :: response_writer
  k_oks :: "bool list"
  k_sse :: "sse_input list"
  k_refused :: "(string \<times> int) option"
  k_ws :: "ws_input list"

type_synonym http_handler = "Principal option \<Rightarrow> HttpRequest \<Rightarrow> Service \<Rightarrow> (Service \<times> HttpResponse) option"

definition serve_mux :: "rt \<Rightarrow> invoke_select \<Rightarrow> bool \<Rightarrow> Bodies \<Rightarrow> Session \<Rightarrow> http_handler" where
  "serve_mux r sel metrics b k ctx hr s =
    (case find_route metrics (r_Method hr) (r_Path hr) of
       NoRoute \<Rightarrow> Some (s, http_error ''404 page not found'' 404)
     | WrongMethod \<Rightarrow> Some (s, http_error ''Method Not Allowed'' 405)
     | Routed rt vs \<Rightarrow>
         (case rt of
            RHello \<Rightarrow> Some (handleHello r ctx hr (b_Hello b) s)
          | RDiscover \<Rightarrow> Some (handleDiscover r ctx hr (b_Discover b) s)
          | RInvoke \<Rightarrow> Some (handleInvoke r sel ctx hr (hd vs) (b_Invoke b) s)
          | RPublish \<Rightarrow> handlePublish r ctx hr (hd vs) (b_Publish b) s
          | RSubscribe \<Rightarrow> handleSubscribe r (k_env k) (rw_Flushes (k_writer k) \<noteq> None) (k_oks k) (k_sse k) ctx hr (hd vs) s
          | RCancel \<Rightarrow> Some (handleCancel r ctx hr (hd vs) (b_Cancel b) s)
          | RHeartbeat \<Rightarrow> Some (handleHeartbeat r ctx hr (b_Heartbeat b) s)
          | RStream \<Rightarrow> handleStream r (k_refused k) (k_ws k) ctx hr s
          | RAddCapability \<Rightarrow> Some (handleAddCapability (b_Capability b) s)
          | RListCapabilities \<Rightarrow> Some (s, handleListCapabilities r s)
          | RAddSchema \<Rightarrow> Some (handleAddSchema (b_Schema b) s)
          | RConformanceHealth \<Rightarrow> Some (s, handleConformanceHealth s)
          | RConnections \<Rightarrow> Some (s, handleConnections r hr s)
          | RUI \<Rightarrow> Some (s, handleUI)
          | RPolicyValidate \<Rightarrow> Some (s, handlePolicyValidate r ctx (b_Policy b) s)
          | RSetQuota \<Rightarrow> Some (handleSetQuota r ctx (b_Quota b) s)
          | RAuditExport \<Rightarrow> Some (s, handleAuditExport hr s)
          | RCreateOrg \<Rightarrow> handleCreateOrg r (b_Org b) s
          | RCreateTenant \<Rightarrow> handleCreateTenant r (b_Tenant b) s
          | RCreateGateway \<Rightarrow> handleCreateGateway r (b_Gateway b) s
          | RUsage \<Rightarrow> Some (s, handleUsage r s)
          | RMetrics \<Rightarrow> Some (s, \<lparr>rp_Status = 200, rp_ContentType = [],
              rp_Body = PMetrics (case s_metrics s of None \<Rightarrow> [] | Some m \<Rightarrow> m)\<rparr>)))"

subsection \<open>Middleware\<close>

definition authMiddleware :: "jwtlib \<Rightarrow> rt \<Rightarrow> AuthConfig \<Rightarrow> http_handler \<Rightarrow> http_handler" where
  "authMiddleware jwt r cfg nxt ctx hr s =
    (if HasPrefix (r_Path hr) ''/ui'' then nxt (Some AnonymousPrincipal) hr s
     else case principalFromRequest jwt hr cfg of
       Inl err \<Rightarrow>
         Some (s, writeMigError r (zero_header\<lparr>h_TenantID := tenantFromRequest hr\<rparr>) (httpStatusForError err)
                    (mk_error (migCodeForAuthErr err) err False))
     | Inr prin \<Rightarrow> nxt (Some prin) hr s)"

definition MiddlewareChain :: "http_handler \<Rightarrow> (http_handler \<Rightarrow> http_handler) list \<Rightarrow> http_handler" where
  "MiddlewareChain nxt middlewares = foldr (\<lambda>m current. m current) middlewares nxt"

subsection \<open>The status recorder of the metrics middleware\<close>

record statusRecorder =
  sr_Writer :: response_writer
  sr_status :: int

definition recorder_WriteHeader :: "int \<Rightarrow> statusRecorder \<Rightarrow> statusRecorder" where
  "recorder_WriteHeader status rw =
    rw\<lparr>sr_status := status, sr_Writer := (sr_Writer rw)\<lparr>rw_Statuses := rw_Statuses (sr_Writer rw) @ [status]\<rparr>\<rparr>"

definition recorder_Flush :: "statusRecorder \<Rightarrow> statusRecorder" where
  "recorder_Flush rw =
    (case rw_Flushes (sr_Writer rw) of
       None \<Rightarrow> rw
     | Some n \<Rightarrow> rw\<lparr>sr_Writer := (sr_Writer rw)\<lparr>rw_Flushes := Some (Suc n)\<rparr>\<rparr>)"

definition recorder_Hijack :: "statusRecorder \<Rightarrow> (string, string) res" where
  "recorder_Hijack rw = (case rw_Hijack (sr_Writer rw) of None \<Rightarrow> Inl ''hijacker not supported'' | Some res \<Rightarrow> res)"

definition recorder_Push :: "string \<Rightarrow> statusRecorder \<Rightarrow> string option" where
  "recorder_Push target rw =
    (case rw_Push (sr_Writer rw) of None \<Rightarrow> Some ''feature not supported'' | Some push \<Rightarrow> push target)"

text \<open>The recorder is itself a writer, and implements every interface.\<close>

definition recorder_writer :: "statusRecorder \<Rightarrow> response_writer" where
  "recorder_writer rw =
    (sr_Writer rw)\<lparr>rw_Flushes := Some (case rw_Flushes (sr_Writer rw) of None \<Rightarrow> 0 | Some n \<Rightarrow> n),
                   rw_Hijack := Some (recorder_Hijack rw), rw_Push := Some (\<lambda>target. recorder_Push target rw)\<rparr>"

text \<open>
  A handler writes one status line, except that an event stream relies on the implicit 200 and
  flushes after every event, and a websocket handler takes over the connection.
\<close>

fun record_response :: "HttpResponse \<Rightarrow> statusRecorder \<Rightarrow> statusRecorder" where
  "record_response resp rw =
    (case rp_Body resp of
       PSse evs \<Rightarrow> (recorder_Flush ^^ length evs) rw
     | PFrames _ \<Rightarrow> rw
     | _ \<Rightarrow> recorder_WriteHeader (rp_Status resp) rw)"

lemma sr_status_Flush [simp]: "sr_status (recorder_Flush rw) = sr_status rw" "sr_status ((recorder_Flush ^^ n) rw) = sr_status rw"
proof -
  show *: "sr_status (recorder_Flush rw) = sr_status rw" for rw
    by (simp add: recorder_Flush_def split: option.split)
  show "sr_status ((recorder_Flush ^^ n) rw) = sr_status rw"
    by (induction n) (simp_all add: *)
qed

text \<open>The metrics a middleware holds are those set on the service; \<open>w\<close> is the writer of the server.\<close>

definition Middleware :: "response_writer \<Rightarrow> http_handler \<Rightarrow> http_handler" where
  "Middleware w nxt ctx hr s =
    (case nxt ctx hr s of
       None \<Rightarrow> None
     | Some (s, resp) \<Rightarrow>
         let path = normalizeMetricPath (r_Path hr); method = r_Method hr;
             rw = record_response resp \<lparr>sr_Writer = w, sr_status = 200\<rparr>
         in Some (s\<lparr>s_metrics := map_option (\<lambda>m. m @ [IncRequestTotal method path (show_int (sr_status rw)),
                     ObserveLatency method path]) (s_metrics s)\<rparr>, resp))"

text \<open>
  The handlers behind the metrics middleware write to its recorder. So the test for a flusher in
  the event stream always succeeds there, whatever the writer of the server can do.
\<close>

definition statusRecorder_session :: "Session \<Rightarrow> Session" where
  "statusRecorder_session k =
    k\<lparr>k_writer := recorder_writer \<lparr>sr_Writer = k_writer k, sr_status = 200\<rparr>\<rparr>"

lemma recorder_flusher [simp]: "rw_Flushes (k_writer (statusRecorder_session k)) \<noteq> None"
  by (simp add: statusRecorder_session_def recorder_writer_def)

text \<open>The handler \<^verbatim>\<open>migd\<close> serves.\<close>

definition http_gateway ::
    "jwtlib \<Rightarrow> rt \<Rightarrow> invoke_select \<Rightarrow> AuthConfig \<Rightarrow> bool \<Rightarrow> Bodies \<Rightarrow> Session \<Rightarrow> http_handler" where
  "http_gateway jwt r sel cfg metrics b k =
    (let handler = authMiddleware jwt r cfg (serve_mux r sel metrics b (if metrics then statusRecorder_session k else k))
     in if metrics then Middleware (k_writer k) handler else handler)"

end
