(* ===== verification/Mig_Http_Props.thy ===== *)
theory Mig_Http_Props
  imports Mig_Http
begin

text \<open>
  Properties of the HTTP binding: routing, what authentication lets through, that streams clean up
  after themselves, and the replies of a websocket session.
\<close>

subsection \<open>Routing\<close>

lemma split_on_Cons_other: "c \<noteq> d \<Longrightarrow> \<exists>x xs. split_on d cs = x # xs \<and> split_on d (c # cs) = (c # x) # xs"
  by (cases "split_on d cs") auto

lemma ui_segments:
  assumes "HasPrefix path ''/ui''"
  obtains x xs where "path_segments path = (''ui'' @ x) # xs"
proof -
  from assms obtain rest where "path = ''/ui'' @ rest"
    by (auto simp: prefix_def)
  then have seg: "path_segments path = split_on (CHR ''/'') (CHR ''u'' # CHR ''i'' # rest)"
    by (simp add: path_segments_def TrimPrefix_def)
  obtain x xs where 1: "split_on (CHR ''/'') (CHR ''i'' # rest) = (CHR ''i'' # x) # xs"
    using split_on_Cons_other [of "CHR ''i''" "CHR ''/''" rest] by auto
  obtain y ys where "split_on (CHR ''/'') (CHR ''i'' # rest) = y # ys"
      "split_on (CHR ''/'') (CHR ''u'' # CHR ''i'' # rest) = (CHR ''u'' # y) # ys"
    using split_on_Cons_other [of "CHR ''u''" "CHR ''/''" "CHR ''i'' # rest"] by auto
  with 1 seg have "path_segments path = (''ui'' @ x) # xs" by simp
  then show thesis by (rule that)
qed

lemma find_route_entry:
  assumes "find_route metrics method path = Routed rt vs"
  obtains m ps where "(m, ps, rt) \<in> set (mux_routes metrics)" "match_path ps (path_segments path) = Some vs"
    "match_method m method"
proof -
  let ?xs = "path_segments path"
  let ?hits = "filter (\<lambda>(m, _, _). match_method m method)
    (filter (\<lambda>(_, ps, _). match_path ps ?xs \<noteq> None) (mux_routes metrics))"
  from assms obtain m ps rest where hits: "?hits = (m, ps, rt) # rest" and vs: "vs = the (match_path ps ?xs)"
    unfolding find_route_def Let_def by (auto split: if_splits list.splits)
  then have "(m, ps, rt) \<in> set ?hits"
    by simp
  then show thesis
    using vs by (intro that) auto
qed

lemma match_path_iff:
  "match_path [] xs = Some vs \<longleftrightarrow> xs = [] \<and> vs = []"
  "match_path (Lit l # ps) xs = Some vs \<longleftrightarrow> (\<exists>ys. xs = l # ys \<and> match_path ps ys = Some vs)"
  "match_path (Wild # ps) xs = Some vs \<longleftrightarrow>
     (\<exists>y ys ws. xs = y # ys \<and> y \<noteq> [] \<and> vs = y # ws \<and> match_path ps ys = Some ws)"
  by (cases xs; auto)+

lemma match_path_wild:
  "match_path [Lit a, Lit b, Lit c, Wild] xs = Some vs \<Longrightarrow> \<exists>v. vs = [v] \<and> v \<noteq> []"
  by (auto simp: match_path_iff)

lemma ui_routes:
  assumes "HasPrefix path ''/ui''"
  shows "find_route metrics method path \<in> {NoRoute, WrongMethod, Routed RUI []}"
proof (cases "find_route metrics method path")
  case (Routed rt vs)
  obtain x xs where seg: "path_segments path = (''ui'' @ x) # xs"
    using assms by (rule ui_segments)
  from Routed obtain m ps where "(m, ps, rt) \<in> set (mux_routes metrics)"
    "match_path ps ((''ui'' @ x) # xs) = Some vs"
    unfolding seg [symmetric] by (rule find_route_entry)
  then have "rt = RUI \<and> ps = [Lit ''ui'']"
    by (auto simp: mux_routes_def http_routes_def split: if_splits)
  moreover from this have "vs = []"
    using \<open>match_path ps _ = _\<close> by (simp add: match_path_iff split: if_splits)
  ultimately show ?thesis
    using Routed by simp
qed simp_all

lemma serve_ui:
  assumes "HasPrefix (r_Path hr) ''/ui''"
  shows "serve_mux r sel metrics b k ctx hr s \<in>
    {Some (s, http_error ''404 page not found'' 404), Some (s, http_error ''Method Not Allowed'' 405), Some (s, handleUI)}"
  using ui_routes [OF assms, of metrics "r_Method hr"] by (auto simp: serve_mux_def)

lemma find_route_wild:
  assumes "find_route metrics method path = Routed rt vs" and "rt \<in> {RInvoke, RPublish, RSubscribe, RCancel}"
  shows "\<exists>c. vs = [c] \<and> c \<noteq> []"
proof -
  from assms(1) obtain m ps where e: "(m, ps, rt) \<in> set (mux_routes metrics)"
    and "match_path ps (path_segments path) = Some vs"
    by (rule find_route_entry)
  moreover have "\<exists>a. ps = [Lit ''mig'', Lit ''v0.1'', Lit a, Wild]"
    using e assms(2) by (auto simp: mux_routes_def http_routes_def split: if_splits)
  ultimately show ?thesis
    using match_path_wild by blast
qed

subsection \<open>Effect on the service\<close>

definition same_but_metrics :: "Service \<Rightarrow> Service \<Rightarrow> bool" where
  "same_but_metrics s s' \<longleftrightarrow> (\<exists>m. s' = s\<lparr>s_metrics := m\<rparr>)"

lemma same_but_metrics_refl [simp]: "same_but_metrics s s"
  by (auto simp: same_but_metrics_def intro!: exI [of _ "s_metrics s"])

lemma Middleware_result:
  assumes "Middleware w nxt ctx hr s = Some (s', resp)"
  obtains s1 where "nxt ctx hr s = Some (s1, resp)" "same_but_metrics s1 s'"
proof (cases "nxt ctx hr s")
  case None
  with assms show thesis by (simp add: Middleware_def)
next
  case (Some sr)
  obtain s1 rp where sr: "sr = (s1, rp)" by (cases sr)
  with Some assms have "rp = resp" "same_but_metrics s1 s'"
    by (auto simp: Middleware_def Let_def same_but_metrics_def)
  with Some sr show thesis by (intro that) simp_all
qed

lemma http_gateway_result:
  assumes "http_gateway jwt r sel cfg metrics b k ctx hr s = Some (s', resp)"
  obtains s1 k' where "authMiddleware jwt r cfg (serve_mux r sel metrics b k') ctx hr s = Some (s1, resp)"
    "same_but_metrics s1 s'"
proof (cases metrics)
  case True
  with assms have "Middleware (k_writer k) (authMiddleware jwt r cfg (serve_mux r sel metrics b (statusRecorder_session k))) ctx hr s = Some (s', resp)"
    by (simp add: http_gateway_def Let_def)
  then show thesis by (rule Middleware_result) (rule that)
next
  case False
  with assms show thesis
    by (intro that [of k s']) (simp_all add: http_gateway_def Let_def)
qed

lemma auth_error_status:
  "httpStatusForError ''missing bearer token'' = 401" "httpStatusForError ''invalid bearer token'' = 401"
  "httpStatusForError ''token is missing tenant claim'' = 403"
  "httpStatusForError ''tenant header is required'' = 403"
  "httpStatusForError ''tenant header does not match token tenant'' = 403"
  by code_simp+

lemma auth_error_class:
  assumes "err \<in> {''tenant header is required'', ''missing bearer token'', ''invalid bearer token'',
    ''token is missing tenant claim'', ''tenant header does not match token tenant''}"
  shows "err \<in> {''missing bearer token'', ''invalid bearer token''} \<and> httpStatusForError err = 401 \<or>
     err \<in> {''token is missing tenant claim'', ''tenant header is required'',
       ''tenant header does not match token tenant''} \<and> httpStatusForError err = 403"
  using assms by (elim insertE emptyE) (simp_all only: auth_error_status insert_iff simp_thms)

lemma migCode_status:
  "migCodeForAuthErr err = (if httpStatusForError err = 403 then ErrorForbidden else ErrorUnauthorized)"
  by (simp add: migCodeForAuthErr_def httpStatusForError_def)

lemma writeMigError_sel [simp]:
  "rp_Status (writeMigError r h st e) = st"
  "\<exists>h'. rp_Body (writeMigError r h st e) = PError \<lparr>env_Header = h', env_Error = e\<rparr>"
  by (simp_all add: writeMigError_def writeJSON_def Let_def)

lemma refused_request:
  assumes "ac_Mode cfg = AuthModeJWT" and "principalFromRequest jwt hr cfg = Inl err"
    and "\<not> HasPrefix (r_Path hr) ''/ui''"
    and "http_gateway jwt r sel cfg metrics b k ctx hr s = Some (s', resp)"
  shows "same_but_metrics s s' \<and>
    (\<exists>h. rp_Body resp = PError \<lparr>env_Header = h, env_Error =
       mk_error (if rp_Status resp = 403 then ErrorForbidden else ErrorUnauthorized) err False\<rparr>) \<and>
    (err \<in> {''missing bearer token'', ''invalid bearer token''} \<and> rp_Status resp = 401 \<or>
     err \<in> {''token is missing tenant claim'', ''tenant header is required'',
       ''tenant header does not match token tenant''} \<and> rp_Status resp = 403)"
proof -
  from assms(4) obtain s1 k' where s1: "authMiddleware jwt r cfg (serve_mux r sel metrics b k') ctx hr s = Some (s1, resp)"
    and m: "same_but_metrics s1 s'"
    by (rule http_gateway_result)
  have "err \<in> {''tenant header is required'', ''missing bearer token'', ''invalid bearer token'',
    ''token is missing tenant claim'', ''tenant header does not match token tenant''}"
    using assms(2) unfolding principalFromRequest_def
    by (rule auth_error_messages) (simp add: assms(1))
  note cls = auth_error_class [OF this]
  have s1: "s1 = s" and rp: "resp = writeMigError r (zero_header\<lparr>h_TenantID := tenantFromRequest hr\<rparr>)
      (httpStatusForError err) (mk_error (migCodeForAuthErr err) err False)"
    using s1 assms(2,3) by (simp_all add: authMiddleware_def)
  show ?thesis
    unfolding rp migCode_status writeMigError_sel(1)
    by (intro conjI cls writeMigError_sel(2)) (use m s1 in simp)
qed

text \<open>
  C8. In JWT mode a request without an acceptable token is answered with 401 and
  \<^verbatim>\<open>MIG_UNAUTHORIZED\<close>, or with 403 and \<^verbatim>\<open>MIG_FORBIDDEN\<close> when the token or header tenant is at
  fault, whatever the route, and changes nothing but the metrics. The console under \<open>/ui\<close> is the
  only exception.
\<close>

theorem unauthenticated_request_harmless:
  assumes "ac_Mode cfg = AuthModeJWT" and "principalFromRequest jwt hr cfg = Inl err"
    and "\<not> HasPrefix (r_Path hr) ''/ui''"
    and "http_gateway jwt r sel cfg metrics b k ctx hr s = Some (s', resp)"
  shows "same_but_metrics s s' \<and>
    (\<exists>h. rp_Body resp = PError \<lparr>env_Header = h, env_Error =
       mk_error (if rp_Status resp = 403 then ErrorForbidden else ErrorUnauthorized) err False\<rparr>) \<and>
    (err \<in> {''missing bearer token'', ''invalid bearer token''} \<and> rp_Status resp = 401 \<or>
     err \<in> {''token is missing tenant claim'', ''tenant header is required'',
       ''tenant header does not match token tenant''} \<and> rp_Status resp = 403)"
  by (rule refused_request [OF assms])


lemma Invoke_success_facts:
  assumes "Invoke r sel s capability req actor prin = (s', Inr resp)"
  obtains head d where "prepare r (iq_Header req) = Inr head" "ip_Header resp = head"
    "authorized s head (target_capability capability req) prin d"
    "s_audit s' = s_audit s \<or> (\<exists>a. s_audit s' = s_audit s @ [a] \<and> a_TenantID a = h_TenantID head \<and>
       a_Actor a = actor \<and> a_Capability a = target_capability capability req)"
  using assms
proof (cases rule: Invoke_cases)
  case (replayed cached head)
  then obtain head' d where "prepare r (iq_Header req) = Inr head'"
    "authorized s head' (target_capability capability req) prin d"
    by (metis Invoke_admit_unauthorized admission.distinct(1))
  with replayed show thesis
    by (intro that [of head d]) simp_all
next
  case (fresh p)
  note adm = Invoke_admit_pending_ok [OF fresh(4)]
  have "\<exists>a. s_audit s' = s_audit s @ [a] \<and> a_TenantID a = h_TenantID (pd_Header p) \<and>
       a_Actor a = actor \<and> a_Capability a = target_capability capability req"
    using fresh adm(2,7) by simp
  with fresh adm show thesis
    by (intro that [of "pd_Header p" "pd_Descriptor p"]) (simp_all add: response_of_def)
qed auto

lemma handleInvoke_success:
  assumes "handleInvoke r sel ctx hr capability body s = (s', resp)" and "rp_Status resp = 200"
  obtains req h ir where "body = Decoded req" "rp_Body resp = PInvoke ir"
    "applyPrincipalHeader (iq_Header req) (principalFromContext ctx) hr = (h, None)"
    "Invoke r sel s capability (req\<lparr>iq_Header := h\<rparr>) (http_actor (principalFromContext ctx) hr)
       (principalFromContext ctx) = (s', Inr ir)"
  using assms
  by (auto simp: handleInvoke_def decodeJSON_def http_error_def writeMigError_def writeJSON_def invoke_status_def Let_def
      split: body.splits prod.splits option.splits sum.splits if_splits)

text \<open>
  C6. End to end in JWT mode: if the gateway answers an invocation with 200, then the bearer token
  was accepted by the JWT library under the configured secret and HS256, the response carries the
  token's tenant, the token grants one of the scopes of the invoked capability, which exists, and
  the audit trail grew by at most one record, attributed to that tenant.
\<close>

theorem authenticated_invoke_sound:
  assumes "ac_Mode cfg = AuthModeJWT" and "find_route metrics (r_Method hr) (r_Path hr) = Routed RInvoke [c]"
    and "http_gateway jwt r sel cfg metrics b k ctx hr s = Some (s', resp)" and "rp_Status resp = 200"
  shows "\<exists>tok cl ir d. jwt tok (jwt_keyfunc cfg) = Some cl \<and> p_TenantID (principal_of_claims cl) \<noteq> [] \<and>
    rp_Body resp = PInvoke ir \<and> h_TenantID (ip_Header ir) = p_TenantID (principal_of_claims cl) \<and>
    map_of (s_capabilities s) c = Some d \<and>
    (c_AuthScopes d = [] \<or> set (scopesFromClaims cl) \<inter> set (c_AuthScopes d) \<noteq> {}) \<and>
    (s_audit s' = s_audit s \<or>
     (\<exists>a. s_audit s' = s_audit s @ [a] \<and> a_TenantID a = p_TenantID (principal_of_claims cl) \<and> a_Capability a = c))"
proof -
  from assms(3) obtain s1 k' where auth: "authMiddleware jwt r cfg (serve_mux r sel metrics b k') ctx hr s = Some (s1, resp)"
    and m: "same_but_metrics s1 s'"
    by (rule http_gateway_result)
  have "\<not> HasPrefix (r_Path hr) ''/ui''"
    using ui_routes [of "r_Path hr" metrics "r_Method hr"] assms(2) by auto
  with auth assms(1,4) obtain p where p: "principalFromRequest jwt hr cfg = Inr p"
    and served: "serve_mux r sel metrics b k' (Some p) hr s = Some (s1, resp)"
    by (auto simp: authMiddleware_def httpStatusForError_def split: sum.splits if_splits)
  from p assms(1) obtain cl tok where tok: "jwt tok (jwt_keyfunc cfg) = Some cl" "p = principal_of_claims cl" "p_TenantID p \<noteq> []"
    unfolding principalFromRequest_def by (metis jwt_principal)
  from served assms(2) have "handleInvoke r sel (Some p) hr c (b_Invoke b) s = (s1, resp)"
    by (simp add: serve_mux_def)
  then obtain req h ir where ir: "rp_Body resp = PInvoke ir"
    and h: "applyPrincipalHeader (iq_Header req) p hr = (h, None)"
    and inv: "Invoke r sel s c (req\<lparr>iq_Header := h\<rparr>) (http_actor p hr) p = (s1, Inr ir)"
    using assms(4) by (auto elim!: handleInvoke_success simp: principalFromContext_def)
  have "c \<noteq> []"
    using find_route_wild [OF assms(2)] by auto
  then have tc: "target_capability c (req\<lparr>iq_Header := h\<rparr>) = c"
    by (simp add: target_capability_def)
  from inv obtain head d where head: "prepare r h = Inr head" "ip_Header ir = head"
    and au: "authorized s head c p d"
    and audit: "s_audit s1 = s_audit s \<or> (\<exists>a. s_audit s1 = s_audit s @ [a] \<and> a_TenantID a = h_TenantID head \<and>
       a_Actor a = http_actor p hr \<and> a_Capability a = c)"
    by (rule Invoke_success_facts) (simp add: tc)
  have t: "h_TenantID head = p_TenantID p"
    using http_guard.prepared_tenant [OF h tok(3) head(1)] .
  have "s_audit s' = s_audit s1"
    using m by (auto simp: same_but_metrics_def)
  moreover have "c_AuthScopes d = [] \<or> set (scopesFromClaims cl) \<inter> set (c_AuthScopes d) \<noteq> {}"
    using au tok(2) by (simp add: authorized_def HasAnyScope_iff)
  moreover have "map_of (s_capabilities s) c = Some d"
    using au by (simp add: authorized_def)
  ultimately show ?thesis
    using tok ir head(2) t audit
    by (intro exI [of _ tok] exI [of _ cl] exI [of _ ir] exI [of _ d] conjI) auto
qed

subsection \<open>Streams leave no trace\<close>

definition gauge :: "string \<Rightarrow> Service \<Rightarrow> int" where
  "gauge t s = (case s_metrics s of None \<Rightarrow> 0 | Some m \<Rightarrow> active_streams t m)"

text \<open>
  What other goroutines do while a stream is open, as far as this stream is concerned: they do
  not install or remove the metrics, their own streams are balanced, and they leave its
  registrations and its channel alone.
\<close>

definition env_ok :: "string \<Rightarrow> (Service \<Rightarrow> Service) \<Rightarrow> bool" where
  "env_ok t env \<longleftrightarrow> (\<forall>s. gauge t (env s) = gauge t s \<and> (s_metrics (env s) = None \<longleftrightarrow> s_metrics s = None) \<and>
     s_connections (env s) = s_connections s \<and> s_subscribers (env s) = s_subscribers s \<and>
     (\<forall>c. chan_open s c \<longrightarrow> chan_open (env s) c))"

lemma gauge_recordError [simp]: "gauge t (recordError c p s) = gauge t s"
  by (simp add: gauge_def recordError_def split: option.split)

lemma metered_recordError [simp]: "s_metrics (recordError c p s) = None \<longleftrightarrow> s_metrics s = None"
  by (simp add: recordError_def split: option.split)

lemma gauge_inc: "s_metrics s \<noteq> None \<Longrightarrow> gauge t (inc_stream t s) = gauge t s + 1"
  by (auto simp: gauge_def inc_stream_def)

lemma gauge_dec: "s_metrics s \<noteq> None \<Longrightarrow> gauge t (dec_stream True t s) = gauge t s - 1"
  by (auto simp: gauge_def dec_stream_def)

lemma inc_stream_frame: "\<exists>m. inc_stream t s = s\<lparr>s_metrics := m\<rparr> \<and> (m = None \<longleftrightarrow> s_metrics s = None)"
proof (cases "s_metrics s")
  case None
  then have "inc_stream t s = s\<lparr>s_metrics := None\<rparr>" by (simp add: inc_stream_def)
  with None show ?thesis by blast
qed (auto simp: inc_stream_def)

lemma dec_stream_frame: "\<exists>m. dec_stream b t s = s\<lparr>s_metrics := m\<rparr>"
proof (cases "dec_stream b t s = s")
  case True
  then have "dec_stream b t s = s\<lparr>s_metrics := s_metrics s\<rparr>" by simp
  then show ?thesis by blast
qed (auto simp: dec_stream_def split: option.splits if_splits)

lemma dec_stream_fields [simp]:
  "s_connections (dec_stream b t s) = s_connections s" "s_subscribers (dec_stream b t s) = s_subscribers s"
  using dec_stream_frame [of b t s] by auto

lemma gauge_balanced:
  assumes "gauge t u = gauge t (inc_stream t s)" and "s_metrics u = None \<longleftrightarrow> s_metrics s = None"
  shows "gauge t (dec_stream (s_metrics s \<noteq> None) t u) = gauge t s"
proof (cases "s_metrics s")
  case None
  then show ?thesis using assms by (simp add: dec_stream_def inc_stream_def)
next
  case (Some m)
  then show ?thesis
    using assms gauge_dec [of u t] gauge_inc [of s t] by simp
qed

lemma gauge_cong: "s_metrics s' = s_metrics s \<Longrightarrow> gauge t s' = gauge t s"
  by (simp add: gauge_def)

lemma unsubscribe_fields:
  assumes "unsubscribe topic c s = Some s'"
  shows "s_metrics s' = s_metrics s" "s_connections s' = s_connections s"
    "topic_subs s' t = (if t = topic then removeAll c (topic_subs s t) else topic_subs s t)"
proof -
  from assms obtain ch where
    "s' = (unsub_delete topic c s)\<lparr>s_chans := AList.update c (ch\<lparr>ch_closed := True\<rparr>) (s_chans (unsub_delete topic c s))\<rparr>"
    unfolding unsubscribe_def by (rule chan_close_Some)
  then show "s_metrics s' = s_metrics s" "s_connections s' = s_connections s"
    "topic_subs s' t = (if t = topic then removeAll c (topic_subs s t) else topic_subs s t)"
    using unsub_delete_frame [of topic c s] by (auto simp: topic_subs_unsub)
qed

lemma unsubscribe_open: "chan_open s c \<Longrightarrow> unsubscribe topic c s \<noteq> None"
  by (auto simp: unsubscribe_def chan_close_def chan_open_def)

lemma Subscribe_metrics: "Subscribe s t cur = (s', Inr (snap, c)) \<Longrightarrow> s_metrics s' = s_metrics s"
  by (auto elim: Subscribe_ok)

lemma event_inv_metrics [simp]: "event_inv (s\<lparr>s_metrics := m\<rparr>) = event_inv s"
  by (rule event_inv_cong) simp_all

text \<open>The open stream: the registrations made, the environment, and the deferred clean-up.\<close>

lemma stream_cleanup:
  assumes inv: "event_inv s" "map_ok (s_connections s)"
    and sub: "Subscribe s topic cur = (s1, Inr (events, c))"
    and reg: "RegisterConnection r s1 conn = Some (s2, i)" and "map_of (s_connections s) i = None"
    and env: "env_ok t env \<or> env = id"
  shows "\<exists>s3. unsubscribe topic c (unregister i (env s2)) = Some s3 \<and>
    gauge t s3 = gauge t s \<and> (s_metrics s3 = None \<longleftrightarrow> s_metrics s = None) \<and>
    map_of (s_connections s3) = map_of (s_connections s) \<and> (\<forall>u. topic_subs s3 u = topic_subs s u)"
proof -
  from sub obtain k where c: "c = s_next_chan s"
    and s1: "s1 = s\<lparr>s_chans := AList.update c \<lparr>ch_buf = [], ch_closed = False\<rparr> (s_chans s),
       s_next_chan := Suc c, s_subscribers := AList.update topic (topic_subs s topic @ [c]) (s_subscribers s)\<rparr>"
    by (rule Subscribe_ok)
  from reg obtain conn' where s2: "s2 = s1\<lparr>s_connections := AList.update i conn' (s_connections s1)\<rparr>"
    by (rule RegisterConnection_ok)
  have new: "c \<notin> set (topic_subs s u)" for u
    using fresh_not_subscribed [OF inv(1)] c by simp
  have e: "gauge t (env s2) = gauge t s2" "s_metrics (env s2) = None \<longleftrightarrow> s_metrics s2 = None"
    "s_connections (env s2) = s_connections s2" "s_subscribers (env s2) = s_subscribers s2"
    "\<And>d. chan_open s2 d \<Longrightarrow> chan_open (env s2) d"
    using env by (auto simp: env_ok_def)
  have "chan_open s2 c"
    by (simp add: s2 s1 chan_open_def)
  then have "chan_open (unregister i (env s2)) c"
    using e(5) by (simp add: chan_open_def unregister_def)
  then obtain s3 where s3: "unsubscribe topic c (unregister i (env s2)) = Some s3"
    using unsubscribe_open by blast
  have "s_metrics s2 = s_metrics s"
    by (simp add: s2 s1)
  then have "gauge t s3 = gauge t s" "s_metrics s3 = None \<longleftrightarrow> s_metrics s = None"
    using unsubscribe_fields(1) [OF s3] e(1,2) by (simp_all add: unregister_def gauge_def)
  moreover have "map_of (s_connections s3) = map_of (s_connections s)"
    using unsubscribe_fields(2) [OF s3] e(3) go.get_del_put [OF inv(2) assms(5), of conn']
    by (simp add: unregister_def s2 s1)
  moreover have "topic_subs s3 u = topic_subs s u" for u
    using unsubscribe_fields(3) [OF s3, of u] e(4) new [of u] by (auto simp: unregister_def s2 s1 removeAll_id)
  ultimately show ?thesis
    using s3 by (intro exI [of _ s3]) simp
qed


lemma RegisterConnection_fresh:
  assumes "RegisterConnection r s conn = Some (s', i)" and "cs_ID conn = []"
  shows "\<exists>x. short_id (rt_rand r 0) = Some x \<and> i = ''conn-'' @ x"
  using assms by (auto simp: RegisterConnection_def Let_def split: option.splits if_splits)

lemma sse_refused:
  assumes "Subscribe (inc_stream ''sse'' s) topic (query_get hr ''resume_cursor'') = (s1, Inl e)"
  shows "\<exists>s' resp. handleSubscribe r env flusher oks inputs ctx hr topic s = Some (s', resp) \<and>
    gauge ''sse'' s' = gauge ''sse'' s \<and> map_of (s_connections s') = map_of (s_connections s) \<and>
    (\<forall>u. topic_subs s' u = topic_subs s u)"
proof -
  let ?t = "''sse''" and ?m = "s_metrics s \<noteq> None"
  obtain m where frame: "inc_stream ?t s = s\<lparr>s_metrics := m\<rparr>" "m = None \<longleftrightarrow> s_metrics s = None"
    using inc_stream_frame by blast
  have s1: "s1 = recordError ErrorInvalidRequest ''subscribe'' (inc_stream ?t s)"
    using assms by (blast dest: Subscribe_error_state)
  have "gauge ?t (dec_stream ?m ?t s1) = gauge ?t s"
    by (rule gauge_balanced) (simp_all add: s1 frame)
  moreover have "handleSubscribe r env flusher oks inputs ctx hr topic s =
      Some (dec_stream ?m ?t s1, writeMigError r (zero_header\<lparr>h_TenantID := tenantFromRequest hr\<rparr>) 400 e)"
    using assms unfolding handleSubscribe_def Let_def by simp
  moreover have "s_connections (dec_stream ?m ?t s1) = s_connections s" "s_subscribers (dec_stream ?m ?t s1) = s_subscribers s"
    by (simp_all add: s1 frame)
  ultimately show ?thesis by auto
qed

lemma sse_opened:
  assumes inv: "event_inv s" "map_ok (s_connections s)" and env: "env_ok ''sse'' env"
    and id: "short_id (rt_rand r 0) = Some x" "map_of (s_connections s) (''conn-'' @ x) = None"
    and sub: "Subscribe (inc_stream ''sse'' s) topic (query_get hr ''resume_cursor'') = (s1, Inr (events, c))"
  shows "\<exists>s' resp. handleSubscribe r env flusher oks inputs ctx hr topic s = Some (s', resp) \<and>
    gauge ''sse'' s' = gauge ''sse'' s \<and> map_of (s_connections s') = map_of (s_connections s) \<and>
    (\<forall>u. topic_subs s' u = topic_subs s u)"
proof -
  let ?t = "''sse''" and ?cur = "query_get hr ''resume_cursor''"
  let ?s = "inc_stream ?t s" and ?m = "s_metrics s \<noteq> None"
  obtain m where frame: "?s = s\<lparr>s_metrics := m\<rparr>" "m = None \<longleftrightarrow> s_metrics s = None"
    using inc_stream_frame by blast
  let ?conn = "\<lparr>cs_ID = [], cs_Protocol = ''http'', cs_Kind = ''sse_subscribe'',
    cs_TenantID = stream_tenant (principalFromContext ctx) hr, cs_Actor = p_Subject (principalFromContext ctx),
    cs_RemoteAddr = r_RemoteAddr hr, cs_StartedAt = [],
    cs_Meta = Some [(''topic'', JStr topic), (''resume_cursor'', JStr ?cur)]\<rparr>"
  obtain s2 i where reg: "RegisterConnection r s1 ?conn = Some (s2, i)"
    using id(1) by (auto simp: RegisterConnection_def Let_def)
  have i: "map_of (s_connections ?s) i = None"
    using RegisterConnection_fresh [OF reg] id by (auto simp: frame)
  let ?env = "if flusher then env else id"
  have "env_ok ?t ?env \<or> ?env = id"
    using env by simp
  with stream_cleanup [OF _ _ sub reg i, of ?t ?env] inv obtain s3
    where s3: "unsubscribe topic c (unregister i (?env s2)) = Some s3" "gauge ?t s3 = gauge ?t ?s"
      "s_metrics s3 = None \<longleftrightarrow> s_metrics ?s = None" "map_of (s_connections s3) = map_of (s_connections ?s)"
      "\<forall>u. topic_subs s3 u = topic_subs ?s u"
    by (auto simp: frame)
  have "gauge ?t (dec_stream ?m ?t s3) = gauge ?t s"
    by (rule gauge_balanced) (use s3 in \<open>simp_all add: frame\<close>)
  moreover have "\<exists>resp. handleSubscribe r env flusher oks inputs ctx hr topic s = Some (dec_stream ?m ?t s3, resp)"
    using sub reg s3(1) unfolding handleSubscribe_def Let_def
    by (cases flusher) (simp_all split: prod.split)
  moreover have "map_of (s_connections (dec_stream ?m ?t s3)) = map_of (s_connections s)"
    "\<forall>u. topic_subs (dec_stream ?m ?t s3) u = topic_subs s u"
    using s3(4,5) by (simp_all add: frame)
  ultimately show ?thesis by blast
qed

text \<open>
  An event stream leaves no trace. Whether it ends because the client went away, a write failed,
  flushing is unsupported, or the subscription was refused, the handler returns without a panic,
  the gauge of active streams is back to its value, the connection is unregistered and the
  subscriber map is as before.
\<close>

lemma sse_leaves_no_trace:
  assumes inv: "event_inv s" "map_ok (s_connections s)" and env: "env_ok ''sse'' env"
    and id: "short_id (rt_rand r 0) = Some x" "map_of (s_connections s) (''conn-'' @ x) = None"
  shows "\<exists>s' resp. handleSubscribe r env flusher oks inputs ctx hr topic s = Some (s', resp) \<and>
    gauge ''sse'' s' = gauge ''sse'' s \<and> map_of (s_connections s') = map_of (s_connections s) \<and>
    (\<forall>u. topic_subs s' u = topic_subs s u)"
proof (cases "Subscribe (inc_stream ''sse'' s) topic (query_get hr ''resume_cursor'')")
  case (Pair s1 res)
  show ?thesis
  proof (cases res)
    case (Inl e)
    with Pair have "Subscribe (inc_stream ''sse'' s) topic (query_get hr ''resume_cursor'') = (s1, Inl e)" by simp
    then show ?thesis by (rule sse_refused)
  next
    case (Inr ec)
    with Pair obtain events c where
      "Subscribe (inc_stream ''sse'' s) topic (query_get hr ''resume_cursor'') = (s1, Inr (events, c))" by (cases ec) simp
    with inv env id show ?thesis by (rule sse_opened)
  qed
qed

lemma register_unregister_gauge:
  assumes "map_ok (s_connections s)" and "RegisterConnection r s conn = Some (s1, i)"
    and "map_of (s_connections s) i = None" and "s_connections u = s_connections s1"
  shows "map_of (s_connections (unregister i u)) = map_of (s_connections s)"
proof -
  from assms(2) obtain c where "s1 = s\<lparr>s_connections := AList.update i c (s_connections s)\<rparr>"
    by (rule RegisterConnection_ok)
  with assms(4) go.get_del_put [OF assms(1,3), of c] show ?thesis
    by (simp add: unregister_def)
qed

lemma RegisterConnection_frame:
  assumes "RegisterConnection r s conn = Some (s1, i)"
  shows "s_metrics s1 = s_metrics s" "s_subscribers s1 = s_subscribers s" "event_inv s1 = event_inv s"
    "s_next_chan s1 = s_next_chan s" "s_chans s1 = s_chans s" "s_events s1 = s_events s"
proof -
  from assms obtain c where s1: "s1 = s\<lparr>s_connections := AList.update i c (s_connections s)\<rparr>"
    by (rule RegisterConnection_ok)
  then show "s_metrics s1 = s_metrics s" "s_subscribers s1 = s_subscribers s"
    "s_next_chan s1 = s_next_chan s" "s_chans s1 = s_chans s" "s_events s1 = s_events s"
    by simp_all
  show "event_inv s1 = event_inv s"
    by (rule event_inv_cong) (simp_all add: s1)
qed

text \<open>What the deferred calls of a stream handler restore.\<close>

lemma stream_exit:
  assumes ok: "map_ok (s_connections s)" and reg: "RegisterConnection r (inc_stream t s) conn = Some (s1, i)"
    and fresh: "map_of (s_connections s) i = None"
    and u: "gauge t u = gauge t s1" "s_metrics u = None \<longleftrightarrow> s_metrics s1 = None"
      "s_connections u = s_connections s1" "\<forall>v. topic_subs u v = topic_subs s1 v"
  shows "gauge t (dec_stream (s_metrics s \<noteq> None) t (unregister i u)) = gauge t s \<and>
    map_of (s_connections (unregister i u)) = map_of (s_connections s) \<and>
    (\<forall>v. topic_subs (unregister i u) v = topic_subs s v)"
proof -
  obtain m where frame: "inc_stream t s = s\<lparr>s_metrics := m\<rparr>" "m = None \<longleftrightarrow> s_metrics s = None"
    using inc_stream_frame by blast
  note f = RegisterConnection_frame [OF reg]
  have "gauge t s1 = gauge t (inc_stream t s)"
    using f(1) by (rule gauge_cong)
  moreover have "gauge t (unregister i u) = gauge t u"
    by (rule gauge_cong) (simp add: unregister_def)
  ultimately have "gauge t (dec_stream (s_metrics s \<noteq> None) t (unregister i u)) = gauge t s"
    by (intro gauge_balanced) (use u f frame in \<open>simp_all add: unregister_def\<close>)
  moreover have "map_of (s_connections (unregister i u)) = map_of (s_connections s)"
    using register_unregister_gauge [OF _ reg _ u(3)] ok fresh by (simp add: frame)
  moreover have "topic_subs (unregister i u) v = topic_subs s v" for v
    using u(4) f(2) by (simp add: unregister_def frame)
  ultimately show ?thesis by blast
qed

subsection \<open>Websocket replies\<close>

lemma aliased_tenant [simp]: "h_TenantID (aliased r h) = h_TenantID h"
  by (simp add: aliased_def split: sum.split)

definition reply_ok :: "Principal \<Rightarrow> StreamFrame \<Rightarrow> StreamFrame \<Rightarrow> bool" where
  "reply_ok prin frame out \<longleftrightarrow>
    f_StreamID out = (if f_StreamID frame = [] then ''stream-'' @ h_MessageID (f_Header frame) else f_StreamID frame) \<and>
    f_EndStream out \<and>
    (f_Error out = None \<longrightarrow>
       (f_Kind frame = ''request'' \<and> f_Kind out = ''response'' \<or> f_Kind frame = ''control'' \<and> f_Kind out = ''control'') \<and>
       (p_TenantID prin \<noteq> [] \<longrightarrow> h_TenantID (f_Header out) = p_TenantID prin)) \<and>
    (f_Error out \<noteq> None \<longrightarrow> f_Kind out = ''error'' \<and> f_Payload out = None)"

lemma stream_frame_reply:
  assumes "stream_frame r sel prin hr frame s = (s', out, fatal)"
  shows "reply_ok prin frame out"
proof -
  obtain h eo where ap: "applyPrincipalHeader (f_Header frame) prin hr = (h, eo)"
    by (cases "applyPrincipalHeader (f_Header frame) prin hr")
  have t: "eo = None \<Longrightarrow> p_TenantID prin \<noteq> [] \<Longrightarrow> h_TenantID h = p_TenantID prin"
    using http_guard.passes_own_tenant ap by blast
  show ?thesis
    using assms t unfolding stream_frame_def ap reply_ok_def
    by (auto simp: Let_def split: option.splits if_splits prod.splits sum.splits)
qed

lemma gauge_cancelled [simp]: "gauge t (s\<lparr>s_cancelled := x\<rparr>) = gauge t s"
  by (simp add: gauge_def)

lemma stream_frame_state_rule:
  assumes "P s" and "\<And>c req a. P (fst (Invoke r sel s c req a prin))" and "\<And>q mid. P (fst (Cancel r s q mid))"
  shows "P (fst (stream_frame r sel prin hr frame s))"
  unfolding stream_frame_def
  by (simp add: Let_def split_beta assms split: option.split)

text \<open>What a stream session relies on is not touched by invocations and cancellations.\<close>

definition session_same :: "string \<Rightarrow> Service \<Rightarrow> Service \<Rightarrow> bool" where
  "session_same t s s' \<longleftrightarrow> gauge t s' = gauge t s \<and> (s_metrics s' = None \<longleftrightarrow> s_metrics s = None) \<and>
     s_connections s' = s_connections s \<and> s_subscribers s' = s_subscribers s"

lemma session_same_trans: "session_same t s s' \<Longrightarrow> session_same t s' s'' \<Longrightarrow> session_same t s s''"
  by (simp add: session_same_def)

lemma session_same_env: "env_ok t env \<Longrightarrow> session_same t s (env s)"
  by (simp add: env_ok_def session_same_def)

lemma session_same_Invoke: "session_same t s (fst (Invoke r sel s c req a prin))"
proof -
  obtain u res where i: "Invoke r sel s c req a prin = (u, res)"
    by (cases "Invoke r sel s c req a prin")
  from i show ?thesis
  proof (cases rule: Invoke_cases)
    case (rejected e)
    have "session_same t s (fst (Invoke_admit r s c req a prin))"
      by (rule Invoke_admit_state_rule) (simp_all add: session_same_def)
    with rejected i show ?thesis by simp
  next
    case (fresh p)
    with i show ?thesis by (simp add: session_same_def gauge_def)
  qed (use i in \<open>simp_all add: session_same_def\<close>)
qed

lemma session_same_Cancel: "session_same t s (fst (Cancel r s q mid))"
  by (simp add: Cancel_def Let_def session_same_def split: sum.split)

lemma stream_frame_same: "session_same t s (fst (stream_frame r sel prin hr frame s))"
  by (rule stream_frame_state_rule) (simp_all add: session_same_Invoke session_same_Cancel, simp add: session_same_def)

lemma stream_loop_same:
  assumes "\<forall>i \<in> set is. env_ok t (wi_env i)"
  shows "session_same t s (fst (stream_loop prin hr is s))"
  using assms
proof (induction "is" arbitrary: s)
  case (Cons i "is")
  obtain s1 out fatal where f: "stream_frame (wi_rt i) (wi_sel i) prin hr (wi_frame i) (wi_env i s) = (s1, out, fatal)"
    by (cases "stream_frame (wi_rt i) (wi_sel i) prin hr (wi_frame i) (wi_env i s)")
  have "session_same t s (wi_env i s)"
    using Cons.prems by (simp add: session_same_env)
  then have "session_same t s s1"
    using stream_frame_same [of t "wi_env i s" "wi_rt i" "wi_sel i" prin hr "wi_frame i"] f
    by (auto intro: session_same_trans)
  with f Cons show ?case
    by (auto simp: split_beta intro: session_same_trans)
qed (simp add: session_same_def)

text \<open>
  On a websocket every frame read gets exactly one reply, in order, as long as replies can be
  written: it carries the frame's stream identifier, ends that stream, is an error frame exactly
  when it carries an error, and a successful reply belongs to the tenant of the principal.
\<close>

lemma websocket_replies:
  assumes "\<forall>i \<in> set is. wi_ok i"
  shows "list_all2 (\<lambda>i out. reply_ok prin (wi_frame i) out) is (snd (stream_loop prin hr is s))"
  using assms
proof (induction "is" arbitrary: s)
  case (Cons i "is")
  obtain s1 out fatal where f: "stream_frame (wi_rt i) (wi_sel i) prin hr (wi_frame i) (wi_env i s) = (s1, out, fatal)"
    by (cases "stream_frame (wi_rt i) (wi_sel i) prin hr (wi_frame i) (wi_env i s)")
  with Cons stream_frame_reply [OF f] show ?case
    by (simp add: split_beta)
qed simp

text \<open>
  A websocket session leaves no trace in the registries: whether the upgrade is refused or the
  session ends after any number of frames, the handler returns, the gauge of active streams is
  back to its value and the connection is unregistered.
\<close>

lemma websocket_leaves_no_trace:
  assumes "map_ok (s_connections s)" and env: "\<forall>i \<in> set is. env_ok ''websocket'' (wi_env i)"
    and id: "short_id (rt_rand r 0) = Some x" "map_of (s_connections s) (''conn-'' @ x) = None"
  shows "\<exists>s' resp. handleStream r refused is ctx hr s = Some (s', resp) \<and>
    gauge ''websocket'' s' = gauge ''websocket'' s \<and> map_of (s_connections s') = map_of (s_connections s)"
proof -
  let ?t = "''websocket''"
  let ?s = "inc_stream ?t s" and ?m = "s_metrics s \<noteq> None"
  obtain m where frame: "?s = s\<lparr>s_metrics := m\<rparr>" "m = None \<longleftrightarrow> s_metrics s = None"
    using inc_stream_frame by blast
  show ?thesis
  proof (cases refused)
    case (Some e)
    have "gauge ?t (dec_stream ?m ?t ?s) = gauge ?t s"
      by (rule gauge_balanced) (simp_all add: frame)
    with Some show ?thesis
      by (cases e) (simp add: handleStream_def Let_def frame)
  next
    case None
    let ?prin = "principalFromContext ctx"
    let ?conn = "\<lparr>cs_ID = [], cs_Protocol = ''http'', cs_Kind = ''ws_stream'', cs_TenantID = stream_tenant ?prin hr,
             cs_Actor = p_Subject ?prin, cs_RemoteAddr = r_RemoteAddr hr, cs_StartedAt = [],
             cs_Meta = Some [(''path'', JStr (r_Path hr))]\<rparr>"
    obtain s2 i where reg: "RegisterConnection r ?s ?conn = Some (s2, i)"
      using id(1) by (auto simp: RegisterConnection_def Let_def)
    have fresh: "map_of (s_connections s) i = None"
      using RegisterConnection_fresh [OF reg] id by auto
    let ?u = "unregister i (fst (stream_loop ?prin hr is s2))"
    have "session_same ?t s2 (fst (stream_loop ?prin hr is s2))"
      using env by (rule stream_loop_same)
    then have u: "gauge ?t (dec_stream ?m ?t ?u) = gauge ?t s" "map_of (s_connections ?u) = map_of (s_connections s)"
      using stream_exit [OF assms(1) reg fresh, of "fst (stream_loop ?prin hr is s2)"]
      by (simp_all add: session_same_def)
    moreover have "handleStream r refused is ctx hr s = Some (dec_stream ?m ?t ?u,
        \<lparr>rp_Status = 200, rp_ContentType = [], rp_Body = PFrames (snd (stream_loop ?prin hr is s2))\<rparr>)"
      using None reg by (simp add: handleStream_def Let_def split_beta)
    ultimately show ?thesis
      using u by simp
  qed
qed

subsection \<open>Witnesses\<close>

definition demo_claims :: claims where
  "demo_claims = [(''sub'', JStr ''user-1''), (''tenant_id'', JStr ''acme''), (''scope'', JStr ''capability:infer other'')]"

definition demo_jwt :: jwtlib where
  "demo_jwt tok keyfunc =
    (case keyfunc ''HS256'' of Inl _ \<Rightarrow> None
     | Inr key \<Rightarrow> if tok = ''good'' \<and> key = ''secret'' then Some demo_claims else None)"

definition demo_auth :: AuthConfig where
  "demo_auth = \<lparr>ac_Mode = AuthModeJWT, ac_JWTSecret = ''secret'', ac_RequireTenant = False\<rparr>"

definition demo_http :: "string \<Rightarrow> HttpRequest" where
  "demo_http auth = \<lparr>r_Method = ''POST'', r_Path = ''/mig/v0.1/invoke/observatory.models.infer'',
     r_Header = [(''Authorization'', auth)], r_Query = [], r_RemoteAddr = ''10.0.0.1:9''\<rparr>"

definition ui_http :: HttpRequest where
  "ui_http = \<lparr>r_Method = ''GET'', r_Path = ''/ui'', r_Header = [], r_Query = [], r_RemoteAddr = []\<rparr>"

definition no_bodies :: Bodies where
  "no_bodies = \<lparr>b_Hello = NoBody, b_Discover = NoBody, b_Invoke = NoBody, b_Publish = NoBody, b_Cancel = NoBody,
     b_Heartbeat = NoBody, b_Capability = NoBody, b_Schema = NoBody, b_Policy = NoBody, b_Quota = NoBody,
     b_Org = NoBody, b_Tenant = NoBody, b_Gateway = NoBody\<rparr>"

definition demo_bodies :: Bodies where
  "demo_bodies = no_bodies\<lparr>b_Invoke := Decoded demo_invoke\<rparr>"

definition demo_session :: Session where
  "demo_session = \<lparr>k_env = id, k_writer = server_writer, k_oks = [], k_sse = [SseDone], k_refused = None, k_ws = []\<rparr>"

abbreviation demo_serve :: "HttpRequest \<Rightarrow> (Service \<times> HttpResponse) option" where
  "demo_serve hr \<equiv> http_gateway demo_jwt demo_rt SelResult demo_auth True demo_bodies demo_session None hr demo_service"

lemma demo_auth_jwt: "ac_Mode demo_auth = AuthModeJWT"
  by (simp add: demo_auth_def)

theorem unauthenticated_request_harmless_witness:
  "\<exists>s' resp. demo_serve (demo_http []) = Some (s', resp) \<and> same_but_metrics demo_service s'"
proof -
  have p: "principalFromRequest demo_jwt (demo_http []) demo_auth = Inl ''missing bearer token''"
    "\<not> HasPrefix (r_Path (demo_http [])) ''/ui''"
    by code_simp+
  have "demo_serve (demo_http []) \<noteq> None"
    by code_simp
  then obtain s' resp where g: "demo_serve (demo_http []) = Some (s', resp)"
    by auto
  from unauthenticated_request_harmless [OF demo_auth_jwt p g] g show ?thesis by blast
qed


theorem authenticated_invoke_sound_witness:
  "\<exists>s' resp ir. demo_serve (demo_http ''Bearer good'') = Some (s', resp) \<and> rp_Status resp = 200 \<and>
     rp_Body resp = PInvoke ir"
proof -
  let ?r = "the (demo_serve (demo_http ''Bearer good''))"
  have g: "demo_serve (demo_http ''Bearer good'') = Some (fst ?r, snd ?r)" and st: "rp_Status (snd ?r) = 200"
    by code_simp+
  have f: "find_route True (r_Method (demo_http ''Bearer good'')) (r_Path (demo_http ''Bearer good'')) =
      Routed RInvoke [''observatory.models.infer'']"
    by code_simp
  from authenticated_invoke_sound [OF demo_auth_jwt f g st] obtain ir where "rp_Body (snd ?r) = PInvoke ir"
    by blast
  moreover from g obtain s' resp where "demo_serve (demo_http ''Bearer good'') = Some (s', resp)"
    by (rule that)
  ultimately show ?thesis
    using st by auto
qed

lemma env_ok_id: "env_ok t id"
  by (simp add: env_ok_def)

lemma demo_no_connections: "s_connections demo_service = []"
  by (simp add: demo_service_def bootstrapDefaults_def empty_service_def)

lemma demo_short_id: "\<exists>x. short_id (rt_rand demo_rt 0) = Some x"
  using short_id_ok [of "rt_rand demo_rt 0"] by (auto simp: demo_rt_def entropy_ok_def)

definition demo_frame :: StreamFrame where
  "demo_frame = \<lparr>f_Header = demo_header, f_StreamID = [], f_Capability = ''observatory.models.infer'',
     f_Kind = ''request'', f_Payload = Some [(''input'', JStr ''x'')], f_EndStream = False, f_Error = None\<rparr>"

definition demo_input :: ws_input where
  "demo_input = \<lparr>wi_env = id, wi_rt = demo_rt, wi_sel = SelResult, wi_frame = demo_frame, wi_ok = True\<rparr>"

end
