(* ===== verification/Mig_Grpc.thy ===== *)
theory Mig_Grpc
  imports Mig_Http
begin

text \<open>
  The gRPC binding, \<^verbatim>\<open>core/pkg/mig/grpc_server.go\<close>, with the messages and enumerations of the generated
  \<^verbatim>\<open>proto/mig/v0_1/mig.pb.go\<close> it uses: authentication interceptors, the conversions between wire
  messages and the gateway's own, the unary calls, the bidirectional stream and the event stream.

  A unary call returns the service and a status or a message; \<open>None\<close> is a panic. What a stream meets
  while it is open is an argument, as for the HTTP binding. Listening and serving are not modelled.
\<close>

subsection \<open>Enumerations of the wire format\<close>

text \<open>A proto3 enumeration is an open int32: a number without a name is the last constructor.\<close>

datatype BindingType =
    BINDING_TYPE_UNSPECIFIED | BINDING_TYPE_GRPC | BINDING_TYPE_NATS | BINDING_TYPE_HTTP | BindingType_OTHER int

datatype InvocationMode =
    INVOCATION_MODE_UNSPECIFIED | INVOCATION_MODE_UNARY | INVOCATION_MODE_SERVER_STREAM
  | INVOCATION_MODE_CLIENT_STREAM | INVOCATION_MODE_BIDI_STREAM | InvocationMode_OTHER int

datatype StreamPreference =
    STREAM_PREFERENCE_UNSPECIFIED | STREAM_PREFERENCE_UNARY | STREAM_PREFERENCE_SERVER_STREAM
  | STREAM_PREFERENCE_BIDI_STREAM | StreamPreference_OTHER int

datatype DeliverySemantics =
    DELIVERY_SEMANTICS_UNSPECIFIED | DELIVERY_SEMANTICS_BEST_EFFORT | DELIVERY_SEMANTICS_AT_LEAST_ONCE
  | DELIVERY_SEMANTICS_EXACTLY_ONCE | DeliverySemantics_OTHER int

datatype FrameKind =
    FRAME_KIND_UNSPECIFIED | FRAME_KIND_REQUEST | FRAME_KIND_RESPONSE | FRAME_KIND_EVENT
  | FRAME_KIND_CONTROL | FRAME_KIND_ERROR | FrameKind_OTHER int

datatype MigErrorCode =
    MIG_ERROR_CODE_UNSPECIFIED | MIG_INVALID_REQUEST | MIG_UNAUTHORIZED | MIG_FORBIDDEN | MIG_NOT_FOUND
  | MIG_UNSUPPORTED_CAPABILITY | MIG_VERSION_MISMATCH | MIG_TIMEOUT | MIG_RATE_LIMITED | MIG_BACKPRESSURE
  | MIG_UNAVAILABLE | MIG_INTERNAL | MigErrorCode_OTHER int

subsection \<open>Messages of the wire format\<close>

text \<open>
  A pointer to a message is an option, a \<^verbatim>\<open>structpb.Struct\<close> its field map, a timestamp an instant in
  nanoseconds. Unsigned fields have their width.
\<close>

record PbMessageHeader =
  pbh_MigVersion :: string
  pbh_MessageId :: string
  pbh_Timestamp :: "int option"
  pbh_TenantId :: string
  pbh_SessionId :: string
  pbh_Traceparent :: string
  pbh_IdempotencyKey :: string
  pbh_DeadlineMs :: "32 word"
  pbh_Meta :: "jobject option"

record PbMigError =
  pbe_Code :: MigErrorCode
  pbe_Message :: string
  pbe_Retryable :: bool
  pbe_Details :: "jobject option"

record PbHelloRequest =
  pbhq_Header :: "PbMessageHeader option"
  pbhq_SupportedVersions :: "string list"
  pbhq_RequestedBindings :: "BindingType list"
  pbhq_RequestedFeatures :: "string list"

record PbHelloResponse =
  pbhp_Header :: PbMessageHeader
  pbhp_SelectedVersion :: string
  pbhp_SelectedBinding :: BindingType
  pbhp_EnabledFeatures :: "string list"
  pbhp_ServerId :: string

record PbDiscoverRequest =
  pbdq_Header :: "PbMessageHeader option"
  pbdq_Query :: string
  pbdq_IncludeSchemaRefs :: bool
  pbdq_IncludeQos :: bool

record PbQoSProfile =
  pbq_MaxPayloadBytes :: "64 word"
  pbq_SupportsReplay :: bool
  pbq_DeliverySemantics :: DeliverySemantics
  pbq_SupportsOrdering :: bool

record PbCapabilityDescriptor =
  pbc_Id :: string
  pbc_Version :: string
  pbc_Modes :: "InvocationMode list"
  pbc_InputSchemaUri :: string
  pbc_OutputSchemaUri :: string
  pbc_EventTopics :: "string list"
  pbc_AuthScopes :: "string list"
  pbc_Qos :: PbQoSProfile

record PbDiscoverResponse =
  pbdp_Header :: PbMessageHeader
  pbdp_Capabilities :: "PbCapabilityDescriptor list"

record PbInvokeRequest =
  pbiq_Header :: "PbMessageHeader option"
  pbiq_Capability :: string
  pbiq_Payload :: "jobject option"
  pbiq_StreamPreference :: StreamPreference

record PbInvokeResponse =
  pbip_Header :: PbMessageHeader
  pbip_Capability :: string
  pbip_Payload :: jobject
  pbip_ResultSchemaUri :: string

record PbStreamFrame =
  pbf_Header :: "PbMessageHeader option"
  pbf_StreamId :: string
  pbf_Capability :: string
  pbf_Kind :: FrameKind
  pbf_Payload :: "jobject option"
  pbf_EndStream :: bool
  pbf_Error :: "PbMigError option"

record PbPublishRequest =
  pbpq_Header :: "PbMessageHeader option"
  pbpq_Topic :: string
  pbpq_Key :: string
  pbpq_Payload :: "jobject option"

record PbPublishAck =
  pbpa_Header :: PbMessageHeader
  pbpa_Topic :: string
  pbpa_EventId :: string
  pbpa_Sequence :: "64 word"
  pbpa_Accepted :: bool

record PbSubscribeRequest =
  pbsq_Header :: "PbMessageHeader option"
  pbsq_Topic :: string
  pbsq_ConsumerId :: string
  pbsq_ResumeCursor :: string
  pbsq_MaxInflight :: "32 word"

record PbEventMessage =
  pbev_Header :: PbMessageHeader
  pbev_Topic :: string
  pbev_EventId :: string
  pbev_Sequence :: "64 word"
  pbev_Payload :: jobject
  pbev_PublishedAt :: int
  pbev_Replay :: bool

record PbCancelRequest =
  pbcq_Header :: "PbMessageHeader option"
  pbcq_TargetMessageId :: string
  pbcq_Reason :: string

record PbCancelAck =
  pbca_Header :: PbMessageHeader
  pbca_TargetMessageId :: string
  pbca_Accepted :: bool
  pbca_Status :: string

record PbHeartbeatRequest =
  pbbq_Header :: "PbMessageHeader option"
  pbbq_IntervalMs :: "32 word"

record PbHeartbeatAck =
  pbba_Header :: PbMessageHeader
  pbba_SuggestedIntervalMs :: "32 word"
  pbba_LoadThousandths :: int

subsection \<open>The libraries the conversions call\<close>

text \<open>
  The protobuf runtime is not part of the repository: \<^verbatim>\<open>structpb.NewStruct\<close>, which refuses a value of
  a type it does not know, and \<^verbatim>\<open>AsMap\<close>. With them go the RFC 3339 parser and formatter of \<^verbatim>\<open>time\<close> and
  the current instant.
\<close>

record pblib =
  lib_NewStruct :: "jobject \<Rightarrow> jobject option"
  lib_AsMap :: "jobject \<Rightarrow> jobject"
  lib_Parse :: "string \<Rightarrow> int option"
  lib_Format :: "int \<Rightarrow> string"
  lib_Now :: int

text \<open>
  Values made of the types \<^verbatim>\<open>structpb.NewValue\<close> documents, with strings and keys that satisfy \<open>P\<close>; a
  \<^verbatim>\<open>[]string\<close> is not among them.
\<close>

fun value_of_types :: "(string \<Rightarrow> bool) \<Rightarrow> json \<Rightarrow> bool" where
  "value_of_types P (JStr s) \<longleftrightarrow> P s"
| "value_of_types P (JArr vs) \<longleftrightarrow> (\<forall>v \<in> set vs. value_of_types P v)"
| "value_of_types P (JObj es) \<longleftrightarrow> (\<forall>e \<in> set es. P (fst e) \<and> value_of_types P (snd e))"
| "value_of_types P (JStrs _) \<longleftrightarrow> False"
| "value_of_types P _ \<longleftrightarrow> True"

definition ascii :: "string \<Rightarrow> bool" where
  "ascii s \<longleftrightarrow> (\<forall>c \<in> set s. of_char c < (128 :: nat))"

definition plain_map :: "jobject \<Rightarrow> bool" where
  "plain_map m \<longleftrightarrow> value_of_types ascii (JObj m)"

definition supported_map :: "jobject \<Rightarrow> bool" where
  "supported_map m \<longleftrightarrow> value_of_types (\<lambda>_. True) (JObj m)"

text \<open>
  The documented behaviour: an ASCII map of supported values converts and comes back unchanged
  (maps being represented up to the order of their entries); a value of another type is an error.
\<close>

definition structpb_ok :: "pblib \<Rightarrow> bool" where
  "structpb_ok lib \<longleftrightarrow>
    (\<forall>m. plain_map m \<longrightarrow> (\<exists>st. lib_NewStruct lib m = Some st \<and> lib_AsMap lib st = m)) \<and>
    (\<forall>m. \<not> supported_map m \<longrightarrow> lib_NewStruct lib m = None) \<and>
    lib_AsMap lib [] = []"

definition structToMap :: "pblib \<Rightarrow> jobject option \<Rightarrow> jmap" where
  "structToMap lib st = (case st of None \<Rightarrow> Some [] | Some s \<Rightarrow> Some (lib_AsMap lib s))"

definition mapToStruct :: "pblib \<Rightarrow> jmap \<Rightarrow> jobject" where
  "mapToStruct lib m =
    (if jentries m = [] then []
     else case lib_NewStruct lib (jentries m) of None \<Rightarrow> [] | Some st \<Rightarrow> st)"

subsection \<open>Conversions\<close>

definition zero_pbheader :: PbMessageHeader where
  "zero_pbheader = \<lparr>pbh_MigVersion = [], pbh_MessageId = [], pbh_Timestamp = None, pbh_TenantId = [],
     pbh_SessionId = [], pbh_Traceparent = [], pbh_IdempotencyKey = [], pbh_DeadlineMs = 0, pbh_Meta = None\<rparr>"

definition messageHeaderFromProto :: "pblib \<Rightarrow> PbMessageHeader option \<Rightarrow> MessageHeader" where
  "messageHeaderFromProto lib inp =
    (case inp of
       None \<Rightarrow> zero_header
     | Some h \<Rightarrow>
         \<lparr>h_MIGVersion = pbh_MigVersion h, h_MessageID = pbh_MessageId h,
          h_Timestamp = (case pbh_Timestamp h of None \<Rightarrow> [] | Some t \<Rightarrow> lib_Format lib t),
          h_TenantID = pbh_TenantId h, h_SessionID = pbh_SessionId h, h_Traceparent = pbh_Traceparent h,
          h_IdempotencyKey = pbh_IdempotencyKey h, h_DeadlineMS = uint (pbh_DeadlineMs h),
          h_Meta = (case pbh_Meta h of None \<Rightarrow> Some [] | Some m \<Rightarrow> Some (lib_AsMap lib m))\<rparr>)"

definition messageHeaderToProto :: "pblib \<Rightarrow> MessageHeader \<Rightarrow> PbMessageHeader" where
  "messageHeaderToProto lib h =
    \<lparr>pbh_MigVersion = h_MIGVersion h, pbh_MessageId = h_MessageID h,
     pbh_Timestamp = Some (case lib_Parse lib (h_Timestamp h) of None \<Rightarrow> lib_Now lib | Some t \<Rightarrow> t),
     pbh_TenantId = h_TenantID h, pbh_SessionId = h_SessionID h, pbh_Traceparent = h_Traceparent h,
     pbh_IdempotencyKey = h_IdempotencyKey h, pbh_DeadlineMs = word_of_int (h_DeadlineMS h),
     pbh_Meta = Some (mapToStruct lib (h_Meta h))\<rparr>"

definition bindingTypeFromProto :: "BindingType \<Rightarrow> string" where
  "bindingTypeFromProto b =
    (case b of
       BINDING_TYPE_GRPC \<Rightarrow> ''grpc''
     | BINDING_TYPE_NATS \<Rightarrow> ''nats''
     | BINDING_TYPE_HTTP \<Rightarrow> ''http''
     | _ \<Rightarrow> [])"

definition bindingTypesFromProto :: "BindingType list \<Rightarrow> string list" where
  "bindingTypesFromProto bs = map bindingTypeFromProto bs"

definition bindingTypeToProto :: "string \<Rightarrow> BindingType" where
  "bindingTypeToProto binding =
    (let b = ToLower (TrimSpace binding) in
     if b = ''grpc'' then BINDING_TYPE_GRPC
     else if b = ''nats'' then BINDING_TYPE_NATS
     else if b = ''http'' then BINDING_TYPE_HTTP
     else BINDING_TYPE_UNSPECIFIED)"

definition invocationModeToProto :: "string \<Rightarrow> InvocationMode" where
  "invocationModeToProto mode =
    (let m = ToLower (TrimSpace mode) in
     if m = ''unary'' then INVOCATION_MODE_UNARY
     else if m = ''server_stream'' then INVOCATION_MODE_SERVER_STREAM
     else if m = ''client_stream'' then INVOCATION_MODE_CLIENT_STREAM
     else if m = ''bidi_stream'' then INVOCATION_MODE_BIDI_STREAM
     else INVOCATION_MODE_UNSPECIFIED)"

definition deliverySemanticsToProto :: "string \<Rightarrow> DeliverySemantics" where
  "deliverySemanticsToProto value =
    (let v = ToLower (TrimSpace value) in
     if v = ''best_effort'' then DELIVERY_SEMANTICS_BEST_EFFORT
     else if v = ''at_least_once'' then DELIVERY_SEMANTICS_AT_LEAST_ONCE
     else if v = ''exactly_once'' then DELIVERY_SEMANTICS_EXACTLY_ONCE
     else DELIVERY_SEMANTICS_UNSPECIFIED)"

definition streamPreferenceFromProto :: "StreamPreference \<Rightarrow> string" where
  "streamPreferenceFromProto pref =
    (case pref of
       STREAM_PREFERENCE_UNARY \<Rightarrow> ''unary''
     | STREAM_PREFERENCE_SERVER_STREAM \<Rightarrow> ''server_stream''
     | STREAM_PREFERENCE_BIDI_STREAM \<Rightarrow> ''bidi_stream''
     | _ \<Rightarrow> [])"

definition capabilityToProto :: "CapabilityDescriptor \<Rightarrow> PbCapabilityDescriptor" where
  "capabilityToProto c =
    \<lparr>pbc_Id = c_ID c, pbc_Version = c_Version c, pbc_Modes = map invocationModeToProto (c_Modes c),
     pbc_InputSchemaUri = c_InputSchemaURI c, pbc_OutputSchemaUri = c_OutputSchemaURI c,
     pbc_EventTopics = c_EventTopics c, pbc_AuthScopes = c_AuthScopes c,
     pbc_Qos = \<lparr>pbq_MaxPayloadBytes = word_of_int (q_MaxPayloadBytes (c_QoS c)),
                pbq_SupportsReplay = q_SupportsReplay (c_QoS c),
                pbq_DeliverySemantics = deliverySemanticsToProto (q_DeliverySemantics (c_QoS c)),
                pbq_SupportsOrdering = q_SupportsOrdering (c_QoS c)\<rparr>\<rparr>"

definition frameKindFromProto :: "FrameKind \<Rightarrow> string" where
  "frameKindFromProto kind =
    (case kind of
       FRAME_KIND_REQUEST \<Rightarrow> ''request''
     | FRAME_KIND_RESPONSE \<Rightarrow> ''response''
     | FRAME_KIND_EVENT \<Rightarrow> ''event''
     | FRAME_KIND_CONTROL \<Rightarrow> ''control''
     | FRAME_KIND_ERROR \<Rightarrow> ''error''
     | _ \<Rightarrow> [])"

definition frameKindToProto :: "string \<Rightarrow> FrameKind" where
  "frameKindToProto kind =
    (let k = ToLower (TrimSpace kind) in
     if k = ''request'' then FRAME_KIND_REQUEST
     else if k = ''response'' then FRAME_KIND_RESPONSE
     else if k = ''event'' then FRAME_KIND_EVENT
     else if k = ''control'' then FRAME_KIND_CONTROL
     else if k = ''error'' then FRAME_KIND_ERROR
     else FRAME_KIND_UNSPECIFIED)"

definition migErrorCodeFromProto :: "MigErrorCode \<Rightarrow> string" where
  "migErrorCodeFromProto code =
    (case code of
       MIG_INVALID_REQUEST \<Rightarrow> ErrorInvalidRequest
     | MIG_UNAUTHORIZED \<Rightarrow> ErrorUnauthorized
     | MIG_FORBIDDEN \<Rightarrow> ErrorForbidden
     | MIG_NOT_FOUND \<Rightarrow> ErrorNotFound
     | MIG_UNSUPPORTED_CAPABILITY \<Rightarrow> ErrorUnsupportedCapability
     | MIG_VERSION_MISMATCH \<Rightarrow> ErrorVersionMismatch
     | MIG_TIMEOUT \<Rightarrow> ErrorTimeout
     | MIG_RATE_LIMITED \<Rightarrow> ErrorRateLimited
     | MIG_BACKPRESSURE \<Rightarrow> ErrorBackpressure
     | MIG_UNAVAILABLE \<Rightarrow> ErrorUnavailable
     | MIG_INTERNAL \<Rightarrow> ErrorInternal
     | _ \<Rightarrow> ErrorInternal)"

definition migErrorCodeToProto :: "string \<Rightarrow> MigErrorCode" where
  "migErrorCodeToProto code =
    (if code = ErrorInvalidRequest then MIG_INVALID_REQUEST
     else if code = ErrorUnauthorized then MIG_UNAUTHORIZED
     else if code = ErrorForbidden then MIG_FORBIDDEN
     else if code = ErrorNotFound then MIG_NOT_FOUND
     else if code = ErrorUnsupportedCapability then MIG_UNSUPPORTED_CAPABILITY
     else if code = ErrorVersionMismatch then MIG_VERSION_MISMATCH
     else if code = ErrorTimeout then MIG_TIMEOUT
     else if code = ErrorRateLimited then MIG_RATE_LIMITED
     else if code = ErrorBackpressure then MIG_BACKPRESSURE
     else if code = ErrorUnavailable then MIG_UNAVAILABLE
     else if code = ErrorInternal then MIG_INTERNAL
     else MIG_INTERNAL)"

definition migErrorFromProto :: "pblib \<Rightarrow> PbMigError option \<Rightarrow> MigError option" where
  "migErrorFromProto lib err =
    (case err of
       None \<Rightarrow> None
     | Some e \<Rightarrow> Some \<lparr>e_Code = migErrorCodeFromProto (pbe_Code e), e_Message = pbe_Message e,
                       e_Retryable = pbe_Retryable e, e_Details = structToMap lib (pbe_Details e)\<rparr>)"

definition migErrorToProto :: "pblib \<Rightarrow> MigError option \<Rightarrow> PbMigError option" where
  "migErrorToProto lib err =
    (case err of
       None \<Rightarrow> None
     | Some e \<Rightarrow> Some \<lparr>pbe_Code = migErrorCodeToProto (e_Code e), pbe_Message = e_Message e,
                       pbe_Retryable = e_Retryable e, pbe_Details = Some (mapToStruct lib (e_Details e))\<rparr>)"

definition streamFrameFromProto :: "pblib \<Rightarrow> PbStreamFrame \<Rightarrow> StreamFrame" where
  "streamFrameFromProto lib f =
    \<lparr>f_Header = messageHeaderFromProto lib (pbf_Header f), f_StreamID = pbf_StreamId f,
     f_Capability = pbf_Capability f, f_Kind = frameKindFromProto (pbf_Kind f),
     f_Payload = structToMap lib (pbf_Payload f), f_EndStream = pbf_EndStream f,
     f_Error = migErrorFromProto lib (pbf_Error f)\<rparr>"

definition streamFrameToProto :: "pblib \<Rightarrow> StreamFrame \<Rightarrow> PbStreamFrame" where
  "streamFrameToProto lib f =
    \<lparr>pbf_Header = Some (messageHeaderToProto lib (f_Header f)), pbf_StreamId = f_StreamID f,
     pbf_Capability = f_Capability f, pbf_Kind = frameKindToProto (f_Kind f),
     pbf_Payload = Some (mapToStruct lib (f_Payload f)), pbf_EndStream = f_EndStream f,
     pbf_Error = migErrorToProto lib (f_Error f)\<rparr>"

definition eventMessageToProto :: "pblib \<Rightarrow> EventMessage \<Rightarrow> PbEventMessage" where
  "eventMessageToProto lib ev =
    \<lparr>pbev_Header = messageHeaderToProto lib (ev_Header ev), pbev_Topic = ev_Topic ev,
     pbev_EventId = ev_EventID ev, pbev_Sequence = word_of_int (ev_Sequence ev),
     pbev_Payload = mapToStruct lib (ev_Payload ev),
     pbev_PublishedAt = (case lib_Parse lib (ev_PublishedAt ev) of None \<Rightarrow> lib_Now lib | Some t \<Rightarrow> t),
     pbev_Replay = ev_Replay ev\<rparr>"

subsection \<open>Status codes\<close>

datatype GrpcCode =
    Unauthenticated | PermissionDenied | InvalidArgument | NotFound | FailedPrecondition
  | DeadlineExceeded | ResourceExhausted | Unavailable | Internal

type_synonym GrpcStatus = "GrpcCode \<times> string"

definition grpcStatusFromMigError :: "MigError \<Rightarrow> GrpcStatus" where
  "grpcStatusFromMigError err =
    (let code =
       (if e_Code err = ErrorInvalidRequest then InvalidArgument
        else if e_Code err = ErrorUnauthorized then Unauthenticated
        else if e_Code err = ErrorForbidden then PermissionDenied
        else if e_Code err = ErrorNotFound \<or> e_Code err = ErrorUnsupportedCapability then NotFound
        else if e_Code err = ErrorVersionMismatch then FailedPrecondition
        else if e_Code err = ErrorTimeout then DeadlineExceeded
        else if e_Code err = ErrorRateLimited \<or> e_Code err = ErrorBackpressure then ResourceExhausted
        else if e_Code err = ErrorUnavailable then Unavailable
        else if e_Code err = ErrorInternal then Internal
        else Internal)
     in (code, e_Code err @ '': '' @ e_Message err))"

definition grpcStatusFromAuthErr :: "string \<Rightarrow> GrpcStatus" where
  "grpcStatusFromAuthErr msg =
    (if Contains (ToLower msg) ''tenant'' then (PermissionDenied, msg) else (Unauthenticated, msg))"

subsection \<open>Authentication\<close>

type_synonym metadata = "(string, string list) gomap"

definition firstMetadataValue :: "metadata \<Rightarrow> string \<Rightarrow> string" where
  "firstMetadataValue meta key =
    (case mget_list meta key of [] \<Rightarrow> [] | v # _ \<Rightarrow> TrimSpace v)"

definition principalFromGRPCContext :: "jwtlib \<Rightarrow> metadata \<Rightarrow> AuthConfig \<Rightarrow> (string, Principal) res" where
  "principalFromGRPCContext jwt meta cfg =
    PrincipalFromAuthHeaders jwt (firstMetadataValue meta ''authorization'')
      (firstMetadataValue meta ''x-tenant-id'') cfg"

definition GRPCUnaryAuthInterceptor ::
    "jwtlib \<Rightarrow> AuthConfig \<Rightarrow> metadata \<Rightarrow> (Principal option \<Rightarrow> 's \<Rightarrow> ('s \<times> (GrpcStatus, 'b) res) option) \<Rightarrow> 's \<Rightarrow>
     ('s \<times> (GrpcStatus, 'b) res) option" where
  "GRPCUnaryAuthInterceptor jwt cfg meta handler s =
    (case principalFromGRPCContext jwt meta cfg of
       Inl err \<Rightarrow> Some (s, Inl (grpcStatusFromAuthErr err))
     | Inr prin \<Rightarrow> handler (Some prin) s)"

text \<open>A stream handler ends without a value, with a status or normally.\<close>

definition GRPCStreamAuthInterceptor ::
    "jwtlib \<Rightarrow> AuthConfig \<Rightarrow> metadata \<Rightarrow> (Principal option \<Rightarrow> 's \<Rightarrow> ('s \<times> 'o list \<times> GrpcStatus option) option) \<Rightarrow> 's \<Rightarrow>
     ('s \<times> 'o list \<times> GrpcStatus option) option" where
  "GRPCStreamAuthInterceptor jwt cfg meta handler s =
    (case principalFromGRPCContext jwt meta cfg of
       Inl err \<Rightarrow> Some (s, [], Some (grpcStatusFromAuthErr err))
     | Inr prin \<Rightarrow> handler (Some prin) s)"

definition applyPrincipalHeaderFromPrincipal ::
    "MessageHeader \<Rightarrow> Principal \<Rightarrow> MessageHeader \<times> MigError option" where
  "applyPrincipalHeaderFromPrincipal head prin =
    (let head = annotate_principal prin head;
         head = (if h_TenantID head = [] \<and> p_TenantID prin \<noteq> []
                 then head\<lparr>h_TenantID := p_TenantID prin\<rparr> else head)
     in if p_TenantID prin \<noteq> [] \<and> h_TenantID head \<noteq> p_TenantID prin
        then (head, Some tenant_mismatch)
        else if h_TenantID head = []
        then (head, Some (mk_error ErrorInvalidRequest ''tenant_id is required'' False))
        else (head, None))"

lemma applyPrincipalHeaderFromPrincipal_fst:
  "fst (applyPrincipalHeaderFromPrincipal h p) =
    (if h_TenantID h = [] \<and> p_TenantID p \<noteq> [] then (annotate_principal p h)\<lparr>h_TenantID := p_TenantID p\<rparr>
     else annotate_principal p h)"
  unfolding applyPrincipalHeaderFromPrincipal_def Let_def
  by (cases "h_TenantID h = []"; cases "p_TenantID p = []") simp_all

lemma applyPrincipalHeaderFromPrincipal_mismatch:
  assumes "p_TenantID p \<noteq> []" "h_TenantID h \<noteq> []" "h_TenantID h \<noteq> p_TenantID p"
  shows "snd (applyPrincipalHeaderFromPrincipal h p) = Some tenant_mismatch"
  using assms unfolding applyPrincipalHeaderFromPrincipal_def Let_def by simp

interpretation grpc_guard: tenant_guard applyPrincipalHeaderFromPrincipal
  by unfold_locales
    (simp_all add: applyPrincipalHeaderFromPrincipal_fst applyPrincipalHeaderFromPrincipal_mismatch)

subsection \<open>Unary calls\<close>

definition grpcHello ::
    "pblib \<Rightarrow> rt \<Rightarrow> Principal option \<Rightarrow> PbHelloRequest \<Rightarrow> Service \<Rightarrow> Service \<times> (GrpcStatus, PbHelloResponse) res" where
  "grpcHello lib r ctx req s =
    (let prin = principalFromContext ctx;
         inp = \<lparr>hq_Header = messageHeaderFromProto lib (pbhq_Header req),
                hq_SupportedVersions = pbhq_SupportedVersions req,
                hq_RequestedBindings = bindingTypesFromProto (pbhq_RequestedBindings req),
                hq_RequestedFeatures = pbhq_RequestedFeatures req\<rparr>
     in case applyPrincipalHeaderFromPrincipal (hq_Header inp) prin of
          (h, Some e) \<Rightarrow> (s, Inl (grpcStatusFromMigError e))
        | (h, None) \<Rightarrow>
            case Hello r s (inp\<lparr>hq_Header := h\<rparr>) of
              Inl e \<Rightarrow> (s, Inl (grpcStatusFromMigError e))
            | Inr out \<Rightarrow>
                (s, Inr \<lparr>pbhp_Header = messageHeaderToProto lib (hp_Header out),
                         pbhp_SelectedVersion = hp_SelectedVersion out,
                         pbhp_SelectedBinding = bindingTypeToProto (hp_SelectedBinding out),
                         pbhp_EnabledFeatures = hp_EnabledFeatures out, pbhp_ServerId = hp_ServerID out\<rparr>))"

definition grpcDiscover ::
    "pblib \<Rightarrow> rt \<Rightarrow> Principal option \<Rightarrow> PbDiscoverRequest \<Rightarrow> Service \<Rightarrow> Service \<times> (GrpcStatus, PbDiscoverResponse) res" where
  "grpcDiscover lib r ctx req s =
    (let prin = principalFromContext ctx;
         inp = \<lparr>dq_Header = messageHeaderFromProto lib (pbdq_Header req), dq_Query = pbdq_Query req,
                dq_IncludeSchemaRefs = pbdq_IncludeSchemaRefs req, dq_IncludeQoS = pbdq_IncludeQos req\<rparr>
     in case applyPrincipalHeaderFromPrincipal (dq_Header inp) prin of
          (h, Some e) \<Rightarrow> (s, Inl (grpcStatusFromMigError e))
        | (h, None) \<Rightarrow>
            case Discover r s (inp\<lparr>dq_Header := h\<rparr>) prin of
              (s, Inl e) \<Rightarrow> (s, Inl (grpcStatusFromMigError e))
            | (s, Inr out) \<Rightarrow>
                (s, Inr \<lparr>pbdp_Header = messageHeaderToProto lib (dp_Header out),
                         pbdp_Capabilities = map capabilityToProto (dp_Capabilities out)\<rparr>))"

definition grpc_actor :: "Principal \<Rightarrow> string" where
  "grpc_actor prin = (if p_Subject prin = [] then ''anonymous'' else p_Subject prin)"

definition grpcInvoke ::
    "pblib \<Rightarrow> rt \<Rightarrow> invoke_select \<Rightarrow> Principal option \<Rightarrow> PbInvokeRequest \<Rightarrow> Service \<Rightarrow>
     Service \<times> (GrpcStatus, PbInvokeResponse) res" where
  "grpcInvoke lib r sel ctx req s =
    (let prin = principalFromContext ctx;
         inp = \<lparr>iq_Header = messageHeaderFromProto lib (pbiq_Header req), iq_Capability = pbiq_Capability req,
                iq_Payload = structToMap lib (pbiq_Payload req),
                iq_StreamPreference = streamPreferenceFromProto (pbiq_StreamPreference req)\<rparr>
     in case applyPrincipalHeaderFromPrincipal (iq_Header inp) prin of
          (h, Some e) \<Rightarrow> (s, Inl (grpcStatusFromMigError e))
        | (h, None) \<Rightarrow>
            case Invoke r sel s (iq_Capability inp) (inp\<lparr>iq_Header := h\<rparr>) (grpc_actor prin) prin of
              (s, Inl e) \<Rightarrow> (s, Inl (grpcStatusFromMigError e))
            | (s, Inr out) \<Rightarrow>
                (s, Inr \<lparr>pbip_Header = messageHeaderToProto lib (ip_Header out), pbip_Capability = ip_Capability out,
                         pbip_Payload = mapToStruct lib (ip_Payload out),
                         pbip_ResultSchemaUri = ip_ResultSchemaURI out\<rparr>))"

definition grpcPublish ::
    "pblib \<Rightarrow> rt \<Rightarrow> Principal option \<Rightarrow> PbPublishRequest \<Rightarrow> Service \<Rightarrow>
     (Service \<times> (GrpcStatus, PbPublishAck) res) option" where
  "grpcPublish lib r ctx req s =
    (let prin = principalFromContext ctx;
         inp = \<lparr>pq_Header = messageHeaderFromProto lib (pbpq_Header req), pq_Topic = pbpq_Topic req,
                pq_Key = pbpq_Key req, pq_Payload = structToMap lib (pbpq_Payload req)\<rparr>
     in case applyPrincipalHeaderFromPrincipal (pq_Header inp) prin of
          (h, Some e) \<Rightarrow> Some (s, Inl (grpcStatusFromMigError e))
        | (h, None) \<Rightarrow>
            case Publish r s (pq_Topic inp) (inp\<lparr>pq_Header := h\<rparr>) of
              None \<Rightarrow> None
            | Some (s, Inl e) \<Rightarrow> Some (s, Inl (grpcStatusFromMigError e))
            | Some (s, Inr out) \<Rightarrow>
                Some (s, Inr \<lparr>pbpa_Header = messageHeaderToProto lib (pa_Header out), pbpa_Topic = pa_Topic out,
                              pbpa_EventId = pa_EventID out, pbpa_Sequence = word_of_int (pa_Sequence out),
                              pbpa_Accepted = pa_Accepted out\<rparr>))"

definition grpcCancel ::
    "pblib \<Rightarrow> rt \<Rightarrow> Principal option \<Rightarrow> PbCancelRequest \<Rightarrow> Service \<Rightarrow> Service \<times> (GrpcStatus, PbCancelAck) res" where
  "grpcCancel lib r ctx req s =
    (let prin = principalFromContext ctx;
         inp = \<lparr>cq_Header = messageHeaderFromProto lib (pbcq_Header req),
                cq_TargetMessageID = pbcq_TargetMessageId req, cq_Reason = pbcq_Reason req\<rparr>
     in case applyPrincipalHeaderFromPrincipal (cq_Header inp) prin of
          (h, Some e) \<Rightarrow> (s, Inl (grpcStatusFromMigError e))
        | (h, None) \<Rightarrow>
            case Cancel r s (inp\<lparr>cq_Header := h\<rparr>) (cq_TargetMessageID inp) of
              (s, Inl e) \<Rightarrow> (s, Inl (grpcStatusFromMigError e))
            | (s, Inr out) \<Rightarrow>
                (s, Inr \<lparr>pbca_Header = messageHeaderToProto lib (ca_Header out),
                         pbca_TargetMessageId = ca_TargetMessageID out, pbca_Accepted = ca_Accepted out,
                         pbca_Status = ca_Status out\<rparr>))"

definition grpcHeartbeat ::
    "pblib \<Rightarrow> rt \<Rightarrow> Principal option \<Rightarrow> PbHeartbeatRequest \<Rightarrow> Service \<Rightarrow> Service \<times> (GrpcStatus, PbHeartbeatAck) res" where
  "grpcHeartbeat lib r ctx req s =
    (let prin = principalFromContext ctx;
         inp = \<lparr>bq_Header = messageHeaderFromProto lib (pbbq_Header req), bq_IntervalMS = uint (pbbq_IntervalMs req)\<rparr>
     in case applyPrincipalHeaderFromPrincipal (bq_Header inp) prin of
          (h, Some e) \<Rightarrow> (s, Inl (grpcStatusFromMigError e))
        | (h, None) \<Rightarrow>
            case Heartbeat r s (inp\<lparr>bq_Header := h\<rparr>) of
              (s, Inl e) \<Rightarrow> (s, Inl (grpcStatusFromMigError e))
            | (s, Inr out) \<Rightarrow>
                (s, Inr \<lparr>pbba_Header = messageHeaderToProto lib (ba_Header out),
                         pbba_SuggestedIntervalMs = word_of_int (ba_SuggestedIntervalMS out),
                         pbba_LoadThousandths = ba_LoadThousandths out\<rparr>))"

subsection \<open>The bidirectional stream\<close>

definition grpc_frame ::
    "rt \<Rightarrow> invoke_select \<Rightarrow> Principal \<Rightarrow> StreamFrame \<Rightarrow> Service \<Rightarrow> Service \<times> StreamFrame" where
  "grpc_frame r sel prin inp s =
    (case applyPrincipalHeaderFromPrincipal (f_Header inp) prin of
       (h, Some e) \<Rightarrow>
         (s, \<lparr>f_Header = h, f_StreamID = f_StreamID inp, f_Capability = f_Capability inp, f_Kind = ''error'',
              f_Payload = None, f_EndStream = True, f_Error = Some e\<rparr>)
     | (h, None) \<Rightarrow>
         if f_Kind inp = ''request'' then
           let invokeReq = \<lparr>iq_Header = h, iq_Capability = f_Capability inp, iq_Payload = f_Payload inp,
                            iq_StreamPreference = []\<rparr>;
               (s, res) = Invoke r sel s (f_Capability inp) invokeReq (grpc_actor prin) prin;
               response = \<lparr>f_Header = aliased r h, f_StreamID = f_StreamID inp, f_Capability = f_Capability inp,
                           f_Kind = ''response'', f_Payload = None, f_EndStream = True, f_Error = None\<rparr>
           in (s, (case res of
                     Inl e \<Rightarrow> response\<lparr>f_Kind := ''error'', f_Error := Some e\<rparr>
                   | Inr result \<Rightarrow> response\<lparr>f_Payload := ip_Payload result\<rparr>))
         else if f_Kind inp = ''control'' then
           let cancelReq = \<lparr>cq_Header = h, cq_TargetMessageID = h_MessageID h,
                            cq_Reason = ''grpc stream control cancel''\<rparr>;
               (s, res) = Cancel r s cancelReq (cq_TargetMessageID cancelReq);
               response = \<lparr>f_Header = aliased r h, f_StreamID = f_StreamID inp, f_Capability = f_Capability inp,
                           f_Kind = ''control'', f_Payload = None, f_EndStream = True, f_Error = None\<rparr>
           in (s, (case res of
                     Inl e \<Rightarrow> response\<lparr>f_Kind := ''error'', f_Error := Some e\<rparr>
                   | Inr ack \<Rightarrow> response\<lparr>f_Payload := Some [(''accepted'', JBool (ca_Accepted ack)),
                                                         (''status'', JStr (ca_Status ack))]\<rparr>))
         else
           (s, \<lparr>f_Header = h, f_StreamID = f_StreamID inp, f_Capability = f_Capability inp, f_Kind = ''error'',
                f_Payload = None, f_EndStream = True,
                f_Error = Some (mk_error ErrorInvalidRequest ''frame.kind must be request or control'' False)\<rparr>))"

text \<open>
  What the loop meets at one iteration; the list ends where \<^verbatim>\<open>Recv\<close> fails, with \<open>fin\<close> its error, \<open>None\<close>
  for the end of the stream. A failing \<^verbatim>\<open>Send\<close> ends the call with its status.
\<close>

record grpc_input =
  gi_env :: "Service \<Rightarrow> Service"
  gi_rt :: rt
  gi_sel :: invoke_select
  gi_frame :: PbStreamFrame
  gi_send :: "GrpcStatus option"

fun grpc_loop ::
    "pblib \<Rightarrow> Principal \<Rightarrow> GrpcStatus option \<Rightarrow> grpc_input list \<Rightarrow> Service \<Rightarrow>
     Service \<times> PbStreamFrame list \<times> GrpcStatus option" where
  "grpc_loop lib prin fin [] s = (s, [], fin)"
| "grpc_loop lib prin fin (i # is) s =
    (let (s, out) = grpc_frame (gi_rt i) (gi_sel i) prin (streamFrameFromProto lib (gi_frame i)) (gi_env i s)
     in case gi_send i of
          Some e \<Rightarrow> (s, [], Some e)
        | None \<Rightarrow>
            let (s, outs, st) = grpc_loop lib prin fin is s in (s, streamFrameToProto lib out # outs, st))"

definition grpcStreamInvoke ::
    "pblib \<Rightarrow> rt \<Rightarrow> string \<Rightarrow> GrpcStatus option \<Rightarrow> grpc_input list \<Rightarrow> Principal option \<Rightarrow> Service \<Rightarrow>
     (Service \<times> PbStreamFrame list \<times> GrpcStatus option) option" where
  "grpcStreamInvoke lib r remoteAddr fin inputs ctx s =
    (let prin = principalFromContext ctx;
         metered = (s_metrics s \<noteq> None);
         s = inc_stream ''grpc_bidi'' s;
         tenantID = (if p_TenantID prin = [] then ''unknown'' else p_TenantID prin)
     in case RegisterConnection r s
          \<lparr>cs_ID = [], cs_Protocol = ''grpc'', cs_Kind = ''stream_invoke'', cs_TenantID = tenantID,
           cs_Actor = p_Subject prin, cs_RemoteAddr = remoteAddr, cs_StartedAt = [],
           cs_Meta = Some [(''service'', JStr ''Invocation/StreamInvoke'')]\<rparr> of
          None \<Rightarrow> None
        | Some (s, connID) \<Rightarrow>
            let (s, outs, st) = grpc_loop lib prin fin inputs s
            in Some (dec_stream metered ''grpc_bidi'' (unregister connID s), outs, st))"

subsection \<open>The event stream\<close>

datatype grpc_event = GrpcDone | GrpcClosed | GrpcEvent EventMessage "GrpcStatus option"

text \<open>\<open>send i\<close> is the outcome of the \<open>i\<close>-th \<^verbatim>\<open>Send\<close> of the replay.\<close>

fun grpc_replay ::
    "(nat \<Rightarrow> GrpcStatus option) \<Rightarrow> nat \<Rightarrow> EventMessage list \<Rightarrow> EventMessage list \<times> GrpcStatus option" where
  "grpc_replay send i [] = ([], None)"
| "grpc_replay send i (ev # evs) =
    (case send i of
       Some e \<Rightarrow> ([], Some e)
     | None \<Rightarrow> (let (out, st) = grpc_replay send (Suc i) evs in (ev # out, st)))"

fun grpc_live :: "grpc_event list \<Rightarrow> EventMessage list \<times> GrpcStatus option" where
  "grpc_live [] = ([], None)"
| "grpc_live (GrpcDone # is) = ([], None)"
| "grpc_live (GrpcClosed # is) = ([], None)"
| "grpc_live (GrpcEvent ev (Some e) # is) = ([], Some e)"
| "grpc_live (GrpcEvent ev None # is) = (let (out, st) = grpc_live is in (ev # out, st))"

definition grpcSubscribe ::
    "pblib \<Rightarrow> rt \<Rightarrow> string \<Rightarrow> (Service \<Rightarrow> Service) \<Rightarrow> (nat \<Rightarrow> GrpcStatus option) \<Rightarrow> grpc_event list \<Rightarrow> Principal option \<Rightarrow>
     PbSubscribeRequest \<Rightarrow> Service \<Rightarrow> (Service \<times> PbEventMessage list \<times> GrpcStatus option) option" where
  "grpcSubscribe lib r remoteAddr env send inputs ctx req s =
    (let metered = (s_metrics s \<noteq> None);
         s = inc_stream ''grpc_events'' s;
         prin = principalFromContext ctx
     in case applyPrincipalHeaderFromPrincipal (messageHeaderFromProto lib (pbsq_Header req)) prin of
          (h, Some e) \<Rightarrow> Some (dec_stream metered ''grpc_events'' s, [], Some (grpcStatusFromMigError e))
        | (h, None) \<Rightarrow>
            case RegisterConnection r s
              \<lparr>cs_ID = [], cs_Protocol = ''grpc'', cs_Kind = ''event_subscribe'', cs_TenantID = h_TenantID h,
               cs_Actor = p_Subject prin, cs_RemoteAddr = remoteAddr, cs_StartedAt = [],
               cs_Meta = Some [(''service'', JStr ''Events/Subscribe''), (''topic'', JStr (pbsq_Topic req)),
                               (''resume_cursor'', JStr (pbsq_ResumeCursor req))]\<rparr> of
              None \<Rightarrow> None
            | Some (s, connID) \<Rightarrow>
                case Subscribe s (pbsq_Topic req) (pbsq_ResumeCursor req) of
                  (s, Inl e) \<Rightarrow>
                    Some (dec_stream metered ''grpc_events'' (unregister connID s), [], Some (grpcStatusFromMigError e))
                | (s, Inr (replay, c)) \<Rightarrow>
                    let (out1, st1) = grpc_replay send 0 replay;
                        (out2, st2) = (if st1 = None then grpc_live inputs else ([], st1));
                        s = env s
                    in case unsubscribe (pbsq_Topic req) c s of
                         None \<Rightarrow> None
                       | Some s \<Rightarrow>
                           Some (dec_stream metered ''grpc_events'' (unregister connID s),
                                 map (eventMessageToProto lib) (out1 @ out2), st2))"

subsection \<open>The server\<close>

text \<open>
  The calls of the four registered services. A call comes with its metadata and passes the
  interceptor of its kind; the result is the service and the status it ends with, \<open>None\<close> for success.
\<close>

text \<open>The peer of the connection, if the context has one, and its address, if that is not nil.\<close>

type_synonym peer = "string option option"

definition grpcRemoteAddr :: "peer \<Rightarrow> string" where
  "grpcRemoteAddr info = (case info of Some (Some addr) \<Rightarrow> addr | _ \<Rightarrow> [])"

datatype grpc_call =
    GHello PbHelloRequest
  | GDiscover PbDiscoverRequest
  | GInvoke invoke_select PbInvokeRequest
  | GStreamInvoke peer "GrpcStatus option" "grpc_input list"
  | GPublish PbPublishRequest
  | GSubscribe peer "Service \<Rightarrow> Service" "nat \<Rightarrow> GrpcStatus option" "grpc_event list" PbSubscribeRequest
  | GCancel PbCancelRequest
  | GHeartbeat PbHeartbeatRequest

definition unary_status :: "('s \<times> (GrpcStatus, 'b) res) option \<Rightarrow> ('s \<times> GrpcStatus option) option" where
  "unary_status = map_option (map_prod id (case_sum Some (\<lambda>_. None)))"

definition stream_status :: "('s \<times> 'o list \<times> GrpcStatus option) option \<Rightarrow> ('s \<times> GrpcStatus option) option" where
  "stream_status = map_option (map_prod id snd)"

fun grpc_serve ::
    "jwtlib \<Rightarrow> pblib \<Rightarrow> rt \<Rightarrow> AuthConfig \<Rightarrow> metadata \<Rightarrow> grpc_call \<Rightarrow> Service \<Rightarrow> (Service \<times> GrpcStatus option) option" where
  "grpc_serve jwt lib r cfg meta (GHello q) s =
    unary_status (GRPCUnaryAuthInterceptor jwt cfg meta (\<lambda>ctx s. Some (grpcHello lib r ctx q s)) s)"
| "grpc_serve jwt lib r cfg meta (GDiscover q) s =
    unary_status (GRPCUnaryAuthInterceptor jwt cfg meta (\<lambda>ctx s. Some (grpcDiscover lib r ctx q s)) s)"
| "grpc_serve jwt lib r cfg meta (GInvoke sel q) s =
    unary_status (GRPCUnaryAuthInterceptor jwt cfg meta (\<lambda>ctx s. Some (grpcInvoke lib r sel ctx q s)) s)"
| "grpc_serve jwt lib r cfg meta (GStreamInvoke addr fin inputs) s =
    stream_status (GRPCStreamAuthInterceptor jwt cfg meta (grpcStreamInvoke lib r (grpcRemoteAddr addr) fin inputs) s)"
| "grpc_serve jwt lib r cfg meta (GPublish q) s =
    unary_status (GRPCUnaryAuthInterceptor jwt cfg meta (\<lambda>ctx. grpcPublish lib r ctx q) s)"
| "grpc_serve jwt lib r cfg meta (GSubscribe addr env send inputs q) s =
    stream_status (GRPCStreamAuthInterceptor jwt cfg meta (\<lambda>ctx. grpcSubscribe lib r (grpcRemoteAddr addr) env send inputs ctx q) s)"
| "grpc_serve jwt lib r cfg meta (GCancel q) s =
    unary_status (GRPCUnaryAuthInterceptor jwt cfg meta (\<lambda>ctx s. Some (grpcCancel lib r ctx q s)) s)"
| "grpc_serve jwt lib r cfg meta (GHeartbeat q) s =
    unary_status (GRPCUnaryAuthInterceptor jwt cfg meta (\<lambda>ctx s. Some (grpcHeartbeat lib r ctx q s)) s)"

end
