(* ===== verification/Mig_Grpc_Props.thy ===== *)
theory Mig_Grpc_Props
  imports Mig_Grpc Mig_Http_Props
begin

text \<open>
  Properties of the gRPC binding: enumerations and frames survive the wire, what is lost on it,
  what authentication lets through, that both bindings have the same effect, deadlines, and the
  replies and the clean-up of streams.
\<close>

subsection \<open>Enumerations\<close>

text \<open>The contract of a pair of enumeration conversions on the names they know.\<close>

locale enum_codec =
  fixes enc :: "string \<Rightarrow> 'e" and dec :: "'e \<Rightarrow> string" and names :: "string list"
  assumes dec_enc: "n \<in> set names \<Longrightarrow> dec (enc n) = n"
begin

lemma enc_inj: "inj_on enc (set names)"
  by (metis dec_enc inj_onI)

lemma enc_eq_iff: "m \<in> set names \<Longrightarrow> n \<in> set names \<Longrightarrow> enc m = enc n \<longleftrightarrow> m = n"
  using enc_inj by (auto dest: inj_onD)

lemma dec_enc_list: "set ns \<subseteq> set names \<Longrightarrow> map dec (map enc ns) = ns"
  by (simp add: map_idI subset_iff dec_enc)

end

definition frame_kinds :: "string list" where
  "frame_kinds = [''request'', ''response'', ''event'', ''control'', ''error'']"

interpretation kinds: enum_codec frameKindToProto frameKindFromProto frame_kinds
proof
  fix n assume "n \<in> set frame_kinds"
  moreover have "\<forall>k \<in> set frame_kinds. frameKindFromProto (frameKindToProto k) = k"
    by code_simp
  ultimately show "frameKindFromProto (frameKindToProto n) = n" by blast
qed

interpretation bindings: enum_codec bindingTypeToProto bindingTypeFromProto "[''grpc'', ''nats'', ''http'']"
proof
  fix n assume "n \<in> set [''grpc'', ''nats'', ''http'']"
  moreover have "\<forall>k \<in> set [''grpc'', ''nats'', ''http'']. bindingTypeFromProto (bindingTypeToProto k) = k"
    by code_simp
  ultimately show "bindingTypeFromProto (bindingTypeToProto n) = n" by blast
qed

interpretation error_codes: enum_codec migErrorCodeToProto migErrorCodeFromProto all_error_codes
proof
  fix n assume "n \<in> set all_error_codes"
  moreover have "\<forall>k \<in> set all_error_codes. migErrorCodeFromProto (migErrorCodeToProto k) = k"
    by code_simp
  ultimately show "migErrorCodeFromProto (migErrorCodeToProto n) = n" by blast
qed

subsection \<open>Round trips\<close>

lemma structToMap_mapToStruct:
  assumes "structpb_ok lib" and "plain_map m"
  shows "structToMap lib (Some (mapToStruct lib (Some m))) = Some m"
proof (cases "m = []")
  case True
  then show ?thesis using assms(1) by (simp add: structToMap_def mapToStruct_def structpb_ok_def)
next
  case False
  from assms obtain st where "lib_NewStruct lib m = Some st" "lib_AsMap lib st = m"
    by (auto simp: structpb_ok_def)
  with False show ?thesis by (simp add: structToMap_def mapToStruct_def)
qed

text \<open>Headers and frames the wire format can represent.\<close>

definition wire_header :: "pblib \<Rightarrow> MessageHeader \<Rightarrow> bool" where
  "wire_header lib h \<longleftrightarrow>
    (\<exists>t. lib_Parse lib (h_Timestamp h) = Some t \<and> lib_Format lib t = h_Timestamp h) \<and>
    0 \<le> h_DeadlineMS h \<and> h_DeadlineMS h < 2 ^ 32 \<and> (\<exists>m. h_Meta h = Some m \<and> plain_map m)"

definition wire_error :: "MigError \<Rightarrow> bool" where
  "wire_error e \<longleftrightarrow> e_Code e \<in> set all_error_codes \<and> (\<exists>m. e_Details e = Some m \<and> plain_map m)"

definition wire_frame :: "pblib \<Rightarrow> StreamFrame \<Rightarrow> bool" where
  "wire_frame lib f \<longleftrightarrow> wire_header lib (f_Header f) \<and> f_Kind f \<in> set frame_kinds \<and>
    (\<exists>m. f_Payload f = Some m \<and> plain_map m) \<and> (\<forall>e. f_Error f = Some e \<longrightarrow> wire_error e)"

lemma header_roundtrip:
  assumes lib: "structpb_ok lib" and h: "wire_header lib h"
  shows "messageHeaderFromProto lib (Some (messageHeaderToProto lib h)) = h"
proof -
  from h obtain t m where t: "lib_Parse lib (h_Timestamp h) = Some t" "lib_Format lib t = h_Timestamp h"
    and m: "h_Meta h = Some m" "plain_map m" and d: "0 \<le> h_DeadlineMS h" "h_DeadlineMS h < 2 ^ 32"
    by (auto simp: wire_header_def)
  have "uint (word_of_int (h_DeadlineMS h) :: 32 word) = h_DeadlineMS h"
    using d by (simp add: uint_word_of_int)
  moreover have "lib_AsMap lib (mapToStruct lib (h_Meta h)) = m"
    using structToMap_mapToStruct [OF lib m(2)] by (simp add: m(1) structToMap_def)
  ultimately show ?thesis
    using t m(1) by (simp add: messageHeaderFromProto_def messageHeaderToProto_def)
qed

lemma error_roundtrip:
  assumes lib: "structpb_ok lib" and "\<And>e. eo = Some e \<Longrightarrow> wire_error e"
  shows "migErrorFromProto lib (migErrorToProto lib eo) = eo"
proof (cases eo)
  case None
  then show ?thesis by (simp add: migErrorFromProto_def migErrorToProto_def)
next
  case (Some e)
  with assms(2) obtain m where "e_Code e \<in> set all_error_codes" "e_Details e = Some m" "plain_map m"
    by (auto simp: wire_error_def)
  with Some lib show ?thesis
    by (simp add: migErrorFromProto_def migErrorToProto_def error_codes.dec_enc structToMap_mapToStruct)
qed

text \<open>
  C35. Stream frames survive the wire: a frame whose deadline fits 32 bits, whose timestamp is in the
  canonical format and whose maps hold supported values is decoded to itself, with its kind and
  its error code among the eleven intact.
\<close>

theorem stream_frame_roundtrip:
  assumes "structpb_ok lib" and "wire_frame lib f"
  shows "streamFrameFromProto lib (streamFrameToProto lib f) = f"
proof -
  from assms(2) obtain m where "wire_header lib (f_Header f)" "f_Kind f \<in> set frame_kinds"
    "f_Payload f = Some m" "plain_map m" "\<And>e. f_Error f = Some e \<Longrightarrow> wire_error e"
    by (auto simp: wire_frame_def)
  with assms(1) show ?thesis
    by (simp add: streamFrameFromProto_def streamFrameToProto_def header_roundtrip error_roundtrip
        kinds.dec_enc structToMap_mapToStruct)
qed

subsection \<open>Metadata of gRPC responses\<close>

lemma annotated_unsupported:
  assumes "map_of (jentries m) ''idg.principal_scopes'' = Some (JStrs ss)"
  shows "\<not> supported_map (jentries m)"
proof -
  have "(''idg.principal_scopes'', JStrs ss) \<in> set (jentries m)"
    using assms by (rule map_of_SomeD)
  then show ?thesis by (force simp: supported_map_def)
qed

lemma annotate_scopes:
  "map_of (jentries (h_Meta (annotate_principal p h))) ''idg.principal_scopes'' = Some (JStrs (ScopesList p))"
  by (simp add: annotate_principal_def Let_def)

lemma apply_scopes:
  "map_of (jentries (h_Meta (fst (applyPrincipalHeaderFromPrincipal h p)))) ''idg.principal_scopes'' =
     Some (JStrs (ScopesList p))"
  using annotate_scopes by (simp add: applyPrincipalHeaderFromPrincipal_fst)

lemma prepare_keeps_scopes:
  assumes "prepare r h = Inr h'" and "map_of (jentries (h_Meta h)) ''idg.principal_scopes'' = Some v"
  shows "map_of (jentries (h_Meta h')) ''idg.principal_scopes'' = Some v"
proof -
  from assms(1) obtain h1 where n: "Normalize (rt_now r 0) (newMessageID (rt_rand r 0)) h = Inr h1"
    and "h' = AddIDGMeta ''core'' h1"
    by (auto simp: prepare_def split: sum.splits)
  moreover have "h_Meta h1 = h_Meta h"
    using n assms(2) by (auto simp: Normalize_def Let_def split: if_splits option.splits)
  ultimately show ?thesis
    using assms(2) by (simp add: AddIDGMeta_keeps_meta)
qed

lemma mapToStruct_unsupported:
  "structpb_ok lib \<Longrightarrow> \<not> supported_map (jentries m) \<Longrightarrow> mapToStruct lib m = []"
  by (auto simp: mapToStruct_def structpb_ok_def)

definition invoke_of_proto :: "pblib \<Rightarrow> PbInvokeRequest \<Rightarrow> MessageHeader \<Rightarrow> InvokeRequest" where
  "invoke_of_proto lib req h =
    \<lparr>iq_Header = h, iq_Capability = pbiq_Capability req, iq_Payload = structToMap lib (pbiq_Payload req),
     iq_StreamPreference = streamPreferenceFromProto (pbiq_StreamPreference req)\<rparr>"

lemma invoke_of_proto_sel [simp]:
  "iq_Header (invoke_of_proto lib req h) = h" "iq_Capability (invoke_of_proto lib req h) = pbiq_Capability req"
  by (simp_all add: invoke_of_proto_def)

lemma grpcInvoke_eq:
  "grpcInvoke lib r sel ctx req s =
    (let p = principalFromContext ctx in
     case applyPrincipalHeaderFromPrincipal (messageHeaderFromProto lib (pbiq_Header req)) p of
       (h, Some e) \<Rightarrow> (s, Inl (grpcStatusFromMigError e))
     | (h, None) \<Rightarrow>
         case Invoke r sel s (pbiq_Capability req) (invoke_of_proto lib req h) (grpc_actor p) p of
           (s, Inl e) \<Rightarrow> (s, Inl (grpcStatusFromMigError e))
         | (s, Inr out) \<Rightarrow>
             (s, Inr \<lparr>pbip_Header = messageHeaderToProto lib (ip_Header out), pbip_Capability = ip_Capability out,
                      pbip_Payload = mapToStruct lib (ip_Payload out),
                      pbip_ResultSchemaUri = ip_ResultSchemaURI out\<rparr>))"
  by (simp add: grpcInvoke_def invoke_of_proto_def Let_def)

lemma grpcInvoke_success:
  assumes "grpcInvoke lib r sel ctx req s = (s', Inr resp)"
  obtains h out where
    "applyPrincipalHeaderFromPrincipal (messageHeaderFromProto lib (pbiq_Header req)) (principalFromContext ctx) = (h, None)"
    "Invoke r sel s (pbiq_Capability req) (invoke_of_proto lib req h) (grpc_actor (principalFromContext ctx))
       (principalFromContext ctx) = (s', Inr out)"
    "pbip_Header resp = messageHeaderToProto lib (ip_Header out)"
  using assms by (auto simp: grpcInvoke_eq Let_def split: option.splits prod.splits sum.splits)

text \<open>
  C36. The gRPC binding loses the metadata of every response header: the principal's scopes are stored
  in the header as a \<^verbatim>\<open>[]string\<close>, a type \<^verbatim>\<open>structpb.NewStruct\<close> refuses, and the conversion then falls
  back to an empty struct. The tier and meter annotations never reach a gRPC client.
\<close>

theorem grpc_response_metadata_lost:
  assumes "structpb_ok lib" and "grpcInvoke lib r sel ctx req s = (s', Inr resp)"
  shows "pbh_Meta (pbip_Header resp) = Some []"
proof -
  let ?p = "principalFromContext ctx" and ?h0 = "messageHeaderFromProto lib (pbiq_Header req)"
  from assms(2) obtain h out where ap: "applyPrincipalHeaderFromPrincipal ?h0 ?p = (h, None)"
    and inv: "Invoke r sel s (pbiq_Capability req) (invoke_of_proto lib req h) (grpc_actor ?p) ?p = (s', Inr out)"
    and resp: "pbip_Header resp = messageHeaderToProto lib (ip_Header out)"
    by (rule grpcInvoke_success)
  from inv have "prepare r h = Inr (ip_Header out)"
    by (rule Invoke_success_facts) simp
  then have "map_of (jentries (h_Meta (ip_Header out))) ''idg.principal_scopes'' = Some (JStrs (ScopesList ?p))"
    using prepare_keeps_scopes apply_scopes [of ?h0 ?p] ap by simp
  then show ?thesis
    using mapToStruct_unsupported [OF assms(1)] annotated_unsupported
    by (simp add: resp messageHeaderToProto_def)
qed

subsection \<open>Authentication and agreement of the bindings\<close>

text \<open>
  C11. The gRPC binding in JWT mode: a successful invocation implies an accepted token; the response
  carries the token's tenant and the token grants a scope of the invoked capability.
\<close>

theorem grpc_invoke_sound:
  assumes "ac_Mode cfg = AuthModeJWT"
    and "GRPCUnaryAuthInterceptor jwt cfg meta (\<lambda>ctx s. Some (grpcInvoke lib r sel ctx req s)) s = Some (s', Inr resp)"
  shows "\<exists>tok cl d. jwt tok (jwt_keyfunc cfg) = Some cl \<and>
    pbh_TenantId (pbip_Header resp) = p_TenantID (principal_of_claims cl) \<and>
    map_of (s_capabilities s) (pbiq_Capability req) = Some d \<and>
    (c_AuthScopes d = [] \<or> set (scopesFromClaims cl) \<inter> set (c_AuthScopes d) \<noteq> {})"
proof -
  from assms(2) obtain p where p: "principalFromGRPCContext jwt meta cfg = Inr p"
    and g: "grpcInvoke lib r sel (Some p) req s = (s', Inr resp)"
    by (auto simp: GRPCUnaryAuthInterceptor_def split: sum.splits)
  from p assms(1) obtain cl tok where tok: "jwt tok (jwt_keyfunc cfg) = Some cl" "p = principal_of_claims cl" "p_TenantID p \<noteq> []"
    unfolding principalFromGRPCContext_def by (metis jwt_principal)
  from g obtain h out where
    ap: "applyPrincipalHeaderFromPrincipal (messageHeaderFromProto lib (pbiq_Header req)) p = (h, None)"
    and inv: "Invoke r sel s (pbiq_Capability req) (invoke_of_proto lib req h) (grpc_actor p) p = (s', Inr out)"
    and resp: "pbip_Header resp = messageHeaderToProto lib (ip_Header out)"
    by (rule grpcInvoke_success) (simp add: principalFromContext_def)
  have tc: "target_capability (pbiq_Capability req) (invoke_of_proto lib req h) = pbiq_Capability req"
    by (simp add: target_capability_def)
  from inv obtain d where prep: "prepare r h = Inr (ip_Header out)"
    and au: "authorized s (ip_Header out) (pbiq_Capability req) p d"
    by (rule Invoke_success_facts) (simp add: tc)
  have "pbh_TenantId (pbip_Header resp) = p_TenantID p"
    using grpc_guard.prepared_tenant [OF ap tok(3) prep] by (simp add: resp messageHeaderToProto_def)
  moreover have "c_AuthScopes d = [] \<or> set (scopesFromClaims cl) \<inter> set (c_AuthScopes d) \<noteq> {}"
    using au tok(2) by (simp add: authorized_def HasAnyScope_iff)
  ultimately show ?thesis
    using tok(1,2) au by (intro exI [of _ tok] exI [of _ cl] exI [of _ d]) (simp add: authorized_def)
qed

lemma apply_agree:
  assumes "h_TenantID h \<notin> {[], ''unknown''}"
  shows "applyPrincipalHeader h p hr = applyPrincipalHeaderFromPrincipal h p"
  using assms
  by (cases "p_TenantID p = []")
    (simp_all add: applyPrincipalHeader_def applyPrincipalHeaderFromPrincipal_def Let_def)

text \<open>Over both bindings the same state results, and success over one is success over the other.\<close>

definition agrees :: "Service \<times> (GrpcStatus, 'b) res \<Rightarrow> Service \<times> HttpResponse \<Rightarrow> bool" where
  "agrees g h \<longleftrightarrow> fst g = fst h \<and> (\<not> is_err (snd g) \<longleftrightarrow> rp_Status (snd h) = 200)"

definition hello_of_proto :: "pblib \<Rightarrow> PbHelloRequest \<Rightarrow> HelloRequest" where
  "hello_of_proto lib req =
    \<lparr>hq_Header = messageHeaderFromProto lib (pbhq_Header req), hq_SupportedVersions = pbhq_SupportedVersions req,
     hq_RequestedBindings = bindingTypesFromProto (pbhq_RequestedBindings req), hq_RequestedFeatures = pbhq_RequestedFeatures req\<rparr>"

definition discover_of_proto :: "pblib \<Rightarrow> PbDiscoverRequest \<Rightarrow> DiscoverRequest" where
  "discover_of_proto lib req =
    \<lparr>dq_Header = messageHeaderFromProto lib (pbdq_Header req), dq_Query = pbdq_Query req,
     dq_IncludeSchemaRefs = pbdq_IncludeSchemaRefs req, dq_IncludeQoS = pbdq_IncludeQos req\<rparr>"

definition publish_of_proto :: "pblib \<Rightarrow> PbPublishRequest \<Rightarrow> PublishRequest" where
  "publish_of_proto lib req =
    \<lparr>pq_Header = messageHeaderFromProto lib (pbpq_Header req), pq_Topic = pbpq_Topic req, pq_Key = pbpq_Key req,
     pq_Payload = structToMap lib (pbpq_Payload req)\<rparr>"

definition cancel_of_proto :: "pblib \<Rightarrow> PbCancelRequest \<Rightarrow> CancelRequest" where
  "cancel_of_proto lib req =
    \<lparr>cq_Header = messageHeaderFromProto lib (pbcq_Header req), cq_TargetMessageID = pbcq_TargetMessageId req,
     cq_Reason = pbcq_Reason req\<rparr>"

definition heartbeat_of_proto :: "pblib \<Rightarrow> PbHeartbeatRequest \<Rightarrow> HeartbeatRequest" where
  "heartbeat_of_proto lib req =
    \<lparr>bq_Header = messageHeaderFromProto lib (pbbq_Header req), bq_IntervalMS = uint (pbbq_IntervalMs req)\<rparr>"

abbreviation names_tenant :: "pblib \<Rightarrow> PbMessageHeader option \<Rightarrow> bool" where
  "names_tenant lib ph \<equiv> h_TenantID (messageHeaderFromProto lib ph) \<notin> {[], ''unknown''}"

lemmas agree_unfold = agrees_def principalFromContext_def decodeJSON_def Let_def writeJSON_def

lemma hello_agrees:
  assumes "names_tenant lib (pbhq_Header req)"
  shows "agrees (grpcHello lib r (Some p) req s) (handleHello r (Some p) hr (Decoded (hello_of_proto lib req)) s)"
  by (simp add: agree_unfold grpcHello_def handleHello_def hello_of_proto_def apply_agree [OF assms]
      split: prod.split option.split sum.split)

lemma discover_agrees:
  assumes "names_tenant lib (pbdq_Header req)"
  shows "agrees (grpcDiscover lib r (Some p) req s) (handleDiscover r (Some p) hr (Decoded (discover_of_proto lib req)) s)"
  by (simp add: agree_unfold grpcDiscover_def handleDiscover_def discover_of_proto_def apply_agree [OF assms]
      split: prod.split option.split sum.split)

lemma cancel_agrees:
  assumes "names_tenant lib (pbcq_Header req)"
  shows "agrees (grpcCancel lib r (Some p) req s)
    (handleCancel r (Some p) hr (pbcq_TargetMessageId req) (Decoded (cancel_of_proto lib req)) s)"
  by (simp add: agree_unfold grpcCancel_def handleCancel_def cancel_of_proto_def apply_agree [OF assms]
      split: prod.split option.split sum.split)

lemma heartbeat_agrees:
  assumes "names_tenant lib (pbbq_Header req)"
  shows "agrees (grpcHeartbeat lib r (Some p) req s) (handleHeartbeat r (Some p) hr (Decoded (heartbeat_of_proto lib req)) s)"
  by (simp add: agree_unfold grpcHeartbeat_def handleHeartbeat_def heartbeat_of_proto_def apply_agree [OF assms]
      split: prod.split option.split sum.split)

lemma publish_agrees:
  assumes "names_tenant lib (pbpq_Header req)"
  shows "rel_option agrees (grpcPublish lib r (Some p) req s)
    (handlePublish r (Some p) hr (pbpq_Topic req) (Decoded (publish_of_proto lib req)) s)"
  by (simp add: agree_unfold grpcPublish_def handlePublish_def publish_of_proto_def apply_agree [OF assms]
      split: prod.split option.split sum.split)

lemma invoke_agrees:
  assumes "names_tenant lib (pbiq_Header req)" and "p_Subject p \<noteq> []"
  shows "agrees (grpcInvoke lib r sel (Some p) req s) (handleInvoke r sel (Some p) hr (pbiq_Capability req)
      (Decoded (invoke_of_proto lib req (messageHeaderFromProto lib (pbiq_Header req)))) s)"
proof -
  have "http_actor p hr = grpc_actor p"
    using assms(2) by (simp add: http_actor_def grpc_actor_def)
  moreover have "invoke_status e \<noteq> 200" for e
    by (simp add: invoke_status_def)
  ultimately show ?thesis
    by (simp add: agree_unfold grpcInvoke_def handleInvoke_def invoke_of_proto_def apply_agree [OF assms(1)]
      split: prod.split option.split sum.split)
qed


subsection \<open>Deadlines\<close>

text \<open>
  C37. A deadline of up to 9223372036854 milliseconds becomes exactly that many milliseconds of
  timeout. Over gRPC this covers every deadline that can be expressed. The next larger value
  wraps to a negative timeout, which is already expired.
\<close>

theorem deadline_exact:
  assumes "prepare r h = Inr head" and "h_DeadlineMS h \<le> 9223372036854"
  shows "invoke_deadline head = 1000000 * (if h_DeadlineMS h \<le> 0 then 30000 else h_DeadlineMS h) \<and>
    h_DeadlineMS (messageHeaderFromProto lib ph) \<le> 9223372036854 \<and>
    invoke_deadline (head\<lparr>h_DeadlineMS := 9223372036855\<rparr>) < 0"
proof -
  have d: "h_DeadlineMS head = (if h_DeadlineMS h \<le> 0 then 30000 else h_DeadlineMS h)"
    using assms(1)
    by (auto simp: prepare_def Normalize_def Let_def split: sum.splits if_splits)
  have "invoke_deadline head = h_DeadlineMS head * 1000000"
    unfolding invoke_deadline_def by (rule i64_small) (use assms(2) d in \<open>auto split: if_splits\<close>)
  moreover have "h_DeadlineMS (messageHeaderFromProto lib ph) \<le> 9223372036854"
  proof (cases ph)
    case None
    then show ?thesis by (simp add: messageHeaderFromProto_def zero_header_def)
  next
    case (Some x)
    have "uint (pbh_DeadlineMs x) < 2 ^ 32"
      using uint_lt2p [of "pbh_DeadlineMs x"] by simp
    with Some show ?thesis by (simp add: messageHeaderFromProto_def)
  qed
  moreover have "invoke_deadline (head\<lparr>h_DeadlineMS := 9223372036855\<rparr>) < 0"
    by (simp add: invoke_deadline_def i64_def)
  ultimately show ?thesis
    using d by simp
qed


subsection \<open>Witnesses\<close>

definition demo_lib :: pblib where
  "demo_lib = \<lparr>lib_NewStruct = (\<lambda>m. if supported_map m then Some m else None), lib_AsMap = id,
     lib_Parse = (\<lambda>s. if s = ''2026-02-24T10:00:00Z'' then Some 0 else None),
     lib_Format = (\<lambda>_. ''2026-02-24T10:00:00Z''), lib_Now = 0\<rparr>"

lemma value_of_types_mono:
  "value_of_types P v \<Longrightarrow> (\<And>s. P s \<Longrightarrow> Q s) \<Longrightarrow> value_of_types Q v"
  by (induction P v rule: value_of_types.induct) auto

lemma demo_lib_ok: "structpb_ok demo_lib"
proof -
  have "supported_map m" if "plain_map m" for m
    using that unfolding plain_map_def supported_map_def by (rule value_of_types_mono) simp
  then show ?thesis
    by (simp add: structpb_ok_def demo_lib_def)
qed

definition demo_pbheader :: PbMessageHeader where
  "demo_pbheader = zero_pbheader\<lparr>pbh_TenantId := ''acme'', pbh_MessageId := ''m-9'', pbh_DeadlineMs := 500\<rparr>"

definition demo_pbinvoke :: PbInvokeRequest where
  "demo_pbinvoke = \<lparr>pbiq_Header = Some demo_pbheader, pbiq_Capability = ''observatory.models.infer'',
     pbiq_Payload = Some [(''input'', JStr ''x'')], pbiq_StreamPreference = STREAM_PREFERENCE_UNARY\<rparr>"

definition wire_demo_frame :: StreamFrame where
  "wire_demo_frame = demo_frame\<lparr>f_Header := demo_header\<lparr>h_Timestamp := ''2026-02-24T10:00:00Z'',
     h_Meta := Some [(''a'', JBool True)]\<rparr>, f_Error := Some \<lparr>e_Code = ErrorTimeout, e_Message = ''late'',
     e_Retryable = True, e_Details = Some []\<rparr>\<rparr>"

theorem stream_frame_roundtrip_witness:
  "streamFrameFromProto demo_lib (streamFrameToProto demo_lib wire_demo_frame) = wire_demo_frame"
proof (rule stream_frame_roundtrip [OF demo_lib_ok])
  have "wire_header demo_lib (f_Header wire_demo_frame)"
    by (simp add: wire_header_def wire_demo_frame_def demo_lib_def demo_header_def zero_header_def
        plain_map_def ascii_def)
  then show "wire_frame demo_lib wire_demo_frame"
    by (simp add: wire_frame_def wire_error_def wire_demo_frame_def demo_frame_def frame_kinds_def
        all_error_codes_def plain_map_def ascii_def)
qed

theorem grpc_response_metadata_lost_witness:
  "\<exists>s' resp. grpcInvoke demo_lib demo_rt SelResult (Some demo_principal) demo_pbinvoke demo_service = (s', Inr resp) \<and>
     pbh_Meta (pbip_Header resp) = Some []"
proof -
  let ?r = "grpcInvoke demo_lib demo_rt SelResult (Some demo_principal) demo_pbinvoke demo_service"
  have "?r = (fst ?r, Inr (projr (snd ?r)))"
    by code_simp
  then obtain s' resp where r: "?r = (s', Inr resp)"
    by (rule that)
  from grpc_response_metadata_lost [OF demo_lib_ok r] r show ?thesis by blast
qed

theorem grpc_invoke_sound_witness:
  "\<exists>s' resp. GRPCUnaryAuthInterceptor demo_jwt demo_auth [(''authorization'', [''Bearer good''])]
       (\<lambda>ctx s. Some (grpcInvoke demo_lib demo_rt SelResult ctx demo_pbinvoke s)) demo_service = Some (s', Inr resp) \<and>
     (\<exists>tok cl. demo_jwt tok (jwt_keyfunc demo_auth) = Some cl \<and>
       pbh_TenantId (pbip_Header resp) = p_TenantID (principal_of_claims cl))"
proof -
  let ?r = "GRPCUnaryAuthInterceptor demo_jwt demo_auth [(''authorization'', [''Bearer good''])]
       (\<lambda>ctx s. Some (grpcInvoke demo_lib demo_rt SelResult ctx demo_pbinvoke s)) demo_service"
  have "?r = Some (fst (the ?r), Inr (projr (snd (the ?r))))"
    by code_simp
  then obtain s' resp where r: "?r = Some (s', Inr resp)"
    by (rule that)
  from grpc_invoke_sound [OF demo_auth_jwt r] r show ?thesis by blast
qed


theorem deadline_exact_witness:
  "\<exists>head. prepare demo_rt (demo_header\<lparr>h_DeadlineMS := 1500\<rparr>) = Inr head \<and> invoke_deadline head = 1500000000"
proof -
  let ?h = "demo_header\<lparr>h_DeadlineMS := 1500\<rparr>"
  have "prepare demo_rt ?h = Inr (projr (prepare demo_rt ?h))"
    by code_simp
  then obtain head where h: "prepare demo_rt ?h = Inr head"
    by (rule that)
  from deadline_exact [OF h] h show ?thesis by simp
qed

subsection \<open>Streams over gRPC\<close>

lemma subscription_cleanup:
  assumes inv: "event_inv s" and sub: "Subscribe s topic cur = (s1, Inr (events, c))" and env: "env_ok t env"
  shows "\<exists>s2. unsubscribe topic c (env s1) = Some s2 \<and> gauge t s2 = gauge t s \<and>
    (s_metrics s2 = None \<longleftrightarrow> s_metrics s = None) \<and> s_connections s2 = s_connections s \<and>
    (\<forall>u. topic_subs s2 u = topic_subs s u)"
proof -
  from sub obtain k where c: "c = s_next_chan s"
    and s1: "s1 = s\<lparr>s_chans := AList.update c \<lparr>ch_buf = [], ch_closed = False\<rparr> (s_chans s),
       s_next_chan := Suc c, s_subscribers := AList.update topic (topic_subs s topic @ [c]) (s_subscribers s)\<rparr>"
    by (rule Subscribe_ok)
  have e: "gauge t (env s1) = gauge t s1" "s_metrics (env s1) = None \<longleftrightarrow> s_metrics s1 = None"
    "s_connections (env s1) = s_connections s1" "s_subscribers (env s1) = s_subscribers s1"
    "\<And>d. chan_open s1 d \<Longrightarrow> chan_open (env s1) d"
    using env by (auto simp: env_ok_def)
  have "chan_open s1 c"
    by (simp add: s1 chan_open_def)
  then obtain s2 where s2: "unsubscribe topic c (env s1) = Some s2"
    using e(5) unsubscribe_open by blast
  have "topic_subs s2 u = topic_subs s u" for u
    using unsubscribe_fields(3) [OF s2, of u] e(4) fresh_not_subscribed [OF inv, of u]
    by (auto simp: s1 c removeAll_id)
  then show ?thesis
    using s2 unsubscribe_fields(1,2) [OF s2] e(1-3) by (intro exI [of _ s2]) (simp add: s1 gauge_def)
qed

definition grpc_sub_conn :: "string \<Rightarrow> Principal \<Rightarrow> MessageHeader \<Rightarrow> PbSubscribeRequest \<Rightarrow> ConnectionSnapshot" where
  "grpc_sub_conn addr prin h req =
    \<lparr>cs_ID = [], cs_Protocol = ''grpc'', cs_Kind = ''event_subscribe'', cs_TenantID = h_TenantID h,
     cs_Actor = p_Subject prin, cs_RemoteAddr = addr, cs_StartedAt = [],
     cs_Meta = Some [(''service'', JStr ''Events/Subscribe''), (''topic'', JStr (pbsq_Topic req)),
                     (''resume_cursor'', JStr (pbsq_ResumeCursor req))]\<rparr>"

text \<open>The call after the principal has been accepted.\<close>

lemma grpcSubscribe_registered:
  assumes inv: "event_inv s" and env: "env_ok ''grpc_events'' env"
    and ap: "applyPrincipalHeaderFromPrincipal (messageHeaderFromProto lib (pbsq_Header req)) (principalFromContext ctx) = (h, None)"
    and reg: "RegisterConnection r (inc_stream ''grpc_events'' s) (grpc_sub_conn addr (principalFromContext ctx) h req) = Some (s1, i)"
  shows "\<exists>u outs st. grpcSubscribe lib r addr env send inputs ctx req s =
      Some (dec_stream (s_metrics s \<noteq> None) ''grpc_events'' (unregister i u), outs, st) \<and>
    gauge ''grpc_events'' u = gauge ''grpc_events'' s1 \<and> (s_metrics u = None \<longleftrightarrow> s_metrics s1 = None) \<and>
    s_connections u = s_connections s1 \<and> (\<forall>v. topic_subs u v = topic_subs s1 v)"
proof -
  note unf = grpcSubscribe_def Let_def ap
  note reg' = reg [unfolded grpc_sub_conn_def]
  obtain s2 res where sub: "Subscribe s1 (pbsq_Topic req) (pbsq_ResumeCursor req) = (s2, res)"
    by (cases "Subscribe s1 (pbsq_Topic req) (pbsq_ResumeCursor req)")
  show ?thesis
  proof (cases res)
    case (Inl e)
    with sub have s2: "s2 = recordError ErrorInvalidRequest ''subscribe'' s1"
      by (blast dest: Subscribe_error_state)
    then show ?thesis
      using sub Inl reg' by (intro exI [of _ s2]) (simp add: unf)
  next
    case (Inr ec)
    then obtain events c where sub': "Subscribe s1 (pbsq_Topic req) (pbsq_ResumeCursor req) = (s2, Inr (events, c))"
      using sub by (cases ec) auto
    have "event_inv s1"
      using inv RegisterConnection_frame(3) [OF reg] inc_stream_frame [of "''grpc_events''" s] by auto
    from subscription_cleanup [OF this sub' env] obtain s3 where
      s3: "unsubscribe (pbsq_Topic req) c (env s2) = Some s3" "gauge ''grpc_events'' s3 = gauge ''grpc_events'' s1"
        "s_metrics s3 = None \<longleftrightarrow> s_metrics s1 = None" "s_connections s3 = s_connections s1"
        "\<forall>u. topic_subs s3 u = topic_subs s1 u"
      by (elim exE conjE) (rule that)
    then show ?thesis
      using sub' reg' by (intro exI [of _ s3]) (simp add: unf split: prod.split)
  qed
qed

text \<open>
  A gRPC subscription leaves no trace: on every exit path, the refusal of the principal or of the
  topic and a failing send included, the call returns with the stream gauge, the connection
  registry and the subscriber map as before.
\<close>

lemma grpc_subscribe_leaves_no_trace:
  assumes inv: "event_inv s" "map_ok (s_connections s)" and env: "env_ok ''grpc_events'' env"
    and id: "short_id (rt_rand r 0) = Some x" "map_of (s_connections s) (''conn-'' @ x) = None"
  shows "\<exists>s' outs st. grpcSubscribe lib r addr env send inputs ctx req s = Some (s', outs, st) \<and>
    gauge ''grpc_events'' s' = gauge ''grpc_events'' s \<and> map_of (s_connections s') = map_of (s_connections s) \<and>
    (\<forall>u. topic_subs s' u = topic_subs s u)"
proof -
  let ?t = "''grpc_events''" and ?p = "principalFromContext ctx"
  obtain m where frame: "inc_stream ?t s = s\<lparr>s_metrics := m\<rparr>" "m = None \<longleftrightarrow> s_metrics s = None"
    using inc_stream_frame by blast
  obtain h eo where ap: "applyPrincipalHeaderFromPrincipal (messageHeaderFromProto lib (pbsq_Header req)) ?p = (h, eo)"
    by (cases "applyPrincipalHeaderFromPrincipal (messageHeaderFromProto lib (pbsq_Header req)) ?p")
  show ?thesis
  proof (cases eo)
    case (Some e)
    have "gauge ?t (dec_stream (s_metrics s \<noteq> None) ?t (inc_stream ?t s)) = gauge ?t s"
      by (rule gauge_balanced) (simp_all add: frame)
    then show ?thesis
      by (simp add: grpcSubscribe_def Let_def ap Some frame)
  next
    case None
    obtain s1 i where reg: "RegisterConnection r (inc_stream ?t s) (grpc_sub_conn addr ?p h req) = Some (s1, i)"
      using id(1) by (auto simp: RegisterConnection_def Let_def grpc_sub_conn_def)
    have fresh: "map_of (s_connections s) i = None"
      using RegisterConnection_fresh [OF reg] id by (auto simp: grpc_sub_conn_def)
    from grpcSubscribe_registered [OF inv(1) env ap [unfolded None] reg, of send inputs] obtain u outs st
      where res: "grpcSubscribe lib r addr env send inputs ctx req s =
          Some (dec_stream (s_metrics s \<noteq> None) ?t (unregister i u), outs, st)"
        and u: "gauge ?t u = gauge ?t s1" "s_metrics u = None \<longleftrightarrow> s_metrics s1 = None"
          "s_connections u = s_connections s1" "\<forall>v. topic_subs u v = topic_subs s1 v"
      by (elim exE conjE) (rule that)
    from stream_exit [OF inv(2) reg fresh u] res show ?thesis
      by (intro exI [of _ "dec_stream (s_metrics s \<noteq> None) ?t (unregister i u)"] exI [of _ outs] exI [of _ st]) simp
  qed
qed


lemma grpc_frame_state_rule:
  assumes "P s" and "\<And>c req a. P (fst (Invoke r sel s c req a prin))" and "\<And>q mid. P (fst (Cancel r s q mid))"
  shows "P (fst (grpc_frame r sel prin inp s))"
  unfolding grpc_frame_def by (simp add: Let_def split_beta assms split: option.split)

lemma grpc_frame_same: "session_same t s (fst (grpc_frame r sel prin inp s))"
  by (rule grpc_frame_state_rule) (simp_all add: session_same_Invoke session_same_Cancel, simp add: session_same_def)

lemma grpc_loop_same:
  assumes "\<forall>i \<in> set is. env_ok t (gi_env i)"
  shows "session_same t s (fst (grpc_loop lib prin fin is s))"
  using assms
proof (induction "is" arbitrary: s)
  case (Cons i "is")
  let ?f = "grpc_frame (gi_rt i) (gi_sel i) prin (streamFrameFromProto lib (gi_frame i)) (gi_env i s)"
  have "session_same t s (gi_env i s)"
    using Cons.prems by (simp add: session_same_env)
  then have "session_same t s (fst ?f)"
    using grpc_frame_same by (rule session_same_trans)
  with Cons show ?case
    by (auto simp: Let_def split_beta split: option.split intro: session_same_trans)
qed (simp add: session_same_def)

lemma grpc_stream_invoke_leaves_no_trace:
  assumes "map_ok (s_connections s)" and env: "\<forall>i \<in> set is. env_ok ''grpc_bidi'' (gi_env i)"
    and id: "short_id (rt_rand r 0) = Some x" "map_of (s_connections s) (''conn-'' @ x) = None"
  shows "\<exists>s' outs st. grpcStreamInvoke lib r addr fin is ctx s = Some (s', outs, st) \<and>
    gauge ''grpc_bidi'' s' = gauge ''grpc_bidi'' s \<and> map_of (s_connections s') = map_of (s_connections s)"
proof -
  let ?t = "''grpc_bidi''" and ?p = "principalFromContext ctx"
  let ?conn = "\<lparr>cs_ID = [], cs_Protocol = ''grpc'', cs_Kind = ''stream_invoke'',
     cs_TenantID = (if p_TenantID ?p = [] then ''unknown'' else p_TenantID ?p),
     cs_Actor = p_Subject ?p, cs_RemoteAddr = addr, cs_StartedAt = [],
     cs_Meta = Some [(''service'', JStr ''Invocation/StreamInvoke'')]\<rparr>"
  obtain s1 i where reg: "RegisterConnection r (inc_stream ?t s) ?conn = Some (s1, i)"
    using id(1) by (auto simp: RegisterConnection_def Let_def)
  have fresh: "map_of (s_connections s) i = None"
    using RegisterConnection_fresh [OF reg] id by auto
  let ?l = "grpc_loop lib ?p fin is s1"
  have "session_same ?t s1 (fst ?l)"
    using env by (rule grpc_loop_same)
  with stream_exit [OF assms(1) reg fresh, of "fst ?l"]
  have "gauge ?t (dec_stream (s_metrics s \<noteq> None) ?t (unregister i (fst ?l))) = gauge ?t s"
    "map_of (s_connections (unregister i (fst ?l))) = map_of (s_connections s)"
    by (simp_all add: session_same_def)
  then show ?thesis
    using reg by (simp add: grpcStreamInvoke_def Let_def split_beta)
qed

definition grpc_reply_ok :: "Principal \<Rightarrow> StreamFrame \<Rightarrow> StreamFrame \<Rightarrow> bool" where
  "grpc_reply_ok prin inp out \<longleftrightarrow>
    f_StreamID out = f_StreamID inp \<and> f_Capability out = f_Capability inp \<and> f_EndStream out \<and>
    (f_Error out = None \<longrightarrow>
       (f_Kind inp = ''request'' \<and> f_Kind out = ''response'' \<or> f_Kind inp = ''control'' \<and> f_Kind out = ''control'') \<and>
       (p_TenantID prin \<noteq> [] \<longrightarrow> h_TenantID (f_Header out) = p_TenantID prin)) \<and>
    (f_Error out \<noteq> None \<longrightarrow> f_Kind out = ''error'' \<and> f_Payload out = None)"

lemma grpc_frame_reply: "grpc_reply_ok prin inp (snd (grpc_frame r sel prin inp s))"
proof -
  obtain h eo where ap: "applyPrincipalHeaderFromPrincipal (f_Header inp) prin = (h, eo)"
    by (cases "applyPrincipalHeaderFromPrincipal (f_Header inp) prin")
  have t: "eo = None \<Longrightarrow> p_TenantID prin \<noteq> [] \<Longrightarrow> h_TenantID h = p_TenantID prin"
    using grpc_guard.passes_own_tenant ap by blast
  then show ?thesis
    unfolding grpc_frame_def ap grpc_reply_ok_def
    by (simp add: Let_def split_beta split: option.splits sum.splits)
qed

text \<open>
  On a gRPC stream, while sends succeed, every frame received is answered by exactly one frame,
  in order, and the call ends with the status \<^verbatim>\<open>Recv\<close> ended with. Each answer is the wire form of a
  reply that echoes stream and capability, ends the stream, carries an error exactly when it is
  an error frame, and on success belongs to the principal's tenant.
\<close>

lemma grpc_stream_replies:
  assumes "\<forall>i \<in> set is. gi_send i = None"
  shows "snd (snd (grpc_loop lib prin fin is s)) = fin \<and>
    list_all2 (\<lambda>i out. \<exists>f. out = streamFrameToProto lib f \<and> grpc_reply_ok prin (streamFrameFromProto lib (gi_frame i)) f)
      is (fst (snd (grpc_loop lib prin fin is s)))"
  using assms
proof (induction "is" arbitrary: s)
  case (Cons i "is")
  let ?f = "grpc_frame (gi_rt i) (gi_sel i) prin (streamFrameFromProto lib (gi_frame i)) (gi_env i s)"
  have "grpc_reply_ok prin (streamFrameFromProto lib (gi_frame i)) (snd ?f)"
    by (rule grpc_frame_reply)
  with Cons show ?case
    by (auto simp: Let_def split_beta)
qed simp

subsection \<open>The streams of both bindings\<close>

text \<open>
  C38. A stream leaves no trace. An event stream over HTTP or gRPC, whether it ends because the client
  went away, a write failed, flushing is unsupported, or principal or topic were refused, returns
  without a panic, with the gauge of active streams, the registry of connections and the subscribers of
  every topic as before. A websocket session and a bidirectional gRPC stream, refused or ended after any number of
  frames, leave gauge and registry as before.
\<close>

theorem streams_leave_no_trace:
  assumes "event_inv s" "map_ok (s_connections s)"
    and "env_ok ''sse'' sse_env" "env_ok ''grpc_events'' grpc_env" "\<forall>i \<in> set is. env_ok ''websocket'' (wi_env i)"
      "\<forall>i \<in> set gs. env_ok ''grpc_bidi'' (gi_env i)"
    and "short_id (rt_rand r 0) = Some x" "map_of (s_connections s) (''conn-'' @ x) = None"
  shows "(\<exists>s' resp. handleSubscribe r sse_env flusher oks inputs ctx hr topic s = Some (s', resp) \<and>
      gauge ''sse'' s' = gauge ''sse'' s \<and> map_of (s_connections s') = map_of (s_connections s) \<and>
      (\<forall>u. topic_subs s' u = topic_subs s u)) \<and>
    (\<exists>s' outs st. grpcSubscribe lib r addr grpc_env send received ctx req s = Some (s', outs, st) \<and>
      gauge ''grpc_events'' s' = gauge ''grpc_events'' s \<and> map_of (s_connections s') = map_of (s_connections s) \<and>
      (\<forall>u. topic_subs s' u = topic_subs s u)) \<and>
    (\<exists>s' resp. handleStream r refused is ctx hr s = Some (s', resp) \<and>
      gauge ''websocket'' s' = gauge ''websocket'' s \<and> map_of (s_connections s') = map_of (s_connections s)) \<and>
    (\<exists>s' outs st. grpcStreamInvoke lib r addr fin gs ctx s = Some (s', outs, st) \<and>
      gauge ''grpc_bidi'' s' = gauge ''grpc_bidi'' s \<and> map_of (s_connections s') = map_of (s_connections s))"
  using sse_leaves_no_trace [OF assms(1-3,7,8)] grpc_subscribe_leaves_no_trace [OF assms(1,2,4,7,8)]
    websocket_leaves_no_trace [OF assms(2,5,7,8)] grpc_stream_invoke_leaves_no_trace [OF assms(2,6,7,8)] by (intro conjI)


subsection \<open>Witnesses for the streams\<close>

definition demo_subscribe :: PbSubscribeRequest where
  "demo_subscribe = \<lparr>pbsq_Header = Some demo_pbheader, pbsq_Topic = ''a.b'', pbsq_ConsumerId = [],
     pbsq_ResumeCursor = [], pbsq_MaxInflight = 0\<rparr>"

definition demo_ginput :: grpc_input where
  "demo_ginput = \<lparr>gi_env = id, gi_rt = demo_rt, gi_sel = SelResult,
     gi_frame = \<lparr>pbf_Header = Some demo_pbheader, pbf_StreamId = ''s'', pbf_Capability = ''observatory.models.infer'',
       pbf_Kind = FRAME_KIND_REQUEST, pbf_Payload = None, pbf_EndStream = False, pbf_Error = None\<rparr>, gi_send = None\<rparr>"

theorem streams_leave_no_trace_witness:
  "(\<exists>s' resp. handleSubscribe demo_rt id True [] [SseDone] None ui_http ''a.b'' demo_service = Some (s', resp) \<and>
     gauge ''sse'' s' = gauge ''sse'' demo_service) \<and>
   (\<exists>s' outs st. grpcSubscribe demo_lib demo_rt [] id (\<lambda>_. None) [GrpcDone] None demo_subscribe demo_service = Some (s', outs, st) \<and>
     gauge ''grpc_events'' s' = gauge ''grpc_events'' demo_service) \<and>
   (\<exists>s' resp. handleStream demo_rt None [demo_input] None ui_http demo_service = Some (s', resp) \<and>
     gauge ''websocket'' s' = gauge ''websocket'' demo_service) \<and>
   (\<exists>s' outs st. grpcStreamInvoke demo_lib demo_rt [] None [demo_ginput] None demo_service = Some (s', outs, st) \<and>
     gauge ''grpc_bidi'' s' = gauge ''grpc_bidi'' demo_service)"
proof -
  obtain x where x: "short_id (rt_rand demo_rt 0) = Some x"
    using demo_short_id by blast
  have c: "map_ok (s_connections demo_service)" "map_of (s_connections demo_service) (''conn-'' @ x) = None"
    by (simp_all add: demo_no_connections)
  have i: "\<forall>i \<in> set [demo_input]. env_ok ''websocket'' (wi_env i)"
    using env_ok_id by (simp add: demo_input_def)
  have g: "\<forall>i \<in> set [demo_ginput]. env_ok ''grpc_bidi'' (gi_env i)"
    using env_ok_id by (simp add: demo_ginput_def)
  note * = streams_leave_no_trace [OF event_inv_demo c(1) env_ok_id env_ok_id i g x c(2)]
  show ?thesis
  proof (intro conjI)
    show "\<exists>s' resp. handleSubscribe demo_rt id True [] [SseDone] None ui_http ''a.b'' demo_service = Some (s', resp) \<and>
        gauge ''sse'' s' = gauge ''sse'' demo_service"
      using * [THEN conjunct1] by blast
    show "\<exists>s' outs st. grpcSubscribe demo_lib demo_rt [] id (\<lambda>_. None) [GrpcDone] None demo_subscribe demo_service = Some (s', outs, st) \<and>
        gauge ''grpc_events'' s' = gauge ''grpc_events'' demo_service"
      using * [THEN conjunct2, THEN conjunct1] by blast
    show "\<exists>s' resp. handleStream demo_rt None [demo_input] None ui_http demo_service = Some (s', resp) \<and>
        gauge ''websocket'' s' = gauge ''websocket'' demo_service"
      using * [THEN conjunct2, THEN conjunct2, THEN conjunct1] by blast
    show "\<exists>s' outs st. grpcStreamInvoke demo_lib demo_rt [] None [demo_ginput] None demo_service = Some (s', outs, st) \<and>
        gauge ''grpc_bidi'' s' = gauge ''grpc_bidi'' demo_service"
      using * [THEN conjunct2, THEN conjunct2, THEN conjunct2] by blast
  qed
qed


end
