(* ===== verification/Mig_Nats.thy ===== *)
theory Mig_Nats
  imports Mig_Http Mig_Nats_Lifecycle
begin

text \<open>
  The NATS binding, \<^verbatim>\<open>core/pkg/mig/nats_binding.go\<close>: one function per handler, and the dispatch
  of messages to them.

  A message is its subject, its reply subject and what decoding its data gives. A handler returns
  the service and the reply it sends, if any; \<open>None\<close> is a panic. The connection and the
  delivery of messages belong to \<^verbatim>\<open>nats.go\<close> and the server: what the server delivers is stated where
  it is used.
\<close>

subsection \<open>Subjects\<close>

definition subjectTokens :: "string \<Rightarrow> string list" where
  "subjectTokens subject = (if subject = [] then [] else split_on (CHR ''.'') subject)"

definition subjectToken :: "string \<Rightarrow> int \<Rightarrow> string" where
  "subjectToken subject index =
    (let tokens = subjectTokens subject in
     if index < 0 \<or> index \<ge> int (length tokens) then [] else tokens ! nat index)"

text \<open>\<^verbatim>\<open>strings.Join(subjectTokens(subject)[n:], ".")\<close>: a slice beyond the end panics, which is \<open>None\<close>.\<close>

definition subject_tail :: "string \<Rightarrow> nat \<Rightarrow> string option" where
  "subject_tail subject n =
    (let tokens = subjectTokens subject in
     if n \<le> length tokens then Some (join_with (CHR ''.'') (drop n tokens)) else None)"

subsection \<open>Messages and replies\<close>

record 'a nats_msg =
  nm_Subject :: string
  nm_Reply :: string
  nm_Data :: "'a body"

datatype nats_reply = NrRaw string string | NrPayload payload

definition decodeNATS :: "'a nats_msg \<Rightarrow> 'a option" where
  "decodeNATS msg = (case nm_Data msg of Decoded req \<Rightarrow> Some req | _ \<Rightarrow> None)"

definition respondNATS :: "'a nats_msg \<Rightarrow> payload \<Rightarrow> nats_reply option" where
  "respondNATS msg p = (if nm_Reply msg = [] then None else Some (NrPayload p))"

definition respondNATSError :: "'a nats_msg \<Rightarrow> string \<Rightarrow> string \<Rightarrow> nats_reply option" where
  "respondNATSError msg code message = (if nm_Reply msg = [] then None else Some (NrRaw code message))"

definition respondNATSMigError :: "rt \<Rightarrow> 'a nats_msg \<Rightarrow> MessageHeader \<Rightarrow> MigError \<Rightarrow> nats_reply option" where
  "respondNATSMigError r msg header migErr =
    (if nm_Reply msg = [] then None
     else
       let head = (if h_TenantID header = [] then header\<lparr>h_TenantID := subjectToken (nm_Subject msg) 2\<rparr> else header);
           head = (if h_MessageID head = [] then head\<lparr>h_MessageID := newMessageID (rt_rand r 2)\<rparr> else head);
           head = (if h_MIGVersion head = [] then head\<lparr>h_MIGVersion := MIGVersion\<rparr> else head);
           head = (if h_Timestamp head = [] then head\<lparr>h_Timestamp := rt_now r 2\<rparr> else head)
       in respondNATS msg (PError \<lparr>env_Header = head, env_Error = migErr\<rparr>))"

definition nats_tenant :: "'a nats_msg \<Rightarrow> MessageHeader \<Rightarrow> MessageHeader" where
  "nats_tenant msg h = (if h_TenantID h = [] then h\<lparr>h_TenantID := subjectToken (nm_Subject msg) 2\<rparr> else h)"

definition nats_principal :: "MessageHeader \<Rightarrow> Principal" where
  "nats_principal h = \<lparr>p_Subject = [], p_TenantID = h_TenantID h, p_Scopes = [], p_Authenticated = False\<rparr>"

subsection \<open>Handlers\<close>

text \<open>The result is the service and the reply, if one is sent; \<open>None\<close> is a panic.\<close>

definition natsHello :: "rt \<Rightarrow> HelloRequest nats_msg \<Rightarrow> Service \<Rightarrow> Service \<times> nats_reply option" where
  "natsHello r msg s =
    (case decodeNATS msg of
       None \<Rightarrow> (s, respondNATSError msg ErrorInvalidRequest ''invalid hello request'')
     | Some req \<Rightarrow>
         let req = req\<lparr>hq_Header := nats_tenant msg (hq_Header req)\<rparr> in
         case Hello r s req of
           Inl e \<Rightarrow> (s, respondNATSMigError r msg (hq_Header req) e)
         | Inr resp \<Rightarrow> (s, respondNATS msg (PHello resp)))"

definition natsDiscover :: "rt \<Rightarrow> DiscoverRequest nats_msg \<Rightarrow> Service \<Rightarrow> Service \<times> nats_reply option" where
  "natsDiscover r msg s =
    (case decodeNATS msg of
       None \<Rightarrow> (s, respondNATSError msg ErrorInvalidRequest ''invalid discover request'')
     | Some req \<Rightarrow>
         let req = req\<lparr>dq_Header := nats_tenant msg (dq_Header req)\<rparr> in
         case Discover r s req (nats_principal (dq_Header req)) of
           (s, Inl e) \<Rightarrow> (s, respondNATSMigError r msg (aliased r (dq_Header req)) e)
         | (s, Inr resp) \<Rightarrow> (s, respondNATS msg (PDiscover resp)))"

definition natsInvoke ::
    "rt \<Rightarrow> invoke_select \<Rightarrow> InvokeRequest nats_msg \<Rightarrow> Service \<Rightarrow> (Service \<times> nats_reply option) option" where
  "natsInvoke r sel msg s =
    (case subject_tail (nm_Subject msg) 4 of
       None \<Rightarrow> None
     | Some capability \<Rightarrow>
         Some (case decodeNATS msg of
            None \<Rightarrow> (s, respondNATSError msg ErrorInvalidRequest ''invalid invoke request'')
          | Some req \<Rightarrow>
              let req = req\<lparr>iq_Header := nats_tenant msg (iq_Header req)\<rparr>;
                  req = (if iq_Capability req = [] then req\<lparr>iq_Capability := capability\<rparr> else req) in
              case Invoke r sel s (iq_Capability req) req ''nats-client'' (nats_principal (iq_Header req)) of
                (s, Inl e) \<Rightarrow> (s, respondNATSMigError r msg (aliased r (iq_Header req)) e)
              | (s, Inr resp) \<Rightarrow> (s, respondNATS msg (PInvoke resp))))"

definition natsPublish ::
    "rt \<Rightarrow> PublishRequest nats_msg \<Rightarrow> Service \<Rightarrow> (Service \<times> nats_reply option) option" where
  "natsPublish r msg s =
    (case subject_tail (nm_Subject msg) 4 of
       None \<Rightarrow> None
     | Some topic \<Rightarrow>
         (case decodeNATS msg of
            None \<Rightarrow> Some (s, respondNATSError msg ErrorInvalidRequest ''invalid publish request'')
          | Some req \<Rightarrow>
              let req = req\<lparr>pq_Header := nats_tenant msg (pq_Header req)\<rparr>;
                  req = (if pq_Topic req = [] then req\<lparr>pq_Topic := topic\<rparr> else req) in
              case Publish r s (pq_Topic req) req of
                None \<Rightarrow> None
              | Some (s, Inl e) \<Rightarrow> Some (s, respondNATSMigError r msg (aliased r (pq_Header req)) e)
              | Some (s, Inr resp) \<Rightarrow> Some (s, respondNATS msg (PPublish resp))))"

definition natsCancel ::
    "rt \<Rightarrow> CancelRequest nats_msg \<Rightarrow> Service \<Rightarrow> (Service \<times> nats_reply option) option" where
  "natsCancel r msg s =
    (case subject_tail (nm_Subject msg) 5 of
       None \<Rightarrow> None
     | Some messageID \<Rightarrow>
         Some (case decodeNATS msg of
            None \<Rightarrow> (s, respondNATSError msg ErrorInvalidRequest ''invalid cancel request'')
          | Some req \<Rightarrow>
              let req = req\<lparr>cq_Header := nats_tenant msg (cq_Header req)\<rparr>;
                  req = (if cq_TargetMessageID req = [] then req\<lparr>cq_TargetMessageID := messageID\<rparr> else req) in
              case Cancel r s req (cq_TargetMessageID req) of
                (s, Inl e) \<Rightarrow> (s, respondNATSMigError r msg (aliased r (cq_Header req)) e)
              | (s, Inr resp) \<Rightarrow> (s, respondNATS msg (PCancel resp))))"

definition natsHeartbeat :: "rt \<Rightarrow> HeartbeatRequest nats_msg \<Rightarrow> Service \<Rightarrow> Service \<times> nats_reply option" where
  "natsHeartbeat r msg s =
    (case decodeNATS msg of
       None \<Rightarrow> (s, respondNATSError msg ErrorInvalidRequest ''invalid heartbeat request'')
     | Some req \<Rightarrow>
         let req = req\<lparr>bq_Header := nats_tenant msg (bq_Header req)\<rparr> in
         case Heartbeat r s req of
           (s, Inl e) \<Rightarrow> (s, respondNATSMigError r msg (aliased r (bq_Header req)) e)
         | (s, Inr resp) \<Rightarrow> (s, respondNATS msg (PHeartbeat resp)))"

subsection \<open>Dispatch\<close>

text \<open>A message of each kind, the pattern its handler is subscribed to, and the handler.\<close>

datatype nats_call =
    NHello "HelloRequest nats_msg"
  | NDiscover "DiscoverRequest nats_msg"
  | NInvoke invoke_select "InvokeRequest nats_msg"
  | NPublish "PublishRequest nats_msg"
  | NCancel "CancelRequest nats_msg"
  | NHeartbeat "HeartbeatRequest nats_msg"

fun nats_pattern :: "nats_call \<Rightarrow> string" where
  "nats_pattern (NHello _) = ''mig.v0_1.*.hello''"
| "nats_pattern (NDiscover _) = ''mig.v0_1.*.discover''"
| "nats_pattern (NInvoke _ _) = ''mig.v0_1.*.invoke.>''"
| "nats_pattern (NPublish _) = ''mig.v0_1.*.events.>''"
| "nats_pattern (NCancel _) = ''mig.v0_1.*.control.cancel.>''"
| "nats_pattern (NHeartbeat _) = ''mig.v0_1.*.control.heartbeat''"

fun nats_handle :: "rt \<Rightarrow> nats_call \<Rightarrow> Service \<Rightarrow> (Service \<times> nats_reply option) option" where
  "nats_handle r (NHello msg) s = Some (natsHello r msg s)"
| "nats_handle r (NDiscover msg) s = Some (natsDiscover r msg s)"
| "nats_handle r (NInvoke sel msg) s = natsInvoke r sel msg s"
| "nats_handle r (NPublish msg) s = natsPublish r msg s"
| "nats_handle r (NCancel msg) s = natsCancel r msg s"
| "nats_handle r (NHeartbeat msg) s = Some (natsHeartbeat r msg s)"

fun nats_subject :: "nats_call \<Rightarrow> string" where
  "nats_subject (NHello msg) = nm_Subject msg"
| "nats_subject (NDiscover msg) = nm_Subject msg"
| "nats_subject (NInvoke _ msg) = nm_Subject msg"
| "nats_subject (NPublish msg) = nm_Subject msg"
| "nats_subject (NCancel msg) = nm_Subject msg"
| "nats_subject (NHeartbeat msg) = nm_Subject msg"

fun nats_reply_to :: "nats_call \<Rightarrow> string" where
  "nats_reply_to (NHello msg) = nm_Reply msg"
| "nats_reply_to (NDiscover msg) = nm_Reply msg"
| "nats_reply_to (NInvoke _ msg) = nm_Reply msg"
| "nats_reply_to (NPublish msg) = nm_Reply msg"
| "nats_reply_to (NCancel msg) = nm_Reply msg"
| "nats_reply_to (NHeartbeat msg) = nm_Reply msg"

end
