(* ===== verification/Mig_Json.thy ===== *)
theory Mig_Json
  imports Mig_Http "HOL-Library.Monad_Syntax" "HOL-Library.Log_Nat"
begin

text \<open>
  Messages on the wire: what \<^verbatim>\<open>encoding/json\<close> makes of the structs of \<^verbatim>\<open>core/pkg/mig/types.go\<close>, after their field
  tags, and the structs it reads back. A field tagged \<^verbatim>\<open>omitempty\<close> is left out when it has its zero
  value; a missing or null field reads as the zero value; a value of the wrong type is refused,
  which is \<open>None\<close>. Names are matched exactly; Go would also take another capitalisation of a field
  name, which no program of the repository sends. A value that is encoded and decoded again is \<open>rejson\<close> of it: a \<^verbatim>\<open>[]string\<close> comes back as a
  \<^verbatim>\<open>[]interface{}\<close>, everything else as itself, since floats are printed so that they read back exactly.
  Strings are valid UTF-8, as every string that came in through JSON or protobuf is.
\<close>

subsection \<open>Values\<close>

fun rejson :: "json \<Rightarrow> json" where
  "rejson (JStrs xs) = JArr (map JStr xs)"
| "rejson (JArr js) = JArr (map rejson js)"
| "rejson (JObj es) = JObj (map (\<lambda>(k, j). (k, rejson j)) es)"
| "rejson j = j"

abbreviation rejson_fields :: "jobject \<Rightarrow> jobject" where
  "rejson_fields es \<equiv> map (\<lambda>(k, j). (k, rejson j)) es"

definition rejson_map :: "jmap \<Rightarrow> jmap" where
  "rejson_map m = map_option rejson_fields m"

lemma map_of_rejson [simp]: "map_of (rejson_fields es) k = map_option rejson (map_of es k)"
  by (induction es) auto

lemma rejson_idem: "rejson (rejson j) = rejson j"
  by (induction j rule: rejson.induct) auto

lemma rejson_jmap: "rejson (jmap_json (rejson_map m)) = rejson (jmap_json m)"
  by (cases m) (simp_all add: jmap_json_def rejson_map_def rejson_idem comp_def case_prod_unfold)

subsection \<open>Reading fields\<close>

definition cannot_decode :: string where
  "cannot_decode = ''json: cannot unmarshal''"

definition read_str :: "jobject \<Rightarrow> string \<Rightarrow> string option" where
  "read_str es k =
    (case map_of es k of None \<Rightarrow> Some [] | Some JNull \<Rightarrow> Some [] | Some (JStr s) \<Rightarrow> Some s | Some _ \<Rightarrow> None)"

text \<open>A number without a fraction that fits the type.\<close>

definition read_int :: "jobject \<Rightarrow> string \<Rightarrow> int option" where
  "read_int es k =
    (case map_of es k of
       None \<Rightarrow> Some 0
     | Some JNull \<Rightarrow> Some 0
     | Some (JNum m e) \<Rightarrow> if 0 \<le> e \<and> in_i64 (m * 2 ^ nat e) then Some (m * 2 ^ nat e) else None
     | Some _ \<Rightarrow> None)"

definition read_map :: "jobject \<Rightarrow> string \<Rightarrow> jmap option" where
  "read_map es k =
    (case map_of es k of None \<Rightarrow> Some None | Some JNull \<Rightarrow> Some None | Some (JObj m) \<Rightarrow> Some (Some m) | Some _ \<Rightarrow> None)"

fun read_strings :: "json list \<Rightarrow> string list option" where
  "read_strings [] = Some []"
| "read_strings (JStr s # js) = map_option ((#) s) (read_strings js)"
| "read_strings (JNull # js) = map_option ((#) []) (read_strings js)"
| "read_strings (_ # js) = None"

definition read_list :: "jobject \<Rightarrow> string \<Rightarrow> string list option" where
  "read_list es k =
    (case map_of es k of None \<Rightarrow> Some [] | Some JNull \<Rightarrow> Some [] | Some (JArr js) \<Rightarrow> read_strings js | Some _ \<Rightarrow> None)"

lemma read_strings_map [simp]: "read_strings (map JStr xs) = Some xs"
  by (induction xs) simp_all

definition opt_str :: "string \<Rightarrow> string \<Rightarrow> jobject" where
  "opt_str k v = (if v = [] then [] else [(k, JStr v)])"

subsection \<open>Headers\<close>

definition header_json :: "MessageHeader \<Rightarrow> json" where
  "header_json h =
    JObj ([(''mig_version'', JStr (h_MIGVersion h)), (''message_id'', JStr (h_MessageID h)),
           (''timestamp'', JStr (h_Timestamp h)), (''tenant_id'', JStr (h_TenantID h))] @
          opt_str ''session_id'' (h_SessionID h) @ opt_str ''traceparent'' (h_Traceparent h) @
          opt_str ''idempotency_key'' (h_IdempotencyKey h) @
          (if h_DeadlineMS h = 0 then [] else [(''deadline_ms'', JNum (h_DeadlineMS h) 0)]) @
          (if jentries (h_Meta h) = [] then [] else [(''meta'', JObj (jentries (h_Meta h)))]))"

definition header_fields :: "jobject \<Rightarrow> MessageHeader option" where
  "header_fields es =
    (case (read_str es ''mig_version'', read_str es ''message_id'', read_str es ''timestamp'', read_str es ''tenant_id'',
           read_str es ''session_id'', read_str es ''traceparent'', read_str es ''idempotency_key'',
           read_int es ''deadline_ms'', read_map es ''meta'') of
       (Some v, Some i, Some t, Some n, Some s, Some p, Some k, Some d, Some m) \<Rightarrow>
         Some \<lparr>h_MIGVersion = v, h_MessageID = i, h_Timestamp = t, h_TenantID = n, h_SessionID = s,
               h_Traceparent = p, h_IdempotencyKey = k, h_DeadlineMS = d, h_Meta = m\<rparr>
     | _ \<Rightarrow> None)"

definition read_header :: "jobject \<Rightarrow> MessageHeader option" where
  "read_header es =
    (case map_of es ''header'' of
       None \<Rightarrow> Some zero_header
     | Some JNull \<Rightarrow> Some zero_header
     | Some (JObj m) \<Rightarrow> header_fields m
     | Some _ \<Rightarrow> None)"

text \<open>A header that has been over the wire.\<close>

definition echo_header :: "MessageHeader \<Rightarrow> MessageHeader" where
  "echo_header h = h\<lparr>h_Meta := (if jentries (h_Meta h) = [] then None else rejson_map (h_Meta h))\<rparr>"

lemma opt_str_rejson [simp]: "rejson_fields (opt_str k v) = opt_str k v"
  by (simp add: opt_str_def)

lemma map_of_opt_str [simp]: "map_of (opt_str k v) k' = (if k' = k \<and> v \<noteq> [] then Some (JStr v) else None)"
  by (simp add: opt_str_def)

lemma read_str_fields:
  "map_of es k = Some (JStr v) \<Longrightarrow> read_str es k = Some v" "map_of es k = None \<Longrightarrow> read_str es k = Some []"
  by (simp_all add: read_str_def)

lemma header_fields_json:
  assumes "in_i64 (h_DeadlineMS h)"
  obtains es where "rejson (header_json h) = JObj es" "header_fields es = Some (echo_header h)"
proof -
  let ?d = "if h_DeadlineMS h = 0 then [] else [(''deadline_ms'', JNum (h_DeadlineMS h) 0)]"
  let ?m = "if jentries (h_Meta h) = [] then [] else [(''meta'', JObj (rejson_fields (jentries (h_Meta h))))]"
  define es where "es = [(''mig_version'', JStr (h_MIGVersion h)), (''message_id'', JStr (h_MessageID h)),
           (''timestamp'', JStr (h_Timestamp h)), (''tenant_id'', JStr (h_TenantID h))] @
          opt_str ''session_id'' (h_SessionID h) @ opt_str ''traceparent'' (h_Traceparent h) @
          opt_str ''idempotency_key'' (h_IdempotencyKey h) @ ?d @ ?m"
  have "rejson (header_json h) = JObj es"
    by (simp add: header_json_def es_def)
  moreover have strs: "read_str es ''mig_version'' = Some (h_MIGVersion h)" "read_str es ''message_id'' = Some (h_MessageID h)"
    "read_str es ''timestamp'' = Some (h_Timestamp h)" "read_str es ''tenant_id'' = Some (h_TenantID h)"
    "read_str es ''session_id'' = Some (h_SessionID h)" "read_str es ''traceparent'' = Some (h_Traceparent h)"
    "read_str es ''idempotency_key'' = Some (h_IdempotencyKey h)"
    by (simp_all add: es_def read_str_def map_add_def)
  have num: "read_int es ''deadline_ms'' = Some (h_DeadlineMS h)"
    using assms by (simp add: es_def read_int_def map_add_def)
  have meta: "read_map es ''meta'' = Some (h_Meta (echo_header h))"
    by (cases "h_Meta h") (simp_all add: es_def read_map_def map_add_def echo_header_def rejson_map_def)
  have "header_fields es = Some (echo_header h)"
    by (simp add: header_fields_def strs num meta) (simp add: echo_header_def)
  ultimately show thesis
    by (rule that)
qed

subsection \<open>Requests read by the gateway\<close>

definition publish_of_json :: "json \<Rightarrow> PublishRequest option" where
  "publish_of_json j =
    (case j of
       JNull \<Rightarrow> Some \<lparr>pq_Header = zero_header, pq_Topic = [], pq_Key = [], pq_Payload = None\<rparr>
     | JObj es \<Rightarrow>
         (case (read_header es, read_str es ''topic'', read_str es ''key'', read_map es ''payload'') of
            (Some h, Some t, Some k, Some p) \<Rightarrow> Some \<lparr>pq_Header = h, pq_Topic = t, pq_Key = k, pq_Payload = p\<rparr>
          | _ \<Rightarrow> None)
     | _ \<Rightarrow> None)"

definition hello_of_json :: "json \<Rightarrow> HelloRequest option" where
  "hello_of_json j =
    (case j of
       JNull \<Rightarrow> Some \<lparr>hq_Header = zero_header, hq_SupportedVersions = [], hq_RequestedBindings = [], hq_RequestedFeatures = []\<rparr>
     | JObj es \<Rightarrow>
         (case (read_header es, read_list es ''supported_versions'', read_list es ''requested_bindings'',
                read_list es ''requested_features'') of
            (Some h, Some v, Some b, Some f) \<Rightarrow>
              Some \<lparr>hq_Header = h, hq_SupportedVersions = v, hq_RequestedBindings = b, hq_RequestedFeatures = f\<rparr>
          | _ \<Rightarrow> None)
     | _ \<Rightarrow> None)"

definition read_bool :: "jobject \<Rightarrow> string \<Rightarrow> bool option" where
  "read_bool es k =
    (case map_of es k of None \<Rightarrow> Some False | Some JNull \<Rightarrow> Some False | Some (JBool b) \<Rightarrow> Some b | Some _ \<Rightarrow> None)"

definition discover_of_json :: "json \<Rightarrow> DiscoverRequest option" where
  "discover_of_json j =
    (case j of
       JNull \<Rightarrow> Some \<lparr>dq_Header = zero_header, dq_Query = [], dq_IncludeSchemaRefs = False, dq_IncludeQoS = False\<rparr>
     | JObj es \<Rightarrow>
         (case (read_header es, read_str es ''query'', read_bool es ''include_schema_refs'', read_bool es ''include_qos'') of
            (Some h, Some q, Some a, Some b) \<Rightarrow>
              Some \<lparr>dq_Header = h, dq_Query = q, dq_IncludeSchemaRefs = a, dq_IncludeQoS = b\<rparr>
          | _ \<Rightarrow> None)
     | _ \<Rightarrow> None)"

definition invoke_of_json :: "json \<Rightarrow> InvokeRequest option" where
  "invoke_of_json j =
    (case j of
       JNull \<Rightarrow> Some \<lparr>iq_Header = zero_header, iq_Capability = [], iq_Payload = None, iq_StreamPreference = []\<rparr>
     | JObj es \<Rightarrow>
         (case (read_header es, read_str es ''capability'', read_map es ''payload'', read_str es ''stream_preference'') of
            (Some h, Some c, Some p, Some s) \<Rightarrow>
              Some \<lparr>iq_Header = h, iq_Capability = c, iq_Payload = p, iq_StreamPreference = s\<rparr>
          | _ \<Rightarrow> None)
     | _ \<Rightarrow> None)"

text \<open>The fields of a struct that is decoded or nested; null leaves it at its zero value.\<close>

definition json_fields :: "json \<Rightarrow> jobject option" where
  "json_fields j = (case j of JNull \<Rightarrow> Some [] | JObj es \<Rightarrow> Some es | _ \<Rightarrow> None)"

definition read_object :: "jobject \<Rightarrow> string \<Rightarrow> jobject option" where
  "read_object es k = (case map_of es k of None \<Rightarrow> Some [] | Some j \<Rightarrow> json_fields j)"

definition cancel_of_json :: "json \<Rightarrow> CancelRequest option" where
  "cancel_of_json j = do {
     es \<leftarrow> json_fields j;
     h \<leftarrow> read_header es;
     target \<leftarrow> read_str es ''target_message_id'';
     reason \<leftarrow> read_str es ''reason'';
     Some \<lparr>cq_Header = h, cq_TargetMessageID = target, cq_Reason = reason\<rparr> }"

definition heartbeat_of_json :: "json \<Rightarrow> HeartbeatRequest option" where
  "heartbeat_of_json j = do {
     es \<leftarrow> json_fields j;
     h \<leftarrow> read_header es;
     interval \<leftarrow> read_int es ''interval_ms'';
     Some \<lparr>bq_Header = h, bq_IntervalMS = interval\<rparr> }"

definition qos_fields :: "jobject \<Rightarrow> QoSProfile option" where
  "qos_fields es = do {
     size \<leftarrow> read_int es ''max_payload_bytes'';
     replay \<leftarrow> read_bool es ''supports_replay'';
     delivery \<leftarrow> read_str es ''delivery_semantics'';
     ordering \<leftarrow> read_bool es ''supports_ordering'';
     Some \<lparr>q_MaxPayloadBytes = size, q_SupportsReplay = replay, q_DeliverySemantics = delivery, q_SupportsOrdering = ordering\<rparr> }"

definition descriptor_fields :: "jobject \<Rightarrow> CapabilityDescriptor option" where
  "descriptor_fields es = do {
     i \<leftarrow> read_str es ''id'';
     version \<leftarrow> read_str es ''version'';
     modes \<leftarrow> read_list es ''modes'';
     input \<leftarrow> read_str es ''input_schema_uri'';
     output \<leftarrow> read_str es ''output_schema_uri'';
     topics \<leftarrow> read_list es ''event_topics'';
     scopes \<leftarrow> read_list es ''auth_scopes'';
     qs \<leftarrow> read_object es ''qos'';
     qos \<leftarrow> qos_fields qs;
     Some \<lparr>c_ID = i, c_Version = version, c_Modes = modes, c_InputSchemaURI = input, c_OutputSchemaURI = output,
           c_EventTopics = topics, c_AuthScopes = scopes, c_QoS = qos\<rparr> }"

definition capability_of_json :: "json \<Rightarrow> CapabilityUpsertRequest option" where
  "capability_of_json j = do {
     es \<leftarrow> json_fields j;
     ds \<leftarrow> read_object es ''descriptor'';
     d \<leftarrow> descriptor_fields ds;
     Some \<lparr>cu_Descriptor = d\<rparr> }"

definition schema_of_json :: "json \<Rightarrow> SchemaUpsertRequest option" where
  "schema_of_json j = do {
     es \<leftarrow> json_fields j;
     uri \<leftarrow> read_str es ''uri'';
     schema \<leftarrow> read_map es ''schema'';
     Some \<lparr>su_URI = uri, su_Schema = schema\<rparr> }"

definition policy_of_json :: "json \<Rightarrow> PolicyValidateRequest option" where
  "policy_of_json j = do {
     es \<leftarrow> json_fields j;
     t \<leftarrow> read_str es ''tenant_id'';
     c \<leftarrow> read_str es ''capability'';
     a \<leftarrow> read_str es ''action'';
     Some \<lparr>pv_TenantID = t, pv_Capability = c, pv_Action = a\<rparr> }"

definition quota_of_json :: "json \<Rightarrow> QuotaRequest option" where
  "quota_of_json j = do {
     es \<leftarrow> json_fields j;
     t \<leftarrow> read_str es ''tenant_id'';
     n \<leftarrow> read_int es ''max_invocations'';
     Some \<lparr>qr_TenantID = t, qr_MaxInvocations = n\<rparr> }"

definition org_of_json :: "json \<Rightarrow> Org option" where
  "org_of_json j = do {
     es \<leftarrow> json_fields j;
     i \<leftarrow> read_str es ''id'';
     n \<leftarrow> read_str es ''name'';
     Some \<lparr>org_ID = i, org_Name = n\<rparr> }"

definition tenant_of_json :: "json \<Rightarrow> Tenant option" where
  "tenant_of_json j = do {
     es \<leftarrow> json_fields j;
     i \<leftarrow> read_str es ''id'';
     g \<leftarrow> read_str es ''org_id'';
     n \<leftarrow> read_str es ''name'';
     Some \<lparr>tn_ID = i, tn_OrgID = g, tn_Name = n\<rparr> }"

definition gateway_of_json :: "json \<Rightarrow> Gateway option" where
  "gateway_of_json j = do {
     es \<leftarrow> json_fields j;
     i \<leftarrow> read_str es ''id'';
     t \<leftarrow> read_str es ''tenant_id'';
     g \<leftarrow> read_str es ''region'';
     b \<leftarrow> read_str es ''binding'';
     Some \<lparr>gw_ID = i, gw_TenantID = t, gw_Region = g, gw_Binding = b\<rparr> }"

text \<open>The frames of a websocket; a missing or null error is a nil pointer.\<close>

definition error_fields :: "jobject \<Rightarrow> MigError option" where
  "error_fields es = do {
     code \<leftarrow> read_str es ''code'';
     message \<leftarrow> read_str es ''message'';
     retryable \<leftarrow> read_bool es ''retryable'';
     details \<leftarrow> read_map es ''details'';
     Some \<lparr>e_Code = code, e_Message = message, e_Retryable = retryable, e_Details = details\<rparr> }"

definition read_error :: "jobject \<Rightarrow> string \<Rightarrow> MigError option option" where
  "read_error es k =
    (case map_of es k of
       None \<Rightarrow> Some None
     | Some JNull \<Rightarrow> Some None
     | Some (JObj fs) \<Rightarrow> map_option Some (error_fields fs)
     | Some _ \<Rightarrow> None)"

definition frame_of_json :: "json \<Rightarrow> StreamFrame option" where
  "frame_of_json j = do {
     es \<leftarrow> json_fields j;
     h \<leftarrow> read_header es;
     stream \<leftarrow> read_str es ''stream_id'';
     capability \<leftarrow> read_str es ''capability'';
     kind \<leftarrow> read_str es ''kind'';
     payload \<leftarrow> read_map es ''payload'';
     end_stream \<leftarrow> read_bool es ''end_stream'';
     error \<leftarrow> read_error es ''error'';
     Some \<lparr>f_Header = h, f_StreamID = stream, f_Capability = capability, f_Kind = kind, f_Payload = payload,
           f_EndStream = end_stream, f_Error = error\<rparr> }"

subsection \<open>Messages written by the gateway\<close>

definition event_json :: "EventMessage \<Rightarrow> json" where
  "event_json ev =
    JObj [(''header'', header_json (ev_Header ev)), (''topic'', JStr (ev_Topic ev)), (''event_id'', JStr (ev_EventID ev)),
          (''sequence'', JNum (ev_Sequence ev) 0), (''payload'', jmap_json (ev_Payload ev)),
          (''published_at'', JStr (ev_PublishedAt ev)), (''replay'', JBool (ev_Replay ev))]"

definition invoke_json :: "InvokeResponse \<Rightarrow> json" where
  "invoke_json p =
    JObj ([(''header'', header_json (ip_Header p)), (''capability'', JStr (ip_Capability p)),
           (''payload'', jmap_json (ip_Payload p))] @ opt_str ''result_schema_uri'' (ip_ResultSchemaURI p))"

definition opt_map :: "string \<Rightarrow> jmap \<Rightarrow> jobject" where
  "opt_map k m = (if jentries m = [] then [] else [(k, JObj (jentries m))])"

definition error_json :: "MigError \<Rightarrow> json" where
  "error_json e =
    JObj ([(''code'', JStr (e_Code e)), (''message'', JStr (e_Message e)), (''retryable'', JBool (e_Retryable e))] @
          opt_map ''details'' (e_Details e))"

definition envelope_json :: "ErrorEnvelope \<Rightarrow> json" where
  "envelope_json env = JObj [(''header'', header_json (env_Header env)), (''error'', error_json (env_Error env))]"

definition hello_json :: "HelloResponse \<Rightarrow> json" where
  "hello_json p =
    JObj ([(''header'', header_json (hp_Header p)), (''selected_version'', JStr (hp_SelectedVersion p)),
           (''selected_binding'', JStr (hp_SelectedBinding p))] @
          (if hp_EnabledFeatures p = [] then [] else [(''enabled_features'', JStrs (hp_EnabledFeatures p))]) @
          opt_str ''server_id'' (hp_ServerID p))"

definition opt_true :: "string \<Rightarrow> bool \<Rightarrow> jobject" where
  "opt_true k b = (if b then [(k, JBool True)] else [])"

definition frame_json :: "StreamFrame \<Rightarrow> json" where
  "frame_json f =
    JObj ([(''header'', header_json (f_Header f)), (''stream_id'', JStr (f_StreamID f)), (''capability'', JStr (f_Capability f)),
           (''kind'', JStr (f_Kind f))] @
          opt_map ''payload'' (f_Payload f) @ opt_true ''end_stream'' (f_EndStream f) @
          (case f_Error f of None \<Rightarrow> [] | Some e \<Rightarrow> [(''error'', error_json e)]))"

definition qos_json :: "QoSProfile \<Rightarrow> json" where
  "qos_json q =
    JObj ((if q_MaxPayloadBytes q = 0 then [] else [(''max_payload_bytes'', JNum (q_MaxPayloadBytes q) 0)]) @
          opt_true ''supports_replay'' (q_SupportsReplay q) @
          opt_str ''delivery_semantics'' (q_DeliverySemantics q) @
          opt_true ''supports_ordering'' (q_SupportsOrdering q))"

definition capability_json :: "CapabilityDescriptor \<Rightarrow> json" where
  "capability_json d =
    JObj ([(''id'', JStr (c_ID d)), (''version'', JStr (c_Version d)), (''modes'', JStrs (c_Modes d)),
           (''input_schema_uri'', JStr (c_InputSchemaURI d)), (''output_schema_uri'', JStr (c_OutputSchemaURI d))] @
          (if c_EventTopics d = [] then [] else [(''event_topics'', JStrs (c_EventTopics d))]) @
          [(''auth_scopes'', JStrs (c_AuthScopes d)), (''qos'', qos_json (c_QoS d))])"

definition discover_json :: "DiscoverResponse \<Rightarrow> json" where
  "discover_json p =
    JObj [(''header'', header_json (dp_Header p)), (''capabilities'', JArr (map capability_json (dp_Capabilities p)))]"

definition publish_ack_json :: "PublishAck \<Rightarrow> json" where
  "publish_ack_json a =
    JObj [(''header'', header_json (pa_Header a)), (''topic'', JStr (pa_Topic a)), (''event_id'', JStr (pa_EventID a)),
          (''sequence'', JNum (pa_Sequence a) 0), (''accepted'', JBool (pa_Accepted a))]"

definition cancel_ack_json :: "CancelAck \<Rightarrow> json" where
  "cancel_ack_json a =
    JObj [(''header'', header_json (ca_Header a)), (''target_message_id'', JStr (ca_TargetMessageID a)),
          (''accepted'', JBool (ca_Accepted a)), (''status'', JStr (ca_Status a))]"

text \<open>
  The load factor is a float64, the quotient of the number of audit records by 1000: the mantissa has
  53 bits, and the quotient is rounded to the nearest, a tie to the even one.
\<close>

definition round_div :: "int \<Rightarrow> int \<Rightarrow> int" where
  "round_div a b = (let q = a div b; r = a mod b in if 2 * r < b \<or> 2 * r = b \<and> even q then q else q + 1)"

definition load_factor :: "int \<Rightarrow> int \<times> int" where
  "load_factor n =
    (if n = 0 then (0, 0)
     else let k = nat (63 - bitlen n);
              k = (if 2 ^ 53 \<le> n * 2 ^ k div 1000 then k - 1 else k)
          in (round_div (n * 2 ^ k) 1000, - int k))"

lemma round_div_nearest:
  assumes "0 < b"
  shows "2 * \<bar>a - b * round_div a b\<bar> \<le> b"
proof -
  define q r where "q = a div b" and "r = a mod b"
  then have "a = b * q + r" "0 \<le> r" "r < b"
    using assms by simp_all
  then show ?thesis
    by (auto simp: round_div_def Let_def algebra_simps simp flip: q_def r_def)
qed

lemma round_div_between:
  assumes "0 < b" and "l * b \<le> a" and "a < u * b"
  shows "l \<le> round_div a b \<and> round_div a b \<le> u"
proof -
  have "l \<le> a div b"
    using zdiv_mono1 [OF assms(2,1)] assms(1) by simp
  moreover have "a div b * b < u * b"
    using assms(1,3) by (simp add: minus_mod_eq_div_mult [symmetric] add.commute less_le_trans add_strict_increasing2 diff_less_eq)
  ultimately show ?thesis
    using assms(1) by (auto simp: round_div_def Let_def)
qed

lemma load_factor_nearest:
  assumes "0 < n" and "n < 2 ^ 53"
  obtains m k where "load_factor n = (m, - int k)" "2 ^ 52 \<le> m" "m \<le> 2 ^ 53" "\<bar>n * 2 ^ k - 1000 * m\<bar> \<le> 500"
proof -
  define l where "l = nat (bitlen n)"
  have b: "2 ^ (l - 1) \<le> n" "n < 2 ^ l" and l: "0 < l" "bitlen n = int l"
    using bitlen_bounds [OF assms(1)] bitlen_nonneg [of n] bitlen_eq_zero_iff [of n] assms(1)
    by (auto simp: l_def nat_diff_distrib)
  have "(2 :: int) ^ (l - 1) < 2 ^ 53"
    using b(1) assms(2) by linarith
  then have "l - 1 < 53"
    by (rule power_less_imp_less_exp [rotated]) simp
  then obtain j where j: "63 - l = Suc j" "l - 1 + Suc j = 62" "l + Suc j = 63"
    using l(1) by (intro that [of "62 - l"]) auto
  define a where "a = n * 2 ^ Suc j"
  have "2 ^ (l - 1) * 2 ^ Suc j \<le> a" "a < 2 ^ l * 2 ^ Suc j"
    unfolding a_def using b by simp_all
  then have a: "2 ^ 62 \<le> a" "a < 2 ^ 63"
    unfolding power_add [symmetric] j .
  define k where "k = (if 2 ^ 53 \<le> a div 1000 then j else Suc j)"
  have t: "load_factor n = (round_div (n * 2 ^ k) 1000, - int k)"
    using assms(1) l(2) j(1) by (simp add: load_factor_def k_def a_def Let_def nat_diff_distrib flip: of_nat_diff)
  have "2 ^ 52 * 1000 \<le> n * 2 ^ k \<and> n * 2 ^ k < 2 ^ 53 * 1000"
  proof (cases "2 ^ 53 \<le> a div 1000")
    case True
    moreover have "a = 2 * (n * 2 ^ k)"
      using True by (simp add: a_def k_def)
    ultimately show ?thesis
      using a(2) by simp
  next
    case False
    then show ?thesis
      using a(1) by (simp add: a_def k_def)
  qed
  then show thesis
    using round_div_between [of 1000 "2 ^ 52" "n * 2 ^ k" "2 ^ 53"] round_div_nearest [of 1000 "n * 2 ^ k"] by (intro that [OF t]) auto
qed

definition heartbeat_ack_json :: "HeartbeatAck \<Rightarrow> json" where
  "heartbeat_ack_json a =
    (case load_factor (ba_LoadThousandths a) of
       (m, e) \<Rightarrow>
         JObj [(''header'', header_json (ba_Header a)), (''suggested_interval_ms'', JNum (ba_SuggestedIntervalMS a) 0),
               (''load_factor'', JNum m e)])"

definition health_json :: "ConformanceHealthReport \<Rightarrow> json" where
  "health_json c =
    JObj [(''core'', JBool (ch_Core c)), (''streaming'', JBool (ch_Streaming c)), (''evented'', JBool (ch_Evented c)),
          (''full'', JBool (ch_Full c))]"

definition policy_json :: "PolicyValidateResponse \<Rightarrow> json" where
  "policy_json p = JObj ([(''allowed'', JBool (pr_Allowed p))] @ opt_str ''reason'' (pr_Reason p))"

definition quota_json :: "QuotaResponse \<Rightarrow> json" where
  "quota_json q = JObj [(''tenant_id'', JStr (qp_TenantID q)), (''max_invocations'', JNum (qp_MaxInvocations q) 0)]"

definition audit_json :: "AuditRecord \<Rightarrow> json" where
  "audit_json a =
    JObj [(''actor'', JStr (a_Actor a)), (''tenant_id'', JStr (a_TenantID a)), (''capability'', JStr (a_Capability a)),
          (''outcome'', JStr (a_Outcome a)), (''timestamp'', JStr (a_Timestamp a)), (''message_id'', JStr (a_MessageID a))]"

definition counts_json :: "(string, int) gomap \<Rightarrow> json" where
  "counts_json m = JObj (map (\<lambda>(k, n). (k, JNum n 0)) m)"

definition usage_json :: "UsageSnapshot \<Rightarrow> json" where
  "usage_json u =
    JObj [(''tenant_invocations'', counts_json (us_TenantInvocations u)),
          (''capability_invocations'', counts_json (us_CapabilityInvocations u)),
          (''total_invocations'', JNum (us_TotalInvocations u) 0)]"

definition connection_json :: "ConnectionSnapshot \<Rightarrow> json" where
  "connection_json c =
    JObj ([(''id'', JStr (cs_ID c)), (''protocol'', JStr (cs_Protocol c)), (''kind'', JStr (cs_Kind c)),
           (''tenant_id'', JStr (cs_TenantID c))] @
          opt_str ''actor'' (cs_Actor c) @ opt_str ''remote_addr'' (cs_RemoteAddr c) @
          [(''started_at'', JStr (cs_StartedAt c))] @
          (if jentries (cs_Meta c) = [] then [] else [(''meta'', JObj (jentries (cs_Meta c)))]))"

definition summary_json :: "ConnectionSummary \<Rightarrow> json" where
  "summary_json sm =
    JObj [(''total'', JNum (sm_Total sm) 0), (''by_protocol'', counts_json (sm_ByProtocol sm)),
          (''by_kind'', counts_json (sm_ByKind sm)), (''by_tenant'', counts_json (sm_ByTenant sm)),
          (''nats_binding_active'', JBool (sm_NATSBindingActive sm))]"

definition connections_json :: "ConnectionsResponse \<Rightarrow> json" where
  "connections_json c =
    JObj ([(''generated_at'', JStr (cr_GeneratedAt c)), (''summary'', summary_json (cr_Summary c)),
           (''connections'', JArr (map connection_json (cr_Connections c)))] @
          opt_str ''filter_tenant'' (cr_FilterTenant c) @ opt_str ''filter_kind'' (cr_FilterKind c) @
          opt_str ''filter_protocol'' (cr_FilterProto c))"

definition org_json :: "Org \<Rightarrow> json" where
  "org_json g = JObj [(''id'', JStr (org_ID g)), (''name'', JStr (org_Name g))]"

definition cloud_tenant_json :: "Tenant \<Rightarrow> json" where
  "cloud_tenant_json t = JObj [(''id'', JStr (tn_ID t)), (''org_id'', JStr (tn_OrgID t)), (''name'', JStr (tn_Name t))]"

definition gateway_json :: "Gateway \<Rightarrow> json" where
  "gateway_json g =
    JObj [(''id'', JStr (gw_ID g)), (''tenant_id'', JStr (gw_TenantID g)), (''region'', JStr (gw_Region g)),
          (''binding'', JStr (gw_Binding g))]"

text \<open>A descriptor read back from what a handler wrote is the descriptor.\<close>

lemma qos_roundtrip:
  assumes "in_i64 (q_MaxPayloadBytes q)"
  obtains es where "rejson (qos_json q) = JObj es" "qos_fields es = Some q"
proof
  show "rejson (qos_json q) = JObj ((if q_MaxPayloadBytes q = 0 then [] else [(''max_payload_bytes'', JNum (q_MaxPayloadBytes q) 0)]) @
      opt_true ''supports_replay'' (q_SupportsReplay q) @ opt_str ''delivery_semantics'' (q_DeliverySemantics q) @
      opt_true ''supports_ordering'' (q_SupportsOrdering q))"
    by (simp add: qos_json_def opt_true_def opt_str_def)
qed (use assms in \<open>auto simp: qos_fields_def read_int_def read_bool_def read_str_def opt_true_def opt_str_def\<close>)

lemma descriptor_roundtrip:
  assumes "in_i64 (q_MaxPayloadBytes (c_QoS d))"
  shows "capability_of_json (rejson (JObj [(''descriptor'', capability_json d)])) = Some \<lparr>cu_Descriptor = d\<rparr>"
proof -
  obtain es where "rejson (qos_json (c_QoS d)) = JObj es" "qos_fields es = Some (c_QoS d)"
    by (rule qos_roundtrip [OF assms])
  then show ?thesis
    by (auto simp: capability_of_json_def capability_json_def json_fields_def read_object_def descriptor_fields_def
        read_str_def read_list_def)
qed

text \<open>A frame read back from the websocket: empty objects that were left out become nil maps.\<close>

definition echo_map :: "jmap \<Rightarrow> jmap" where
  "echo_map m = (if jentries m = [] then None else rejson_map m)"

definition echo_frame :: "StreamFrame \<Rightarrow> StreamFrame" where
  "echo_frame f =
    f\<lparr>f_Header := echo_header (f_Header f), f_Payload := echo_map (f_Payload f),
      f_Error := map_option (\<lambda>e. e\<lparr>e_Details := echo_map (e_Details e)\<rparr>) (f_Error f)\<rparr>"

lemma map_of_opt_map [simp]: "map_of (opt_map k m) k' = (if k' = k \<and> jentries m \<noteq> [] then Some (JObj (jentries m)) else None)"
  by (simp add: opt_map_def)

lemma error_json_roundtrip:
  obtains es where "rejson (error_json e) = JObj es" "error_fields es = Some (e\<lparr>e_Details := echo_map (e_Details e)\<rparr>)"
proof
  show "rejson (error_json e) = JObj (rejson_fields ([(''code'', JStr (e_Code e)), (''message'', JStr (e_Message e)), (''retryable'', JBool (e_Retryable e))] @
      opt_map ''details'' (e_Details e)))"
    by (simp add: error_json_def)
qed (cases "e_Details e"; simp add: error_fields_def read_str_def read_bool_def read_map_def map_add_def echo_map_def rejson_map_def)

lemma frame_roundtrip:
  assumes "in_i64 (h_DeadlineMS (f_Header f))"
  shows "frame_of_json (rejson (frame_json f)) = Some (echo_frame f)"
proof -
  obtain hs where h: "rejson (header_json (f_Header f)) = JObj hs" "header_fields hs = Some (echo_header (f_Header f))"
    by (rule header_fields_json [OF assms])
  define es where "es = [(''header'', header_json (f_Header f)), (''stream_id'', JStr (f_StreamID f)), (''capability'', JStr (f_Capability f)),
       (''kind'', JStr (f_Kind f))] @ opt_map ''payload'' (f_Payload f) @ opt_true ''end_stream'' (f_EndStream f) @
       (case f_Error f of None \<Rightarrow> [] | Some e \<Rightarrow> [(''error'', error_json e)])"
  have "rejson (frame_json f) = JObj (rejson_fields es)"
    by (simp add: frame_json_def es_def)
  moreover have "read_header (rejson_fields es) = Some (echo_header (f_Header f))"
    by (simp add: es_def read_header_def h)
  moreover have "read_str (rejson_fields es) ''stream_id'' = Some (f_StreamID f)" "read_str (rejson_fields es) ''capability'' = Some (f_Capability f)"
    "read_str (rejson_fields es) ''kind'' = Some (f_Kind f)"
    by (simp_all add: es_def read_str_def)
  moreover have "read_map (rejson_fields es) ''payload'' = Some (echo_map (f_Payload f))"
    by (cases "f_Payload f") (simp_all add: es_def read_map_def map_add_def opt_true_def echo_map_def rejson_map_def split: option.split)
  moreover have "read_bool (rejson_fields es) ''end_stream'' = Some (f_EndStream f)"
    by (simp add: es_def read_bool_def map_add_def opt_true_def split: option.split)
  moreover have "read_error (rejson_fields es) ''error'' = Some (f_Error (echo_frame f))"
  proof (cases "f_Error f")
    case (Some e)
    obtain fs where "rejson (error_json e) = JObj fs" "error_fields fs = Some (e\<lparr>e_Details := echo_map (e_Details e)\<rparr>)"
      by (rule error_json_roundtrip)
    with Some show ?thesis
      by (simp add: es_def read_error_def echo_frame_def map_add_def opt_true_def)
  qed (simp add: es_def read_error_def echo_frame_def map_add_def opt_true_def)
  ultimately show ?thesis
    by (simp add: frame_of_json_def json_fields_def echo_frame_def)
qed

text \<open>
  An event decoded as a publication, which is what the NATS binding makes of an event that comes
  back: it keeps the header, the topic and the payload.
\<close>

definition echo_request :: "EventMessage \<Rightarrow> PublishRequest" where
  "echo_request ev =
    \<lparr>pq_Header = echo_header (ev_Header ev), pq_Topic = ev_Topic ev, pq_Key = [],
     pq_Payload = rejson_map (ev_Payload ev)\<rparr>"

lemma event_decodes_as_publication:
  assumes "in_i64 (h_DeadlineMS (ev_Header ev))"
  shows "publish_of_json (rejson (event_json ev)) = Some (echo_request ev)"
proof -
  obtain es where "rejson (header_json (ev_Header ev)) = JObj es" "header_fields es = Some (echo_header (ev_Header ev))"
    by (rule header_fields_json [OF assms])
  then show ?thesis
    by (cases "ev_Payload ev")
      (simp_all add: publish_of_json_def event_json_def echo_request_def read_header_def read_str_def
        read_map_def jmap_json_def rejson_map_def)
qed

end
