(* ===== verification/Mig_Nats_Props.thy ===== *)
theory Mig_Nats_Props
  imports Mig_Nats Mig_System Mig_Json
begin

text \<open>
  Properties of the NATS binding: every message that reaches a handler is answered and amounts to
  steps of the concurrent system, the mirror of events and the subscription to events feed each
  other, an invocation over NATS needs no scope, and the binding subscribes to all subjects or none.
\<close>

text \<open>
  A subject matches a subscription as NATS documents it: \<^verbatim>\<open>*\<close> stands for one token and a final \<^verbatim>\<open>>\<close> for
  one or more.
\<close>

fun tokens_match :: "string list \<Rightarrow> string list \<Rightarrow> bool" where
  "tokens_match [] [] \<longleftrightarrow> True"
| "tokens_match (p # ps) [] \<longleftrightarrow> False"
| "tokens_match [] (t # ts) \<longleftrightarrow> False"
| "tokens_match (p # ps) (t # ts) \<longleftrightarrow>
    (if p = ''>'' \<and> ps = [] then True else (p = ''*'' \<or> p = t) \<and> tokens_match ps ts)"

definition subject_matches :: "string \<Rightarrow> string \<Rightarrow> bool" where
  "subject_matches pattern subject \<longleftrightarrow> tokens_match (subjectTokens pattern) (subjectTokens subject)"

subsection \<open>Subjects\<close>

lemma subjectTokens_nonempty: "s \<noteq> [] \<Longrightarrow> subjectTokens s = split_on (CHR ''.'') s"
  by (simp add: subjectTokens_def)

lemma subject_tail_total: "n \<le> length (subjectTokens subject) \<Longrightarrow> subject_tail subject n \<noteq> None"
  by (simp add: subject_tail_def Let_def)

lemma tokens_match_Nil [simp]: "tokens_match [] ts \<longleftrightarrow> ts = []"
  by (cases ts) simp_all

lemma tokens_match_length:
  "tokens_match ps ts \<Longrightarrow> ps \<noteq> [] \<Longrightarrow> length ps \<le> length ts \<and> (last ps \<noteq> ''>'' \<longrightarrow> length ps = length ts)"
  by (induction ps ts rule: tokens_match.induct) (auto split: if_splits)

lemma split_on_literal [simp]:
  "split_on (CHR ''.'') (''mig.v0_1.'' @ s) = [''mig'', ''v0_1''] @ split_on (CHR ''.'') s"
  "split_on (CHR ''.'') (''.events.'' @ s) = [[], ''events''] @ split_on (CHR ''.'') s"
  using split_on_append [of "CHR ''.''" "''mig''" "''v0_1.'' @ s"]
    split_on_append [of "CHR ''.''" "''v0_1''" s]
    split_on_append [of "CHR ''.''" "[]" "''events.'' @ s"]
    split_on_append [of "CHR ''.''" "''events''" s] by simp_all

text \<open>A tenant whose name is one token of a subject.\<close>

definition plain_tenant :: "string \<Rightarrow> bool" where
  "plain_tenant t \<longleftrightarrow> CHR ''.'' \<notin> set (TrimSpace t) \<and> CHR ''/'' \<notin> set (TrimSpace t)"

lemma sanitize_plain: "plain_tenant t \<Longrightarrow> CHR ''.'' \<notin> set (sanitizeNATSSegment t)"
  by (auto simp: plain_tenant_def sanitizeNATSSegment_def sanitizeNATSSubject_def ReplaceAll_def Let_def)

lemma event_subject_tokens:
  assumes "plain_tenant (h_TenantID (ev_Header ev))"
  shows "subjectTokens (event_subject ev) =
    [''mig'', ''v0_1'', sanitizeNATSSegment (h_TenantID (ev_Header ev)), ''events''] @
    split_on (CHR ''.'') (sanitizeNATSSubject (ev_Topic ev))"
proof -
  let ?t = "sanitizeNATSSegment (h_TenantID (ev_Header ev))"
  have "event_subject ev = ''mig.v0_1.'' @ ?t @ CHR ''.'' # ''events.'' @ sanitizeNATSSubject (ev_Topic ev)"
    by (simp add: event_subject_def)
  moreover have "split_on (CHR ''.'') (?t @ CHR ''.'' # ''events.'' @ sanitizeNATSSubject (ev_Topic ev)) =
      ?t # split_on (CHR ''.'') (''events.'' @ sanitizeNATSSubject (ev_Topic ev))"
    by (rule split_on_append [OF sanitize_plain [OF assms]])
  moreover have "split_on (CHR ''.'') (''events'' @ CHR ''.'' # sanitizeNATSSubject (ev_Topic ev)) =
      ''events'' # split_on (CHR ''.'') (sanitizeNATSSubject (ev_Topic ev))"
    by (rule split_on_append) simp
  ultimately show ?thesis
    by (simp add: subjectTokens_nonempty)
qed

text \<open>How NATS documents the matching of subjects to subscriptions, the law its server is relied on for.\<close>

definition nats_wildcards :: "(string \<Rightarrow> string \<Rightarrow> bool) \<Rightarrow> bool" where
  "nats_wildcards matches \<longleftrightarrow>
    (\<forall>pattern subject. matches pattern subject \<longleftrightarrow> tokens_match (subjectTokens pattern) (subjectTokens subject))"

lemma nats_wildcards_subject_matches: "nats_wildcards subject_matches"
  by (simp add: nats_wildcards_def subject_matches_def)

lemma pattern_tokens:
  "subjectTokens ''mig.v0_1.*.invoke.>'' = [''mig'', ''v0_1'', ''*'', ''invoke'', ''>'']"
  "subjectTokens ''mig.v0_1.*.events.>'' = [''mig'', ''v0_1'', ''*'', ''events'', ''>'']"
  "subjectTokens ''mig.v0_1.*.control.cancel.>'' = [''mig'', ''v0_1'', ''*'', ''control'', ''cancel'', ''>'']"
  by code_simp+

lemma matches_length:
  assumes "nats_wildcards m" and "m p subject" and "subjectTokens p \<noteq> []"
  shows "length (subjectTokens p) \<le> length (subjectTokens subject)"
  using assms tokens_match_length by (auto simp: nats_wildcards_def)

lemma mirror_matches:
  assumes "nats_wildcards m" and "plain_tenant (h_TenantID (ev_Header ev))"
  shows "m ''mig.v0_1.*.events.>'' (event_subject ev)"
proof -
  obtain x xs where "split_on (CHR ''.'') (sanitizeNATSSubject (ev_Topic ev)) = x # xs"
    by (meson list.exhaust split_on_neq_Nil)
  with assms show ?thesis
    by (simp add: nats_wildcards_def pattern_tokens(2) event_subject_tokens)
qed

subsection \<open>Replies\<close>

lemma respond_iff [simp]:
  "respondNATS msg p = None \<longleftrightarrow> nm_Reply msg = []"
  "respondNATSError msg c e = None \<longleftrightarrow> nm_Reply msg = []"
  "respondNATSMigError r msg h me = None \<longleftrightarrow> nm_Reply msg = []"
  by (simp_all add: respondNATS_def respondNATSError_def respondNATSMigError_def Let_def)

subsection \<open>Every message is answered\<close>

definition answered :: "System \<Rightarrow> string \<Rightarrow> (Service \<times> nats_reply option) option \<Rightarrow> bool" where
  "answered y reply_to res \<longleftrightarrow>
    (\<exists>s rep. res = Some (s, rep) \<and> (rep = None \<longleftrightarrow> reply_to = []) \<and> reachable (y\<lparr>y_svc := s\<rparr>))"

lemma answered_Some [simp]:
  "answered y to (Some (s, rep)) \<longleftrightarrow> (rep = None \<longleftrightarrow> to = []) \<and> reachable (y\<lparr>y_svc := s\<rparr>)"
  by (simp add: answered_def)

lemma answered_Hello: "reachable y \<Longrightarrow> answered y (nm_Reply msg) (Some (natsHello r msg (y_svc y)))"
  by (simp add: natsHello_def Let_def split: option.split sum.split)

lemma answered_Discover: "reachable y \<Longrightarrow> answered y (nm_Reply msg) (Some (natsDiscover r msg (y_svc y)))"
  by (auto simp: natsDiscover_def Let_def split: option.split sum.split prod.split
      dest!: arg_cong [where f = fst] intro: reachable_calls)

lemma answered_Heartbeat: "reachable y \<Longrightarrow> answered y (nm_Reply msg) (Some (natsHeartbeat r msg (y_svc y)))"
  by (auto simp: natsHeartbeat_def Let_def split: option.split sum.split prod.split
      dest!: arg_cong [where f = fst] intro: reachable_calls)

lemma answered_Cancel:
  "reachable y \<Longrightarrow> 5 \<le> length (subjectTokens (nm_Subject msg)) \<Longrightarrow>
   answered y (nm_Reply msg) (natsCancel r msg (y_svc y))"
  by (auto simp: natsCancel_def subject_tail_def Let_def split: option.split sum.split prod.split
      dest!: arg_cong [where f = fst] intro: reachable_calls)

lemma answered_Invoke:
  assumes "reachable y" and "4 \<le> length (subjectTokens (nm_Subject msg))"
  shows "answered y (nm_Reply msg) (natsInvoke r sel msg (y_svc y))"
proof -
  have "reachable (y\<lparr>y_svc := s\<rparr>)"
    if "Invoke r sel (y_svc y) capability req actor prin = (s, res)" for s res capability req actor prin
    using reachable_Invoke [OF assms(1), of r sel capability req actor prin] that by simp
  with assms show ?thesis
    by (auto simp: natsInvoke_def subject_tail_def Let_def split: option.split sum.split prod.split)
qed

text \<open>The request a message on an event subject stands for.\<close>

definition nats_publication :: "PublishRequest nats_msg \<Rightarrow> PublishRequest \<Rightarrow> PublishRequest" where
  "nats_publication msg req =
    (let req = req\<lparr>pq_Header := nats_tenant msg (pq_Header req)\<rparr> in
     if pq_Topic req = []
     then req\<lparr>pq_Topic := join_with (CHR ''.'') (drop 4 (subjectTokens (nm_Subject msg)))\<rparr> else req)"

lemma natsPublish_decoded:
  assumes "decodeNATS msg = Some req" and "4 \<le> length (subjectTokens (nm_Subject msg))"
    and "Publish r s (pq_Topic (nats_publication msg req)) (nats_publication msg req) = Some (s', res)"
  shows "natsPublish r msg s = Some (s', case res of
      Inl e \<Rightarrow> respondNATSMigError r msg (aliased r (pq_Header (nats_publication msg req))) e
    | Inr ack \<Rightarrow> respondNATS msg (PPublish ack))"
  using assms by (simp add: natsPublish_def subject_tail_def nats_publication_def Let_def split: sum.split)

lemma answered_Publish:
  assumes "reachable y" and "4 \<le> length (subjectTokens (nm_Subject msg))"
  shows "answered y (nm_Reply msg) (natsPublish r msg (y_svc y))"
proof (cases "decodeNATS msg")
  case None
  with assms show ?thesis by (simp add: natsPublish_def subject_tail_def Let_def)
next
  case (Some req)
  let ?q = "nats_publication msg req"
  obtain s res where "Publish r (y_svc y) (pq_Topic ?q) ?q = Some (s, res)" "reachable (y\<lparr>y_svc := s\<rparr>)"
    by (rule reachable_Publish_total [OF assms(1)])
  with natsPublish_decoded [OF Some assms(2)] show ?thesis
    by (simp split: sum.split)
qed

lemma nats_handle_answered:
  assumes "nats_wildcards matches" and "reachable y" and "matches (nats_pattern c) (nats_subject c)"
  shows "answered y (nats_reply_to c) (nats_handle r c (y_svc y))"
proof -
  have len: "length (subjectTokens (nats_pattern c)) \<le> length (subjectTokens (nats_subject c))"
    if "subjectTokens (nats_pattern c) \<noteq> []"
    by (rule matches_length [OF assms(1,3) that])
  show ?thesis
  proof (cases c)
    case (NInvoke sel msg)
    then show ?thesis using len assms(2) by (simp add: pattern_tokens answered_Invoke)
  next
    case (NPublish msg)
    then show ?thesis using len assms(2) by (simp add: pattern_tokens answered_Publish)
  next
    case (NCancel msg)
    then show ?thesis using len assms(2) by (simp add: pattern_tokens answered_Cancel)
  qed (use assms(2) in \<open>simp_all add: answered_Hello answered_Discover answered_Heartbeat del: answered_Some\<close>)
qed

subsection \<open>Events come back\<close>

text \<open>
  The NATS server hands a message to a subscription whose pattern its subject matches, also when
  the publisher's own connection holds the subscription. \<open>nats_pump\<close> has it deliver the mirrored
  events from position \<open>k\<close> on, at most \<open>n\<close> of them; the result tells how far it came. The data of such a
  message is the encoding of the event.
\<close>

definition mirror_message :: "string \<Rightarrow> EventMessage \<Rightarrow> PublishRequest nats_msg" where
  "mirror_message subject ev =
    \<lparr>nm_Subject = subject, nm_Reply = [],
     nm_Data = (case publish_of_json (rejson (event_json ev)) of
                  None \<Rightarrow> BadJSON ''cannot unmarshal'' | Some req \<Rightarrow> Decoded req)\<rparr>"

definition nats_delivers :: "(string \<Rightarrow> string \<Rightarrow> bool) \<Rightarrow> Service \<Rightarrow> string \<Rightarrow> bool" where
  "nats_delivers matches s subject \<longleftrightarrow>
    (case s_natsBinding s of
       None \<Rightarrow> False
     | Some b \<Rightarrow> ''mig.v0_1.*.events.>'' \<in> set (nb_subs b) \<and> matches ''mig.v0_1.*.events.>'' subject)"

fun nats_pump ::
    "(string \<Rightarrow> string \<Rightarrow> bool) \<Rightarrow> (nat \<Rightarrow> rt) \<Rightarrow> nat \<Rightarrow> nat \<Rightarrow> Service \<Rightarrow> (Service \<times> nat) option" where
  "nats_pump matches rts 0 k s = Some (s, k)"
| "nats_pump matches rts (Suc n) k s =
    (case s_natsConn s of
       None \<Rightarrow> Some (s, k)
     | Some out \<Rightarrow>
         if length out \<le> k then Some (s, k)
         else
           let (subject, ev) = out ! k in
           if nats_delivers matches s subject
           then (case natsPublish (rts k) (mirror_message subject ev) s of
                   None \<Rightarrow> None
                 | Some (s, rep) \<Rightarrow> nats_pump matches rts n (Suc k) s)
           else nats_pump matches rts n (Suc k) s)"

lemma prepare_echo:
  assumes "header_ok h"
  obtains h' where "prepare r (echo_header h) = Inr h'" "header_ok h'" "h_TenantID h' = h_TenantID h"
    "h_DeadlineMS h' = h_DeadlineMS h"
proof -
  have "\<not> is_err (prepare r (echo_header h))"
    using assms unfolding prepare_error_iff by (simp add: echo_header_def header_ok_def)
  then obtain h' where h': "prepare r (echo_header h) = Inr h'"
    by (cases "prepare r (echo_header h)") auto
  with prepare_ok(1,2,5) [OF h'] assms show thesis
    by (intro that [OF h']) (simp_all add: echo_header_def header_ok_def)
qed

text \<open>An event that can be echoed: it came out of \<open>Publish\<close>.\<close>

definition mirrored :: "string \<Rightarrow> string \<Rightarrow> EventMessage \<Rightarrow> bool" where
  "mirrored topic tenant ev \<longleftrightarrow> header_ok (ev_Header ev) \<and> h_TenantID (ev_Header ev) = tenant \<and>
     in_i64 (h_DeadlineMS (ev_Header ev)) \<and> ev_Topic ev = topic \<and> CHR ''.'' \<in> set topic"

lemma mirror_message_decodes:
  assumes "mirrored topic tenant ev"
  shows "mirror_message subject ev = \<lparr>nm_Subject = subject, nm_Reply = [], nm_Data = Decoded (echo_request ev)\<rparr>"
  using assms by (simp add: mirror_message_def mirrored_def event_decodes_as_publication)

lemma echo_publishes:
  assumes inv: "event_inv s" and ev: "mirrored topic tenant ev" and plain: "plain_tenant tenant"
    and conn: "s_natsConn s = Some out"
  obtains s' ev' where
    "natsPublish r (mirror_message (event_subject ev) ev) s = Some (s', None)"
    "event_inv s'" "mirrored topic tenant ev'" "s_natsConn s' = Some (out @ [(event_subject ev', ev')])"
    "s_natsBinding s' = s_natsBinding s" "length (topic_log s' topic) = Suc (length (topic_log s topic))"
proof -
  let ?msg = "\<lparr>nm_Subject = event_subject ev, nm_Reply = [], nm_Data = Decoded (echo_request ev)\<rparr>"
  let ?q = "nats_publication ?msg (echo_request ev)"
  have so: "subs_ok s" and hok: "header_ok (ev_Header ev)"
    using inv ev by (simp_all add: event_inv_def mirrored_def)
  obtain h' where h': "prepare r (echo_header (ev_Header ev)) = Inr h'" "header_ok h'"
      "h_TenantID h' = h_TenantID (ev_Header ev)" "h_DeadlineMS h' = h_DeadlineMS (ev_Header ev)"
    by (rule prepare_echo [OF hok])
  have q: "?q = echo_request ev" "pq_Topic (echo_request ev) = topic" "topic \<noteq> []" "CHR ''.'' \<in> set topic"
    using ev by (auto simp: nats_publication_def nats_tenant_def echo_request_def echo_header_def
        mirrored_def header_ok_def Let_def)
  have tokens: "4 \<le> length (subjectTokens (nm_Subject ?msg))"
    using plain ev by (simp add: event_subject_tokens mirrored_def)
  have h: "prepare r (pq_Header (echo_request ev)) = Inr h'"
    using h'(1) by (simp add: echo_request_def)
  let ?ev = "event_of r s topic h' (pq_Payload (echo_request ev))"
  obtain s' ack where p: "Publish r s topic (echo_request ev) = Some (s', Inr ack)"
    and pub: "published s ?ev s'"
    and fr: "s' = s\<lparr>s_events := s_events s', s_chans := s_chans s', s_natsConn := s_natsConn s'\<rparr>"
    using Publish_accepted [OF so h, of topic topic] q by auto
  have "natsPublish r (mirror_message (event_subject ev) ev) s = Some (s', None)"
    unfolding mirror_message_decodes [OF ev]
    using natsPublish_decoded [OF _ tokens, of "echo_request ev" r s s' "Inr ack"] p q
    by (simp add: decodeNATS_def)
  moreover have "mirrored topic tenant ?ev"
    using ev h' by (simp add: mirrored_def)
  moreover have "s_natsConn s' = Some (out @ [(event_subject ?ev, ?ev)])"
    "length (topic_log s' topic) = Suc (length (topic_log s topic))"
    using pub conn unfolding published_def by simp_all
  moreover have "s_natsBinding s' = s_natsBinding s"
    by (subst fr) simp
  ultimately show thesis
    using event_inv_Publish [OF inv p] by (intro that)
qed

lemma nats_pump_runs:
  assumes m: "nats_wildcards matches" and plain: "plain_tenant tenant"
    and "event_inv s" and "s_natsConn s = Some out" and "length out = Suc k"
    and "out ! k = (event_subject ev, ev)" and "mirrored topic tenant ev"
    and b: "s_natsBinding s = Some b" "''mig.v0_1.*.events.>'' \<in> set (nb_subs b)"
  shows "\<exists>s' out'. nats_pump matches rts n k s = Some (s', k + n) \<and> s_natsConn s' = Some out' \<and>
    length out' = Suc (k + n) \<and> length (topic_log s' topic) = length (topic_log s topic) + n"
  using assms(3-9)
proof (induction n arbitrary: s out k ev)
  case 0
  then show ?case by simp
next
  case (Suc n)
  have "nats_delivers matches s (event_subject ev)"
    using Suc.prems(5,6,7) mirror_matches [OF m, of ev] plain by (simp add: nats_delivers_def mirrored_def)
  moreover obtain s1 ev1 where s1:
    "natsPublish (rts k) (mirror_message (event_subject ev) ev) s = Some (s1, None)"
    "event_inv s1" "mirrored topic tenant ev1" "s_natsConn s1 = Some (out @ [(event_subject ev1, ev1)])"
    "s_natsBinding s1 = s_natsBinding s" "length (topic_log s1 topic) = Suc (length (topic_log s topic))"
    by (rule echo_publishes [OF Suc.prems(1) Suc.prems(5) plain Suc.prems(2)])
  ultimately have step: "nats_pump matches rts (Suc n) k s = nats_pump matches rts n (Suc k) s1"
    using Suc.prems(2-4) by simp
  have "(out @ [(event_subject ev1, ev1)]) ! Suc k = (event_subject ev1, ev1)"
    using Suc.prems(3) by (simp add: nth_append)
  from Suc.IH [OF s1(2) s1(4) _ this s1(3)] Suc.prems(3,6,7) s1(5) show ?case
    unfolding step by (simp add: s1(6))
qed


subsection \<open>Authority\<close>

lemma nats_principal_scope [simp]: "HasAnyScope (nats_principal h) scopes"
  by (simp add: HasAnyScope_def nats_principal_def)

text \<open>
  C22. An invocation over NATS succeeds whatever scopes the capability demands and whatever the
  authentication mode: the principal is never authenticated. It is metered and audited for the
  tenant the message's header names, even where the subject names another one; the subject only
  counts if the header names none.
\<close>

theorem nats_invoke_unscoped:
  assumes "nats_wildcards matches" and "matches ''mig.v0_1.*.invoke.>'' (nm_Subject msg)"
    and dec: "decodeNATS msg = Some req" and "nm_Reply msg \<noteq> []"
    and head: "prepare r (nats_tenant msg (iq_Header req)) = Inr head"
    and "iq_Capability req \<noteq> []" and "map_of (s_capabilities s) (iq_Capability req) = Some d"
    and "map_of (s_cancelled s) (h_MessageID head) = None"
    and "replay_of s head (iq_Capability req) = None" and "\<not> over_quota s (h_TenantID head)"
  shows "\<exists>s' resp a. natsInvoke r SelResult msg s = Some (s', Some (NrPayload (PInvoke resp))) \<and>
    s_audit s' = s_audit s @ [a] \<and> a_Actor a = ''nats-client'' \<and> a_Capability a = iq_Capability req \<and>
    a_TenantID a = (if h_TenantID (iq_Header req) = [] then subjectToken (nm_Subject msg) 2
                    else h_TenantID (iq_Header req))"
proof -
  let ?req = "req\<lparr>iq_Header := nats_tenant msg (iq_Header req)\<rparr>"
  have "4 \<le> length (subjectTokens (nm_Subject msg))"
    using matches_length [OF assms(1,2)] by (simp add: pattern_tokens)
  then obtain tail where tail: "subject_tail (nm_Subject msg) 4 = Some tail"
    using subject_tail_total by blast
  have au: "authorized s head (target_capability (iq_Capability req) ?req) (nats_principal (iq_Header ?req)) d"
    using assms(6-8) by (simp add: authorized_def target_capability_def)
  have head': "prepare r (iq_Header ?req) = Inr head"
    using head by simp
  have tc: "target_capability (iq_Capability req) ?req = iq_Capability req"
    by (simp add: target_capability_def)
  obtain q where inv: "Invoke r SelResult s (iq_Capability req) ?req ''nats-client'' (nats_principal (iq_Header ?req)) =
      (committed r q s, Inr (response_of q))"
    and q: "pd_Header q = head" "pd_Capability q = iq_Capability req" "pd_Actor q = ''nats-client''"
    using Invoke_accepted [OF head' au] assms(9,10) unfolding tc by blast
  have "natsInvoke r SelResult msg s = Some (committed r q s, Some (NrPayload (PInvoke (response_of q))))"
    using assms(4,6) inv by (simp add: natsInvoke_def tail dec Let_def respondNATS_def)
  moreover have "h_TenantID head = (if h_TenantID (iq_Header req) = [] then subjectToken (nm_Subject msg) 2
                    else h_TenantID (iq_Header req))"
    using prepare_ok(2) [OF head] by (simp add: nats_tenant_def)
  ultimately show ?thesis
    using q by (intro exI conjI) (assumption | simp)+
qed

subsection \<open>Starting the binding\<close>

lemma subscribe_all_ok:
  "\<forall>x \<in> set xs. subscribe x = None \<Longrightarrow> subscribe_all subscribe xs b = (b\<lparr>nb_subs := nb_subs b @ xs\<rparr>, None)"
  by (induction xs arbitrary: b) simp_all

lemma subscribe_all_error:
  "\<exists>x \<in> set xs. subscribe x \<noteq> None \<Longrightarrow> \<exists>b' e. subscribe_all subscribe xs b = (b', Some e) \<and> nb_subs b' = []"
proof (induction xs arbitrary: b)
  case (Cons x xs)
  then show ?case
    by (cases "subscribe x") (auto simp: NATSBinding_Close_def)
qed simp

text \<open>
  Starting the binding is all or nothing, whatever the order in which the subjects are visited:
  either each of the six subjects is subscribed once and the service keeps the binding, so that
  starting it again returns the same one, or every subscription made so far is dropped and the
  service is left as it was.
\<close>

theorem nats_binding_all_or_nothing:
  assumes "is_iteration (rt_iter r)" and "s_natsBinding s = None" and "s_natsConn s \<noteq> None"
  shows "(if \<forall>x \<in> set nats_subjects. subscribe x = None
     then \<exists>b. StartNATSBinding r subscribe s = (s\<lparr>s_natsBinding := Some b\<rparr>, Inr b) \<and>
            mset (nb_subs b) = mset nats_subjects \<and> distinct (nb_subs b) \<and>
            (\<forall>r' subscribe'. StartNATSBinding r' subscribe' (s\<lparr>s_natsBinding := Some b\<rparr>) =
               (s\<lparr>s_natsBinding := Some b\<rparr>, Inr b))
     else \<exists>b e. StartNATSBinding r subscribe s = (s, Inl e) \<and>
            subscribe_all subscribe (rt_iter r nats_subjects) \<lparr>nb_subs = []\<rparr> = (b, Some e) \<and> nb_subs b = [])"
proof -
  have ms: "mset (rt_iter r nats_subjects) = mset nats_subjects"
    using assms(1) by (simp add: is_iteration_def)
  then have set: "set (rt_iter r nats_subjects) = set nats_subjects"
    by (metis set_mset_mset)
  have "distinct nats_subjects"
    by code_simp
  then have d: "distinct (rt_iter r nats_subjects)"
    using mset_eq_imp_distinct_iff [OF ms] by simp
  show ?thesis
  proof (cases "\<forall>x \<in> set nats_subjects. subscribe x = None")
    case True
    with subscribe_all_ok [of "rt_iter r nats_subjects" subscribe "\<lparr>nb_subs = []\<rparr>"] set
    have "subscribe_all subscribe (rt_iter r nats_subjects) \<lparr>nb_subs = []\<rparr> =
        (\<lparr>nb_subs = rt_iter r nats_subjects\<rparr>, None)"
      by simp
    then have "StartNATSBinding r subscribe s = (s\<lparr>s_natsBinding := Some \<lparr>nb_subs = rt_iter r nats_subjects\<rparr>\<rparr>,
        Inr \<lparr>nb_subs = rt_iter r nats_subjects\<rparr>)"
      using assms(2,3) by (simp add: StartNATSBinding_def)
    moreover have "StartNATSBinding r' subscribe' (s\<lparr>s_natsBinding := Some b\<rparr>) = (s\<lparr>s_natsBinding := Some b\<rparr>, Inr b)"
      for r' subscribe' b
      by (simp add: StartNATSBinding_def)
    ultimately show ?thesis
      unfolding if_P [OF True]
      by (intro exI conjI allI) (assumption | simp only: NATSBinding.simps ms d)+
  next
    case False
    with subscribe_all_error [of "rt_iter r nats_subjects" subscribe "\<lparr>nb_subs = []\<rparr>"] set
    obtain b e where "subscribe_all subscribe (rt_iter r nats_subjects) \<lparr>nb_subs = []\<rparr> = (b, Some e)" "nb_subs b = []"
      by auto
    moreover from this assms(2,3) have "StartNATSBinding r subscribe s = (s, Inl e)"
      by (auto simp: StartNATSBinding_def)
    ultimately show ?thesis
      unfolding if_not_P [OF False] by blast
  qed
qed

subsection \<open>Witnesses\<close>

definition demo_nats :: Service where
  "demo_nats = demo_service\<lparr>s_natsConn := Some [], s_natsBinding := Some \<lparr>nb_subs = nats_subjects\<rparr>\<rparr>"

definition nats_demo_invoke :: "InvokeRequest nats_msg" where
  "nats_demo_invoke = \<lparr>nm_Subject = ''mig.v0_1.acme.invoke.observatory.models.infer'', nm_Reply = ''_INBOX.1'',
     nm_Data = Decoded demo_invoke\<rparr>"

lemma event_inv_demo_nats: "event_inv demo_nats"
  using event_inv_demo by (simp add: demo_nats_def event_inv_defs)


theorem nats_invoke_unscoped_witness:
  "c_AuthScopes infer_capability = [''capability:infer''] \<and>
   (\<exists>s' resp a. natsInvoke demo_rt SelResult nats_demo_invoke demo_nats = Some (s', Some (NrPayload (PInvoke resp))) \<and>
     s_audit s' = s_audit demo_nats @ [a] \<and> a_Actor a = ''nats-client'' \<and> a_TenantID a = ''acme'')"
proof -
  let ?h = "nats_tenant nats_demo_invoke (iq_Header demo_invoke)"
  have 1: "subject_matches ''mig.v0_1.*.invoke.>'' (nm_Subject nats_demo_invoke)"
    and 2: "decodeNATS nats_demo_invoke = Some demo_invoke" "nm_Reply nats_demo_invoke \<noteq> []"
    and 3: "prepare demo_rt ?h = Inr (projr (prepare demo_rt ?h))"
    and 4: "iq_Capability demo_invoke \<noteq> []"
    and 5: "map_of (s_capabilities demo_nats) (iq_Capability demo_invoke) = Some infer_capability"
    and 6: "map_of (s_cancelled demo_nats) (h_MessageID (projr (prepare demo_rt ?h))) = None"
    and 7: "replay_of demo_nats (projr (prepare demo_rt ?h)) (iq_Capability demo_invoke) = None"
    and 8: "\<not> over_quota demo_nats (h_TenantID (projr (prepare demo_rt ?h)))"
    unfolding over_quota_code by code_simp+
  have 9: "h_TenantID (iq_Header demo_invoke) = ''acme''" "c_AuthScopes infer_capability = [''capability:infer'']"
    by code_simp+
  from nats_invoke_unscoped [OF nats_wildcards_subject_matches 1 2 3 4 5 6 7 8] 9 show ?thesis
    by auto
qed

theorem nats_binding_all_or_nothing_witness:
  "\<exists>b. StartNATSBinding demo_rt (\<lambda>_. None) (demo_service\<lparr>s_natsConn := Some []\<rparr>) =
     (demo_service\<lparr>s_natsConn := Some [], s_natsBinding := Some b\<rparr>, Inr b) \<and>
   mset (nb_subs b) = mset nats_subjects"
proof -
  let ?s = "demo_service\<lparr>s_natsConn := Some []\<rparr>"
  have "is_iteration (rt_iter demo_rt)" "s_natsBinding ?s = None" "s_natsConn ?s \<noteq> None"
    by (simp_all add: demo_rt_def is_iteration_id demo_service_def bootstrapDefaults_def empty_service_def)
  from nats_binding_all_or_nothing [OF this, of "\<lambda>_. None"] show ?thesis
    by auto
qed

end
