(* ===== verification/Mig_Gateway.thy ===== *)
theory Mig_Gateway
  imports Mig_Http_Props Mig_Grpc_Props Mig_Nats_Props
begin

text \<open>
  The three bindings over one service. Every request over HTTP, gRPC or NATS, streams included, is
  answered without a panic, and what it does to the service is a run of the concurrent system; so
  whatever holds in all reachable states of the system holds behind every binding. The locale
  \<open>gateway_binding\<close> is that contract; each binding is an interpretation of it.
\<close>

subsection \<open>Requests as runs\<close>

text \<open>The request is answered without a panic and what it did to the service is a run of the system.\<close>

definition served :: "System \<Rightarrow> (Service \<times> 'a) option \<Rightarrow> bool" where
  "served y res \<longleftrightarrow> (\<exists>s a. res = Some (s, a) \<and> reachable (y\<lparr>y_svc := s\<rparr>))"

lemma served_Some [simp]: "served y (Some p) \<longleftrightarrow> reachable (y\<lparr>y_svc := fst p\<rparr>)"
  by (cases p) (simp add: served_def)

lemma served_None [simp]: "\<not> served y None"
  by (simp add: served_def)

lemma served_map [simp]: "served y (map_option (map_prod id f) res) = served y res"
  by (cases res) simp_all

text \<open>What the rest of the gateway does to the service while a stream is open is a run as well.\<close>

definition env_run :: "(Service \<Rightarrow> Service) \<Rightarrow> bool" where
  "env_run env \<longleftrightarrow> (\<forall>y. reachable y \<longrightarrow> reachable (y\<lparr>y_svc := env (y_svc y)\<rparr>))"

lemma env_run_id: "env_run id"
  by (simp add: env_run_def)

lemma env_runD: "env_run env \<Longrightarrow> reachable (y\<lparr>y_svc := s\<rparr>) \<Longrightarrow> reachable (y\<lparr>y_svc := env s\<rparr>)"
  unfolding env_run_def by (drule spec [of _ "y\<lparr>y_svc := s\<rparr>"]) simp

lemma reachable_call_at:
  "reachable (y\<lparr>y_svc := s\<rparr>) \<Longrightarrow> call c s = Some s' \<Longrightarrow> reachable (y\<lparr>y_svc := s'\<rparr>)"
  using reachable_call [of "y\<lparr>y_svc := s\<rparr>" c s'] by simp

lemma reachable_metrics: "reachable (y\<lparr>y_svc := s\<rparr>) \<Longrightarrow> reachable (y\<lparr>y_svc := s\<lparr>s_metrics := m\<rparr>\<rparr>)"
  by (rule reachable_call_at [where c = "SSetMetrics m"]) (simp_all add: SetMetrics_def)

lemma reachable_inc_stream: "reachable (y\<lparr>y_svc := s\<rparr>) \<Longrightarrow> reachable (y\<lparr>y_svc := inc_stream t s\<rparr>)"
  using inc_stream_frame [of t s] reachable_metrics by auto

lemma reachable_dec_stream: "reachable (y\<lparr>y_svc := s\<rparr>) \<Longrightarrow> reachable (y\<lparr>y_svc := dec_stream b t s\<rparr>)"
  using dec_stream_frame [of b t s] reachable_metrics by auto

lemma reachable_unregister: "reachable (y\<lparr>y_svc := s\<rparr>) \<Longrightarrow> reachable (y\<lparr>y_svc := unregister i s\<rparr>)"
  by (rule reachable_call_at [where c = "SUnregister i"]) simp_all

lemma reachable_recordError: "reachable (y\<lparr>y_svc := s\<rparr>) \<Longrightarrow> reachable (y\<lparr>y_svc := recordError c p s\<rparr>)"
  using recordError_only_metrics [of c p s] reachable_metrics by auto

lemma reachable_ops:
  assumes "reachable (y\<lparr>y_svc := s\<rparr>)"
  shows "reachable (y\<lparr>y_svc := fst (Discover r s dq p)\<rparr>)" "reachable (y\<lparr>y_svc := fst (Cancel r s cq mid)\<rparr>)"
    "reachable (y\<lparr>y_svc := fst (Heartbeat r s hq)\<rparr>)" "reachable (y\<lparr>y_svc := fst (AddCapability s aq)\<rparr>)"
    "reachable (y\<lparr>y_svc := fst (AddSchema s sq)\<rparr>)" "reachable (y\<lparr>y_svc := fst (SetQuota s qq)\<rparr>)"
    "reachable (y\<lparr>y_svc := fst (Invoke r sel s capability iq actor p)\<rparr>)"
  using assms
    reachable_call_at [OF assms, of "SDiscover r dq p"] reachable_call_at [OF assms, of "SCancel r cq mid"]
    reachable_call_at [OF assms, of "SHeartbeat r hq"] reachable_call_at [OF assms, of "SAddCapability aq"]
    reachable_call_at [OF assms, of "SAddSchema sq"] reachable_call_at [OF assms, of "SSetQuota qq"]
    reachable_Invoke [OF assms, of r sel capability iq actor p] by simp_all

lemma reachable_fst: "reachable (y\<lparr>y_svc := fst p\<rparr>) \<Longrightarrow> p = (s, res) \<Longrightarrow> reachable (y\<lparr>y_svc := s\<rparr>)"
  by simp

text \<open>A call that may panic on a short identifier does not.\<close>

lemma total_call:
  assumes "reachable (y\<lparr>y_svc := s\<rparr>)" and "clock_ok (ACall c)" and "call c s = map_option fst X"
  obtains s' a where "X = Some (s', a)" "reachable (y\<lparr>y_svc := s'\<rparr>)"
proof -
  from call_no_panic [OF assms(2), of s] assms(3) obtain s' a where "X = Some (s', a)"
    by (cases X) auto
  with reachable_call_at [OF assms(1), of c s'] assms(3) show thesis
    by (auto intro: that)
qed

lemma RegisterConnection_run:
  assumes "reachable (y\<lparr>y_svc := s\<rparr>)" and "entropy_ok (rt_rand r 0)"
  obtains s' i where "RegisterConnection r s conn = Some (s', i)" "reachable (y\<lparr>y_svc := s'\<rparr>)"
  by (rule total_call [OF assms(1), of "SRegister r conn"]) (use assms(2) in simp_all)

lemma Publish_run:
  assumes "reachable (y\<lparr>y_svc := s\<rparr>)"
  obtains s' res where "Publish r s topic req = Some (s', res)" "reachable (y\<lparr>y_svc := s'\<rparr>)"
  using reachable_Publish_total [OF assms, of r topic req] by auto

text \<open>
  Leaving a subscription: the channel is taken out of the subscriber map and closed, and the
  closing cannot panic.
\<close>

lemma subs_svc_swap: "y\<lparr>y_svc := s, y_subs := u\<rparr> = y\<lparr>y_subs := u, y_svc := s\<rparr>"
  by simp

lemma unsubscribe_run:
  assumes "reachable (y\<lparr>y_subs := (topic, c) # y_subs y, y_svc := s\<rparr>)"
  obtains s' where "unsubscribe topic c s = Some s'" "reachable (y\<lparr>y_svc := s'\<rparr>)"
proof -
  let ?y1 = "y\<lparr>y_svc := s, y_subs := (topic, c) # y_subs y\<rparr>"
  let ?y2 = "y\<lparr>y_svc := unsub_delete topic c s, y_closing := c # y_closing y\<rparr>"
  have "(topic, c) \<in> set (y_subs ?y1)"
    by simp
  from reachable_step [OF assms [folded subs_svc_swap] step_unsub [OF this]] have y2: "reachable ?y2"
    by simp
  have "chan_open (unsub_delete topic c s) c"
    using reachable_inv [OF y2] by (simp add: sys_inv_def subs_inv_def)
  then obtain s' where s': "chan_close c (unsub_delete topic c s) = Some s'"
    by (auto simp: chan_open_def chan_close_def)
  have "c \<in> set (y_closing ?y2)" "chan_close c (y_svc ?y2) = Some s'"
    using s' by simp_all
  from reachable_step [OF y2 step_close [OF this]] s' show thesis
    by (intro that) (simp_all add: unsubscribe_def)
qed

lemma Subscribe_run:
  assumes "reachable (y\<lparr>y_svc := s\<rparr>)" and "Subscribe s topic cur = (s', Inr (snap, c))"
  shows "reachable (y\<lparr>y_subs := (topic, c) # y_subs y, y_svc := s'\<rparr>)"
  unfolding subs_svc_swap [symmetric]
  using reachable_step [OF assms(1) step_subscribe, of topic cur s' snap c] assms(2) by simp

lemma Subscribe_refused_run:
  assumes "reachable (y\<lparr>y_svc := s\<rparr>)" and "Subscribe s topic cur = (s', Inl e)"
  shows "reachable (y\<lparr>y_svc := s'\<rparr>)"
  using reachable_step [OF assms(1) step_subscribe_error, of topic cur s' e] assms(2) by simp

subsection \<open>The HTTP binding\<close>

lemmas prod_reach = reachable_ops [THEN reachable_fst]

lemma served_protocol:
  assumes "reachable (y\<lparr>y_svc := s\<rparr>)"
  shows "served y (Some (handleHello r ctx hr hb s))" "served y (Some (handleDiscover r ctx hr db s))"
    "served y (Some (handleInvoke r sel ctx hr capability ib s))"
    "served y (Some (handleCancel r ctx hr mid cb s))" "served y (Some (handleHeartbeat r ctx hr bb s))"
  using assms prod_reach [OF assms]
  unfolding handleHello_def handleDiscover_def handleInvoke_def handleCancel_def handleHeartbeat_def Let_def
  by (simp_all split: sum.split prod.split option.split)

lemma served_admin:
  assumes "reachable (y\<lparr>y_svc := s\<rparr>)"
  shows "served y (Some (handleAddCapability ab s))" "served y (Some (handleAddSchema sb s))"
    "served y (Some (handleSetQuota r ctx qb s))"
  using assms prod_reach [OF assms]
  unfolding handleAddCapability_def handleAddSchema_def handleSetQuota_def Let_def
  by (simp_all split: sum.split prod.split option.split)

lemma served_cloud:
  assumes "reachable (y\<lparr>y_svc := s\<rparr>)" and "entropy_ok (rt_rand r 0)"
  shows "served y (handleCreateOrg r ob s)" "served y (handleCreateTenant r tb s)"
    "served y (handleCreateGateway r gb s)"
proof -
  show "served y (handleCreateOrg r ob s)"
  proof (cases "decodeJSON ob")
    case (Inr x)
    show ?thesis
      by (rule total_call [OF assms(1), of "SCreateOrg r x" "CreateOrg r s x"])
        (use assms(2) Inr in \<open>simp_all add: handleCreateOrg_def split: sum.split\<close>)
  qed (use assms(1) in \<open>simp add: handleCreateOrg_def\<close>)
  show "served y (handleCreateTenant r tb s)"
  proof (cases "decodeJSON tb")
    case (Inr x)
    show ?thesis
      by (rule total_call [OF assms(1), of "SCreateTenant r x" "CreateTenant r s x"])
        (use assms(2) Inr in \<open>simp_all add: handleCreateTenant_def split: sum.split\<close>)
  qed (use assms(1) in \<open>simp add: handleCreateTenant_def\<close>)
  show "served y (handleCreateGateway r gb s)"
  proof (cases "decodeJSON gb")
    case (Inr x)
    show ?thesis
      by (rule total_call [OF assms(1), of "SCreateGateway r x" "CreateGateway r s x"])
        (use assms(2) Inr in \<open>simp_all add: handleCreateGateway_def split: sum.split\<close>)
  qed (use assms(1) in \<open>simp add: handleCreateGateway_def\<close>)
qed

lemma served_publish:
  assumes "reachable (y\<lparr>y_svc := s\<rparr>)"
  shows "served y (handlePublish r ctx hr topic pb s)"
proof (cases "decodeJSON pb")
  case (Inr req)
  obtain h eo where ap: "applyPrincipalHeader (pq_Header req) (principalFromContext ctx) hr = (h, eo)"
    by (cases "applyPrincipalHeader (pq_Header req) (principalFromContext ctx) hr")
  show ?thesis
    by (rule Publish_run [OF assms, of r topic "req\<lparr>pq_Header := h\<rparr>"])
      (use assms in \<open>simp add: handlePublish_def Let_def Inr ap split: option.split sum.split\<close>)
qed (use assms in \<open>simp add: handlePublish_def Let_def\<close>)

lemma served_sse:
  assumes "reachable (y\<lparr>y_svc := s\<rparr>)" and ent: "entropy_ok (rt_rand r 0)" and env: "env_run env"
  shows "served y (handleSubscribe r env flusher oks inputs ctx hr topic s)"
proof -
  let ?s = "inc_stream ''sse'' s" and ?cur = "query_get hr ''resume_cursor''"
  have inc: "reachable (y\<lparr>y_svc := ?s\<rparr>)"
    using assms(1) by (rule reachable_inc_stream)
  obtain s1 res where sub: "Subscribe ?s topic ?cur = (s1, res)"
    by (cases "Subscribe ?s topic ?cur")
  show ?thesis
  proof (cases res)
    case (Inl e)
    then show ?thesis
      using sub Subscribe_refused_run [OF inc, of topic ?cur s1 e]
      by (simp add: handleSubscribe_def Let_def reachable_dec_stream)
  next
    case (Inr ec)
    then obtain events c where sub': "Subscribe ?s topic ?cur = (s1, Inr (events, c))"
      using sub by (cases ec) auto
    let ?y = "y\<lparr>y_subs := (topic, c) # y_subs y\<rparr>"
    let ?conn = "\<lparr>cs_ID = [], cs_Protocol = ''http'', cs_Kind = ''sse_subscribe'',
      cs_TenantID = stream_tenant (principalFromContext ctx) hr, cs_Actor = p_Subject (principalFromContext ctx),
      cs_RemoteAddr = r_RemoteAddr hr, cs_StartedAt = [],
      cs_Meta = Some [(''topic'', JStr topic), (''resume_cursor'', JStr ?cur)]\<rparr>"
    have "reachable (?y\<lparr>y_svc := s1\<rparr>)"
      using Subscribe_run [OF inc sub'] .
    then obtain s2 i where reg: "RegisterConnection r s1 ?conn = Some (s2, i)" "reachable (?y\<lparr>y_svc := s2\<rparr>)"
      by (rule RegisterConnection_run [OF _ ent])
    define s3 where "s3 = unregister i (if flusher then env s2 else s2)"
    have "reachable (?y\<lparr>y_svc := s3\<rparr>)"
      using reg(2) env_runD [OF env reg(2)] by (simp add: s3_def reachable_unregister)
    then obtain s4 where "unsubscribe topic c s3 = Some s4" "reachable (y\<lparr>y_svc := s4\<rparr>)"
      by (rule unsubscribe_run)
    then show ?thesis
      using sub' reg(1) unfolding handleSubscribe_def Let_def s3_def
      by (cases flusher) (simp_all add: reachable_dec_stream split: prod.split)
  qed
qed

lemma stream_loop_run:
  assumes "\<forall>i \<in> set is. env_run (wi_env i)" and "reachable (y\<lparr>y_svc := s\<rparr>)"
  shows "reachable (y\<lparr>y_svc := fst (stream_loop prin hr is s)\<rparr>)"
  using assms
proof (induction "is" arbitrary: s)
  case (Cons i "is")
  let ?f = "stream_frame (wi_rt i) (wi_sel i) prin hr (wi_frame i) (wi_env i s)"
  have "reachable (y\<lparr>y_svc := wi_env i s\<rparr>)"
    using Cons.prems by (simp add: env_runD)
  then have "reachable (y\<lparr>y_svc := fst ?f\<rparr>)"
    by (intro stream_frame_state_rule [where P = "\<lambda>s. reachable (y\<lparr>y_svc := s\<rparr>)"]) (simp_all add: reachable_ops)
  with Cons show ?case
    by (simp add: Let_def split_beta)
qed simp

lemma served_websocket:
  assumes "reachable (y\<lparr>y_svc := s\<rparr>)" and ent: "entropy_ok (rt_rand r 0)"
    and env: "\<forall>i \<in> set inputs. env_run (wi_env i)"
  shows "served y (handleStream r refused inputs ctx hr s)"
proof -
  let ?s = "inc_stream ''websocket'' s"
  let ?conn = "\<lparr>cs_ID = [], cs_Protocol = ''http'', cs_Kind = ''ws_stream'',
      cs_TenantID = stream_tenant (principalFromContext ctx) hr, cs_Actor = p_Subject (principalFromContext ctx),
      cs_RemoteAddr = r_RemoteAddr hr, cs_StartedAt = [], cs_Meta = Some [(''path'', JStr (r_Path hr))]\<rparr>"
  have inc: "reachable (y\<lparr>y_svc := ?s\<rparr>)"
    using assms(1) by (rule reachable_inc_stream)
  then obtain s1 i where reg: "RegisterConnection r ?s ?conn = Some (s1, i)" "reachable (y\<lparr>y_svc := s1\<rparr>)"
    by (rule RegisterConnection_run [OF _ ent])
  show ?thesis
  proof (cases refused)
    case None
    then show ?thesis
      using reg(1) stream_loop_run [OF env reg(2), of "principalFromContext ctx" hr]
      by (simp add: handleStream_def Let_def split_beta reachable_dec_stream reachable_unregister)
  next
    case (Some p)
    then show ?thesis
      using inc by (cases p) (simp add: handleStream_def Let_def reachable_dec_stream)
  qed
qed

definition session_run :: "Session \<Rightarrow> bool" where
  "session_run k \<longleftrightarrow> env_run (k_env k) \<and> (\<forall>i \<in> set (k_ws k). env_run (wi_env i))"

lemma session_run_recorder [simp]: "session_run (statusRecorder_session k) = session_run k"
  by (simp add: session_run_def statusRecorder_session_def)

lemma served_mux:
  assumes "reachable (y\<lparr>y_svc := s\<rparr>)" and "entropy_ok (rt_rand r 0)" and "session_run k"
  shows "served y (serve_mux r sel metrics b k ctx hr s)"
proof (cases "find_route metrics (r_Method hr) (r_Path hr)")
  case (Routed rt vs)
  have "served y (Some (s, a))" for a :: HttpResponse
    using assms(1) by simp
  note rules = this served_protocol [OF assms(1)] served_admin [OF assms(1)] served_cloud [OF assms(1,2)]
    served_publish [OF assms(1)]
  show ?thesis
  proof (cases rt)
    case RSubscribe
    then show ?thesis
      using Routed assms by (simp add: serve_mux_def served_sse session_run_def)
  next
    case RStream
    then show ?thesis
      using Routed assms by (simp add: serve_mux_def served_websocket session_run_def)
  qed (simp_all only: serve_mux_def Routed routing.case route.case rules)
qed (use assms(1) in \<open>simp_all add: serve_mux_def\<close>)

lemma served_gateway:
  assumes "reachable (y\<lparr>y_svc := s\<rparr>)" and "entropy_ok (rt_rand r 0)" and "session_run k"
  shows "served y (http_gateway jwt r sel cfg metrics b k ctx hr s)"
proof -
  have auth: "served y (authMiddleware jwt r cfg (serve_mux r sel metrics b k') ctx hr s)" if "session_run k'" for k'
    using assms(1) served_mux [OF assms(1,2) that, of sel metrics b] by (simp add: authMiddleware_def split: sum.split)
  have "served y (Middleware w h ctx hr s)" if "served y (h ctx hr s)" for w h
    using that unfolding Middleware_def by (cases "h ctx hr s") (auto simp: Let_def reachable_metrics)
  from this [of "authMiddleware jwt r cfg (serve_mux r sel metrics b (statusRecorder_session k))" "k_writer k"] auth [of k] auth [of "statusRecorder_session k"]
  show ?thesis
    using assms(3) by (cases metrics) (simp_all add: http_gateway_def Let_def)
qed

subsection \<open>The gRPC binding\<close>

lemma served_unary:
  assumes "reachable (y\<lparr>y_svc := s\<rparr>)" and "\<And>prin. served y (handler (Some prin) s)"
  shows "served y (unary_status (GRPCUnaryAuthInterceptor jwt cfg meta handler s))"
  using assms by (simp add: unary_status_def GRPCUnaryAuthInterceptor_def split: sum.split)

lemma served_stream:
  assumes "reachable (y\<lparr>y_svc := s\<rparr>)" and "\<And>prin. served y (handler (Some prin) s)"
  shows "served y (stream_status (GRPCStreamAuthInterceptor jwt cfg meta handler s))"
  using assms by (simp add: stream_status_def GRPCStreamAuthInterceptor_def split: sum.split)

lemma served_grpc_protocol:
  assumes "reachable (y\<lparr>y_svc := s\<rparr>)"
  shows "served y (Some (grpcHello lib r ctx hq s))" "served y (Some (grpcDiscover lib r ctx dq s))"
    "served y (Some (grpcInvoke lib r sel ctx iq s))"
    "served y (Some (grpcCancel lib r ctx cq s))" "served y (Some (grpcHeartbeat lib r ctx bq s))"
  using assms prod_reach [OF assms]
  unfolding grpcHello_def grpcDiscover_def grpcInvoke_def grpcCancel_def grpcHeartbeat_def Let_def
  by (simp_all split: sum.split prod.split option.split)

lemma served_grpc_publish:
  assumes "reachable (y\<lparr>y_svc := s\<rparr>)"
  shows "served y (grpcPublish lib r ctx req s)"
proof -
  let ?q = "\<lparr>pq_Header = messageHeaderFromProto lib (pbpq_Header req), pq_Topic = pbpq_Topic req,
                pq_Key = pbpq_Key req, pq_Payload = structToMap lib (pbpq_Payload req)\<rparr>"
  obtain h eo where ap: "applyPrincipalHeaderFromPrincipal (pq_Header ?q) (principalFromContext ctx) = (h, eo)"
    by (cases "applyPrincipalHeaderFromPrincipal (pq_Header ?q) (principalFromContext ctx)")
  show ?thesis
    by (rule Publish_run [OF assms, of r "pq_Topic ?q" "?q\<lparr>pq_Header := h\<rparr>"])
      (use assms ap in \<open>simp add: grpcPublish_def Let_def split: option.split sum.split\<close>)
qed

lemma served_grpc_subscribe:
  assumes "reachable (y\<lparr>y_svc := s\<rparr>)" and ent: "entropy_ok (rt_rand r 0)" and env: "env_run env"
  shows "served y (grpcSubscribe lib r addr env send inputs ctx req s)"
proof -
  let ?s = "inc_stream ''grpc_events'' s" and ?p = "principalFromContext ctx"
  let ?t = "pbsq_Topic req" and ?cur = "pbsq_ResumeCursor req"
  have inc: "reachable (y\<lparr>y_svc := ?s\<rparr>)"
    using assms(1) by (rule reachable_inc_stream)
  obtain h eo where ap: "applyPrincipalHeaderFromPrincipal (messageHeaderFromProto lib (pbsq_Header req)) ?p = (h, eo)"
    by (cases "applyPrincipalHeaderFromPrincipal (messageHeaderFromProto lib (pbsq_Header req)) ?p")
  obtain s1 i where reg: "RegisterConnection r ?s (grpc_sub_conn addr ?p h req) = Some (s1, i)"
      "reachable (y\<lparr>y_svc := s1\<rparr>)"
    by (rule RegisterConnection_run [OF inc ent])
  note unf = grpcSubscribe_def Let_def ap reg(1) [unfolded grpc_sub_conn_def]
  obtain s2 res where sub: "Subscribe s1 ?t ?cur = (s2, res)"
    by (cases "Subscribe s1 ?t ?cur")
  show ?thesis
  proof (cases eo)
    case None
    show ?thesis
    proof (cases res)
      case (Inl e)
      then show ?thesis
        using sub Subscribe_refused_run [OF reg(2), of ?t ?cur s2 e] None
        by (simp add: unf reachable_dec_stream reachable_unregister)
    next
      case (Inr ec)
      then obtain events c where sub': "Subscribe s1 ?t ?cur = (s2, Inr (events, c))"
        using sub by (cases ec) auto
      from env_runD [OF env Subscribe_run [OF reg(2) sub']]
      obtain s3 where "unsubscribe ?t c (env s2) = Some s3" "reachable (y\<lparr>y_svc := s3\<rparr>)"
        by (rule unsubscribe_run)
      then show ?thesis
        using sub' None by (simp add: unf reachable_dec_stream reachable_unregister split: prod.split)
    qed
  next
    case (Some e)
    then show ?thesis
      using inc by (simp add: unf reachable_dec_stream)
  qed
qed

lemma grpc_loop_run:
  assumes "\<forall>i \<in> set is. env_run (gi_env i)" and "reachable (y\<lparr>y_svc := s\<rparr>)"
  shows "reachable (y\<lparr>y_svc := fst (grpc_loop lib prin fin is s)\<rparr>)"
  using assms
proof (induction "is" arbitrary: s)
  case (Cons i "is")
  let ?f = "grpc_frame (gi_rt i) (gi_sel i) prin (streamFrameFromProto lib (gi_frame i)) (gi_env i s)"
  have "reachable (y\<lparr>y_svc := gi_env i s\<rparr>)"
    using Cons.prems by (simp add: env_runD)
  then have "reachable (y\<lparr>y_svc := fst ?f\<rparr>)"
    by (intro grpc_frame_state_rule [where P = "\<lambda>s. reachable (y\<lparr>y_svc := s\<rparr>)"]) (simp_all add: reachable_ops)
  with Cons show ?case
    by (simp add: Let_def split_beta split: option.split)
qed simp

lemma served_grpc_stream:
  assumes "reachable (y\<lparr>y_svc := s\<rparr>)" and ent: "entropy_ok (rt_rand r 0)"
    and env: "\<forall>i \<in> set inputs. env_run (gi_env i)"
  shows "served y (grpcStreamInvoke lib r addr fin inputs ctx s)"
proof -
  let ?s = "inc_stream ''grpc_bidi'' s" and ?p = "principalFromContext ctx"
  let ?conn = "\<lparr>cs_ID = [], cs_Protocol = ''grpc'', cs_Kind = ''stream_invoke'',
     cs_TenantID = (if p_TenantID ?p = [] then ''unknown'' else p_TenantID ?p),
     cs_Actor = p_Subject ?p, cs_RemoteAddr = addr, cs_StartedAt = [],
     cs_Meta = Some [(''service'', JStr ''Invocation/StreamInvoke'')]\<rparr>"
  have "reachable (y\<lparr>y_svc := ?s\<rparr>)"
    using assms(1) by (rule reachable_inc_stream)
  then obtain s1 i where reg: "RegisterConnection r ?s ?conn = Some (s1, i)" "reachable (y\<lparr>y_svc := s1\<rparr>)"
    by (rule RegisterConnection_run [OF _ ent])
  then show ?thesis
    using grpc_loop_run [OF env reg(2), of lib ?p fin]
    by (simp add: grpcStreamInvoke_def Let_def split_beta reachable_dec_stream reachable_unregister)
qed

fun grpc_run :: "grpc_call \<Rightarrow> bool" where
  "grpc_run (GStreamInvoke _ _ inputs) \<longleftrightarrow> (\<forall>i \<in> set inputs. env_run (gi_env i))"
| "grpc_run (GSubscribe _ env _ _ _) \<longleftrightarrow> env_run env"
| "grpc_run _ \<longleftrightarrow> True"

lemma served_grpc:
  assumes "reachable (y\<lparr>y_svc := s\<rparr>)" and "entropy_ok (rt_rand r 0)" and "grpc_run c"
  shows "served y (grpc_serve jwt lib r cfg meta c s)"
proof (cases c)
  case (GStreamInvoke addr fin inputs)
  with assms show ?thesis
    by (simp add: served_stream served_grpc_stream)
next
  case (GSubscribe addr env send inputs q)
  with assms show ?thesis
    by (simp add: served_stream served_grpc_subscribe)
qed (simp_all only: grpc_serve.simps served_unary [OF assms(1)] served_grpc_protocol [OF assms(1)]
      served_grpc_publish [OF assms(1)])

subsection \<open>The contract of a binding\<close>

text \<open>Requests served one after the other.\<close>

fun serve_all :: "('q \<Rightarrow> Service \<Rightarrow> (Service \<times> 'a) option) \<Rightarrow> 'q list \<Rightarrow> Service \<Rightarrow> (Service \<times> 'a list) option" where
  "serve_all handle [] s = Some (s, [])"
| "serve_all handle (q # qs) s =
    (case handle q s of
       None \<Rightarrow> None
     | Some (s, a) \<Rightarrow> map_option (map_prod id ((#) a)) (serve_all handle qs s))"

locale gateway_binding =
  fixes handle :: "'q \<Rightarrow> Service \<Rightarrow> (Service \<times> 'a) option"
    and admissible :: "'q \<Rightarrow> bool"
  assumes handle_runs: "reachable y \<Longrightarrow> admissible q \<Longrightarrow> served y (handle q (y_svc y))"
begin

lemma serves_all:
  assumes "reachable y" and "list_all admissible qs"
  shows "\<exists>s as. serve_all handle qs (y_svc y) = Some (s, as) \<and> length as = length qs \<and> reachable (y\<lparr>y_svc := s\<rparr>)"
  using assms
proof (induction qs arbitrary: y)
  case (Cons q qs)
  from Cons.prems obtain s a where s: "handle q (y_svc y) = Some (s, a)" "reachable (y\<lparr>y_svc := s\<rparr>)"
    using handle_runs [of y q] by (auto simp: served_def)
  from Cons.IH [OF s(2)] Cons.prems(2) obtain s' as where
    "serve_all handle qs s = Some (s', as)" "length as = length qs" "reachable (y\<lparr>y_svc := s'\<rparr>)"
    by auto
  with s(1) show ?case by simp
qed simp

lemma serves_consistently:
  assumes "reachable y" and "list_all admissible qs"
  obtains s as where "serve_all handle qs (y_svc y) = Some (s, as)" "length as = length qs"
    "sys_inv (y\<lparr>y_svc := s\<rparr>)"
  using serves_all [OF assms] reachable_inv by blast

end

definition http_handle ::
    "jwtlib \<Rightarrow> AuthConfig \<Rightarrow> bool \<Rightarrow> rt \<times> invoke_select \<times> Bodies \<times> Session \<times> HttpRequest \<Rightarrow> Service \<Rightarrow> (Service \<times> HttpResponse) option" where
  "http_handle jwt cfg metrics = (\<lambda>(r, sel, b, k, hr). http_gateway jwt r sel cfg metrics b k None hr)"

definition grpc_handle ::
    "jwtlib \<Rightarrow> pblib \<Rightarrow> AuthConfig \<Rightarrow> rt \<times> metadata \<times> grpc_call \<Rightarrow> Service \<Rightarrow> (Service \<times> GrpcStatus option) option" where
  "grpc_handle jwt lib cfg = (\<lambda>(r, meta, c). grpc_serve jwt lib r cfg meta c)"

interpretation http_side: gateway_binding "http_handle jwt cfg metrics"
  "\<lambda>(r, sel, b, k, hr). entropy_ok (rt_rand r 0) \<and> session_run k" for jwt cfg metrics
proof
  fix y and q :: "rt \<times> invoke_select \<times> Bodies \<times> Session \<times> HttpRequest"
  assume "reachable y" and "case q of (r, sel, b, k, hr) \<Rightarrow> entropy_ok (rt_rand r 0) \<and> session_run k"
  then show "served y (http_handle jwt cfg metrics q (y_svc y))"
    using served_gateway [where y = y and s = "y_svc y"] by (auto simp: http_handle_def split: prod.splits)
qed

interpretation grpc_side: gateway_binding "grpc_handle jwt lib cfg"
  "\<lambda>(r, meta, c). entropy_ok (rt_rand r 0) \<and> grpc_run c" for jwt lib cfg
proof
  fix y and q :: "rt \<times> metadata \<times> grpc_call"
  assume "reachable y" and "case q of (r, meta, c) \<Rightarrow> entropy_ok (rt_rand r 0) \<and> grpc_run c"
  then show "served y (grpc_handle jwt lib cfg q (y_svc y))"
    using served_grpc [where y = y and s = "y_svc y"] by (auto simp: grpc_handle_def split: prod.splits)
qed

definition nats_side_handle :: "rt \<times> nats_call \<Rightarrow> Service \<Rightarrow> (Service \<times> nats_reply option) option" where
  "nats_side_handle = (\<lambda>(r, c). nats_handle r c)"

interpretation nats_side: gateway_binding nats_side_handle
  "\<lambda>(r, c). subject_matches (nats_pattern c) (nats_subject c)"
proof
  fix y and q :: "rt \<times> nats_call"
  assume "reachable y" and "case q of (r, c) \<Rightarrow> subject_matches (nats_pattern c) (nats_subject c)"
  then show "served y (nats_side_handle q (y_svc y))"
    using nats_handle_answered [OF nats_wildcards_subject_matches, of y "snd q" "fst q"]
    by (auto simp: nats_side_handle_def served_def answered_def split: prod.splits)
qed

end
