(* ===== verification/Mig_Config.thy ===== *)
theory Mig_Config
  imports Mig_Auth
begin

text \<open>
  \<^verbatim>\<open>core/pkg/mig/config.go\<close>: the configuration read from the environment. The environment is a function
  from names to values, the empty string for a variable that is not set, as \<^verbatim>\<open>os.Getenv\<close> has it.
\<close>

record Config =
  cfg_Addr :: string
  cfg_GRPCAddr :: string
  cfg_Auth :: AuthConfig
  cfg_NATSURL :: string
  cfg_EnableNATSBinding :: bool
  cfg_AuditLogPath :: string
  cfg_EnableMetrics :: bool

type_synonym environ = "string \<Rightarrow> string"

definition envBool :: "environ \<Rightarrow> string \<Rightarrow> bool \<Rightarrow> bool" where
  "envBool env key fallback =
    (let value = TrimSpace (env key) in
     if value = [] then fallback
     else case ParseBool value of None \<Rightarrow> fallback | Some parsed \<Rightarrow> parsed)"

definition envOrDefault :: "environ \<Rightarrow> string \<Rightarrow> string \<Rightarrow> string" where
  "envOrDefault env key fallback =
    (let value = TrimSpace (env key) in if value \<noteq> [] then value else fallback)"

definition ConfigFromEnv :: "environ \<Rightarrow> (string, Config) res" where
  "ConfigFromEnv env =
    (let cfg = \<lparr>cfg_Addr = envOrDefault env ''MIGD_ADDR'' '':8080'',
                cfg_GRPCAddr = TrimSpace (env ''MIGD_GRPC_ADDR''),
                cfg_Auth = \<lparr>ac_Mode = [], ac_JWTSecret = [], ac_RequireTenant = False\<rparr>,
                cfg_NATSURL = TrimSpace (env ''MIGD_NATS_URL''),
                cfg_EnableNATSBinding = envBool env ''MIGD_ENABLE_NATS_BINDING'' True,
                cfg_AuditLogPath = TrimSpace (env ''MIGD_AUDIT_LOG_PATH''),
                cfg_EnableMetrics = envBool env ''MIGD_ENABLE_METRICS'' True\<rparr>;
         authMode = ToLower (TrimSpace (envOrDefault env ''MIGD_AUTH_MODE'' AuthModeNone));
         finish = (\<lambda>auth. Inr (cfg\<lparr>cfg_Auth := auth\<lparr>ac_RequireTenant := envBool env ''MIGD_REQUIRE_TENANT_HEADER'' False\<rparr>\<rparr>))
     in if authMode = AuthModeNone then finish ((cfg_Auth cfg)\<lparr>ac_Mode := AuthModeNone\<rparr>)
        else if authMode = AuthModeJWT then
          let secret = TrimSpace (env ''MIGD_JWT_HS256_SECRET'') in
          if secret = [] then Inl ''MIGD_JWT_HS256_SECRET is required when MIGD_AUTH_MODE=jwt''
          else finish ((cfg_Auth cfg)\<lparr>ac_Mode := AuthModeJWT, ac_JWTSecret := secret\<rparr>)
        else Inl (''unsupported MIGD_AUTH_MODE '' @ go_quote authMode))"

lemma envOrDefault_trimmed: "TrimSpace fallback = fallback \<Longrightarrow> TrimSpace (envOrDefault env k fallback) = envOrDefault env k fallback"
  by (simp add: envOrDefault_def Let_def)

text \<open>
  A configuration is accepted only with one of the two authentication modes, and in JWT mode only
  with a secret; the strings it holds are trimmed.
\<close>

definition config_ok :: "Config \<Rightarrow> bool" where
  "config_ok cfg \<longleftrightarrow>
    (ac_Mode (cfg_Auth cfg) = AuthModeNone \<or>
     ac_Mode (cfg_Auth cfg) = AuthModeJWT \<and> ac_JWTSecret (cfg_Auth cfg) \<noteq> []) \<and>
    cfg_Addr cfg \<noteq> [] \<and> TrimSpace (cfg_Addr cfg) = cfg_Addr cfg \<and>
    TrimSpace (cfg_GRPCAddr cfg) = cfg_GRPCAddr cfg \<and> TrimSpace (cfg_NATSURL cfg) = cfg_NATSURL cfg \<and>
    TrimSpace (cfg_AuditLogPath cfg) = cfg_AuditLogPath cfg"

lemma default_addr: "TrimSpace '':8080'' = '':8080''"
  by code_simp

lemma ConfigFromEnv_ok:
  assumes "ConfigFromEnv env = Inr cfg"
  shows "config_ok cfg"
proof -
  have addr: "envOrDefault env ''MIGD_ADDR'' '':8080'' \<noteq> []"
    by (simp add: envOrDefault_def Let_def)
  show ?thesis
    using assms addr envOrDefault_trimmed [OF default_addr, of env "''MIGD_ADDR''"]
    unfolding ConfigFromEnv_def config_ok_def Let_def
    by (simp split: if_splits) force+
qed


end
