(* ===== verification/Mig_Migd.thy ===== *)
theory Mig_Migd
  imports Mig_Gateway Mig_Config
begin

text \<open>
  The gateway process, \<^verbatim>\<open>core/cmd/migd/main.go\<close>: starting it from the environment, the three servers it
  runs over one service, and shutting it down. Connecting, listening, subscribing and opening the
  audit file are arguments, \<open>Some e\<close> being an error; a fatal log message ends the start with \<open>Inl\<close>.
\<close>

subsection \<open>Starting and stopping\<close>

definition displayOrNone :: "string \<Rightarrow> string" where
  "displayOrNone value = (if value = [] then ''<none>'' else value)"

definition show_bool :: "bool \<Rightarrow> string" where
  "show_bool b = (if b then ''true'' else ''false'')"

text \<open>\<open>md_NATS\<close> and \<open>md_GRPC\<close> tell whether the binding and the server run.\<close>

record Migd =
  md_Config :: Config
  md_Service :: Service
  md_NATS :: bool
  md_GRPC :: bool
  md_Log :: "string list"

definition banner :: "Config \<Rightarrow> string" where
  "banner cfg =
    ''migd listening on '' @ cfg_Addr cfg @ '' (grpc='' @ displayOrNone (cfg_GRPCAddr cfg) @
    '' auth='' @ ac_Mode (cfg_Auth cfg) @ '' metrics='' @ show_bool (cfg_EnableMetrics cfg) @
    '' nats='' @ displayOrNone (cfg_NATSURL cfg) @ '' audit_log='' @ displayOrNone (cfg_AuditLogPath cfg) @ '')''"

definition StartGRPCServer :: "(string \<Rightarrow> string option) \<Rightarrow> string \<Rightarrow> (string, unit) res" where
  "StartGRPCServer listen addr =
    (case listen addr of Some e \<Rightarrow> Inl (''listen grpc: '' @ e) | None \<Rightarrow> Inr ())"

definition start_nats :: "rt \<Rightarrow> (string \<Rightarrow> string option) \<Rightarrow> Migd \<Rightarrow> (string, Migd) res" where
  "start_nats r subscribe m =
    (if cfg_NATSURL (md_Config m) \<noteq> [] \<and> cfg_EnableNATSBinding (md_Config m)
     then case StartNATSBinding r subscribe (md_Service m) of
            (s, Inl e) \<Rightarrow> Inl (''failed to start NATS binding: '' @ e)
          | (s, Inr b) \<Rightarrow>
              Inr (m\<lparr>md_Service := s, md_NATS := True,
                     md_Log := md_Log m @ [''migd NATS request/reply binding enabled on '' @ cfg_NATSURL (md_Config m)]\<rparr>)
     else Inr m)"

definition start_grpc :: "(string \<Rightarrow> string option) \<Rightarrow> Migd \<Rightarrow> (string, Migd) res" where
  "start_grpc listen m =
    (if cfg_GRPCAddr (md_Config m) \<noteq> []
     then case StartGRPCServer listen (cfg_GRPCAddr (md_Config m)) of
            Inl e \<Rightarrow> Inl (''failed to start gRPC server: '' @ e)
          | Inr _ \<Rightarrow>
              Inr (m\<lparr>md_GRPC := True,
                     md_Log := md_Log m @ [''migd gRPC listening on '' @ cfg_GRPCAddr (md_Config m)]\<rparr>)
     else Inr m)"

definition migd_start ::
    "environ \<Rightarrow> (string \<Rightarrow> string option) \<Rightarrow> (string \<Rightarrow> string option) \<Rightarrow> rt \<Rightarrow> (string \<Rightarrow> string option) \<Rightarrow>
     (string \<Rightarrow> string option) \<Rightarrow> (string, Migd) res" where
  "migd_start env connect openlog r subscribe listen =
    (case ConfigFromEnv env of
       Inl e \<Rightarrow> Inl (''invalid config: '' @ e)
     | Inr cfg \<Rightarrow>
         case NewServiceWithOptions connect openlog
                \<lparr>so_NATSURL = cfg_NATSURL cfg, so_AuditLogPath = cfg_AuditLogPath cfg\<rparr> of
           Inl e \<Rightarrow> Inl (''failed to initialize service: '' @ e)
         | Inr svc \<Rightarrow>
             let svc = (if cfg_EnableMetrics cfg then SetMetrics (Some NewMetrics) svc else svc);
                 m = \<lparr>md_Config = cfg, md_Service = svc, md_NATS = False, md_GRPC = False, md_Log = [banner cfg]\<rparr>
             in case start_nats r subscribe m of
                  Inl e \<Rightarrow> Inl e
                | Inr m \<Rightarrow> start_grpc listen m)"

text \<open>The deferred \<^verbatim>\<open>svc.Close()\<close> after the servers have shut down.\<close>

definition migd_stop :: "Migd \<Rightarrow> Migd" where
  "migd_stop m = m\<lparr>md_Service := Close (md_Service m), md_NATS := False, md_GRPC := False\<rparr>"

subsection \<open>Serving\<close>

definition withRequestLog :: "http_handler \<Rightarrow> Principal option \<Rightarrow> HttpRequest \<Rightarrow> Service \<Rightarrow> string \<times> (Service \<times> HttpResponse) option" where
  "withRequestLog nxt ctx hr s = (r_Method hr @ '' '' @ r_Path hr, nxt ctx hr s)"

datatype migd_request =
    OverHttp "rt \<times> invoke_select \<times> Bodies \<times> Session \<times> HttpRequest"
  | OverGrpc "rt \<times> metadata \<times> grpc_call"
  | OverNats "rt \<times> nats_call"

datatype migd_reply = HttpReply HttpResponse | GrpcReply "GrpcStatus option" | NatsReply "nats_reply option"

fun migd_handle :: "jwtlib \<Rightarrow> pblib \<Rightarrow> Migd \<Rightarrow> migd_request \<Rightarrow> Service \<Rightarrow> (Service \<times> migd_reply) option" where
  "migd_handle jwt lib m (OverHttp (r, sel, b, k, hr)) s =
    map_option (map_prod id HttpReply)
      (snd (withRequestLog (http_gateway jwt r sel (cfg_Auth (md_Config m)) (cfg_EnableMetrics (md_Config m)) b k) None hr s))"
| "migd_handle jwt lib m (OverGrpc (r, meta, c)) s =
    map_option (map_prod id GrpcReply) (grpc_serve jwt lib r (cfg_Auth (md_Config m)) meta c s)"
| "migd_handle jwt lib m (OverNats (r, c)) s =
    map_option (map_prod id NatsReply) (nats_handle r c s)"

text \<open>
  A request that can reach the process: its server runs, NATS hands the message to the
  subscription, the clock behind the fallback identifiers has eight digits, and what happens to
  the service while a stream is open is a run of the system.
\<close>

fun migd_admissible :: "(string \<Rightarrow> string \<Rightarrow> bool) \<Rightarrow> Migd \<Rightarrow> migd_request \<Rightarrow> bool" where
  "migd_admissible matches m (OverHttp (r, sel, b, k, hr)) \<longleftrightarrow> entropy_ok (rt_rand r 0) \<and> session_run k"
| "migd_admissible matches m (OverGrpc (r, meta, c)) \<longleftrightarrow> md_GRPC m \<and> entropy_ok (rt_rand r 0) \<and> grpc_run c"
| "migd_admissible matches m (OverNats (r, c)) \<longleftrightarrow> md_NATS m \<and> matches (nats_pattern c) (nats_subject c)"

lemma migd_handle_served:
  assumes "nats_wildcards matches" and "reachable y" and "migd_admissible matches m q"
  shows "served y (migd_handle jwt lib m q (y_svc y))"
proof (cases q)
  case (OverHttp x)
  then show ?thesis
    using assms http_side.handle_runs [of y x jwt "cfg_Auth (md_Config m)" "cfg_EnableMetrics (md_Config m)"]
    by (cases x) (simp add: http_handle_def withRequestLog_def)
next
  case (OverGrpc x)
  then show ?thesis
    using assms grpc_side.handle_runs [of y x jwt lib "cfg_Auth (md_Config m)"]
    by (cases x) (simp add: grpc_handle_def)
next
  case (OverNats x)
  then show ?thesis
    using assms nats_handle_answered [OF assms(1,2), of "snd x" "fst x"]
    by (cases x) (auto simp: served_def answered_def)
qed

interpretation migd_side: gateway_binding "migd_handle jwt lib m" "migd_admissible subject_matches m" for jwt lib m
  by unfold_locales (rule migd_handle_served [OF nats_wildcards_subject_matches])

subsection \<open>The process is in a reachable state\<close>

definition fresh_system :: "Service \<Rightarrow> System" where
  "fresh_system s = \<lparr>y_svc = s, y_pending = [], y_subs = [], y_closing = []\<rparr>"

lemma fresh_system_svc [simp]: "(fresh_system s)\<lparr>y_svc := s'\<rparr> = fresh_system s'" "y_svc (fresh_system s) = s"
  by (simp_all add: fresh_system_def)

lemma start_nats_service:
  "start_nats r subscribe m = Inr m' \<Longrightarrow>
    md_Service m' \<in> {md_Service m, fst (StartNATSBinding r subscribe (md_Service m))} \<and> md_Config m' = md_Config m"
  by (auto simp: start_nats_def split: if_splits prod.splits sum.splits)

lemma start_grpc_service:
  "start_grpc listen m = Inr m' \<Longrightarrow> md_Service m' = md_Service m \<and> md_Config m' = md_Config m"
  by (auto simp: start_grpc_def split: if_splits sum.splits)

text \<open>What holds of the service a process has started with.\<close>

lemma migd_start_rule:
  assumes "migd_start env connect openlog r subscribe listen = Inr m"
    and new: "\<And>opts s. NewServiceWithOptions connect openlog opts = Inr s \<Longrightarrow> P s"
    and step: "\<And>s. P s \<Longrightarrow> P (SetMetrics (Some NewMetrics) s)" "\<And>s. P s \<Longrightarrow> P (fst (StartNATSBinding r subscribe s))"
  shows "P (md_Service m)" "config_ok (md_Config m)"
proof -
  from assms(1) obtain cfg svc where cfg: "ConfigFromEnv env = Inr cfg"
    and svc: "NewServiceWithOptions connect openlog
                \<lparr>so_NATSURL = cfg_NATSURL cfg, so_AuditLogPath = cfg_AuditLogPath cfg\<rparr> = Inr svc"
    by (auto simp: migd_start_def split: sum.splits)
  define m0 where "m0 = \<lparr>md_Config = cfg,
      md_Service = (if cfg_EnableMetrics cfg then SetMetrics (Some NewMetrics) svc else svc),
      md_NATS = False, md_GRPC = False, md_Log = [banner cfg]\<rparr>"
  from assms(1) obtain m1 where m1: "start_nats r subscribe m0 = Inr m1" "start_grpc listen m1 = Inr m"
    unfolding migd_start_def cfg sum.case svc Let_def m0_def [symmetric] by (auto split: sum.splits)
  have "P (md_Service m0)"
    using new [OF svc] step(1) by (simp add: m0_def)
  with step(2) start_nats_service [OF m1(1)] start_grpc_service [OF m1(2)] ConfigFromEnv_ok [OF cfg]
  show "P (md_Service m)" "config_ok (md_Config m)"
    by (auto simp: m0_def)
qed

lemma migd_start_reachable:
  assumes "migd_start env connect openlog r subscribe listen = Inr m"
  shows "reachable (fresh_system (md_Service m))"
  using assms
proof (rule migd_start_rule)
  fix opts s
  assume "NewServiceWithOptions connect openlog opts = Inr s"
  then have "sys_init (fresh_system s)"
    unfolding sys_init_def fresh_system_def by auto
  then show "reachable (fresh_system s)"
    unfolding reachable_def by (intro exI [of _ "fresh_system s"] exI [of _ "[]"]) simp
next
  fix s
  assume s: "reachable (fresh_system s)"
  show "reachable (fresh_system (SetMetrics (Some NewMetrics) s))"
    using reachable_call [OF s, of "SSetMetrics (Some NewMetrics)"] by simp
  show "reachable (fresh_system (fst (StartNATSBinding r subscribe s)))"
    using reachable_call [OF s, of "SStartNATS r subscribe"] by simp
qed

subsection \<open>Properties\<close>


definition demo_env :: environ where
  "demo_env k = (if k = ''MIGD_AUTH_MODE'' then '' JWT ''
     else if k = ''MIGD_JWT_HS256_SECRET'' then ''secret''
     else if k = ''MIGD_NATS_URL'' then ''nats://localhost:4222''
     else if k = ''MIGD_GRPC_ADDR'' then '':9090'' else [])"

definition demo_migd :: Migd where
  "demo_migd = projr (migd_start demo_env (\<lambda>_. None) (\<lambda>_. None) demo_rt (\<lambda>_. None) (\<lambda>_. None))"

definition demo_requests :: "migd_request list" where
  "demo_requests =
    [OverHttp (demo_rt, SelResult, demo_bodies, demo_session, demo_http ''Bearer good''),
     OverGrpc (demo_rt, [(''authorization'', [''Bearer good''])], GInvoke SelResult demo_pbinvoke),
     OverNats (demo_rt, NInvoke SelResult nats_demo_invoke)]"


end
