(* ===== verification/Mig_Mcp.thy ===== *)
theory Mig_Mcp
  imports Mig_Json
begin

text \<open>
  The MCP adapter, \<^verbatim>\<open>adapters/mcp\<close>: the manifest that maps MCP tools to capabilities, and the JSON-RPC
  server that turns MCP calls into requests to a gateway.

  The file system and the YAML library are arguments of \<open>LoadManifest\<close>. The gateway the adapter talks to
  is an argument of its handlers, a function from the request posted and the gateway's state to the
  new state and what came back: an error of the transport, or a status, the body and what decoding
  the body gives. Printing a JSON value is the argument \<open>marshal\<close>.
\<close>

subsection \<open>The manifest\<close>

record ToolMapping =
  tm_MCPName :: string
  tm_MIGCapability :: string
  tm_Mode :: string
  tm_TimeoutMS :: int
  tm_PolicyTags :: "string list"
  tm_BillingTier :: string

record ResourceMapping =
  rm_MCPURIPattern :: string
  rm_MIGCapability :: string
  rm_Mode :: string

record PromptMapping =
  pm_MCPName :: string
  pm_MIGCapability :: string
  pm_Mode :: string

record MappingGroup =
  mg_Tools :: "ToolMapping list"
  mg_Resources :: "ResourceMapping list"
  mg_Prompts :: "PromptMapping list"

record ManifestPolicy =
  mp_AllowStreamingTools :: bool
  mp_EmitEventNotifications :: bool
  mp_RequireTraceparent :: bool
  mp_TenantResolution :: string

record ManifestBilling =
  mb_Meter :: string
  mb_UsageScope :: string

record Manifest =
  mf_Version :: string
  mf_SchemaVersion :: string
  mf_DefaultBinding :: string
  mf_Mappings :: MappingGroup
  mf_Policy :: ManifestPolicy
  mf_Billing :: "ManifestBilling option"

definition LoadManifest ::
    "(string \<Rightarrow> (string, 'c) res) \<Rightarrow> ('c \<Rightarrow> (string, Manifest) res) \<Rightarrow> string \<Rightarrow> (string, Manifest) res" where
  "LoadManifest readFile unmarshal path =
    (case readFile path of
       Inl e \<Rightarrow> Inl (''read manifest: '' @ e)
     | Inr content \<Rightarrow>
         case unmarshal content of
           Inl e \<Rightarrow> Inl (''decode manifest: '' @ e)
         | Inr m \<Rightarrow>
             let m = (if mf_Version m = [] then m\<lparr>mf_Version := ''0.1''\<rparr> else m);
                 m = (if mf_DefaultBinding m = [] then m\<lparr>mf_DefaultBinding := ''http''\<rparr> else m);
                 m = (if mf_SchemaVersion m = [] then m\<lparr>mf_SchemaVersion := ''0.1''\<rparr> else m)
             in Inr m)"

fun find_tool :: "ToolMapping list \<Rightarrow> string \<Rightarrow> ToolMapping option" where
  "find_tool [] name = None"
| "find_tool (t # ts) name = (if tm_MCPName t = name then Some t else find_tool ts name)"

definition CapabilityForTool :: "Manifest \<Rightarrow> string \<Rightarrow> ToolMapping option" where
  "CapabilityForTool m name = find_tool (mg_Tools (mf_Mappings m)) name"

subsection \<open>The adapter\<close>

record Adapter =
  ad_manifest :: Manifest
  ad_baseURL :: string
  ad_token :: string
  ad_tenantID :: string

definition NewAdapter :: "string \<Rightarrow> Manifest \<Rightarrow> Adapter" where
  "NewAdapter baseURL manifest =
    \<lparr>ad_manifest = manifest, ad_baseURL = TrimRight baseURL (CHR ''/''), ad_token = [], ad_tenantID = []\<rparr>"

definition SetBearerToken :: "string \<Rightarrow> Adapter \<Rightarrow> Adapter" where
  "SetBearerToken token a = a\<lparr>ad_token := TrimSpace token\<rparr>"

definition SetTenantID :: "string \<Rightarrow> Adapter \<Rightarrow> Adapter" where
  "SetTenantID tenantID a = a\<lparr>ad_tenantID := TrimSpace tenantID\<rparr>"

text \<open>The adapter the command starts, or the message it dies with.\<close>

definition mcp_start ::
    "(string \<Rightarrow> (string, 'c) res) \<Rightarrow> ('c \<Rightarrow> (string, Manifest) res) \<Rightarrow> string \<Rightarrow> string \<Rightarrow> string \<Rightarrow> string \<Rightarrow> (string, Adapter) res" where
  "mcp_start readFile unmarshal manifestPath migURL migToken tenantID =
    (case LoadManifest readFile unmarshal manifestPath of
       Inl e \<Rightarrow> Inl (''failed to load manifest: '' @ e)
     | Inr manifest \<Rightarrow> Inr (SetTenantID tenantID (SetBearerToken migToken (NewAdapter migURL manifest))))"

subsection \<open>Posting to the gateway\<close>

record post =
  po_URL :: string
  po_Header :: "(string, string) gomap"
  po_Body :: json

datatype posted = PostFailed string | PostReplied int string "(string, json) res"

type_synonym 's gateway = "post \<Rightarrow> 's \<Rightarrow> 's \<times> posted"

record rpcError =
  je_Code :: int
  je_Message :: string
  je_Data :: "string option"

definition rpc_error :: "int \<Rightarrow> string \<Rightarrow> string option \<Rightarrow> rpcError" where
  "rpc_error code msg d = \<lparr>je_Code = code, je_Message = msg, je_Data = d\<rparr>"

text \<open>
  The request values are built from JSON values, so encoding them cannot fail. \<open>bad_url\<close> is the error of
  making a request for a URL, if any; \<open>decode\<close> reads the reply into the destination.
\<close>

definition postJSON ::
    "(string \<Rightarrow> string option) \<Rightarrow> 's gateway \<Rightarrow> Adapter \<Rightarrow> string \<Rightarrow> json \<Rightarrow> (json \<Rightarrow> (string, 'd) res) \<Rightarrow> 's \<Rightarrow>
     's \<times> (rpcError, 'd) res" where
  "postJSON bad_url gw a path reqBody decode s =
    (case bad_url (ad_baseURL a @ path) of
       Some e \<Rightarrow> (s, Inl (rpc_error (- 32603) ''create request failed'' (Some e)))
     | None \<Rightarrow>
         let header = [(''Content-Type'', ''application/json'')] @
               (if ad_token a \<noteq> [] then [(''Authorization'', ''Bearer '' @ ad_token a)] else []) @
               (if ad_tenantID a \<noteq> [] then [(''X-Tenant-ID'', ad_tenantID a)] else [])
         in case gw \<lparr>po_URL = ad_baseURL a @ path, po_Header = header, po_Body = reqBody\<rparr> s of
              (s, PostFailed e) \<Rightarrow> (s, Inl (rpc_error (- 32011) ''backend unavailable'' (Some e)))
            | (s, PostReplied status text parsed) \<Rightarrow>
                if status \<ge> 400 then (s, Inl (rpc_error (- 32603) ''mig backend error'' (Some text)))
                else case (case parsed of Inl e \<Rightarrow> Inl e | Inr j \<Rightarrow> decode j) of
                  Inl e \<Rightarrow> (s, Inl (rpc_error (- 32603) ''decode backend response failed'' (Some e)))
                | Inr d \<Rightarrow> (s, Inr d))"

subsection \<open>JSON-RPC\<close>

text \<open>\<open>jq_Params\<close> is what decoding the parameters of a tool call gives: its name and arguments, or an error.\<close>

record rpcRequest =
  jq_JSONRPC :: string
  jq_ID :: json
  jq_Method :: string
  jq_Params :: "(string \<times> jmap) option"

record rpcResponse =
  jp_JSONRPC :: string
  jp_ID :: json
  jp_Result :: "json option"
  jp_Error :: "rpcError option"

definition mcp_header :: jobject where
  "mcp_header = [(''mig_version'', JStr ''0.1''), (''tenant_id'', JStr ''mcp-adapter'')]"

definition helloRequest :: "string \<Rightarrow> json" where
  "helloRequest binding =
    JObj [(''header'', JObj mcp_header), (''supported_versions'', JStrs [''0.1'']),
          (''requested_bindings'', JStrs [binding]), (''requested_features'', JStrs [''mcp-bridge''])]"

definition discoverRequest :: json where
  "discoverRequest = JObj [(''header'', JObj mcp_header)]"

definition invokeRequest :: "string \<Rightarrow> jmap \<Rightarrow> json" where
  "invokeRequest capability arguments =
    JObj [(''header'', JObj (mcp_header @ [(''meta'', JObj [(''idg.product_tier'', JStr ''core''),
             (''idg.meter_key'', JStr ''invocations_capability_tier'')])])),
          (''capability'', JStr capability), (''payload'', jmap_json arguments), (''stream_preference'', JStr [])]"

definition decode_object :: "json \<Rightarrow> (string, jmap) res" where
  "decode_object j = (case j of JObj es \<Rightarrow> Inr (Some es) | JNull \<Rightarrow> Inr None | _ \<Rightarrow> Inl cannot_decode)"

definition decode_payload :: "json \<Rightarrow> (string, jmap) res" where
  "decode_payload j =
    (case j of
       JObj es \<Rightarrow> (case read_map es ''payload'' of None \<Rightarrow> Inl cannot_decode | Some p \<Rightarrow> Inr p)
     | JNull \<Rightarrow> Inr None
     | _ \<Rightarrow> Inl cannot_decode)"

fun ids_ok :: "json list \<Rightarrow> bool" where
  "ids_ok [] \<longleftrightarrow> True"
| "ids_ok (JObj es # js) \<longleftrightarrow> read_str es ''id'' \<noteq> None \<and> ids_ok js"
| "ids_ok (JNull # js) \<longleftrightarrow> ids_ok js"
| "ids_ok (_ # js) \<longleftrightarrow> False"

definition decode_capabilities :: "json \<Rightarrow> (string, unit) res" where
  "decode_capabilities j =
    (case j of
       JObj es \<Rightarrow>
         (case map_of es ''capabilities'' of
            None \<Rightarrow> Inr ()
          | Some JNull \<Rightarrow> Inr ()
          | Some (JArr js) \<Rightarrow> if ids_ok js then Inr () else Inl cannot_decode
          | Some _ \<Rightarrow> Inl cannot_decode)
     | JNull \<Rightarrow> Inr ()
     | _ \<Rightarrow> Inl cannot_decode)"

definition handleInitialize ::
    "(string \<Rightarrow> string option) \<Rightarrow> 's gateway \<Rightarrow> Adapter \<Rightarrow> 's \<Rightarrow> 's \<times> (rpcError, json) res" where
  "handleInitialize bad_url gw a s =
    (case postJSON bad_url gw a ''/mig/v0.1/hello'' (helloRequest (mf_DefaultBinding (ad_manifest a))) decode_object s of
       (s, Inl e) \<Rightarrow> (s, Inl e)
     | (s, Inr migResp) \<Rightarrow>
         (s, Inr (JObj [(''protocolVersion'', JStr ''2024-11-05''),
                        (''capabilities'', JObj [(''tools'', JObj [])]),
                        (''serverInfo'', JObj [(''name'', JStr ''mcp-mig-adapter''), (''version'', JStr ''0.1.0'')]),
                        (''mig'', jmap_json migResp)])))"

definition tool_json :: "ToolMapping \<Rightarrow> json" where
  "tool_json t =
    JObj [(''name'', JStr (tm_MCPName t)), (''description'', JStr (''MIG capability '' @ tm_MIGCapability t)),
          (''inputSchema'', JObj [(''type'', JStr ''object'')])]"

definition handleToolsList ::
    "(string \<Rightarrow> string option) \<Rightarrow> 's gateway \<Rightarrow> Adapter \<Rightarrow> 's \<Rightarrow> 's \<times> (rpcError, json) res" where
  "handleToolsList bad_url gw a s =
    (case postJSON bad_url gw a ''/mig/v0.1/discover'' discoverRequest decode_capabilities s of
       (s, Inl e) \<Rightarrow> (s, Inl e)
     | (s, Inr _) \<Rightarrow>
         (s, Inr (JObj [(''tools'', JArr (map tool_json (mg_Tools (mf_Mappings (ad_manifest a)))))])))"

definition handleToolsCall ::
    "(json \<Rightarrow> string) \<Rightarrow> (string \<Rightarrow> string option) \<Rightarrow> 's gateway \<Rightarrow> Adapter \<Rightarrow> rpcRequest \<Rightarrow> 's \<Rightarrow> 's \<times> (rpcError, json) res" where
  "handleToolsCall marshal bad_url gw a req s =
    (case jq_Params req of
       None \<Rightarrow> (s, Inl (rpc_error (- 32602) ''invalid params'' None))
     | Some (name, arguments) \<Rightarrow>
         case CapabilityForTool (ad_manifest a) name of
           None \<Rightarrow> (s, Inl (rpc_error (- 32601) ''tool not mapped'' None))
         | Some mapping \<Rightarrow>
             case postJSON bad_url gw a (''/mig/v0.1/invoke/'' @ tm_MIGCapability mapping)
                    (invokeRequest (tm_MIGCapability mapping) arguments) decode_payload s of
               (s, Inl e) \<Rightarrow> (s, Inl e)
             | (s, Inr payload) \<Rightarrow>
                 (s, Inr (JObj [(''content'', JArr [JObj [(''type'', JStr ''text''), (''text'', JStr (marshal (jmap_json payload)))]]),
                                (''isError'', JBool False)])))"

definition buildRPCResponse :: "rpcRequest \<Rightarrow> (rpcError, json) res \<Rightarrow> rpcResponse" where
  "buildRPCResponse req res =
    (case res of
       Inl e \<Rightarrow> \<lparr>jp_JSONRPC = ''2.0'', jp_ID = jq_ID req, jp_Result = None, jp_Error = Some e\<rparr>
     | Inr result \<Rightarrow> \<lparr>jp_JSONRPC = ''2.0'', jp_ID = jq_ID req, jp_Result = Some result, jp_Error = None\<rparr>)"

record rpcReply =
  rr_Status :: int
  rr_ContentType :: string
  rr_Body :: rpcResponse

definition writeRPC :: "int \<Rightarrow> rpcResponse \<Rightarrow> rpcReply" where
  "writeRPC status resp = \<lparr>rr_Status = status, rr_ContentType = ''application/json'', rr_Body = resp\<rparr>"

definition mcp_ServeHTTP ::
    "(json \<Rightarrow> string) \<Rightarrow> (string \<Rightarrow> string option) \<Rightarrow> 's gateway \<Rightarrow> Adapter \<Rightarrow> string \<Rightarrow> rpcRequest option \<Rightarrow> 's \<Rightarrow>
     's \<times> rpcReply" where
  "mcp_ServeHTTP marshal bad_url gw a httpMethod body s =
    (if httpMethod \<noteq> ''POST''
     then (s, writeRPC 405 \<lparr>jp_JSONRPC = ''2.0'', jp_ID = JNull, jp_Result = None,
                    jp_Error = Some (rpc_error (- 32600) ''POST required'' None)\<rparr>)
     else case body of
       None \<Rightarrow> (s, writeRPC 400 \<lparr>jp_JSONRPC = ''2.0'', jp_ID = JNull, jp_Result = None,
                         jp_Error = Some (rpc_error (- 32700) ''parse error'' None)\<rparr>)
     | Some req \<Rightarrow>
         let req = (if jq_JSONRPC req = [] then req\<lparr>jq_JSONRPC := ''2.0''\<rparr> else req);
             (s, resp) =
               (if jq_Method req = ''initialize'' then map_prod id (buildRPCResponse req) (handleInitialize bad_url gw a s)
                else if jq_Method req = ''tools/list'' then map_prod id (buildRPCResponse req) (handleToolsList bad_url gw a s)
                else if jq_Method req = ''tools/call''
                then map_prod id (buildRPCResponse req) (handleToolsCall marshal bad_url gw a req s)
                else (s, \<lparr>jp_JSONRPC = ''2.0'', jp_ID = jq_ID req, jp_Result = None,
                          jp_Error = Some (rpc_error (- 32601) ''method not found'' None)\<rparr>))
         in (s, writeRPC 200 resp))"

end
