(* ===== verification/Mig_Client.thy ===== *)
theory Mig_Client
  imports Mig_Mcp
begin

text \<open>
  The Go client, \<^verbatim>\<open>sdk/go/migclient/client.go\<close>, over the same view of a gateway as the MCP adapter: posting a request
  and reading the reply into the fields the client knows.
\<close>

record Client =
  cl_baseURL :: string

definition client_New :: "string \<Rightarrow> Client" where
  "client_New baseURL = \<lparr>cl_baseURL = TrimRight baseURL (CHR ''/'')\<rparr>"

record ClientHeader =
  ch_MIGVersion :: string
  ch_MessageID :: string
  ch_Timestamp :: string
  ch_TenantID :: string

record ClientHelloRequest =
  chq_Header :: ClientHeader
  chq_SupportedVersions :: "string list"
  chq_RequestedBindings :: "string list"

record ClientHelloResponse =
  chp_SelectedVersion :: string
  chp_SelectedBinding :: string

record ClientDiscoverRequest =
  cdq_Header :: ClientHeader
  cdq_Query :: string

record ClientCapability =
  cc_ID :: string
  cc_Version :: string
  cc_Modes :: "string list"

record ClientInvokeRequest =
  ciq_Header :: ClientHeader
  ciq_Capability :: string
  ciq_Payload :: jmap

record ClientInvokeResponse =
  cip_Capability :: string
  cip_Payload :: jmap

definition client_header_json :: "ClientHeader \<Rightarrow> json" where
  "client_header_json h =
    JObj ([(''mig_version'', JStr (ch_MIGVersion h))] @ opt_str ''message_id'' (ch_MessageID h) @
          opt_str ''timestamp'' (ch_Timestamp h) @ [(''tenant_id'', JStr (ch_TenantID h))])"

text \<open>A nil slice is encoded as null.\<close>

definition strings_json :: "string list \<Rightarrow> json" where
  "strings_json xs = (if xs = [] then JNull else JStrs xs)"

definition client_post ::
    "(string \<Rightarrow> string option) \<Rightarrow> 's gateway \<Rightarrow> Client \<Rightarrow> string \<Rightarrow> json \<Rightarrow> (json \<Rightarrow> (string, 'd) res) \<Rightarrow> 's \<Rightarrow>
     's \<times> (string, 'd) res" where
  "client_post bad_url gw c path reqBody decode s =
    (case bad_url (cl_baseURL c @ path) of
       Some e \<Rightarrow> (s, Inl (''create request: '' @ e))
     | None \<Rightarrow>
         case gw \<lparr>po_URL = cl_baseURL c @ path, po_Header = [(''Content-Type'', ''application/json'')],
                  po_Body = reqBody\<rparr> s of
           (s, PostFailed e) \<Rightarrow> (s, Inl (''request failed: '' @ e))
         | (s, PostReplied status text parsed) \<Rightarrow>
             if status \<ge> 400
             then (s, Inl (''request failed with status '' @ show_int status @ '': '' @ text))
             else case (case parsed of Inl e \<Rightarrow> Inl e | Inr j \<Rightarrow> decode j) of
               Inl e \<Rightarrow> (s, Inl (''decode response: '' @ e))
             | Inr d \<Rightarrow> (s, Inr d))"

definition decode_hello :: "json \<Rightarrow> (string, ClientHelloResponse) res" where
  "decode_hello j =
    (case j of
       JNull \<Rightarrow> Inr \<lparr>chp_SelectedVersion = [], chp_SelectedBinding = []\<rparr>
     | JObj es \<Rightarrow>
         (case (read_str es ''selected_version'', read_str es ''selected_binding'') of
            (Some v, Some b) \<Rightarrow> Inr \<lparr>chp_SelectedVersion = v, chp_SelectedBinding = b\<rparr>
          | _ \<Rightarrow> Inl cannot_decode)
     | _ \<Rightarrow> Inl cannot_decode)"

fun decode_caps :: "json list \<Rightarrow> ClientCapability list option" where
  "decode_caps [] = Some []"
| "decode_caps (JNull # js) = map_option ((#) \<lparr>cc_ID = [], cc_Version = [], cc_Modes = []\<rparr>) (decode_caps js)"
| "decode_caps (JObj es # js) =
    (case (read_str es ''id'', read_str es ''version'', read_list es ''modes'', decode_caps js) of
       (Some i, Some v, Some ms, Some cs) \<Rightarrow> Some (\<lparr>cc_ID = i, cc_Version = v, cc_Modes = ms\<rparr> # cs)
     | _ \<Rightarrow> None)"
| "decode_caps (_ # js) = None"

definition decode_discover :: "json \<Rightarrow> (string, ClientCapability list) res" where
  "decode_discover j =
    (case j of
       JNull \<Rightarrow> Inr []
     | JObj es \<Rightarrow>
         (case map_of es ''capabilities'' of
            None \<Rightarrow> Inr []
          | Some JNull \<Rightarrow> Inr []
          | Some (JArr js) \<Rightarrow> (case decode_caps js of None \<Rightarrow> Inl cannot_decode | Some cs \<Rightarrow> Inr cs)
          | Some _ \<Rightarrow> Inl cannot_decode)
     | _ \<Rightarrow> Inl cannot_decode)"

definition decode_invoke :: "json \<Rightarrow> (string, ClientInvokeResponse) res" where
  "decode_invoke j =
    (case j of
       JNull \<Rightarrow> Inr \<lparr>cip_Capability = [], cip_Payload = None\<rparr>
     | JObj es \<Rightarrow>
         (case (read_str es ''capability'', read_map es ''payload'') of
            (Some c, Some p) \<Rightarrow> Inr \<lparr>cip_Capability = c, cip_Payload = p\<rparr>
          | _ \<Rightarrow> Inl cannot_decode)
     | _ \<Rightarrow> Inl cannot_decode)"

definition client_Hello ::
    "(string \<Rightarrow> string option) \<Rightarrow> 's gateway \<Rightarrow> Client \<Rightarrow> ClientHelloRequest \<Rightarrow> 's \<Rightarrow> 's \<times> (string, ClientHelloResponse) res" where
  "client_Hello bad_url gw c req =
    client_post bad_url gw c ''/mig/v0.1/hello''
      (JObj [(''header'', client_header_json (chq_Header req)), (''supported_versions'', strings_json (chq_SupportedVersions req)),
             (''requested_bindings'', strings_json (chq_RequestedBindings req))]) decode_hello"

definition client_Discover ::
    "(string \<Rightarrow> string option) \<Rightarrow> 's gateway \<Rightarrow> Client \<Rightarrow> ClientDiscoverRequest \<Rightarrow> 's \<Rightarrow> 's \<times> (string, ClientCapability list) res" where
  "client_Discover bad_url gw c req =
    client_post bad_url gw c ''/mig/v0.1/discover''
      (JObj ([(''header'', client_header_json (cdq_Header req))] @ opt_str ''query'' (cdq_Query req))) decode_discover"

definition client_Invoke ::
    "(string \<Rightarrow> string option) \<Rightarrow> 's gateway \<Rightarrow> Client \<Rightarrow> string \<Rightarrow> ClientInvokeRequest \<Rightarrow> 's \<Rightarrow> 's \<times> (string, ClientInvokeResponse) res" where
  "client_Invoke bad_url gw c capability req =
    client_post bad_url gw c (''/mig/v0.1/invoke/'' @ capability)
      (JObj ([(''header'', client_header_json (ciq_Header req))] @ opt_str ''capability'' (ciq_Capability req) @
             [(''payload'', jmap_json (ciq_Payload req))])) decode_invoke"

end
