(* ===== verification/Mig_Wire.thy ===== *)
theory Mig_Wire
  imports Mig_Json Mig_Http_Props
begin

text \<open>
  The HTTP server of \<open>Mig_Http\<close> seen from the wire: what its handlers decode from a request body, and
  what a client reads of a response. Responses that are not JSON, the console and event streams among
  them, do not parse. The lemmas follow a request through routing and middleware to its handler, and an
  invocation to its audit record.
\<close>

definition to_body :: "'a option \<Rightarrow> 'a body" where
  "to_body x = (case x of None \<Rightarrow> BadJSON cannot_decode | Some v \<Rightarrow> Decoded v)"

text \<open>
  The HTTP server refuses fields that the struct does not have, those of nested structs included; the
  NATS binding ignores them. A field is known by the name of its tag, spelled as there.
\<close>

definition only :: "string list \<Rightarrow> jobject \<Rightarrow> bool" where
  "only ks es \<longleftrightarrow> list_all (\<lambda>(k, _). k \<in> set ks) es"

definition shape :: "(jobject \<Rightarrow> bool) \<Rightarrow> json \<Rightarrow> bool" where
  "shape ok j \<longleftrightarrow> (case j of JObj es \<Rightarrow> ok es | _ \<Rightarrow> True)"

definition nested :: "string \<Rightarrow> (jobject \<Rightarrow> bool) \<Rightarrow> jobject \<Rightarrow> bool" where
  "nested k ok es \<longleftrightarrow> (case map_of es k of None \<Rightarrow> True | Some j \<Rightarrow> shape ok j)"

definition header_names :: "string list" where
  "header_names =
    [''mig_version'', ''message_id'', ''timestamp'', ''tenant_id'', ''session_id'', ''traceparent'', ''idempotency_key'',
     ''deadline_ms'', ''meta'']"

definition message_shape :: "string list \<Rightarrow> json \<Rightarrow> bool" where
  "message_shape ks = shape (\<lambda>es. only (''header'' # ks) es \<and> nested ''header'' (only header_names) es)"

definition descriptor_only :: "jobject \<Rightarrow> bool" where
  "descriptor_only es \<longleftrightarrow>
    only [''id'', ''version'', ''modes'', ''input_schema_uri'', ''output_schema_uri'', ''event_topics'', ''auth_scopes'', ''qos''] es \<and>
    nested ''qos'' (only [''max_payload_bytes'', ''supports_replay'', ''delivery_semantics'', ''supports_ordering'']) es"

definition strict :: "(json \<Rightarrow> bool) \<Rightarrow> (json \<Rightarrow> 'a option) \<Rightarrow> json \<Rightarrow> 'a body" where
  "strict ok decode j = (if ok j then to_body (decode j) else BadJSON ''json: unknown field'')"

definition bodies_of_json :: "json \<Rightarrow> Bodies" where
  "bodies_of_json j =
    \<lparr>b_Hello = strict (message_shape [''supported_versions'', ''requested_bindings'', ''requested_features'']) hello_of_json j,
     b_Discover = strict (message_shape [''query'', ''include_schema_refs'', ''include_qos'']) discover_of_json j,
     b_Invoke = strict (message_shape [''capability'', ''payload'', ''stream_preference'']) invoke_of_json j,
     b_Publish = strict (message_shape [''topic'', ''key'', ''payload'']) publish_of_json j,
     b_Cancel = strict (message_shape [''target_message_id'', ''reason'']) cancel_of_json j,
     b_Heartbeat = strict (message_shape [''interval_ms'']) heartbeat_of_json j,
     b_Capability = strict (shape (\<lambda>es. only [''descriptor''] es \<and> nested ''descriptor'' descriptor_only es)) capability_of_json j,
     b_Schema = strict (shape (only [''uri'', ''schema''])) schema_of_json j,
     b_Policy = strict (shape (only [''tenant_id'', ''capability'', ''action''])) policy_of_json j,
     b_Quota = strict (shape (only [''tenant_id'', ''max_invocations''])) quota_of_json j,
     b_Org = strict (shape (only [''id'', ''name''])) org_of_json j,
     b_Tenant = strict (shape (only [''id'', ''org_id'', ''name''])) tenant_of_json j,
     b_Gateway = strict (shape (only [''id'', ''tenant_id'', ''region'', ''binding''])) gateway_of_json j\<rparr>"

lemmas shape_defs = message_shape_def shape_def only_def nested_def header_names_def

definition reply_json :: "payload \<Rightarrow> (string, json) res" where
  "reply_json p =
    (case p of
       PHello x \<Rightarrow> Inr (rejson (hello_json x))
     | PDiscover x \<Rightarrow> Inr (rejson (discover_json x))
     | PInvoke x \<Rightarrow> Inr (rejson (invoke_json x))
     | PPublish x \<Rightarrow> Inr (rejson (publish_ack_json x))
     | PCancel x \<Rightarrow> Inr (rejson (cancel_ack_json x))
     | PHeartbeat x \<Rightarrow> Inr (rejson (heartbeat_ack_json x))
     | PError x \<Rightarrow> Inr (rejson (envelope_json x))
     | PErrorMessage m \<Rightarrow> Inr (JObj [(''error'', JStr m)])
     | PDescriptor x \<Rightarrow> Inr (rejson (capability_json x))
     | PCapabilities xs \<Rightarrow> Inr (rejson (JObj [(''capabilities'', JArr (map capability_json xs))]))
     | PUri u \<Rightarrow> Inr (JObj [(''uri'', JStr u)])
     | PHealth x \<Rightarrow> Inr (health_json x)
     | PConnections x \<Rightarrow> Inr (rejson (connections_json x))
     | PPolicy x \<Rightarrow> Inr (policy_json x)
     | PQuota x \<Rightarrow> Inr (quota_json x)
     | PRecords xs \<Rightarrow> Inr (JObj [(''records'', JArr (map audit_json xs))])
     | POrg x \<Rightarrow> Inr (org_json x)
     | PTenant x \<Rightarrow> Inr (cloud_tenant_json x)
     | PGateway x \<Rightarrow> Inr (gateway_json x)
     | PUsage x \<Rightarrow> Inr (usage_json x)
     | _ \<Rightarrow> Inl cannot_decode)"

text \<open>A session for requests that do not stream.\<close>

definition quiet_session :: Session where
  "quiet_session = \<lparr>k_env = id, k_writer = server_writer, k_oks = [], k_sse = [], k_refused = None, k_ws = []\<rparr>"

subsection \<open>Requests that reach a handler\<close>

lemma invoke_route:
  assumes "c \<noteq> []" and "CHR ''/'' \<notin> set c"
  shows "find_route metrics ''POST'' (''/mig/v0.1/invoke/'' @ c) = Routed RInvoke [c]"
proof -
  have "split_on (CHR ''/'') (''mig/v0.1/invoke/'' @ c) = [''mig'', ''v0.1'', ''invoke'', c]"
    using split_on_append [of "CHR ''/''" "''mig''" "''v0.1/invoke/'' @ c"]
      split_on_append [of "CHR ''/''" "''v0.1''" "''invoke/'' @ c"]
      split_on_append [of "CHR ''/''" "''invoke''" c] split_on_no_delim [OF assms(2)] by simp
  then have segs: "path_segments (''/mig/v0.1/invoke/'' @ c) = [''mig'', ''v0.1'', ''invoke'', c]"
    by (simp add: path_segments_def TrimPrefix_def)
  show ?thesis
    using assms(1) unfolding find_route_def segs Let_def mux_routes_def http_routes_def
    by (simp add: match_method_def)
qed

lemma gateway_routed:
  assumes "principalFromRequest jwt hr cfg = Inr p" and "\<not> HasPrefix (r_Path hr) ''/ui''"
    and mux: "\<And>k'. serve_mux r sel metrics b k' (Some p) hr s = Some (s1, resp)"
  shows "\<exists>s'. http_gateway jwt r sel cfg metrics b k None hr s = Some (s', resp) \<and> same_but_metrics s1 s'"
proof -
  have a: "authMiddleware jwt r cfg (serve_mux r sel metrics b k') None hr s = Some (s1, resp)" for k'
    using assms by (simp add: authMiddleware_def)
  show ?thesis
  proof (cases metrics)
    case True
    with a show ?thesis
      by (auto simp: http_gateway_def Middleware_def Let_def same_but_metrics_def)
  next
    case False
    with a show ?thesis
      by (simp add: http_gateway_def Let_def)
  qed
qed

lemma same_but_metrics_audit: "same_but_metrics s s' \<Longrightarrow> s_audit s' = s_audit s"
  by (auto simp: same_but_metrics_def)

text \<open>The message identifier an invocation runs under.\<close>

definition effective_id :: "rt \<Rightarrow> MessageHeader \<Rightarrow> string" where
  "effective_id r h = (if h_MessageID h = [] then newMessageID (rt_rand r 0) else h_MessageID h)"

lemma prepare_effective_id: "prepare r h = Inr head \<Longrightarrow> h_MessageID head = effective_id r h"
  by (auto simp: effective_id_def prepare_def Normalize_def Let_def split: sum.splits if_splits)

definition open_to :: "rt \<Rightarrow> Service \<Rightarrow> MessageHeader \<Rightarrow> string \<Rightarrow> bool" where
  "open_to r s h c \<longleftrightarrow>
    h_TenantID h \<notin> {[], ''unknown''} \<and> h_MIGVersion h \<in> {[], ''0.1''} \<and> h_IdempotencyKey h = [] \<and>
    c \<noteq> [] \<and> map_of (s_capabilities s) c \<noteq> None \<and>
    map_of (s_cancelled s) (effective_id r h) = None \<and> \<not> over_quota s (h_TenantID h)"

lemma handleInvoke_open:
  assumes "p_TenantID p \<in> {[], h_TenantID (iq_Header req)}" and scopes: "\<And>d. map_of (s_capabilities s) c = Some d \<Longrightarrow> HasAnyScope p (c_AuthScopes d)"
    and ok: "open_to r s (iq_Header req) c"
  obtains s1 q where "handleInvoke r SelResult (Some p) hr c (Decoded req) s = (s1, writeJSON 200 (PInvoke (response_of q)))"
    "pd_Capability q = c" "pd_Payload q = iq_Payload req"
    "s_audit s1 = s_audit s @ [audit_of r q]" "a_TenantID (audit_of r q) = h_TenantID (iq_Header req)" "a_Capability (audit_of r q) = c"
proof -
  let ?h = "annotate_principal p (iq_Header req)"
  let ?req = "req\<lparr>iq_Header := ?h\<rparr>"
  from ok obtain d where d: "map_of (s_capabilities s) c = Some d" and c: "c \<noteq> []"
    by (auto simp: open_to_def)
  have ap: "applyPrincipalHeader (iq_Header req) p hr = (?h, None)"
    using assms(1) ok by (auto simp: applyPrincipalHeader_def open_to_def Let_def)
  have "\<not> is_err (prepare r ?h)"
    unfolding prepare_error_iff using ok by (auto simp: open_to_def MIGVersion_def)
  then obtain head where head: "prepare r (iq_Header ?req) = Inr head"
    by (cases "prepare r ?h") auto
  have hd: "h_TenantID head = h_TenantID (iq_Header req)" "h_IdempotencyKey head = []" "h_MessageID head = effective_id r (iq_Header req)"
    using prepare_ok(2,3) [OF head] prepare_effective_id [OF head] ok by (simp_all add: open_to_def effective_id_def)
  have tc: "target_capability c ?req = c"
    using c by (simp add: target_capability_def)
  have au: "authorized s head (target_capability c ?req) p d"
    using d c hd(3) ok scopes by (simp add: authorized_def tc open_to_def)
  have "replay_of s head (target_capability c ?req) = None" "\<not> over_quota s (h_TenantID head)"
    using ok hd by (simp_all add: replay_of_def open_to_def)
  then obtain q where inv: "Invoke r SelResult s c ?req (http_actor p hr) p = (committed r q s, Inr (response_of q))"
    and q: "pd_Header q = head" "pd_Capability q = c" "pd_Payload q = iq_Payload ?req"
    using Invoke_accepted [OF head au] unfolding tc by blast
  show thesis
    using ap inv q hd(1)
    by (intro that [of "committed r q s" q]) (simp_all add: handleInvoke_def principalFromContext_def decodeJSON_def)
qed

end
