(* ===== verification/Mig_Clients_Props.thy ===== *)
theory Mig_Clients_Props
  imports Mig_Client Mig_Wire
begin

text \<open>
  The clients against a gateway: the MCP adapter and the Go client post to the HTTP server of
  \<open>Mig_Http\<close>, through encoding and decoding of the messages.
\<close>

subsection \<open>A gateway at the other end\<close>

text \<open>
  The HTTP server of a gateway that clients reach at \<open>base\<close>; \<open>render\<close> prints a body. A panic closes the
  connection.
\<close>

definition gateway_post ::
    "jwtlib \<Rightarrow> rt \<Rightarrow> invoke_select \<Rightarrow> AuthConfig \<Rightarrow> bool \<Rightarrow> string \<Rightarrow> (payload \<Rightarrow> string) \<Rightarrow> Service gateway" where
  "gateway_post jwt r sel cfg metrics base render po s =
    (let hr = \<lparr>r_Method = ''POST'', r_Path = drop (length base) (po_URL po), r_Header = po_Header po,
               r_Query = [], r_RemoteAddr = []\<rparr>
     in case http_gateway jwt r sel cfg metrics (bodies_of_json (rejson (po_Body po))) quiet_session None hr s of
          None \<Rightarrow> (s, PostFailed ''EOF'')
        | Some (s, resp) \<Rightarrow> (s, PostReplied (rp_Status resp) (render (rp_Body resp)) (reply_json (rp_Body resp))))"

lemma gateway_invoke:
  assumes "ac_Mode cfg = AuthModeNone" and "\<not> ac_RequireTenant cfg"
    and "r_Method hr = ''POST''" and path: "r_Path hr = ''/mig/v0.1/invoke/'' @ c" and "c \<noteq> []" "CHR ''/'' \<notin> set c"
    and h: "handleInvoke r sel (Some (AnonymousPrincipal\<lparr>p_TenantID := TrimSpace (header_get hr ''X-Tenant-ID'')\<rparr>)) hr c
        (b_Invoke b) s = (s1, resp)"
  shows "\<exists>s'. http_gateway jwt r sel cfg metrics b k None hr s = Some (s', resp) \<and> same_but_metrics s1 s'"
proof (rule gateway_routed)
  show "principalFromRequest jwt hr cfg = Inr (AnonymousPrincipal\<lparr>p_TenantID := TrimSpace (header_get hr ''X-Tenant-ID'')\<rparr>)"
    using assms(1,2) by (simp add: principalFromRequest_def PrincipalFromAuthHeaders_def Let_def)
  show "serve_mux r sel metrics b k' (Some (AnonymousPrincipal\<lparr>p_TenantID := TrimSpace (header_get hr ''X-Tenant-ID'')\<rparr>)) hr s = Some (s1, resp)" for k'
    using h invoke_route [OF assms(5,6)] by (simp add: serve_mux_def assms(3) path)
qed (simp add: path)

subsection \<open>The Go client\<close>

lemma client_post_refused:
  assumes "ac_Mode cfg = AuthModeJWT" and "\<not> HasPrefix path ''/ui''"
  shows "is_err (snd (client_post bad_url (gateway_post jwt r sel cfg metrics (cl_baseURL c) render) c path j decode s)) \<and>
    same_but_metrics s (fst (client_post bad_url (gateway_post jwt r sel cfg metrics (cl_baseURL c) render) c path j decode s))"
proof -
  let ?hr = "\<lparr>r_Method = ''POST'', r_Path = path, r_Header = [(''Content-Type'', ''application/json'')],
    r_Query = [], r_RemoteAddr = []\<rparr>"
  let ?g = "http_gateway jwt r sel cfg metrics (bodies_of_json (rejson j)) quiet_session None ?hr s"
  have p: "principalFromRequest jwt ?hr cfg = Inl ''missing bearer token''"
    using assms(1) by (simp add: principalFromRequest_def PrincipalFromAuthHeaders_def header_get_def)
  show ?thesis
  proof (cases ?g)
    case None
    then show ?thesis
      by (simp add: client_post_def gateway_post_def Let_def split: option.split)
  next
    case (Some sr)
    then obtain s' resp where g: "?g = Some (s', resp)"
      by (cases sr) auto
    have path: "\<not> HasPrefix (r_Path ?hr) ''/ui''"
      using assms(2) by simp
    note refused = refused_request [OF assms(1) p path g]
    then have "rp_Status resp = 401"
      by simp
    with g refused show ?thesis
      by (simp add: client_post_def gateway_post_def Let_def split: option.split)
  qed
qed

text \<open>The request the gateway reads from a call of the client.\<close>

definition client_message :: "ClientInvokeRequest \<Rightarrow> InvokeRequest" where
  "client_message iq =
    \<lparr>iq_Header = zero_header\<lparr>h_MIGVersion := ch_MIGVersion (ciq_Header iq), h_MessageID := ch_MessageID (ciq_Header iq),
       h_Timestamp := ch_Timestamp (ciq_Header iq), h_TenantID := ch_TenantID (ciq_Header iq)\<rparr>,
     iq_Capability = ciq_Capability iq, iq_Payload = rejson_map (ciq_Payload iq), iq_StreamPreference = []\<rparr>"

lemma decode_client_message:
  "invoke_of_json (rejson (JObj ([(''header'', client_header_json (ciq_Header iq))] @ opt_str ''capability'' (ciq_Capability iq) @
     [(''payload'', jmap_json (ciq_Payload iq))]))) = Some (client_message iq)"
  by (cases "ciq_Payload iq")
    (simp_all add: invoke_of_json_def client_header_json_def client_message_def read_header_def header_fields_def
      read_str_def read_int_def read_map_def jmap_json_def rejson_map_def zero_header_def map_add_def)

lemma client_message_shape:
  "message_shape [''capability'', ''payload'', ''stream_preference'']
     (rejson (JObj ([(''header'', client_header_json (ciq_Header iq))] @ opt_str ''capability'' (ciq_Capability iq) @
       [(''payload'', jmap_json (ciq_Payload iq))])))"
  by (simp add: shape_defs client_header_json_def opt_str_def)

lemma decode_invoke_response:
  obtains es where "decode_invoke (rejson (invoke_json (response_of q))) = Inr \<lparr>cip_Capability = pd_Capability q, cip_Payload = Some es\<rparr>"
    "map_of es ''result'' = Some (JStr ''ok'')" "map_of es ''echo'' = Some (rejson (jmap_json (pd_Payload q)))"
proof
  show "decode_invoke (rejson (invoke_json (response_of q))) =
      Inr \<lparr>cip_Capability = pd_Capability q, cip_Payload = Some (rejson_fields (invoke_result q))\<rparr>"
    by (simp add: decode_invoke_def invoke_json_def response_of_def read_str_def read_map_def jmap_json_def)
qed (simp_all add: invoke_result_def)

text \<open>A plain request of the client.\<close>

definition client_http :: "string \<Rightarrow> HttpRequest" where
  "client_http path =
    \<lparr>r_Method = ''POST'', r_Path = path, r_Header = [(''Content-Type'', ''application/json'')], r_Query = [], r_RemoteAddr = []\<rparr>"

lemma client_post_gateway:
  assumes "bad_url (cl_baseURL c @ path) = None"
    and "http_gateway jwt r sel cfg metrics (bodies_of_json (rejson j)) quiet_session None (client_http path) s = Some (s', resp)"
    and "rp_Status resp = 200" and "reply_json (rp_Body resp) = Inr x" and "decode x = Inr d"
  shows "client_post bad_url (gateway_post jwt r sel cfg metrics (cl_baseURL c) render) c path j decode s = (s', Inr d)"
  using assms by (simp add: client_post_def gateway_post_def client_http_def Let_def)

lemma client_invoke_open:
  assumes mode: "ac_Mode cfg = AuthModeNone" "\<not> ac_RequireTenant cfg"
    and ok: "open_to r s (iq_Header (client_message iq)) capability" and "CHR ''/'' \<notin> set capability"
    and url: "bad_url (cl_baseURL c @ ''/mig/v0.1/invoke/'' @ capability) = None"
  shows "\<exists>s' es a. client_Invoke bad_url (gateway_post jwt r SelResult cfg metrics (cl_baseURL c) render) c capability iq s =
      (s', Inr \<lparr>cip_Capability = capability, cip_Payload = Some es\<rparr>) \<and>
    map_of es ''result'' = Some (JStr ''ok'') \<and> map_of es ''echo'' = Some (rejson (jmap_json (ciq_Payload iq))) \<and>
    s_audit s' = s_audit s @ [a] \<and> a_TenantID a = ch_TenantID (ciq_Header iq) \<and> a_Capability a = capability"
proof -
  define path where "path = ''/mig/v0.1/invoke/'' @ capability"
  define j where "j = JObj ([(''header'', client_header_json (ciq_Header iq))] @ opt_str ''capability'' (ciq_Capability iq) @
     [(''payload'', jmap_json (ciq_Payload iq))])"
  let ?hr = "client_http path"
  let ?p = "AnonymousPrincipal\<lparr>p_TenantID := TrimSpace (header_get ?hr ''X-Tenant-ID'')\<rparr>"
  have p: "p_TenantID ?p \<in> {[], h_TenantID (iq_Header (client_message iq))}" and scopes: "HasAnyScope ?p (c_AuthScopes d)" for d
    by (simp_all add: client_http_def header_get_def AnonymousPrincipal_def HasAnyScope_def)
  obtain s1 q where inv: "handleInvoke r SelResult (Some ?p) ?hr capability (Decoded (client_message iq)) s =
      (s1, writeJSON 200 (PInvoke (response_of q)))" and q: "pd_Capability q = capability" "pd_Payload q = iq_Payload (client_message iq)"
    and audit: "s_audit s1 = s_audit s @ [audit_of r q]" "a_TenantID (audit_of r q) = h_TenantID (iq_Header (client_message iq))"
      "a_Capability (audit_of r q) = capability"
    using p scopes ok by (rule handleInvoke_open)
  have b: "b_Invoke (bodies_of_json (rejson j)) = Decoded (client_message iq)"
    unfolding j_def by (simp add: bodies_of_json_def strict_def client_message_shape decode_client_message to_body_def del: rejson.simps append.append_Cons)
  have hr: "r_Method ?hr = ''POST''" "r_Path ?hr = ''/mig/v0.1/invoke/'' @ capability" and "capability \<noteq> []"
    using ok by (simp_all add: client_http_def path_def open_to_def)
  from gateway_invoke [OF mode hr this(3) assms(4), where b = "bodies_of_json (rejson j)", unfolded b, OF inv]
  obtain s' where g: "http_gateway jwt r SelResult cfg metrics (bodies_of_json (rejson j)) quiet_session None ?hr s =
      Some (s', writeJSON 200 (PInvoke (response_of q)))" and m: "same_but_metrics s1 s'"
    by blast
  obtain es where es: "decode_invoke (rejson (invoke_json (response_of q))) = Inr \<lparr>cip_Capability = pd_Capability q, cip_Payload = Some es\<rparr>"
    "map_of es ''result'' = Some (JStr ''ok'')" "map_of es ''echo'' = Some (rejson (jmap_json (pd_Payload q)))"
    by (rule decode_invoke_response)
  have "client_Invoke bad_url (gateway_post jwt r SelResult cfg metrics (cl_baseURL c) render) c capability iq s =
      (s', Inr \<lparr>cip_Capability = capability, cip_Payload = Some es\<rparr>)"
    unfolding client_Invoke_def j_def [symmetric] path_def [symmetric]
    by (rule client_post_gateway [where bad_url = bad_url and c = c and path = path and x = "rejson (invoke_json (response_of q))", OF url [folded path_def] g]) (simp_all add: writeJSON_def reply_json_def es(1) q(1))
  then show ?thesis
    using es q audit same_but_metrics_audit [OF m] by (auto simp: client_message_def rejson_jmap)
qed


subsection \<open>Tool calls\<close>

text \<open>The request the gateway reads from a tool call.\<close>

definition tool_request :: "string \<Rightarrow> jmap \<Rightarrow> InvokeRequest" where
  "tool_request c args =
    \<lparr>iq_Header = zero_header\<lparr>h_MIGVersion := ''0.1'', h_TenantID := ''mcp-adapter'',
        h_Meta := Some [(''idg.product_tier'', JStr ''core''), (''idg.meter_key'', JStr ''invocations_capability_tier'')]\<rparr>,
     iq_Capability = c, iq_Payload = rejson_map args, iq_StreamPreference = []\<rparr>"

lemma decode_tool_request: "invoke_of_json (rejson (invokeRequest c args)) = Some (tool_request c args)"
  by (cases args)
    (simp_all add: invoke_of_json_def invokeRequest_def tool_request_def mcp_header_def read_header_def header_fields_def
      read_str_def read_int_def read_map_def jmap_json_def rejson_map_def zero_header_def)

lemma tool_request_shape: "message_shape [''capability'', ''payload'', ''stream_preference''] (rejson (invokeRequest c args))"
  by (simp add: shape_defs invokeRequest_def mcp_header_def)

lemma handleInvoke_tool:
  assumes "p_TenantID p = [] \<or> p_TenantID p = ''mcp-adapter''" and "\<not> p_Authenticated p"
    and "c \<noteq> []" and "map_of (s_capabilities s) c = Some d"
    and "map_of (s_cancelled s) (newMessageID (rt_rand r 0)) = None" and "\<not> over_quota s ''mcp-adapter''"
  obtains s1 ir a where
    "handleInvoke r SelResult (Some p) hr c (Decoded (tool_request c args)) s = (s1, writeJSON 200 (PInvoke ir))"
    "s_audit s1 = s_audit s @ [a]" "a_TenantID a = ''mcp-adapter''" "a_Capability a = c"
proof -
  have ok: "open_to r s (iq_Header (tool_request c args)) c" and p: "p_TenantID p \<in> {[], h_TenantID (iq_Header (tool_request c args))}"
    using assms by (auto simp: open_to_def tool_request_def zero_header_def effective_id_def)
  from assms(2) have "HasAnyScope p (c_AuthScopes d)" for d
    by (simp add: HasAnyScope_def)
  from p this ok show thesis
    by (rule handleInvoke_open) (rule that, assumption+, simp_all add: tool_request_def)
qed

lemma handleInvoke_tool_refused:
  assumes "p_TenantID p \<noteq> []" and "p_TenantID p \<noteq> ''mcp-adapter''"
  shows "\<exists>h. handleInvoke r sel (Some p) hr c (Decoded (tool_request c args)) s = (s, writeMigError r h 403 tenant_mismatch)"
  using assms by (simp add: handleInvoke_def principalFromContext_def decodeJSON_def applyPrincipalHeader_def tool_request_def Let_def) blast

lemma decode_payload_invoke: "decode_payload (rejson (invoke_json ir)) = Inr (rejson_map (ip_Payload ir))"
  by (cases "ip_Payload ir") (simp_all add: decode_payload_def invoke_json_def read_map_def jmap_json_def rejson_map_def)

text \<open>The HTTP request behind a post of the adapter.\<close>

definition adapter_http :: "Adapter \<Rightarrow> string \<Rightarrow> HttpRequest" where
  "adapter_http a path =
    \<lparr>r_Method = ''POST'', r_Path = path,
     r_Header = [(''Content-Type'', ''application/json'')] @
       (if ad_token a \<noteq> [] then [(''Authorization'', ''Bearer '' @ ad_token a)] else []) @
       (if ad_tenantID a \<noteq> [] then [(''X-Tenant-ID'', ad_tenantID a)] else []),
     r_Query = [], r_RemoteAddr = []\<rparr>"

lemma postJSON_gateway:
  assumes "bad_url (ad_baseURL a @ path) = None"
    and "http_gateway jwt r sel cfg metrics (bodies_of_json (rejson j)) quiet_session None (adapter_http a path) s = Some (s', resp)"
  shows "postJSON bad_url (gateway_post jwt r sel cfg metrics (ad_baseURL a) render) a path j decode s =
    (s', if rp_Status resp \<ge> 400 then Inl (rpc_error (- 32603) ''mig backend error'' (Some (render (rp_Body resp))))
         else case (case reply_json (rp_Body resp) of Inl e \<Rightarrow> Inl e | Inr x \<Rightarrow> decode x) of
           Inl e \<Rightarrow> Inl (rpc_error (- 32603) ''decode backend response failed'' (Some e))
         | Inr d \<Rightarrow> Inr d)"
proof -
  have drop: "drop (length (ad_baseURL a)) (ad_baseURL a @ path) = path"
    by simp
  show ?thesis
    using assms(2) unfolding adapter_http_def postJSON_def gateway_post_def assms(1) option.case Let_def post.select_convs drop
    by (simp split: sum.split)
qed

lemma tool_call_posts:
  assumes "jq_Params req = Some (name, args)" and "CapabilityForTool (ad_manifest a) name = Some mapping"
    and "c = tm_MIGCapability mapping"
  shows "handleToolsCall marshal bad_url gw a req s =
    (case postJSON bad_url gw a (''/mig/v0.1/invoke/'' @ c) (invokeRequest c args) decode_payload s of
       (s, Inl e) \<Rightarrow> (s, Inl e)
     | (s, Inr payload) \<Rightarrow>
         (s, Inr (JObj [(''content'', JArr [JObj [(''type'', JStr ''text''), (''text'', JStr (marshal (jmap_json payload)))]]),
                        (''isError'', JBool False)])))"
  unfolding handleToolsCall_def assms option.case prod.case ..

lemma tool_gateway:
  assumes "ac_Mode cfg = AuthModeNone" "\<not> ac_RequireTenant cfg" and "c \<noteq> []" "CHR ''/'' \<notin> set c"
    and hr: "hr = adapter_http a (''/mig/v0.1/invoke/'' @ c)"
    and inv: "handleInvoke r SelResult (Some (AnonymousPrincipal\<lparr>p_TenantID := TrimSpace (header_get hr ''X-Tenant-ID'')\<rparr>)) hr c
      (Decoded (tool_request c args)) s = (s1, resp)"
  obtains s' where "http_gateway jwt r SelResult cfg metrics (bodies_of_json (rejson (invokeRequest c args))) quiet_session None hr s = Some (s', resp)"
    "same_but_metrics s1 s'"
proof -
  let ?b = "bodies_of_json (rejson (invokeRequest c args))"
  have "r_Method hr = ''POST''" "r_Path hr = ''/mig/v0.1/invoke/'' @ c"
    by (simp_all add: hr adapter_http_def)
  moreover have "b_Invoke ?b = Decoded (tool_request c args)"
    by (simp add: bodies_of_json_def strict_def tool_request_shape decode_tool_request to_body_def)
  ultimately show thesis
    using gateway_invoke [OF assms(1,2) _ _ assms(3,4), where b = ?b] inv that by metis
qed


subsection \<open>Witnesses\<close>

definition demo_client :: Client where
  "demo_client = client_New ''http://localhost:8080/''"

definition demo_client_request :: ClientInvokeRequest where
  "demo_client_request =
    \<lparr>ciq_Header = \<lparr>ch_MIGVersion = ''0.1'', ch_MessageID = [], ch_Timestamp = [], ch_TenantID = ''acme''\<rparr>,
     ciq_Capability = [], ciq_Payload = Some [(''input'', JStr ''hi'')]\<rparr>"

abbreviation demo_post :: "AuthConfig \<Rightarrow> string \<Rightarrow> Service gateway" where
  "demo_post cfg base \<equiv> gateway_post demo_jwt demo_rt SelResult cfg True base (\<lambda>_. [])"

definition open_auth :: AuthConfig where
  "open_auth = \<lparr>ac_Mode = AuthModeNone, ac_JWTSecret = [], ac_RequireTenant = False\<rparr>"


definition demo_manifest :: Manifest where
  "demo_manifest =
    \<lparr>mf_Version = ''0.1'', mf_SchemaVersion = ''0.1'', mf_DefaultBinding = ''http'',
     mf_Mappings = \<lparr>mg_Tools = [\<lparr>tm_MCPName = ''infer'', tm_MIGCapability = ''observatory.models.infer'', tm_Mode = ''unary'',
        tm_TimeoutMS = 0, tm_PolicyTags = [], tm_BillingTier = []\<rparr>], mg_Resources = [], mg_Prompts = []\<rparr>,
     mf_Policy = \<lparr>mp_AllowStreamingTools = False, mp_EmitEventNotifications = False, mp_RequireTraceparent = False,
        mp_TenantResolution = []\<rparr>, mf_Billing = None\<rparr>"

definition demo_adapter :: "string \<Rightarrow> Adapter" where
  "demo_adapter tenant = SetTenantID tenant (SetBearerToken [] (NewAdapter ''http://localhost:8080'' demo_manifest))"

definition demo_tool_call :: rpcRequest where
  "demo_tool_call = \<lparr>jq_JSONRPC = ''2.0'', jq_ID = JNum 1 0, jq_Method = ''tools/call'', jq_Params = Some (''infer'', None)\<rparr>"


end
