(* ===== verification/Mig_Conformance.thy ===== *)
theory Mig_Conformance
  imports Mig_Mcp Mig_Grpc
begin

text \<open>
  The three conformance programs under \<^verbatim>\<open>conformance/harness/cmd\<close>: \<^verbatim>\<open>mig-conformance\<close> over HTTP, \<^verbatim>\<open>mig-grpc-smoke\<close>
  over gRPC and \<^verbatim>\<open>mig-nats-smoke\<close> over NATS. Each greets the gateway, asks for its capabilities and
  invokes the inference capability.

  A run returns the state of the gateway, the lines printed and the exit code. The other end is an
  argument: the gateway the HTTP program posts to, the stubs of the gRPC client, and for NATS a
  function from subject and data to the reply. Flag parsing is not modelled; the flags are
  arguments.
\<close>

type_synonym 's outcome = "'s \<times> string list \<times> int"

definition infer_name :: string where
  "infer_name = ''observatory.models.infer''"

subsection \<open>Over HTTP\<close>

record check =
  ck_Name :: string
  ck_Path :: string
  ck_Body :: json

definition tenant_json :: "string \<Rightarrow> json" where
  "tenant_json tenantID = JObj [(''tenant_id'', JStr tenantID)]"

definition hello_body :: "string \<Rightarrow> string \<Rightarrow> json" where
  "hello_body tenantID binding =
    JObj [(''header'', tenant_json tenantID), (''supported_versions'', JStrs [''0.1'']),
          (''requested_bindings'', JStrs [binding])]"

definition discover_body :: "string \<Rightarrow> json" where
  "discover_body tenantID = JObj [(''header'', tenant_json tenantID)]"

definition invoke_body :: "string \<Rightarrow> json" where
  "invoke_body tenantID =
    JObj [(''header'', tenant_json tenantID), (''payload'', JObj [(''input'', JStr ''health-check'')])]"

definition conformance_checks :: "string \<Rightarrow> check list" where
  "conformance_checks tenantID =
    [\<lparr>ck_Name = ''hello'', ck_Path = ''/mig/v0.1/hello'', ck_Body = hello_body tenantID ''http''\<rparr>,
     \<lparr>ck_Name = ''discover'', ck_Path = ''/mig/v0.1/discover'', ck_Body = discover_body tenantID\<rparr>,
     \<lparr>ck_Name = ''invoke'', ck_Path = ''/mig/v0.1/invoke/'' @ infer_name, ck_Body = invoke_body tenantID\<rparr>]"

definition runCheck ::
    "(string \<Rightarrow> string option) \<Rightarrow> 's gateway \<Rightarrow> string \<Rightarrow> json \<Rightarrow> string \<Rightarrow> string \<Rightarrow> 's \<Rightarrow> 's \<times> (string, int \<times> string) res" where
  "runCheck bad_url gw url body tenantID token s =
    (case bad_url url of
       Some e \<Rightarrow> (s, Inl e)
     | None \<Rightarrow>
         let header = [(''Content-Type'', ''application/json''), (''X-Tenant-ID'', tenantID)] @
               (if token \<noteq> [] then [(''Authorization'', ''Bearer '' @ token)] else [])
         in case gw \<lparr>po_URL = url, po_Header = header, po_Body = body\<rparr> s of
              (s, PostFailed e) \<Rightarrow> (s, Inl e)
            | (s, PostReplied status text parsed) \<Rightarrow> (s, Inr (status, text)))"

text \<open>The verdict on one check, and whether it failed.\<close>

definition check_line :: "string \<Rightarrow> (string, int \<times> string) res \<Rightarrow> string \<times> bool" where
  "check_line name res =
    (case res of
       Inl e \<Rightarrow> (''[FAIL] '' @ name @ '': '' @ e, True)
     | Inr (status, body) \<Rightarrow>
         if status \<ge> 400 then (''[FAIL] '' @ name @ '': status='' @ show_int status @ '' body='' @ body, True)
         else (''[PASS] '' @ name, False))"

fun run_checks ::
    "(string \<Rightarrow> string option) \<Rightarrow> 's gateway \<Rightarrow> string \<Rightarrow> string \<Rightarrow> string \<Rightarrow> check list \<Rightarrow> 's \<Rightarrow> 's \<times> string list \<times> bool" where
  "run_checks bad_url gw baseURL tenantID token [] s = (s, [], False)"
| "run_checks bad_url gw baseURL tenantID token (c # cs) s =
    (let (s, res) = runCheck bad_url gw (baseURL @ ck_Path c) (ck_Body c) tenantID token s;
         (line, failed) = check_line (ck_Name c) res;
         (s, lines, rest) = run_checks bad_url gw baseURL tenantID token cs s
     in (s, line # lines, failed \<or> rest))"

definition mig_conformance ::
    "(string \<Rightarrow> string option) \<Rightarrow> 's gateway \<Rightarrow> string \<Rightarrow> string \<Rightarrow> string \<Rightarrow> 's \<Rightarrow> 's outcome" where
  "mig_conformance bad_url gw baseURL tenantID token s =
    (case run_checks bad_url gw baseURL tenantID token (conformance_checks tenantID) s of
       (s, lines, failed) \<Rightarrow> (s, lines, if failed then 1 else 0))"

subsection \<open>Over gRPC\<close>

text \<open>The generated client stubs; \<open>show_status\<close> prints the error a stub returns.\<close>

record 's grpc_client =
  gc_Hello :: "metadata \<Rightarrow> PbHelloRequest \<Rightarrow> 's \<Rightarrow> 's \<times> (GrpcStatus, PbHelloResponse) res"
  gc_Discover :: "metadata \<Rightarrow> PbDiscoverRequest \<Rightarrow> 's \<Rightarrow> 's \<times> (GrpcStatus, PbDiscoverResponse) res"
  gc_Invoke :: "metadata \<Rightarrow> PbInvokeRequest \<Rightarrow> 's \<Rightarrow> 's \<times> (GrpcStatus, PbInvokeResponse) res"

definition smoke_metadata :: "string \<Rightarrow> string \<Rightarrow> metadata" where
  "smoke_metadata tenant token =
    (if token \<noteq> [] then [(''authorization'', [''Bearer '' @ token])] else []) @ [(''x-tenant-id'', [tenant])]"

definition smoke_header :: "string \<Rightarrow> PbMessageHeader option" where
  "smoke_header tenant = Some (zero_pbheader\<lparr>pbh_MigVersion := ''0.1'', pbh_TenantId := tenant\<rparr>)"

definition smoke_hello :: "string \<Rightarrow> PbHelloRequest" where
  "smoke_hello tenant =
    \<lparr>pbhq_Header = smoke_header tenant, pbhq_SupportedVersions = [''0.1''],
     pbhq_RequestedBindings = [BINDING_TYPE_GRPC], pbhq_RequestedFeatures = []\<rparr>"

definition smoke_discover :: "string \<Rightarrow> PbDiscoverRequest" where
  "smoke_discover tenant =
    \<lparr>pbdq_Header = smoke_header tenant, pbdq_Query = [], pbdq_IncludeSchemaRefs = False, pbdq_IncludeQos = False\<rparr>"

text \<open>If the payload cannot be converted, a nil message is sent.\<close>

definition smoke_invoke :: "pblib \<Rightarrow> string \<Rightarrow> PbInvokeRequest" where
  "smoke_invoke lib tenant =
    \<lparr>pbiq_Header = smoke_header tenant, pbiq_Capability = infer_name,
     pbiq_Payload = lib_NewStruct lib [(''input'', JStr ''health-check'')],
     pbiq_StreamPreference = STREAM_PREFERENCE_UNSPECIFIED\<rparr>"

definition mig_grpc_smoke ::
    "pblib \<Rightarrow> (GrpcStatus \<Rightarrow> string) \<Rightarrow> (string \<Rightarrow> string option) \<Rightarrow> 's grpc_client \<Rightarrow> string \<Rightarrow> string \<Rightarrow> string \<Rightarrow> 's \<Rightarrow> 's outcome" where
  "mig_grpc_smoke lib show_status dial client addr tenant token s =
    (case dial addr of
       Some e \<Rightarrow> (s, [''[FAIL] dial: '' @ e], 1)
     | None \<Rightarrow>
         let meta = smoke_metadata tenant token in
         case gc_Hello client meta (smoke_hello tenant) s of
           (s, Inl e) \<Rightarrow> (s, [''[FAIL] hello: '' @ show_status e], 1)
         | (s, Inr hello) \<Rightarrow>
             if pbhp_SelectedVersion hello \<noteq> ''0.1''
             then (s, [''[FAIL] hello selected version mismatch: '' @ pbhp_SelectedVersion hello], 1)
             else
               let out = [''[PASS] hello''] in
               case gc_Discover client meta (smoke_discover tenant) s of
                 (s, Inl e) \<Rightarrow> (s, out @ [''[FAIL] discover: '' @ show_status e], 1)
               | (s, Inr discover) \<Rightarrow>
                   if pbdp_Capabilities discover = []
                   then (s, out @ [''[FAIL] discover: no capabilities''], 1)
                   else
                     let out = out @ [''[PASS] discover''] in
                     case gc_Invoke client meta (smoke_invoke lib tenant) s of
                       (s, Inl e) \<Rightarrow> (s, out @ [''[FAIL] invoke: '' @ show_status e], 1)
                     | (s, Inr invoke) \<Rightarrow>
                         if pbip_Capability invoke = []
                         then (s, out @ [''[FAIL] invoke: empty capability''], 1)
                         else (s, out @ [''[PASS] invoke''], 0))"

subsection \<open>Over NATS\<close>

text \<open>A reply is its text and what parsing it gives.\<close>

datatype requested = RequestFailed string | RequestReplied string "(string, json) res"

type_synonym 's requester = "string \<Rightarrow> json \<Rightarrow> 's \<Rightarrow> 's \<times> requested"

record nats_check =
  nk_name :: string
  nk_subject :: string
  nk_body :: json

definition nats_checks :: "string \<Rightarrow> nats_check list" where
  "nats_checks tenant =
    [\<lparr>nk_name = ''hello'', nk_subject = ''mig.v0_1.'' @ tenant @ ''.hello'', nk_body = hello_body tenant ''nats''\<rparr>,
     \<lparr>nk_name = ''discover'', nk_subject = ''mig.v0_1.'' @ tenant @ ''.discover'', nk_body = discover_body tenant\<rparr>,
     \<lparr>nk_name = ''invoke'', nk_subject = ''mig.v0_1.'' @ tenant @ ''.invoke.'' @ infer_name, nk_body = invoke_body tenant\<rparr>]"

text \<open>\<^verbatim>\<open>json.Unmarshal\<close> into a \<^verbatim>\<open>map[string]interface{}\<close>.\<close>

definition unmarshal_map :: "(string, json) res \<Rightarrow> (string, jobject) res" where
  "unmarshal_map parsed =
    (case parsed of
       Inl e \<Rightarrow> Inl e
     | Inr (JObj es) \<Rightarrow> Inr es
     | Inr JNull \<Rightarrow> Inr []
     | Inr _ \<Rightarrow> Inl cannot_decode)"

text \<open>The line for one reply, and whether the program goes on.\<close>

definition nats_line :: "string \<Rightarrow> requested \<Rightarrow> string \<times> bool" where
  "nats_line name res =
    (case res of
       RequestFailed e \<Rightarrow> (''[FAIL] '' @ name @ '': '' @ e, False)
     | RequestReplied text parsed \<Rightarrow>
         if text = [] then (''[FAIL] '' @ name @ '': empty response'', False)
         else case unmarshal_map parsed of
           Inl e \<Rightarrow> (''[FAIL] '' @ name @ '': invalid json response: '' @ e, False)
         | Inr asMap \<Rightarrow>
             if map_of asMap ''error'' \<noteq> None then (''[FAIL] '' @ name @ '': '' @ text, False)
             else (''[PASS] '' @ name, True))"

fun run_nats_checks :: "'s requester \<Rightarrow> nats_check list \<Rightarrow> 's \<Rightarrow> 's outcome" where
  "run_nats_checks nc [] s = (s, [], 0)"
| "run_nats_checks nc (c # cs) s =
    (let (s, res) = nc (nk_subject c) (nk_body c) s;
         (line, go) = nats_line (nk_name c) res
     in if go then (let (s, lines, code) = run_nats_checks nc cs s in (s, line # lines, code))
        else (s, [line], 1))"

definition mig_nats_smoke ::
    "(string \<Rightarrow> string option) \<Rightarrow> 's requester \<Rightarrow> string \<Rightarrow> string \<Rightarrow> 's \<Rightarrow> 's outcome" where
  "mig_nats_smoke connect nc url tenant s =
    (case connect url of
       Some e \<Rightarrow> (s, [''[FAIL] connect: '' @ e], 1)
     | None \<Rightarrow> run_nats_checks nc (nats_checks tenant) s)"

end
