(* ===== verification/Mig_Conformance_Props.thy ===== *)
theory Mig_Conformance_Props
  imports Mig_Conformance Mig_Migd Mig_Clients_Props
begin

text \<open>
  The conformance programs against the gateway: each is run against the binding it is written for,
  and passes. The other end of each program is the model of that binding.
\<close>

subsection \<open>A gateway that is ready\<close>

definition ready :: "Service \<Rightarrow> bool" where
  "ready s \<longleftrightarrow> map_ok (s_capabilities s) \<and> map_of (s_capabilities s) infer_name = Some infer_capability \<and> s_cancelled s = [] \<and> s_quotas s = []"

lemma ready_same: "same_but_metrics s s' \<Longrightarrow> ready s \<Longrightarrow> ready s'"
  by (auto simp: same_but_metrics_def ready_def)

lemma ready_committed: "ready (committed r q s) = ready s"
  by (simp add: ready_def)

lemma prepare_smoke:
  assumes "h_TenantID h \<noteq> []" and "h_MIGVersion h \<in> {[], ''0.1''}"
  obtains head where "prepare r h = Inr head" "h_TenantID head = h_TenantID h" "h_IdempotencyKey head = h_IdempotencyKey h"
proof -
  have "\<not> is_err (prepare r h)"
    using assms unfolding prepare_error_iff by (auto simp: MIGVersion_def)
  then obtain head where "prepare r h = Inr head"
    by (cases "prepare r h") auto
  from this prepare_ok(2,3) [OF this] show thesis
    by (rule that)
qed

text \<open>The three operations behind the checks.\<close>

lemma Hello_ready:
  assumes "h_TenantID (hq_Header req) \<noteq> []" and "h_MIGVersion (hq_Header req) \<in> {[], ''0.1''}"
    and "hq_SupportedVersions req = [''0.1'']"
  obtains resp where "Hello r s req = Inr resp" "hp_SelectedVersion resp = ''0.1''"
proof -
  obtain head' where "prepare r (hq_Header req) = Inr head'"
    using assms(1,2) by (rule prepare_smoke)
  then obtain head where "Normalize (rt_now r 0) (newMessageID (rt_rand r 0)) (hq_Header req) = Inr head"
    by (auto simp: prepare_def split: sum.splits)
  moreover have "version_compatible [''0.1'']"
    by code_simp
  ultimately show thesis
    using assms(3) by (intro that [of "\<lparr>hp_Header = AddIDGMeta ''core'' head, hp_SelectedVersion = ''0.1'',
      hp_SelectedBinding = select_binding (hq_RequestedBindings req), hp_EnabledFeatures = hq_RequestedFeatures req,
      hp_ServerID = s_serverID s\<rparr>"]) (simp_all add: Hello_def MIGVersion_def del: version_compatible.simps)
qed

lemma Discover_ready:
  assumes "h_TenantID (dq_Header req) \<noteq> []" and "h_MIGVersion (dq_Header req) \<in> {[], ''0.1''}" and "dq_Query req = []"
    and "is_iteration (rt_iter r)" and "ready s" and "HasAnyScope p [''capability:infer'']"
  obtains resp where "Discover r s req p = (s, Inr resp)" "dp_Capabilities resp \<noteq> []"
proof -
  obtain head where head: "prepare r (dq_Header req) = Inr head"
    using assms(1,2) by (rule prepare_smoke)
  have "infer_capability \<in> snd ` set (s_capabilities s)"
    using assms(5) by (force simp: ready_def dest: map_of_SomeD)
  moreover have "visible [] p infer_capability"
    using assms(6) by (simp add: visible_def infer_capability_def)
  moreover have "map_ok (s_capabilities s)"
    using assms(5) by (simp add: ready_def)
  moreover define out where "out = sort_key c_ID (filter (visible [] p) (map snd (range_map (rt_iter r) (s_capabilities s))))"
  ultimately have "infer_capability \<in> set out"
    using set_range_map [OF assms(4)] by auto
  moreover have "Discover r s req p = (s, Inr \<lparr>dp_Header = head, dp_Capabilities = out\<rparr>)"
    using head assms(3) by (simp add: Discover_def out_def)
  ultimately show thesis
    by (intro that) auto
qed

lemma Invoke_ready:
  assumes "h_TenantID (iq_Header req) \<noteq> []" and "h_MIGVersion (iq_Header req) \<in> {[], ''0.1''}"
    and "h_IdempotencyKey (iq_Header req) = []" and "target_capability capability req = infer_name"
    and "ready s" and "HasAnyScope p [''capability:infer'']"
  obtains s' resp a where "Invoke r SelResult s capability req actor p = (s', Inr resp)"
    "ip_Capability resp = infer_name" "ready s'" "s_audit s' = s_audit s @ [a]" "a_TenantID a = h_TenantID (iq_Header req)"
proof -
  obtain head where head: "prepare r (iq_Header req) = Inr head" "h_TenantID head = h_TenantID (iq_Header req)"
    "h_IdempotencyKey head = h_IdempotencyKey (iq_Header req)"
    using assms(1,2) by (rule prepare_smoke)
  have "authorized s head (target_capability capability req) p infer_capability"
    using assms by (simp add: authorized_def ready_def infer_name_def infer_capability_def)
  moreover have "replay_of s head (target_capability capability req) = None" "\<not> over_quota s (h_TenantID head)"
    using assms(3,5) head(3) by (simp_all add: replay_of_def over_quota_def ready_def)
  ultimately obtain q where q: "Invoke r SelResult s capability req actor p = (committed r q s, Inr (response_of q))"
    "pd_Header q = head" "pd_Capability q = target_capability capability req"
    by (rule Invoke_accepted [OF head(1)])
  show thesis
    using q head(2) assms(4,5) by (intro that [where a = "audit_of r q", OF q(1)]) (simp_all add: ready_committed response_of_def audit_of_def)
qed

subsection \<open>Credentials\<close>

definition credentials :: "jwtlib \<Rightarrow> AuthConfig \<Rightarrow> string \<Rightarrow> string \<Rightarrow> bool" where
  "credentials jwt cfg token tenant \<longleftrightarrow>
    ac_Mode cfg = AuthModeNone \<or>
    (ac_Mode cfg = AuthModeJWT \<and> token \<noteq> [] \<and> trimmed token \<and>
     (\<exists>cl. jwt token (jwt_keyfunc cfg) = Some cl \<and> p_TenantID (principal_of_claims cl) = tenant \<and>
           HasAnyScope (principal_of_claims cl) [''capability:infer'']))"

text \<open>A tenant that can stand in a header, a message and a subject.\<close>

definition tenant_ok :: "string \<Rightarrow> bool" where
  "tenant_ok t \<longleftrightarrow> t \<noteq> [] \<and> t \<noteq> ''unknown'' \<and> trimmed t \<and> CHR ''.'' \<notin> set t"

lemma trimmed_bearer:
  assumes "token \<noteq> []" and "trimmed token"
  shows "trimmed (''Bearer '' @ token)"
proof -
  have "\<forall>r \<in> set space_runes. \<not> prefix r (''Bearer '' @ token)"
    by (simp add: space_runes_def)
  moreover have "\<not> prefix (rev r) (rev (''Bearer '' @ token))" if "r \<in> set space_runes" "r \<noteq> []" for r
  proof
    assume "prefix (rev r) (rev (''Bearer '' @ token))"
    moreover have tok: "\<not> prefix (rev r) (rev token)"
      using assms(2) that by (auto simp: trimmed_def leading_rune_None)
    ultimately obtain zs where zs: "rev r = rev token @ zs" "prefix zs (rev ''Bearer '')"
      by (auto simp: prefix_append)
    with tok obtain c cs where c: "zs = c # cs"
      by (cases zs) auto
    with zs(2) have "c = CHR '' ''"
      by simp
    with c have "CHR '' '' \<in> set r" "1 < length r"
      using arg_cong [OF zs(1), of set] arg_cong [OF zs(1), of length] assms(1) by auto
    moreover have "\<forall>r \<in> set space_runes. 1 < length r \<longrightarrow> CHR '' '' \<notin> set r"
      by (simp add: space_runes_def)
    ultimately show False
      using that(1) by blast
  qed
  ultimately show ?thesis
    by (auto simp: trimmed_def leading_rune_None)
qed

abbreviation bearer :: "string \<Rightarrow> string" where
  "bearer token \<equiv> (if token \<noteq> [] then ''Bearer '' @ token else [])"

lemma smoke_principal:
  assumes "credentials jwt cfg token t" and "tenant_ok t"
  obtains p where "PrincipalFromAuthHeaders jwt (bearer token) t cfg = Inr p" "p_TenantID p = t"
    "HasAnyScope p [''capability:infer'']"
proof (cases "ac_Mode cfg = AuthModeNone")
  case True
  with assms(2) show thesis
    by (intro that [of "AnonymousPrincipal\<lparr>p_TenantID := t\<rparr>"])
      (simp_all add: PrincipalFromAuthHeaders_def tenant_ok_def TrimSpace_id Let_def AnonymousPrincipal_def HasAnyScope_def)
next
  case False
  with assms(1) obtain cl where c: "ac_Mode cfg = AuthModeJWT" "token \<noteq> []" "trimmed token"
    "jwt token (jwt_keyfunc cfg) = Some cl" "p_TenantID (principal_of_claims cl) = t"
    "HasAnyScope (principal_of_claims cl) [''capability:infer'']"
    by (auto simp: credentials_def)
  have "HasPrefix (''Bearer '' @ token) ''Bearer ''" "TrimPrefix (''Bearer '' @ token) ''Bearer '' = token"
    by (simp_all add: TrimPrefix_def)
  with c False assms(2) have "PrincipalFromAuthHeaders jwt (bearer token) t cfg = Inr (principal_of_claims cl)"
    using TrimSpace_id [OF trimmed_bearer [OF c(2,3)]] TrimSpace_id [OF c(3)]
    by (simp add: PrincipalFromAuthHeaders_def tenant_ok_def TrimSpace_id Let_def del: append.append_Cons)
  then show thesis
    using c by (intro that) simp_all
qed

subsection \<open>Over HTTP\<close>

definition smoke_http :: "string \<Rightarrow> string \<Rightarrow> string \<Rightarrow> HttpRequest" where
  "smoke_http tenant token path =
    \<lparr>r_Method = ''POST'', r_Path = path,
     r_Header = [(''Content-Type'', ''application/json''), (''X-Tenant-ID'', tenant)] @
       (if token \<noteq> [] then [(''Authorization'', ''Bearer '' @ token)] else []),
     r_Query = [], r_RemoteAddr = []\<rparr>"

lemma smoke_http_sel [simp]: "r_Method (smoke_http t token path) = ''POST''" "r_Path (smoke_http t token path) = path"
  by (simp_all add: smoke_http_def)

lemma runCheck_gateway:
  assumes "bad_url (base @ path) = None" and "PrincipalFromAuthHeaders jwt (bearer token) t cfg = Inr p"
    and "\<not> HasPrefix path ''/ui''"
    and "\<And>k'. serve_mux r sel metrics (bodies_of_json (rejson body)) k' (Some p) (smoke_http t token path) s = Some (s1, resp)"
  obtains s' where "runCheck bad_url (gateway_post jwt r sel cfg metrics base render) (base @ path) body t token s =
      (s', Inr (rp_Status resp, render (rp_Body resp)))" "same_but_metrics s1 s'"
proof -
  have "principalFromRequest jwt (smoke_http t token path) cfg = Inr p"
    using assms(2) by (cases "token = []") (simp_all add: principalFromRequest_def smoke_http_def header_get_def)
  with assms(3,4) gateway_routed [of jwt "smoke_http t token path" cfg p r sel metrics _ s s1 resp quiet_session]
  obtain s' where "http_gateway jwt r sel cfg metrics (bodies_of_json (rejson body)) quiet_session None (smoke_http t token path) s =
      Some (s', resp)" "same_but_metrics s1 s'"
    by fastforce
  then show thesis
    using assms(1) by (intro that) (simp_all add: runCheck_def gateway_post_def smoke_http_def Let_def)
qed

abbreviation smoke_head :: "string \<Rightarrow> MessageHeader" where
  "smoke_head t \<equiv> zero_header\<lparr>h_TenantID := t\<rparr>"

lemma smoke_bodies:
  "hello_of_json (rejson (hello_body t b)) =
    Some \<lparr>hq_Header = smoke_head t, hq_SupportedVersions = [''0.1''], hq_RequestedBindings = [b], hq_RequestedFeatures = []\<rparr>"
  "discover_of_json (rejson (discover_body t)) =
    Some \<lparr>dq_Header = smoke_head t, dq_Query = [], dq_IncludeSchemaRefs = False, dq_IncludeQoS = False\<rparr>"
  "invoke_of_json (rejson (invoke_body t)) =
    Some \<lparr>iq_Header = smoke_head t, iq_Capability = [], iq_Payload = Some [(''input'', JStr ''health-check'')], iq_StreamPreference = []\<rparr>"
  by (simp_all add: hello_of_json_def hello_body_def discover_of_json_def discover_body_def invoke_of_json_def invoke_body_def
      tenant_json_def read_header_def header_fields_def read_str_def read_int_def read_map_def read_list_def read_bool_def zero_header_def)

lemma smoke_shapes:
  "message_shape [''supported_versions'', ''requested_bindings'', ''requested_features''] (rejson (hello_body t b))"
  "message_shape [''query'', ''include_schema_refs'', ''include_qos''] (rejson (discover_body t))"
  "message_shape [''capability'', ''payload'', ''stream_preference''] (rejson (invoke_body t))"
  by (simp_all add: shape_defs hello_body_def discover_body_def invoke_body_def tenant_json_def)

lemma smoke_guard:
  assumes "p_TenantID p = t" and "tenant_ok t"
  shows "applyPrincipalHeader (smoke_head t) p hr = (annotate_principal p (smoke_head t), None)"
  using assms by (simp add: applyPrincipalHeader_def annotate_principal_def tenant_ok_def Let_def)

lemma smoke_routes:
  "find_route metrics ''POST'' ''/mig/v0.1/hello'' = Routed RHello []"
  "find_route metrics ''POST'' ''/mig/v0.1/discover'' = Routed RDiscover []"
  "find_route metrics ''POST'' (''/mig/v0.1/invoke/'' @ infer_name) = Routed RInvoke [infer_name]"
proof -
  show "find_route metrics ''POST'' ''/mig/v0.1/hello'' = Routed RHello []"
    by (cases metrics; simp only:; code_simp)
  show "find_route metrics ''POST'' ''/mig/v0.1/discover'' = Routed RDiscover []"
    by (cases metrics; simp only:; code_simp)
  show "find_route metrics ''POST'' (''/mig/v0.1/invoke/'' @ infer_name) = Routed RInvoke [infer_name]"
    by (rule invoke_route) (simp_all add: infer_name_def)
qed

definition smoke_passes :: "string list" where
  "smoke_passes = [''[PASS] hello'', ''[PASS] discover'', ''[PASS] invoke'']"

text \<open>A gateway whose clock and entropy may differ from one request to the next.\<close>

definition http_target ::
    "jwtlib \<Rightarrow> (string \<Rightarrow> rt) \<Rightarrow> AuthConfig \<Rightarrow> bool \<Rightarrow> string \<Rightarrow> (payload \<Rightarrow> string) \<Rightarrow> Service gateway" where
  "http_target jwt rs cfg metrics base render po = gateway_post jwt (rs (po_URL po)) SelResult cfg metrics base render po"

lemma runCheck_target:
  "runCheck bad_url (http_target jwt rs cfg metrics base render) url body t token s =
   runCheck bad_url (gateway_post jwt (rs url) SelResult cfg metrics base render) url body t token s"
  unfolding runCheck_def http_target_def Let_def post.select_convs ..

lemma check_line_ok: "status < 400 \<Longrightarrow> check_line name (Inr (status, text)) = (''[PASS] '' @ name, False)"
  by (simp add: check_line_def)

lemma http_check:
  assumes "bad_url (base @ path) = None" and "PrincipalFromAuthHeaders jwt (bearer token) t cfg = Inr p"
    and "\<not> HasPrefix path ''/ui''"
    and "\<And>k'. serve_mux (rs (base @ path)) SelResult metrics (bodies_of_json (rejson body)) k' (Some p) (smoke_http t token path) s =
      Some (s1, writeJSON 200 pl)"
  obtains s' out where "runCheck bad_url (http_target jwt rs cfg metrics base render) (base @ path) body t token s = (s', Inr (200, out))"
    "same_but_metrics s1 s'"
proof -
  from runCheck_gateway [where bad_url = bad_url and base = base and path = path, OF assms, of render] obtain s' where
    "runCheck bad_url (gateway_post jwt (rs (base @ path)) SelResult cfg metrics base render) (base @ path) body t token s =
      (s', Inr (200, render pl))" "same_but_metrics s1 s'"
    by (auto simp: writeJSON_def)
  then show thesis
    unfolding runCheck_target [symmetric] by (rule that)
qed

lemmas smoke_serve = serve_mux_def smoke_routes bodies_of_json_def strict_def smoke_shapes smoke_bodies to_body_def principalFromContext_def decodeJSON_def

lemma http_hello_check:
  assumes "PrincipalFromAuthHeaders jwt (bearer token) t cfg = Inr p" and p: "p_TenantID p = t" and t: "tenant_ok t"
    and "bad_url (base @ ''/mig/v0.1/hello'') = None"
  obtains s' out where "runCheck bad_url (http_target jwt rs cfg metrics base render) (base @ ''/mig/v0.1/hello'')
      (hello_body t ''http'') t token s = (s', Inr (200, out))" "same_but_metrics s s'"
proof -
  let ?r = "rs (base @ ''/mig/v0.1/hello'')"
  let ?req = "\<lparr>hq_Header = annotate_principal p (smoke_head t), hq_SupportedVersions = [''0.1''],
    hq_RequestedBindings = [''http''], hq_RequestedFeatures = []\<rparr>"
  have "h_TenantID (hq_Header ?req) \<noteq> []" "h_MIGVersion (hq_Header ?req) \<in> {[], ''0.1''}" "hq_SupportedVersions ?req = [''0.1'']"
    using t by (simp_all add: tenant_ok_def zero_header_def)
  then obtain resp where "Hello ?r s ?req = Inr resp"
    by (rule Hello_ready)
  then have "serve_mux ?r SelResult metrics (bodies_of_json (rejson (hello_body t ''http''))) k' (Some p)
      (smoke_http t token ''/mig/v0.1/hello'') s = Some (s, writeJSON 200 (PHello resp))" for k'
    by (simp add: smoke_serve handleHello_def smoke_guard [OF p t])
  from http_check [where bad_url = bad_url and base = base and path = "''/mig/v0.1/hello''" and rs = rs, OF assms(4,1) _ this] that show thesis
    by auto
qed

lemma http_discover_check:
  assumes "PrincipalFromAuthHeaders jwt (bearer token) t cfg = Inr p" and p: "p_TenantID p = t" and t: "tenant_ok t"
    and "bad_url (base @ ''/mig/v0.1/discover'') = None"
    and "is_iteration (rt_iter (rs (base @ ''/mig/v0.1/discover'')))" "ready s" "HasAnyScope p [''capability:infer'']"
  obtains s' out where "runCheck bad_url (http_target jwt rs cfg metrics base render) (base @ ''/mig/v0.1/discover'')
      (discover_body t) t token s = (s', Inr (200, out))" "same_but_metrics s s'"
proof -
  let ?r = "rs (base @ ''/mig/v0.1/discover'')"
  let ?req = "\<lparr>dq_Header = annotate_principal p (smoke_head t), dq_Query = [], dq_IncludeSchemaRefs = False, dq_IncludeQoS = False\<rparr>"
  have "h_TenantID (dq_Header ?req) \<noteq> []" "h_MIGVersion (dq_Header ?req) \<in> {[], ''0.1''}" "dq_Query ?req = []"
    using t by (simp_all add: tenant_ok_def zero_header_def)
  then obtain resp where "Discover ?r s ?req p = (s, Inr resp)"
    using assms(5-7) by (rule Discover_ready)
  then have "serve_mux ?r SelResult metrics (bodies_of_json (rejson (discover_body t))) k' (Some p)
      (smoke_http t token ''/mig/v0.1/discover'') s = Some (s, writeJSON 200 (PDiscover resp))" for k'
    by (simp add: smoke_serve handleDiscover_def smoke_guard [OF p t])
  from http_check [where bad_url = bad_url and base = base and path = "''/mig/v0.1/discover''" and rs = rs, OF assms(4,1) _ this] that show thesis
    by auto
qed

lemma http_invoke_check:
  assumes "PrincipalFromAuthHeaders jwt (bearer token) t cfg = Inr p" and p: "p_TenantID p = t" and t: "tenant_ok t"
    and "bad_url (base @ ''/mig/v0.1/invoke/'' @ infer_name) = None" and "ready s" "HasAnyScope p [''capability:infer'']"
  obtains s' out a where "runCheck bad_url (http_target jwt rs cfg metrics base render) (base @ ''/mig/v0.1/invoke/'' @ infer_name)
      (invoke_body t) t token s = (s', Inr (200, out))" "ready s'" "s_audit s' = s_audit s @ [a]" "a_TenantID a = t"
proof -
  define ip where "ip = ''/mig/v0.1/invoke/'' @ infer_name"
  note route = smoke_routes(3) [folded ip_def] and ok = assms(4) [folded ip_def]
  have ui: "\<not> HasPrefix ip ''/ui''"
    by (simp add: ip_def)
  let ?r = "rs (base @ ip)"
  let ?hr = "smoke_http t token ip"
  let ?req = "\<lparr>iq_Header = annotate_principal p (smoke_head t), iq_Capability = [],
    iq_Payload = Some [(''input'', JStr ''health-check'')], iq_StreamPreference = []\<rparr>"
  have "h_TenantID (iq_Header ?req) \<noteq> []" "h_MIGVersion (iq_Header ?req) \<in> {[], ''0.1''}" "h_IdempotencyKey (iq_Header ?req) = []"
    "target_capability infer_name ?req = infer_name"
    using t by (simp_all add: tenant_ok_def zero_header_def target_capability_def infer_name_def)
  then obtain s1 resp a where "Invoke ?r SelResult s infer_name ?req (http_actor p ?hr) p = (s1, Inr resp)"
    and s1: "ready s1" "s_audit s1 = s_audit s @ [a]" "a_TenantID a = h_TenantID (iq_Header ?req)"
    using assms(5,6) by (rule Invoke_ready)
  then have "serve_mux ?r SelResult metrics (bodies_of_json (rejson (invoke_body t))) k' (Some p) ?hr s = Some (s1, writeJSON 200 (PInvoke resp))" for k'
    by (simp add: smoke_serve route handleInvoke_def smoke_guard [OF p t])
  from http_check [where bad_url = bad_url and base = base and path = "ip" and rs = rs, OF ok assms(1) ui this] obtain s' out where
    "runCheck bad_url (http_target jwt rs cfg metrics base render) (base @ ip)
      (invoke_body t) t token s = (s', Inr (200, out))" and m: "same_but_metrics s1 s'"
    by blast
  then show thesis
    using that [unfolded ip_def [symmetric]] s1 ready_same [OF m] same_but_metrics_audit [OF m] by simp
qed

text \<open>What a program that passes leaves behind: a gateway as ready as before, one invocation on record.\<close>

definition passed :: "string \<Rightarrow> Service \<Rightarrow> Service outcome \<Rightarrow> bool" where
  "passed t s out \<longleftrightarrow>
    (\<exists>s' a. out = (s', smoke_passes, 0) \<and> ready s' \<and> s_audit s' = s_audit s @ [a] \<and> a_TenantID a = t)"

lemma passedI: "ready s' \<Longrightarrow> s_audit s' = s_audit s @ [a] \<Longrightarrow> a_TenantID a = t \<Longrightarrow> passed t s (s', smoke_passes, 0)"
  by (auto simp: passed_def)

lemma http_passes:
  assumes "credentials jwt cfg token t" and t: "tenant_ok t" and "ready s" and "\<And>u. bad_url u = None"
    and "\<And>u. is_iteration (rt_iter (rs u))"
  shows "passed t s (mig_conformance bad_url (http_target jwt rs cfg metrics base render) base t token s)"
proof -
  obtain p where p: "PrincipalFromAuthHeaders jwt (bearer token) t cfg = Inr p" "p_TenantID p = t"
    and scope: "HasAnyScope p [''capability:infer'']"
    using assms(1,2) by (rule smoke_principal)
  let ?gw = "http_target jwt rs cfg metrics base render"
  obtain s1 o1 where 1: "runCheck bad_url ?gw (base @ ''/mig/v0.1/hello'') (hello_body t ''http'') t token s = (s1, Inr (200, o1))"
    and m1: "same_but_metrics s s1"
    using p t assms(4) by (rule http_hello_check)
  have r1: "ready s1"
    using ready_same [OF m1 assms(3)] .
  obtain s2 o2 where 2: "runCheck bad_url ?gw (base @ ''/mig/v0.1/discover'') (discover_body t) t token s1 = (s2, Inr (200, o2))"
    and m2: "same_but_metrics s1 s2"
    using p t assms(4,5) r1 scope by (rule http_discover_check)
  obtain s3 o3 a where 3: "runCheck bad_url ?gw (base @ ''/mig/v0.1/invoke/'' @ infer_name) (invoke_body t) t token s2 = (s3, Inr (200, o3))"
    and s3: "ready s3" "s_audit s3 = s_audit s2 @ [a]" "a_TenantID a = t"
    using p t assms(4) ready_same [OF m2 r1] scope by (rule http_invoke_check)
  have "mig_conformance bad_url ?gw base t token s = (s3, smoke_passes, 0)"
    unfolding mig_conformance_def conformance_checks_def run_checks.simps check.select_convs 1 2 3 prod.case Let_def
    by (simp add: check_line_ok smoke_passes_def)
  with s3 show ?thesis
    using same_but_metrics_audit [OF m1] same_but_metrics_audit [OF m2] passedI by metis
qed

subsection \<open>Over gRPC\<close>

text \<open>The server at the other end of the stubs, if it is up; a call that gets no answer ends with status \<open>lost\<close>.\<close>

definition unary_stub ::
    "bool \<Rightarrow> jwtlib \<Rightarrow> AuthConfig \<Rightarrow> GrpcStatus \<Rightarrow> metadata \<Rightarrow> (Principal option \<Rightarrow> 's \<Rightarrow> 's \<times> (GrpcStatus, 'b) res) \<Rightarrow> 's \<Rightarrow> 's \<times> (GrpcStatus, 'b) res" where
  "unary_stub up jwt cfg lost meta handler s =
    (if \<not> up then (s, Inl lost)
     else case GRPCUnaryAuthInterceptor jwt cfg meta (\<lambda>ctx s. Some (handler ctx s)) s of
       None \<Rightarrow> (s, Inl lost)
     | Some out \<Rightarrow> out)"

definition grpc_target :: "bool \<Rightarrow> jwtlib \<Rightarrow> pblib \<Rightarrow> (string \<Rightarrow> rt) \<Rightarrow> AuthConfig \<Rightarrow> GrpcStatus \<Rightarrow> Service grpc_client" where
  "grpc_target up jwt lib rs cfg lost =
    \<lparr>gc_Hello = \<lambda>meta q. unary_stub up jwt cfg lost meta (\<lambda>ctx. grpcHello lib (rs ''hello'') ctx q),
     gc_Discover = \<lambda>meta q. unary_stub up jwt cfg lost meta (\<lambda>ctx. grpcDiscover lib (rs ''discover'') ctx q),
     gc_Invoke = \<lambda>meta q. unary_stub up jwt cfg lost meta (\<lambda>ctx. grpcInvoke lib (rs ''invoke'') SelResult ctx q)\<rparr>"

lemma smoke_metadata_values:
  assumes "tenant_ok t" and "credentials jwt cfg token t"
  shows "firstMetadataValue (smoke_metadata t token) ''x-tenant-id'' = t"
    "PrincipalFromAuthHeaders jwt (firstMetadataValue (smoke_metadata t token) ''authorization'') t cfg =
     PrincipalFromAuthHeaders jwt (bearer token) t cfg"
  using assms by (simp_all add: firstMetadataValue_def smoke_metadata_def mget_list_def tenant_ok_def TrimSpace_id PrincipalFromAuthHeaders_def)

lemma smoke_stub:
  assumes "tenant_ok t" and "credentials jwt cfg token t" and "PrincipalFromAuthHeaders jwt (bearer token) t cfg = Inr p"
  shows "unary_stub True jwt cfg lost (smoke_metadata t token) handler s = handler (Some p) s"
  using smoke_metadata_values [OF assms(1,2)] assms(3)
  by (simp add: unary_stub_def GRPCUnaryAuthInterceptor_def principalFromGRPCContext_def)

abbreviation smoke_pbhead :: "string \<Rightarrow> MessageHeader" where
  "smoke_pbhead t \<equiv> zero_header\<lparr>h_MIGVersion := ''0.1'', h_TenantID := t, h_Meta := Some []\<rparr>"

lemma smoke_header_from: "messageHeaderFromProto lib (smoke_header t) = smoke_pbhead t"
  by (simp add: messageHeaderFromProto_def smoke_header_def zero_pbheader_def zero_header_def structToMap_def)

lemma smoke_grpc_guard:
  assumes "p_TenantID p = t" and "tenant_ok t"
  shows "applyPrincipalHeaderFromPrincipal (smoke_pbhead t) p = (annotate_principal p (smoke_pbhead t), None)"
  using assms by (simp add: applyPrincipalHeaderFromPrincipal_def annotate_principal_def tenant_ok_def Let_def)

lemma grpc_passes:
  assumes cred: "credentials jwt cfg token t" and t: "tenant_ok t" and "ready s" and "dial addr = None"
    and "\<And>u. is_iteration (rt_iter (rs u))"
  shows "passed t s (mig_grpc_smoke lib show_status dial (grpc_target True jwt lib rs cfg lost) addr t token s)"
proof -
  obtain p where p: "PrincipalFromAuthHeaders jwt (bearer token) t cfg = Inr p" "p_TenantID p = t"
    and scope: "HasAnyScope p [''capability:infer'']"
    using assms(1,2) by (rule smoke_principal)
  let ?h = "annotate_principal p (smoke_pbhead t)"
  have h: "h_TenantID ?h \<noteq> []" "h_MIGVersion ?h \<in> {[], ''0.1''}" "h_IdempotencyKey ?h = []" "h_TenantID ?h = t"
    using t by (simp_all add: tenant_ok_def zero_header_def)
  note stub = smoke_stub [OF t cred p(1)]
  note conv = smoke_header_from smoke_grpc_guard [OF p(2) t]
  let ?hq = "\<lparr>hq_Header = ?h, hq_SupportedVersions = [''0.1''], hq_RequestedBindings = bindingTypesFromProto [BINDING_TYPE_GRPC],
    hq_RequestedFeatures = []\<rparr>"
  obtain hp where hp: "Hello (rs ''hello'') s ?hq = Inr hp" "hp_SelectedVersion hp = ''0.1''"
    by (rule Hello_ready [of ?hq]) (use h in simp_all)
  let ?dq = "\<lparr>dq_Header = ?h, dq_Query = [], dq_IncludeSchemaRefs = False, dq_IncludeQoS = False\<rparr>"
  obtain dp where dp: "Discover (rs ''discover'') s ?dq p = (s, Inr dp)" "dp_Capabilities dp \<noteq> []"
    by (rule Discover_ready [of ?dq "rs ''discover''" s p]) (use h assms(3,5) scope in simp_all)
  let ?iq = "\<lparr>iq_Header = ?h, iq_Capability = infer_name,
    iq_Payload = structToMap lib (lib_NewStruct lib [(''input'', JStr ''health-check'')]),
    iq_StreamPreference = streamPreferenceFromProto STREAM_PREFERENCE_UNSPECIFIED\<rparr>"
  have tc: "target_capability infer_name ?iq = infer_name"
    by (simp add: target_capability_def infer_name_def)
  obtain s' ip a where ip: "Invoke (rs ''invoke'') SelResult s infer_name ?iq (grpc_actor p) p = (s', Inr ip)"
    "ip_Capability ip = infer_name" and s': "ready s'" "s_audit s' = s_audit s @ [a]" "a_TenantID a = h_TenantID (iq_Header ?iq)"
    by (rule Invoke_ready [OF _ _ _ tc assms(3) scope]) (use h in simp_all)
  have 1: "gc_Hello (grpc_target True jwt lib rs cfg lost) (smoke_metadata t token) (smoke_hello t) s =
      (s, Inr \<lparr>pbhp_Header = messageHeaderToProto lib (hp_Header hp), pbhp_SelectedVersion = ''0.1'',
        pbhp_SelectedBinding = bindingTypeToProto (hp_SelectedBinding hp), pbhp_EnabledFeatures = hp_EnabledFeatures hp,
        pbhp_ServerId = hp_ServerID hp\<rparr>)"
    using hp by (simp add: grpc_target_def stub grpcHello_def smoke_hello_def principalFromContext_def conv Let_def)
  have 2: "gc_Discover (grpc_target True jwt lib rs cfg lost) (smoke_metadata t token) (smoke_discover t) s =
      (s, Inr \<lparr>pbdp_Header = messageHeaderToProto lib (dp_Header dp), pbdp_Capabilities = map capabilityToProto (dp_Capabilities dp)\<rparr>)"
    using dp by (simp add: grpc_target_def stub grpcDiscover_def smoke_discover_def principalFromContext_def conv Let_def)
  have 3: "gc_Invoke (grpc_target True jwt lib rs cfg lost) (smoke_metadata t token) (smoke_invoke lib t) s =
      (s', Inr \<lparr>pbip_Header = messageHeaderToProto lib (ip_Header ip), pbip_Capability = infer_name,
        pbip_Payload = mapToStruct lib (ip_Payload ip), pbip_ResultSchemaUri = ip_ResultSchemaURI ip\<rparr>)"
    using ip by (simp add: grpc_target_def stub grpcInvoke_def smoke_invoke_def principalFromContext_def conv Let_def)
  have "mig_grpc_smoke lib show_status dial (grpc_target True jwt lib rs cfg lost) addr t token s = (s', smoke_passes, 0)"
    unfolding mig_grpc_smoke_def assms(4) option.case Let_def 1 2 3 prod.case sum.case
    using dp(2) by (simp add: smoke_passes_def infer_name_def)
  with s' h(4) show ?thesis
    by (simp add: passedI)
qed

subsection \<open>Over NATS\<close>

fun nats_reply_json :: "nats_reply \<Rightarrow> (string, json) res" where
  "nats_reply_json (NrRaw code message) = Inr (JObj [(''error'', JObj [(''code'', JStr code), (''message'', JStr message)])])"
| "nats_reply_json (NrPayload (PError env)) = Inr (rejson (envelope_json env))"
| "nats_reply_json (NrPayload p) = reply_json p"

text \<open>The subscription of the binding a request reaches, for the requests the program sends.\<close>

definition request_call :: "string \<Rightarrow> string \<Rightarrow> json \<Rightarrow> nats_call option" where
  "request_call inbox subject body =
    (if subject_matches ''mig.v0_1.*.hello'' subject
     then Some (NHello \<lparr>nm_Subject = subject, nm_Reply = inbox, nm_Data = to_body (hello_of_json (rejson body))\<rparr>)
     else if subject_matches ''mig.v0_1.*.discover'' subject
     then Some (NDiscover \<lparr>nm_Subject = subject, nm_Reply = inbox, nm_Data = to_body (discover_of_json (rejson body))\<rparr>)
     else if subject_matches ''mig.v0_1.*.invoke.>'' subject
     then Some (NInvoke SelResult \<lparr>nm_Subject = subject, nm_Reply = inbox, nm_Data = to_body (invoke_of_json (rejson body))\<rparr>)
     else None)"

definition nats_target :: "bool \<Rightarrow> (string \<Rightarrow> rt) \<Rightarrow> string \<Rightarrow> (nats_reply \<Rightarrow> string) \<Rightarrow> Service requester" where
  "nats_target up rs inbox render subject body s =
    (case (if up then request_call inbox subject body else None) of
       None \<Rightarrow> (s, RequestFailed ''nats: no responders available for request'')
     | Some c \<Rightarrow>
         case nats_handle (rs subject) c s of
           Some (s, Some reply) \<Rightarrow> (s, RequestReplied (render reply) (nats_reply_json reply))
         | Some (s, None) \<Rightarrow> (s, RequestFailed ''nats: timeout'')
         | None \<Rightarrow> (s, RequestFailed ''nats: timeout''))"

lemma smoke_tokens:
  assumes "CHR ''.'' \<notin> set t"
  shows "subjectTokens (''mig.v0_1.'' @ t @ CHR ''.'' # rest) = ''mig'' # ''v0_1'' # t # split_on (CHR ''.'') rest"
proof -
  have "split_on (CHR ''.'') (''mig'' @ CHR ''.'' # ''v0_1'' @ CHR ''.'' # t @ CHR ''.'' # rest) =
      ''mig'' # ''v0_1'' # t # split_on (CHR ''.'') rest"
    using assms by (simp add: split_on_append)
  then show ?thesis
    by (simp add: subjectTokens_def)
qed

lemma smoke_request:
  assumes "CHR ''.'' \<notin> set t"
  shows "request_call inbox (''mig.v0_1.'' @ t @ ''.hello'') body =
      Some (NHello \<lparr>nm_Subject = ''mig.v0_1.'' @ t @ ''.hello'', nm_Reply = inbox, nm_Data = to_body (hello_of_json (rejson body))\<rparr>)"
    "request_call inbox (''mig.v0_1.'' @ t @ ''.discover'') body =
      Some (NDiscover \<lparr>nm_Subject = ''mig.v0_1.'' @ t @ ''.discover'', nm_Reply = inbox, nm_Data = to_body (discover_of_json (rejson body))\<rparr>)"
    "request_call inbox (''mig.v0_1.'' @ t @ ''.invoke.'' @ infer_name) body =
      Some (NInvoke SelResult \<lparr>nm_Subject = ''mig.v0_1.'' @ t @ ''.invoke.'' @ infer_name, nm_Reply = inbox,
        nm_Data = to_body (invoke_of_json (rejson body))\<rparr>)"
proof -
  have split: "split_on (CHR ''.'') ''hello'' = [''hello'']" "split_on (CHR ''.'') ''discover'' = [''discover'']"
    "split_on (CHR ''.'') (''invoke.'' @ infer_name) = [''invoke'', ''observatory'', ''models'', ''infer'']"
    "subjectTokens ''mig.v0_1.*.hello'' = [''mig'', ''v0_1'', ''*'', ''hello'']"
    "subjectTokens ''mig.v0_1.*.discover'' = [''mig'', ''v0_1'', ''*'', ''discover'']"
    unfolding infer_name_def by code_simp+
  have tokens: "subjectTokens (''mig.v0_1.'' @ t @ ''.hello'') = [''mig'', ''v0_1'', t, ''hello'']"
    "subjectTokens (''mig.v0_1.'' @ t @ ''.discover'') = [''mig'', ''v0_1'', t, ''discover'']"
    "subjectTokens (''mig.v0_1.'' @ t @ ''.invoke.'' @ infer_name) = [''mig'', ''v0_1'', t, ''invoke'', ''observatory'', ''models'', ''infer'']"
    using smoke_tokens [OF assms, of "''hello''"] smoke_tokens [OF assms, of "''discover''"]
      smoke_tokens [OF assms, of "''invoke.'' @ infer_name"] split by simp_all
  show "request_call inbox (''mig.v0_1.'' @ t @ ''.hello'') body =
      Some (NHello \<lparr>nm_Subject = ''mig.v0_1.'' @ t @ ''.hello'', nm_Reply = inbox, nm_Data = to_body (hello_of_json (rejson body))\<rparr>)"
    unfolding request_call_def subject_matches_def pattern_tokens split tokens by simp
  show "request_call inbox (''mig.v0_1.'' @ t @ ''.discover'') body =
      Some (NDiscover \<lparr>nm_Subject = ''mig.v0_1.'' @ t @ ''.discover'', nm_Reply = inbox, nm_Data = to_body (discover_of_json (rejson body))\<rparr>)"
    unfolding request_call_def subject_matches_def pattern_tokens split tokens by simp
  show "request_call inbox (''mig.v0_1.'' @ t @ ''.invoke.'' @ infer_name) body =
      Some (NInvoke SelResult \<lparr>nm_Subject = ''mig.v0_1.'' @ t @ ''.invoke.'' @ infer_name, nm_Reply = inbox,
        nm_Data = to_body (invoke_of_json (rejson body))\<rparr>)"
    unfolding request_call_def subject_matches_def pattern_tokens split tokens by simp
qed

lemma smoke_tail:
  assumes "CHR ''.'' \<notin> set t"
  shows "subject_tail (''mig.v0_1.'' @ t @ ''.invoke.'' @ infer_name) 4 = Some infer_name"
proof -
  have "split_on (CHR ''.'') (''invoke.'' @ infer_name) = [''invoke'', ''observatory'', ''models'', ''infer'']"
    "join_with (CHR ''.'') [''observatory'', ''models'', ''infer''] = infer_name"
    unfolding infer_name_def by code_simp+
  with smoke_tokens [OF assms, of "''invoke.'' @ infer_name"] show ?thesis
    by (simp add: subject_tail_def)
qed

lemma nats_line_ok:
  assumes "txt \<noteq> []" and "map_of es ''error'' = None"
  shows "nats_line name (RequestReplied txt (Inr (JObj es))) = (''[PASS] '' @ name, True)"
  using assms by (simp add: nats_line_def unmarshal_map_def)

lemma reply_without_error:
  assumes "p \<in> {PHello x, PDiscover y, PInvoke z}"
  shows "\<exists>es. nats_reply_json (NrPayload p) = Inr (JObj es) \<and> map_of es ''error'' = None"
  using assms by (auto simp: reply_json_def hello_json_def discover_json_def invoke_json_def)

lemma nats_passes:
  assumes t: "tenant_ok t" and "ready s" and "connect url = None" and "inbox \<noteq> []" and render: "\<And>x. render x \<noteq> []"
    and "\<And>u. is_iteration (rt_iter (rs u))"
  shows "passed t s (mig_nats_smoke connect (nats_target True rs inbox render) url t s)"
proof -
  have dot: "CHR ''.'' \<notin> set t"
    using t by (simp add: tenant_ok_def)
  have h: "h_TenantID (smoke_head t) \<noteq> []" "h_MIGVersion (smoke_head t) \<in> {[], ''0.1''}" "h_IdempotencyKey (smoke_head t) = []"
    using t by (simp_all add: tenant_ok_def zero_header_def)
  let ?p = "nats_principal (smoke_head t)"
  let ?n = "nats_target True rs inbox render"
  define n1 n2 n3 where "n1 = ''mig.v0_1.'' @ t @ ''.hello''" and "n2 = ''mig.v0_1.'' @ t @ ''.discover''"
    and "n3 = ''mig.v0_1.'' @ t @ ''.invoke.'' @ infer_name"
  note calls = smoke_request [OF dot, folded n1_def n2_def n3_def]
  note eval = nats_target_def calls smoke_bodies to_body_def decodeNATS_def nats_tenant_def respondNATS_def assms(4) h(1) Let_def
  let ?hq = "\<lparr>hq_Header = smoke_head t, hq_SupportedVersions = [''0.1''], hq_RequestedBindings = [''nats''], hq_RequestedFeatures = []\<rparr>"
  obtain hp where "Hello (rs n1) s ?hq = Inr hp"
    by (rule Hello_ready [of ?hq]) (use h in simp_all)
  then have 1: "?n n1 (hello_body t ''nats'') s = (s, RequestReplied (render (NrPayload (PHello hp))) (nats_reply_json (NrPayload (PHello hp))))"
    using h(1) by (simp add: eval natsHello_def)
  let ?dq = "\<lparr>dq_Header = smoke_head t, dq_Query = [], dq_IncludeSchemaRefs = False, dq_IncludeQoS = False\<rparr>"
  obtain dp where "Discover (rs n2) s ?dq ?p = (s, Inr dp)"
    by (rule Discover_ready [of ?dq "rs n2" s ?p]) (use h assms(2,6) in simp_all)
  then have 2: "?n n2 (discover_body t) s = (s, RequestReplied (render (NrPayload (PDiscover dp))) (nats_reply_json (NrPayload (PDiscover dp))))"
    using h(1) by (simp add: eval natsDiscover_def)
  let ?iq = "\<lparr>iq_Header = smoke_head t, iq_Capability = infer_name, iq_Payload = Some [(''input'', JStr ''health-check'')], iq_StreamPreference = []\<rparr>"
  have tc: "target_capability infer_name ?iq = infer_name"
    by (simp add: target_capability_def infer_name_def)
  obtain s' ip a where "Invoke (rs n3) SelResult s infer_name ?iq ''nats-client'' ?p = (s', Inr ip)"
    and s': "ready s'" "s_audit s' = s_audit s @ [a]" "a_TenantID a = h_TenantID (iq_Header ?iq)"
    by (rule Invoke_ready [OF _ _ _ tc assms(2), of ?p]) (use h in simp_all)
  then have 3: "?n n3 (invoke_body t) s = (s', RequestReplied (render (NrPayload (PInvoke ip))) (nats_reply_json (NrPayload (PInvoke ip))))"
    using h(1) smoke_tail [OF dot, folded n3_def] by (simp add: eval natsInvoke_def)
  have ok: "nats_line name (RequestReplied (render (NrPayload p)) (nats_reply_json (NrPayload p))) = (''[PASS] '' @ name, True)"
    if "p \<in> {PHello hp, PDiscover dp, PInvoke ip}" for name p
    using reply_without_error [OF that] nats_line_ok [OF render] by (auto simp del: nats_reply_json.simps)
  have "mig_nats_smoke connect ?n url t s = (s', smoke_passes, 0)"
    unfolding mig_nats_smoke_def assms(3) option.case nats_checks_def n1_def [symmetric] n2_def [symmetric] n3_def [symmetric]
    by (simp add: 1 2 3 ok smoke_passes_def del: nats_reply_json.simps)
  with s' show ?thesis
    by (simp add: passedI)
qed

subsection \<open>The fresh gateway\<close>

lemma new_service_ready:
  assumes "NewServiceWithOptions connect openlog opts = Inr s"
  shows "ready s" "s_audit s = []"
proof -
  have "map_ok (AList.update ''observatory.models.infer'' infer_capability [])"
    by simp
  with assms show "ready s" "s_audit s = []"
    by (auto simp: NewServiceWithOptions_def bootstrapDefaults_def empty_service_def ready_def infer_name_def Let_def split: option.splits if_splits)
qed

lemma migd_start_ready:
  assumes "migd_start env connect openlog r subscribe listen = Inr m"
  shows "ready (md_Service m) \<and> s_audit (md_Service m) = []"
  using assms
proof (rule migd_start_rule)
  show "ready (fst (StartNATSBinding r subscribe s)) \<and> s_audit (fst (StartNATSBinding r subscribe s)) = []"
    if "ready s \<and> s_audit s = []" for s
    using that by (rule StartNATSBinding_state_rule) (use that in \<open>simp add: ready_def\<close>)
  show "ready s \<and> s_audit s = []" if "NewServiceWithOptions connect openlog opts = Inr s" for opts s
    using new_service_ready [OF that] by simp
qed (simp add: SetMetrics_def ready_def)

subsection \<open>Properties\<close>


lemma credentials_demo: "credentials demo_jwt (cfg_Auth (md_Config demo_migd)) ''good'' ''acme''"
proof -
  have "ac_Mode (cfg_Auth (md_Config demo_migd)) = AuthModeJWT" "trimmed ''good''"
    "demo_jwt ''good'' (jwt_keyfunc (cfg_Auth (md_Config demo_migd))) = demo_jwt ''good'' (jwt_keyfunc demo_auth)"
    "demo_jwt ''good'' (jwt_keyfunc demo_auth) \<noteq> None"
    "p_TenantID (principal_of_claims (the (demo_jwt ''good'' (jwt_keyfunc demo_auth)))) = ''acme''"
    "HasAnyScope (principal_of_claims (the (demo_jwt ''good'' (jwt_keyfunc demo_auth)))) [''capability:infer'']"
    by code_simp+
  then show ?thesis
    unfolding credentials_def by auto
qed


end
