(* ===== verification/Mig_Isolation.thy ===== *)
theory Mig_Isolation
  imports Mig_Ledger Mig_Wire
begin

text \<open>
  What tenants of one gateway can learn about and do to each other. The service keeps one map for all
  of them, so separation rests on the keys. First, the critical sections of invocations: those of other
  tenants can be left out of any sequence without changing a reply to a tenant, as long as tenant
  identifiers contain no colon. Then what is shared: replies cached under colliding keys,
  cancellations, event topics and, over HTTP, the capabilities themselves.
\<close>

subsection \<open>Noninterference\<close>

text \<open>
  A system of operations and replies, the operations an observer may depend on, and an equivalence of
  states as the observer sees them: its own operations have the same effect in equivalent states,
  and others have none.
\<close>

locale noninterference =
  fixes step :: "'o \<Rightarrow> 's \<Rightarrow> 's \<times> 'r"
    and mine :: "'o \<Rightarrow> bool"
    and ok :: "'o \<Rightarrow> bool"
    and view :: "'s \<Rightarrow> 's \<Rightarrow> bool"
  assumes view_refl: "view s s"
    and consistent: "view s s' \<Longrightarrow> ok q \<Longrightarrow> mine q \<Longrightarrow>
      snd (step q s) = snd (step q s') \<and> view (fst (step q s)) (fst (step q s'))"
    and respects: "view s s' \<Longrightarrow> ok q \<Longrightarrow> \<not> mine q \<Longrightarrow> view (fst (step q s)) s'"
begin

text \<open>The replies the observer gets.\<close>

definition observed :: "'o list \<Rightarrow> 's \<Rightarrow> 'r list" where
  "observed qs s = map snd (filter (mine \<circ> fst) (zip qs (snd (run_ops step qs s))))"

lemma observed_view:
  "view s s' \<Longrightarrow> list_all ok qs \<Longrightarrow> observed qs s = snd (run_ops step (filter mine qs) s')"
proof (induction qs arbitrary: s s')
  case (Cons q qs)
  obtain s1 x where q: "step q s = (s1, x)"
    by (cases "step q s")
  obtain s1' x' where q': "step q s' = (s1', x')"
    by (cases "step q s'")
  show ?case
  proof (cases "mine q")
    case True
    with consistent [of s s' q] Cons.prems q q' have "x = x'" "view s1 s1'"
      by simp_all
    with Cons.IH [of s1 s1'] Cons.prems True q q' show ?thesis
      by (simp add: observed_def split_beta)
  next
    case False
    with respects [of s s' q] Cons.prems q have "view s1 s'"
      by simp
    with Cons.IH [of s1 s'] Cons.prems False q show ?thesis
      by (simp add: observed_def split_beta)
  qed
qed (simp add: observed_def)

lemma observed_purged: "list_all ok qs \<Longrightarrow> observed qs s = snd (run_ops step (filter mine qs) s)"
  using view_refl by (rule observed_view)

end

subsection \<open>The critical sections of an invocation\<close>

datatype section_call =
    SAdmit rt string InvokeRequest string Principal
  | SFinish rt invoke_select Pending
  | SCancel rt CancelRequest string
  | SSetQuota QuotaRequest
  | SAddCapability CapabilityUpsertRequest
  | SAuditExport string

datatype section_reply =
    YAdmission admission
  | YResult "(MigError, InvokeResponse) res"
  | YCancelled "(MigError, CancelAck) res"
  | YQuota "(MigError, QuotaResponse) res"
  | YAdded "MigError option"
  | YExport "AuditRecord list"

fun section_step :: "section_call \<Rightarrow> Service \<Rightarrow> Service \<times> section_reply" where
  "section_step (SAdmit r c req actor prin) s = map_prod id YAdmission (Invoke_admit r s c req actor prin)"
| "section_step (SFinish r sel p) s = map_prod id YResult (Invoke_finish r sel p s)"
| "section_step (SCancel r req mid) s = map_prod id YCancelled (Cancel r s req mid)"
| "section_step (SSetQuota req) s = map_prod id YQuota (SetQuota s req)"
| "section_step (SAddCapability req) s = map_prod id YAdded (AddCapability s req)"
| "section_step (SAuditExport t) s = (s, YExport (AuditExport s t))"

text \<open>
  The sections a tenant depends on: its own, and those that change what is common to all,
  cancellations and capabilities.
\<close>

fun concerns :: "string \<Rightarrow> section_call \<Rightarrow> bool" where
  "concerns t (SAdmit r c req actor prin) \<longleftrightarrow> h_TenantID (iq_Header req) = t"
| "concerns t (SFinish r sel p) \<longleftrightarrow> h_TenantID (pd_Header p) = t"
| "concerns t (SSetQuota req) \<longleftrightarrow> qr_TenantID req = t"
| "concerns t (SAuditExport u) \<longleftrightarrow> u = t"
| "concerns t _ \<longleftrightarrow> True"

definition plain_tenant :: "string \<Rightarrow> bool" where
  "plain_tenant t \<longleftrightarrow> t \<noteq> [] \<and> CHR '':'' \<notin> set t"

fun plain_section :: "section_call \<Rightarrow> bool" where
  "plain_section (SFinish r sel p) \<longleftrightarrow> plain_tenant (h_TenantID (pd_Header p))"
| "plain_section _ \<longleftrightarrow> True"

text \<open>Two states a tenant cannot tell apart.\<close>

definition same_view :: "string \<Rightarrow> Service \<Rightarrow> Service \<Rightarrow> bool" where
  "same_view t s s' \<longleftrightarrow>
    map_of (s_capabilities s) = map_of (s_capabilities s') \<and>
    map_of (s_cancelled s) = map_of (s_cancelled s') \<and>
    map_of (s_quotas s) t = map_of (s_quotas s') t \<and>
    map_of (s_tenantInvocations s) t = map_of (s_tenantInvocations s') t \<and>
    (\<forall>c k. map_of (s_idempotency s) (idem_key t c k) = map_of (s_idempotency s') (idem_key t c k)) \<and>
    filter (\<lambda>a. a_TenantID a = t) (s_audit s) = filter (\<lambda>a. a_TenantID a = t) (s_audit s')"

lemma same_view_refl [simp]: "same_view t s s"
  by (simp add: same_view_def)

lemma same_view_trans: "same_view t s1 s2 \<Longrightarrow> same_view t s2 s3 \<Longrightarrow> same_view t s1 s3"
  by (simp add: same_view_def)

lemma same_view_sym: "same_view t s s' \<Longrightarrow> same_view t s' s"
  by (simp add: same_view_def)

lemma same_view_metrics [simp]: "same_view t (s\<lparr>s_metrics := m\<rparr>) s" "same_view t (recordError c p s) s"
  by (simp_all add: same_view_def)

text \<open>The first colon of a key ends the tenant.\<close>

lemma plain_prefix:
  assumes "d \<notin> set t" and "d \<notin> set u" and "t @ d # xs = u @ d # ys"
  shows "t = u"
  using assms by (induction t arbitrary: u) (auto simp: Cons_eq_append_conv)

lemma idem_key_tenant:
  assumes "plain_tenant t" and "plain_tenant u" and "idem_key t c k = idem_key u c' k'"
  shows "t = u"
  using assms by (intro plain_prefix [of "CHR '':''" t u]) (simp_all add: plain_tenant_def idem_key_def)

lemma same_view_admit:
  assumes "same_view t s s'" and "h_TenantID (iq_Header req) = t"
  shows "snd (Invoke_admit r s c req actor prin) = snd (Invoke_admit r s' c req actor prin)"
proof (cases "prepare r (iq_Header req)")
  case (Inr head)
  then have "h_TenantID head = t"
    using prepare_ok(2) [OF Inr] assms(2) by simp
  with assms(1) show ?thesis
    unfolding Invoke_admit_def Inr sum.case
    by (simp add: same_view_def mget0_def Let_def split: option.split)
qed (simp add: Invoke_admit_def)

lemma same_view_committed:
  assumes "same_view t s s'" and "plain_tenant t" and "plain_tenant (h_TenantID (pd_Header p))"
  shows "same_view t (committed r p s) (if h_TenantID (pd_Header p) = t then committed r p s' else s')"
proof -
  have "idem_key t c k \<noteq> idem_key (h_TenantID (pd_Header p)) (pd_Capability p) (h_IdempotencyKey (pd_Header p))"
    if "h_TenantID (pd_Header p) \<noteq> t" for c k
    using idem_key_tenant [OF assms(2,3)] that by blast
  with assms(1) show ?thesis
    by (auto simp: same_view_def mget0_def audit_of_def)
qed

lemma same_view_finish:
  assumes "same_view t s s'" and "plain_tenant t" and "plain_tenant (h_TenantID (pd_Header p))"
  shows "same_view t (fst (Invoke_finish r sel p s)) (if h_TenantID (pd_Header p) = t then fst (Invoke_finish r sel p s') else s')"
proof (cases sel)
  case SelDeadline
  have "same_view t (recordError ErrorTimeout ''invoke'' s) s'" "same_view t s' (recordError ErrorTimeout ''invoke'' s')"
    using assms(1) same_view_trans [OF same_view_metrics(2)] same_view_sym [OF same_view_metrics(2)] by blast+
  then show ?thesis
    using same_view_trans SelDeadline by (auto simp: Invoke_finish_def)
next
  case SelResult
  then show ?thesis
    using same_view_committed [OF assms] by (auto simp: Invoke_finish_SelResult)
qed

lemma finish_reply: "snd (Invoke_finish r sel p s) = snd (Invoke_finish r sel p s')"
  by (cases sel) (simp_all add: Invoke_finish_def Let_def)

lemma same_view_step:
  assumes "same_view t s s'" and "plain_tenant t" and "plain_section q"
  shows "same_view t (fst (section_step q s)) (if concerns t q then fst (section_step q s') else s')"
proof (cases q)
  case (SAdmit r c req actor prin)
  have "same_view t (fst (Invoke_admit r x c req actor prin)) x" for x
    using Invoke_admit_state [of r x c req actor prin] by auto
  then have "same_view t (fst (Invoke_admit r s c req actor prin)) s'"
    "same_view t s' (fst (Invoke_admit r s' c req actor prin))"
    using assms(1) same_view_trans same_view_sym by blast+
  then show ?thesis
    using same_view_trans SAdmit by auto
next
  case (SFinish r sel p)
  then show ?thesis
    using same_view_finish [OF assms(1,2), of p r sel] assms(3) by (simp split: if_splits)
next
  case (SCancel r req mid)
  then show ?thesis
    using assms(1) by (auto simp: Cancel_def Let_def same_view_def split: sum.split)
next
  case (SSetQuota req)
  then show ?thesis
    using assms(1) by (auto simp: SetQuota_def same_view_def)
next
  case (SAddCapability req)
  then show ?thesis
    using assms(1) by (auto simp: AddCapability_def Let_def same_view_def)
qed (use assms(1) in simp)

lemma same_view_reply:
  assumes "same_view t s s'" and "plain_tenant t" and "concerns t q"
  shows "snd (section_step q s) = snd (section_step q s')"
proof (cases q)
  case (SAdmit r c req actor prin)
  then show ?thesis
    using same_view_admit [OF assms(1)] assms(3) by simp
next
  case (SFinish r sel p)
  then show ?thesis
    using finish_reply [of r sel p s s'] by simp
next
  case (SAuditExport u)
  then show ?thesis
    using assms by (simp add: AuditExport_def same_view_def plain_tenant_def)
qed (simp_all add: Cancel_def SetQuota_def AddCapability_def Let_def split: sum.split)

interpretation tenant: noninterference section_step "concerns t" "\<lambda>q. plain_tenant t \<and> plain_section q" "same_view t" for t
proof
  fix s s' q
  assume v: "same_view t s s'" and ok: "plain_tenant t \<and> plain_section q"
  show "snd (section_step q s) = snd (section_step q s') \<and> same_view t (fst (section_step q s)) (fst (section_step q s'))"
    if "concerns t q"
    using same_view_reply [OF v _ that] same_view_step [OF v, of q] ok that by simp
  show "same_view t (fst (section_step q s)) s'" if "\<not> concerns t q"
    using same_view_step [OF v, of q] ok that by simp
qed simp

text \<open>The replies to the sections a tenant depends on, in a sequence of sections of all tenants.\<close>

definition replies_to :: "string \<Rightarrow> section_call list \<Rightarrow> Service \<Rightarrow> section_reply list" where
  "replies_to t qs s = map snd (filter (concerns t \<circ> fst) (zip qs (snd (run_ops section_step qs s))))"

text \<open>
  C14. Invocations of other tenants do not interfere with a tenant. In every sequence of the critical
  sections of invocations, of cancellations, quota changes, registrations and audit exports, the
  replies a tenant gets are those it would get if the invocations, quota changes and audit
  exports of all other tenants had not happened, provided no tenant identifier contains a colon.
\<close>

theorem tenant_noninterference:
  assumes "plain_tenant t" and "list_all plain_section qs"
  shows "replies_to t qs s = snd (run_ops section_step (filter (concerns t) qs) s)"
  using tenant.observed_purged [of t qs s] assms by (simp add: replies_to_def tenant.observed_def list_all_iff)

definition demo_sections :: "section_call list" where
  "demo_sections =
    [SAdmit demo_rt [] demo_invoke ''user-1'' demo_principal,
     SFinish demo_rt SelResult \<lparr>pd_Header = demo_header\<lparr>h_TenantID := ''beta''\<rparr>, pd_Capability = ''observatory.models.infer'',
       pd_Descriptor = infer_capability, pd_Payload = None, pd_Actor = ''user-2'', pd_Deadline = 0\<rparr>,
     SSetQuota \<lparr>qr_TenantID = ''beta'', qr_MaxInvocations = 1\<rparr>,
     SAuditExport ''acme'']"

theorem tenant_noninterference_witness:
  "length (filter (concerns ''acme'') demo_sections) = 2 \<and>
   replies_to ''acme'' demo_sections demo_service =
     snd (run_ops section_step (filter (concerns ''acme'') demo_sections) demo_service)"
proof
  show "length (filter (concerns ''acme'') demo_sections) = 2"
    by code_simp
  have "plain_tenant ''acme''" "list_all plain_section demo_sections"
    by code_simp+
  then show "replies_to ''acme'' demo_sections demo_service =
     snd (run_ops section_step (filter (concerns ''acme'') demo_sections) demo_service)"
    by (rule tenant_noninterference)
qed

subsection \<open>What tenants share\<close>

lemma idem_key_collides: "idem_key (t @ '':'' @ c) c k = idem_key t c (c @ '':'' @ k)"
  by (simp add: idem_key_def)

lemma cancelled_refused:
  assumes "Cancel r s creq mid = (s1, Inr ack)" and "prepare r' (iq_Header req) = Inr head"
    and "h_MessageID head = ca_TargetMessageID ack"
  shows "is_err (snd (Invoke r' sel s1 capability req actor prin))"
proof -
  have "map_of (s_cancelled s1) (h_MessageID head) \<noteq> None"
    using assms(1,3) by (auto simp: Cancel_def Let_def split: sum.splits if_splits)
  then show ?thesis
    by (auto simp: Invoke_def Invoke_admit_def assms(2) Let_def split: option.split)
qed

lemma sse_replay_all:
  "list_all id oks \<Longrightarrow> length events \<le> length oks \<Longrightarrow> sse_replay events oks = (events, True)"
  by (induction events oks rule: sse_replay.induct) auto

lemma sse_replays_log:
  assumes "handleSubscribe r env True oks inputs ctx hr topic s = Some (s', resp)"
    and "CHR ''.'' \<in> set topic" and "query_get hr ''resume_cursor'' = []"
    and "list_all id oks" and "length (topic_log s topic) \<le> length oks"
  shows "\<exists>live. rp_Body resp = PSse (map (\<lambda>ev. ev\<lparr>ev_Replay := True\<rparr>) (topic_log s topic) @ live)"
proof -
  obtain m where m: "inc_stream ''sse'' s = s\<lparr>s_metrics := m\<rparr>"
    using inc_stream_frame by blast
  have log: "topic_log (inc_stream ''sse'' s) topic = topic_log s topic"
    by (simp add: m)
  have "cursor_start [] = Some 0"
    by (simp add: cursor_start_def)
  then obtain s1 c where "Subscribe (inc_stream ''sse'' s) topic [] =
      (s1, Inr (map (\<lambda>ev. ev\<lparr>ev_Replay := True\<rparr>) (topic_log s topic), c))"
    using assms(2) log by (simp add: Subscribe_eq Let_def)
  with assms(1,3) sse_replay_all [of oks "map (\<lambda>ev. ev\<lparr>ev_Replay := True\<rparr>) (topic_log s topic)"] assms(4,5)
  show ?thesis
    by (auto simp: handleSubscribe_def Let_def split: option.splits)
qed

text \<open>
  C23. Three things are not kept apart. (1) The cache of keyed replies joins tenant, capability and key
  with colons: the reply to a tenant \<open>t\<close> under the key \<open>c:k\<close> is also the reply to the tenant \<open>t:c\<close> under the
  key \<open>k\<close>, payload included, and that tenant is neither metered nor audited for it. (2) A cancellation
  by one tenant stops the invocations of every other under that message identifier. (3) An event
  stream starts with all events of its topic, whichever tenant published them and whoever listens.
\<close>

theorem tenants_share_state:
  "(Invoke r sel s capability req actor prin = (sa, Inr resp) \<and> target_capability capability req = c \<and>
      h_IdempotencyKey (iq_Header req) = c @ '':'' @ k \<and> k \<noteq> [] \<and>
      prepare r' (iq_Header req') = Inr head' \<and> target_capability capability' req' = c \<and>
      h_TenantID (iq_Header req') = h_TenantID (iq_Header req) @ '':'' @ c \<and> h_IdempotencyKey (iq_Header req') = k \<and>
      authorized sa head' c prin' d \<longrightarrow>
    Invoke r' sel' sa capability' req' actor' prin' = (sa, Inr (resp\<lparr>ip_Header := head'\<rparr>))) \<and>
   (Cancel r s creq mid = (sb, Inr ack) \<and> prepare r' (iq_Header req') = Inr head' \<and>
      h_MessageID head' = ca_TargetMessageID ack \<longrightarrow>
    is_err (snd (Invoke r' sel' sb capability' req' actor' prin'))) \<and>
   (handleSubscribe r env True oks inputs ctx hr topic s = Some (sc, stream) \<and> CHR ''.'' \<in> set topic \<and>
      query_get hr ''resume_cursor'' = [] \<and> list_all id oks \<and> length (topic_log s topic) \<le> length oks \<longrightarrow>
    (\<exists>live. rp_Body stream = PSse (map (\<lambda>ev. ev\<lparr>ev_Replay := True\<rparr>) (topic_log s topic) @ live)))"
proof (intro conjI impI; (elim conjE)?)
  assume first: "Invoke r sel s capability req actor prin = (sa, Inr resp)" and c: "target_capability capability req = c"
    and key: "h_IdempotencyKey (iq_Header req) = c @ '':'' @ k" and k: "k \<noteq> []"
    and head: "prepare r' (iq_Header req') = Inr head'" and c': "target_capability capability' req' = c"
    and t: "h_TenantID (iq_Header req') = h_TenantID (iq_Header req) @ '':'' @ c" and k': "h_IdempotencyKey (iq_Header req') = k"
    and auth: "authorized sa head' c prin' d"
  show "Invoke r' sel' sa capability' req' actor' prin' = (sa, Inr (resp\<lparr>ip_Header := head'\<rparr>))"
  proof (rule keyed_reply_cached [OF first _ head _ _ c' auth])
    show "idem_key (h_TenantID head') c (h_IdempotencyKey head') =
        idem_key (h_TenantID (iq_Header req)) (target_capability capability req) (h_IdempotencyKey (iq_Header req))"
      using prepare_ok(2,3) [OF head] t k' c key idem_key_collides by simp
  qed (use prepare_ok(3) [OF head] key k k' in simp_all)
qed (rule cancelled_refused, assumption+, rule sse_replays_log)

definition share_request :: InvokeRequest where
  "share_request = demo_invoke\<lparr>iq_Header := demo_header\<lparr>h_IdempotencyKey := ''observatory.models.infer:k''\<rparr>\<rparr>"

definition share_probe :: InvokeRequest where
  "share_probe = demo_invoke\<lparr>iq_Payload := None,
     iq_Header := zero_header\<lparr>h_TenantID := ''acme:observatory.models.infer'', h_MessageID := ''m-2'', h_IdempotencyKey := ''k''\<rparr>\<rparr>"

definition share_cancel :: CancelRequest where
  "share_cancel = \<lparr>cq_Header = zero_header\<lparr>h_TenantID := ''beta''\<rparr>, cq_TargetMessageID = [], cq_Reason = ''stop''\<rparr>"

definition share_listener :: HttpRequest where
  "share_listener = \<lparr>r_Method = ''GET'', r_Path = ''/mig/v0.1/subscribe/a.b'', r_Header = [], r_Query = [], r_RemoteAddr = []\<rparr>"

abbreviation share_first :: "Service \<times> (MigError, InvokeResponse) res" where
  "share_first \<equiv> Invoke demo_rt SelResult demo_published [] share_request ''a'' demo_principal"

abbreviation share_stopped :: "Service \<times> (MigError, CancelAck) res" where
  "share_stopped \<equiv> Cancel demo_rt demo_published share_cancel ''m-2''"

abbreviation share_stream :: "(Service \<times> HttpResponse) option" where
  "share_stream \<equiv> handleSubscribe demo_rt id True [True] [] (Some (AnonymousPrincipal\<lparr>p_TenantID := ''beta''\<rparr>)) share_listener ''a.b'' demo_published"

theorem tenants_share_state_witness:
  "Invoke demo_rt SelDeadline (fst share_first) [] share_probe ''b'' AnonymousPrincipal =
     (fst share_first, Inr ((projr (snd share_first))\<lparr>ip_Header := projr (prepare demo_rt (iq_Header share_probe))\<rparr>)) \<and>
   is_err (snd (Invoke demo_rt SelDeadline (fst share_stopped) [] share_probe ''b'' AnonymousPrincipal)) \<and>
   length (topic_log demo_published ''a.b'') = 1 \<and>
   (\<exists>live. rp_Body (snd (the share_stream)) = PSse (map (\<lambda>ev. ev\<lparr>ev_Replay := True\<rparr>) (topic_log demo_published ''a.b'') @ live))"
proof -
  let ?c = "''observatory.models.infer''" and ?head = "projr (prepare demo_rt (iq_Header share_probe))"
  note share = tenants_share_state [where c = ?c and k = "''k''" and d = infer_capability and s = demo_published
    and r = demo_rt and r' = demo_rt and sel = SelResult and sel' = SelDeadline and capability = "[]" and capability' = "[]"
    and req = share_request and req' = share_probe and actor = "''a''" and actor' = "''b''" and prin = demo_principal
    and prin' = AnonymousPrincipal and head' = ?head and creq = share_cancel and mid = "''m-2''"
    and env = id and oks = "[True]" and inputs = "[]" and ctx = "Some (AnonymousPrincipal\<lparr>p_TenantID := ''beta''\<rparr>)" and hr = share_listener
    and topic = "''a.b''" and sa = "fst share_first" and resp = "projr (snd share_first)" and sb = "fst share_stopped"
    and ack = "projr (snd share_stopped)" and sc = "fst (the share_stream)" and stream = "snd (the share_stream)"]
  have 1: "share_first = (fst share_first, Inr (projr (snd share_first)))" "target_capability [] share_request = ?c"
    "h_IdempotencyKey (iq_Header share_request) = ?c @ '':'' @ ''k''" "''k'' \<noteq> []"
    "prepare demo_rt (iq_Header share_probe) = Inr ?head" "target_capability [] share_probe = ?c"
    "h_TenantID (iq_Header share_probe) = h_TenantID (iq_Header share_request) @ '':'' @ ?c"
    "h_IdempotencyKey (iq_Header share_probe) = ''k''" "authorized (fst share_first) ?head ?c AnonymousPrincipal infer_capability"
    by code_simp+
  have 2: "share_stopped = (fst share_stopped, Inr (projr (snd share_stopped)))"
    "h_MessageID ?head = ca_TargetMessageID (projr (snd share_stopped))"
    by code_simp+
  have 3: "share_stream = Some (fst (the share_stream), snd (the share_stream))" "query_get share_listener ''resume_cursor'' = []"
    "length (topic_log demo_published ''a.b'') = 1"
    by code_simp+
  show ?thesis
    using share 1 2 3 by auto
qed

subsection \<open>Scopes\<close>

lemma register_route: "find_route metrics ''POST'' ''/admin/v0.1/capabilities'' = Routed RAddCapability []"
  by (cases metrics) code_simp+

lemma handleInvoke_out_of_scope:
  assumes "p_TenantID p = h_TenantID (iq_Header req)" and ok: "open_to r s (iq_Header req) c"
    and d: "map_of (s_capabilities s) c = Some d" and scopes: "\<not> HasAnyScope p (c_AuthScopes d)"
  shows "\<exists>s1 resp. handleInvoke r sel (Some p) hr c (Decoded req) s = (s1, resp) \<and> rp_Status resp = 403"
proof -
  let ?h = "annotate_principal p (iq_Header req)"
  have ap: "applyPrincipalHeader (iq_Header req) p hr = (?h, None)"
    using assms(1) ok by (auto simp: applyPrincipalHeader_def open_to_def Let_def)
  have "\<not> is_err (prepare r ?h)"
    unfolding prepare_error_iff using ok by (auto simp: open_to_def MIGVersion_def)
  then obtain head where "prepare r ?h = Inr head"
    by (cases "prepare r ?h") auto
  then have "Invoke r sel s c (req\<lparr>iq_Header := ?h\<rparr>) (http_actor p hr) p =
      (recordError ErrorForbidden ''invoke'' s, Inl (mk_error ErrorForbidden ''insufficient capability scope'' False))"
    using ok d scopes by (simp add: Invoke_def Invoke_admit_def open_to_def)
  with ap show ?thesis
    by (simp add: handleInvoke_def principalFromContext_def decodeJSON_def invoke_status_def error_code_defs
        writeMigError_def writeJSON_def Let_def)
qed

lemma gateway_invoke_as:
  assumes "principalFromRequest jwt hr cfg = Inr p" and "r_Method hr = ''POST''" and "r_Path hr = ''/mig/v0.1/invoke/'' @ c"
    and "c \<noteq> []" and "CHR ''/'' \<notin> set c" and "handleInvoke r sel (Some p) hr c (b_Invoke b) s = (s1, resp)"
  obtains s' where "http_gateway jwt r sel cfg metrics b k None hr s = Some (s', resp)" "same_but_metrics s1 s'"
proof -
  have mux: "serve_mux r sel metrics b k' (Some p) hr s = Some (s1, resp)" for k'
    using assms(6) invoke_route [OF assms(4,5)] by (simp add: serve_mux_def assms(2,3))
  have "\<exists>s'. http_gateway jwt r sel cfg metrics b k None hr s = Some (s', resp) \<and> same_but_metrics s1 s'"
    by (rule gateway_routed [OF assms(1) _ mux]) (simp add: assms(3))
  with that show thesis
    by blast
qed

lemma AddCapability_rescoped:
  assumes "core_inv s" and "map_of (s_capabilities s) c = Some d"
  shows "AddCapability s \<lparr>cu_Descriptor = d\<lparr>c_AuthScopes := ss\<rparr>\<rparr> =
    (s\<lparr>s_capabilities := AList.update c (d\<lparr>c_AuthScopes := ss\<rparr>) (s_capabilities s)\<rparr>, None)"
  using core_inv_caps [OF assms(1)] assms(2) by (auto simp: AddCapability_def caps_ok_def Let_def)

lemma gateway_rescope:
  assumes "r_Method hr = ''POST''" and path: "r_Path hr = ''/admin/v0.1/capabilities''" and "principalFromRequest jwt hr cfg = Inr p"
    and s: "core_inv s" "map_of (s_capabilities s) c = Some d" and b: "b_Capability b = Decoded \<lparr>cu_Descriptor = d\<lparr>c_AuthScopes := ss\<rparr>\<rparr>"
  obtains s' where "http_gateway jwt r sel cfg metrics b k None hr s = Some (s', writeJSON 201 (PDescriptor (d\<lparr>c_AuthScopes := ss\<rparr>)))"
    "map_of (s_capabilities s') c = Some (d\<lparr>c_AuthScopes := ss\<rparr>)" "s_audit s' = s_audit s"
    "\<And>r h. open_to r s h c \<Longrightarrow> open_to r s' h c"
proof -
  define s1 where "s1 = s\<lparr>s_capabilities := AList.update c (d\<lparr>c_AuthScopes := ss\<rparr>) (s_capabilities s)\<rparr>"
  have mux: "serve_mux r sel metrics b k' (Some p) hr s = Some (s1, writeJSON 201 (PDescriptor (d\<lparr>c_AuthScopes := ss\<rparr>)))" for k'
    using AddCapability_rescoped [OF s] register_route b
    by (simp add: serve_mux_def assms(1) path handleAddCapability_def decodeJSON_def s1_def)
  have "\<exists>s'. http_gateway jwt r sel cfg metrics b k None hr s = Some (s', writeJSON 201 (PDescriptor (d\<lparr>c_AuthScopes := ss\<rparr>))) \<and>
      same_but_metrics s1 s'"
    by (rule gateway_routed [OF assms(3) _ mux]) (simp add: path)
  then obtain s' where g: "http_gateway jwt r sel cfg metrics b k None hr s = Some (s', writeJSON 201 (PDescriptor (d\<lparr>c_AuthScopes := ss\<rparr>)))"
    and m: "same_but_metrics s1 s'"
    by blast
  show thesis
    using m by (intro that [OF g]) (auto simp: same_but_metrics_def s1_def open_to_def over_quota_def)
qed

text \<open>
  C24. Scopes bound a token only as long as nobody changes them: the administration interface asks for
  any token, not for a scope. In JWT mode a principal whose token has none of the scopes a capability
  demands is refused with 403; with the same token it can register the capability again without
  scopes, which is answered with 201, and the invocation that was refused is then answered with 200
  and audited for its tenant.
\<close>

theorem scopes_self_granted:
  assumes jwt: "ac_Mode cfg = AuthModeJWT"
    and reg: "r_Method hr = ''POST''" "r_Path hr = ''/admin/v0.1/capabilities''" "principalFromRequest jwt hr cfg = Inr p"
    and inv: "r_Method hr' = ''POST''" "r_Path hr' = ''/mig/v0.1/invoke/'' @ c" "principalFromRequest jwt hr' cfg = Inr p"
      "CHR ''/'' \<notin> set c"
    and s: "core_inv s" "map_of (s_capabilities s) c = Some d"
    and scopes: "c_AuthScopes d \<noteq> []" "set (p_Scopes p) \<inter> set (c_AuthScopes d) = {}"
    and b: "b_Capability b = Decoded \<lparr>cu_Descriptor = d\<lparr>c_AuthScopes := []\<rparr>\<rparr>" "b_Invoke b' = Decoded req"
    and req: "h_TenantID (iq_Header req) = p_TenantID p" "open_to r' s (iq_Header req) c"
  shows "(\<exists>s0 refused. http_gateway jwt r' SelResult cfg metrics b' k' None hr' s = Some (s0, refused) \<and> rp_Status refused = 403) \<and>
    (\<exists>sa sb created resp a.
      http_gateway jwt r sel cfg metrics b k None hr s = Some (sa, created) \<and> rp_Status created = 201 \<and>
      http_gateway jwt r' SelResult cfg metrics b' k' None hr' sa = Some (sb, resp) \<and> rp_Status resp = 200 \<and>
      s_audit sb = s_audit s @ [a] \<and> a_TenantID a = p_TenantID p \<and> a_Capability a = c)"
proof -
  have c: "c \<noteq> []" and tenant: "p_TenantID p \<in> {[], h_TenantID (iq_Header req)}"
    using req by (simp_all add: open_to_def)
  have "p_Authenticated p"
    using inv(3) jwt by (auto simp: principalFromRequest_def elim: jwt_principal)
  then have "\<not> HasAnyScope p (c_AuthScopes d)"
    using scopes by (simp add: HasAnyScope_iff)
  then obtain s1 denied where "handleInvoke r' SelResult (Some p) hr' c (b_Invoke b') s = (s1, denied)" "rp_Status denied = 403"
    unfolding b(2) using handleInvoke_out_of_scope [OF req(1) [symmetric] req(2) s(2)] by blast
  then have refused: "\<exists>s0 refused. http_gateway jwt r' SelResult cfg metrics b' k' None hr' s = Some (s0, refused) \<and> rp_Status refused = 403"
    by (metis gateway_invoke_as [OF inv(3,1,2) c inv(4)])
  obtain sa where created: "http_gateway jwt r sel cfg metrics b k None hr s = Some (sa, writeJSON 201 (PDescriptor (d\<lparr>c_AuthScopes := []\<rparr>)))"
    and sa: "map_of (s_capabilities sa) c = Some (d\<lparr>c_AuthScopes := []\<rparr>)" "s_audit sa = s_audit s" "open_to r' sa (iq_Header req) c"
    using gateway_rescope [OF reg s b(1)] req(2) by metis
  have "HasAnyScope p (c_AuthScopes e)" if "map_of (s_capabilities sa) c = Some e" for e
    using that sa(1) by (auto simp: HasAnyScope_def)
  from tenant this sa(3) obtain s2 q where "handleInvoke r' SelResult (Some p) hr' c (Decoded req) sa = (s2, writeJSON 200 (PInvoke (response_of q)))"
    and audit: "s_audit s2 = s_audit sa @ [audit_of r' q]" "a_TenantID (audit_of r' q) = h_TenantID (iq_Header req)" "a_Capability (audit_of r' q) = c"
    by (rule handleInvoke_open)
  then obtain sb where sb: "http_gateway jwt r' SelResult cfg metrics b' k' None hr' sa = Some (sb, writeJSON 200 (PInvoke (response_of q)))"
    "same_but_metrics s2 sb"
    using gateway_invoke_as [OF inv(3,1,2) c inv(4)] b(2) by metis
  have "s_audit sb = s_audit s @ [audit_of r' q]" "a_TenantID (audit_of r' q) = p_TenantID p"
    using same_but_metrics_audit [OF sb(2)] audit sa(2) req(1) by simp_all
  moreover have "rp_Status (writeJSON n x) = n" for n x
    by (simp add: writeJSON_def)
  ultimately show ?thesis
    using refused created sb(1) audit(3) by blast
qed

definition bare_jwt :: jwtlib where
  "bare_jwt tok keyfunc = (if tok = ''bare'' then Some [(''tenant_id'', JStr ''acme'')] else None)"

definition bare_http :: "string \<Rightarrow> HttpRequest" where
  "bare_http path = \<lparr>r_Method = ''POST'', r_Path = path, r_Header = [(''Authorization'', ''Bearer bare'')], r_Query = [], r_RemoteAddr = []\<rparr>"

definition bare_invoke :: InvokeRequest where
  "bare_invoke = demo_invoke\<lparr>iq_Header := demo_header\<lparr>h_IdempotencyKey := []\<rparr>\<rparr>"

theorem scopes_self_granted_witness:
  "let register = bare_http ''/admin/v0.1/capabilities''; invoke = bare_http ''/mig/v0.1/invoke/observatory.models.infer'';
       b = no_bodies\<lparr>b_Capability := Decoded \<lparr>cu_Descriptor = infer_capability\<lparr>c_AuthScopes := []\<rparr>\<rparr>, b_Invoke := Decoded bare_invoke\<rparr>
   in \<exists>sa sb created resp.
     http_gateway bare_jwt demo_rt SelResult demo_auth True b demo_session None register demo_service = Some (sa, created) \<and>
     http_gateway bare_jwt demo_rt SelResult demo_auth True b demo_session None invoke sa = Some (sb, resp) \<and>
     rp_Status created = 201 \<and> rp_Status resp = 200"
proof -
  let ?c = "''observatory.models.infer''"
  let ?p = "projr (principalFromRequest bare_jwt (bare_http ''/ui'') demo_auth)"
  let ?b = "no_bodies\<lparr>b_Capability := Decoded \<lparr>cu_Descriptor = infer_capability\<lparr>c_AuthScopes := []\<rparr>\<rparr>, b_Invoke := Decoded bare_invoke\<rparr>"
  have requests: "r_Method (bare_http path) = ''POST''" "r_Path (bare_http path) = path"
      "principalFromRequest bare_jwt (bare_http path) demo_auth = Inr ?p" for path
    by (simp_all add: bare_http_def) code_simp
  have state: "CHR ''/'' \<notin> set ?c" "map_of (s_capabilities demo_service) ?c = Some infer_capability" "c_AuthScopes infer_capability \<noteq> []"
    "set (p_Scopes ?p) \<inter> set (c_AuthScopes infer_capability) = {}"
    by code_simp+
  have "s_quotas demo_service = []" "s_cancelled demo_service = []"
    by code_simp+
  with state(2) have "open_to demo_rt demo_service (iq_Header bare_invoke) ?c"
    by (simp add: open_to_def over_quota_def bare_invoke_def demo_header_def zero_header_def)
  moreover have "h_TenantID (iq_Header bare_invoke) = p_TenantID ?p"
    by code_simp
  ultimately have call: "h_TenantID (iq_Header bare_invoke) = p_TenantID ?p" "open_to demo_rt demo_service (iq_Header bare_invoke) ?c"
    by blast+
  have bodies: "b_Capability ?b = Decoded \<lparr>cu_Descriptor = infer_capability\<lparr>c_AuthScopes := []\<rparr>\<rparr>" "b_Invoke ?b = Decoded bare_invoke"
    by simp_all
  have path: "r_Path (bare_http ''/mig/v0.1/invoke/observatory.models.infer'') = ''/mig/v0.1/invoke/'' @ ?c"
    by (simp add: requests)
  from scopes_self_granted [OF demo_auth_jwt requests(1,2,3) requests(1) path requests(3) state(1) core_inv_demo state(2-4) bodies call,
      of True demo_session demo_rt SelResult demo_session]
  show ?thesis
    unfolding Let_def by blast
qed

end
