(* ===== verification/Mig_Console.thy ===== *)
theory Mig_Console
  imports Mig_Json
begin

text \<open>
  The operations console, \<^verbatim>\<open>core/pkg/mig/ui.go\<close>: the document the gateway serves under \<^verbatim>\<open>/ui\<close>, reduced to the
  elements its script reads and writes, and the script.

  The console is one record: the object \<^verbatim>\<open>state\<close> of the script, the browser's \<^verbatim>\<open>localStorage\<close>, the values
  and texts of the elements, and the interval timers that run. What the browser's engine computes
  beyond the strings and numbers spelled out here is the argument \<open>js\<close>. The other end of \<^verbatim>\<open>fetch\<close> is an
  argument too: a function from the request and the gateway's state to its new state and the outcome,
  which carries the text of a response and what \<^verbatim>\<open>JSON.parse\<close> makes of it. Strings are UTF-8. An exception
  is its message. A handler is one step, with the requests it awaits: replies that arrive after a later
  event, and out of order, are not modelled.
\<close>

subsection \<open>The script language\<close>

record js_engine =
  js_parse :: "string \<Rightarrow> (string, json) res"
  js_stringify :: "json \<Rightarrow> string"
  js_numeral :: "int \<Rightarrow> int \<Rightarrow> string"
  js_number :: "string \<Rightarrow> int option"
  js_null_error :: "string \<Rightarrow> string"
  js_call_error :: string

text \<open>\<^verbatim>\<open>trim\<close> removes the white space of Unicode and the byte order mark, but not U+0085.\<close>

definition js_spaces :: "string list" where
  "js_spaces = removeAll [CHR 0xC2, CHR 0x85] space_runes @ [[CHR 0xEF, CHR 0xBB, CHR 0xBF]]"

definition js_trim :: "string \<Rightarrow> string" where
  "js_trim s = rev (trim_by (map rev js_spaces) (rev (trim_by js_spaces s)))"

text \<open>\<^verbatim>\<open>Number\<close> of a string, \<open>None\<close> for NaN; numerals with a sign, a fraction, an exponent or a prefix are left to the engine.\<close>

definition js_Number :: "js_engine \<Rightarrow> string \<Rightarrow> int option" where
  "js_Number js s =
    (let t = js_trim s in
     if t = [] then Some 0
     else if list_all is_digit t then Some (int (digits_value 0 t))
     else js_number js s)"

text \<open>
  Conversion to a string; numbers that are not safe integers are left to the engine, and objects are
  taken to have no \<^verbatim>\<open>toString\<close> of their own.
\<close>

fun js_String :: "js_engine \<Rightarrow> json \<Rightarrow> string" where
  "js_String js JNull = ''null''"
| "js_String js (JBool b) = (if b then ''true'' else ''false'')"
| "js_String js (JNum m e) = (if 0 \<le> e \<and> \<bar>m * 2 ^ nat e\<bar> < 2 ^ 53 then show_int (m * 2 ^ nat e) else js_numeral js m e)"
| "js_String js (JStr s) = s"
| "js_String js (JArr vs) = join_with (CHR '','') (map (\<lambda>v. if v = JNull then [] else js_String js v) vs)"
| "js_String js (JStrs xs) = join_with (CHR '','') xs"
| "js_String js (JObj es) = ''[object Object]''"

text \<open>A value or undefined, as a condition, and \<open>v || d\<close>.\<close>

fun js_truthy :: "json option \<Rightarrow> bool" where
  "js_truthy None = False"
| "js_truthy (Some JNull) = False"
| "js_truthy (Some (JBool b)) = b"
| "js_truthy (Some (JNum m e)) = (m \<noteq> 0)"
| "js_truthy (Some (JStr s)) = (s \<noteq> [])"
| "js_truthy (Some _) = True"

definition js_or :: "json option \<Rightarrow> json \<Rightarrow> json" where
  "js_or v d = (if js_truthy v then the v else d)"

text \<open>Reading a property: of null it throws, of a value without it, it is undefined.\<close>

definition js_prop :: "js_engine \<Rightarrow> json \<Rightarrow> string \<Rightarrow> (string, json option) res" where
  "js_prop js v k =
    (case v of JNull \<Rightarrow> Inl (js_null_error js k) | JObj es \<Rightarrow> Inr (map_of es k) | _ \<Rightarrow> Inr None)"

text \<open>\<open>v.k?.l\<close>\<close>

definition js_chain :: "js_engine \<Rightarrow> json \<Rightarrow> string \<Rightarrow> string \<Rightarrow> (string, json option) res" where
  "js_chain js v k l =
    (case js_prop js v k of
       Inl e \<Rightarrow> Inl e
     | Inr None \<Rightarrow> Inr None
     | Inr (Some JNull) \<Rightarrow> Inr None
     | Inr (Some w) \<Rightarrow> js_prop js w l)"

text \<open>The length of a string counts UTF-16 units.\<close>

definition utf16_length :: "string \<Rightarrow> nat" where
  "utf16_length s =
    length (filter (\<lambda>c. of_char c < (128 :: nat) \<or> (192 :: nat) \<le> of_char c) s) + length (filter (\<lambda>c. (240 :: nat) \<le> of_char c) s)"

definition js_length :: "json \<Rightarrow> json option" where
  "js_length v =
    (case v of
       JArr vs \<Rightarrow> Some (JNum (int (length vs)) 0)
     | JStrs xs \<Rightarrow> Some (JNum (int (length xs)) 0)
     | JStr s \<Rightarrow> Some (JNum (int (utf16_length s)) 0)
     | JObj es \<Rightarrow> map_of es ''length''
     | _ \<Rightarrow> None)"

definition js_text :: "js_engine \<Rightarrow> json option \<Rightarrow> string" where
  "js_text js v = (case v of None \<Rightarrow> ''undefined'' | Some w \<Rightarrow> js_String js w)"

text \<open>\<^verbatim>\<open>encodeURIComponent\<close>\<close>

definition unreserved :: "char \<Rightarrow> bool" where
  "unreserved c \<longleftrightarrow> c \<in> set ''ABCDEFGHIJKLMNOPQRSTUVWXYZabcdefghijklmnopqrstuvwxyz0123456789-_.!~*'()''"

definition hex_upper :: "nat \<Rightarrow> char" where
  "hex_upper n = ''0123456789ABCDEF'' ! n"

definition percent_encode :: "char \<Rightarrow> string" where
  "percent_encode c = [CHR ''%'', hex_upper (of_char c div 16), hex_upper (of_char c mod 16)]"

definition encodeURIComponent :: "string \<Rightarrow> string" where
  "encodeURIComponent s = concat (map (\<lambda>c. if unreserved c then [c] else percent_encode c) s)"

subsection \<open>The document and the state of the script\<close>

record Console =
  u_timer :: "nat option"
  u_tenant :: string
  u_token :: string
  u_interval :: string
  u_localStorage :: "(string, string) gomap"
  u_tenantInput :: string
  u_tokenInput :: string
  u_intervalInput :: string
  u_capabilityInput :: string
  u_payloadInput :: string
  u_kpiConnections :: string
  u_kpiInvocations :: string
  u_kpiCapabilities :: string
  u_kpiConformance :: string
  u_connections :: string
  u_status :: string
  u_statusClass :: string
  u_output :: string
  u_timers :: "(nat \<times> int) list"
  u_nextTimer :: nat

definition interval_options :: "string list" where
  "interval_options = [''1000'', ''2000'', ''5000'', ''0'']"

text \<open>The document before the script runs.\<close>

definition console_page :: "(string, string) gomap \<Rightarrow> Console" where
  "console_page storage =
    \<lparr>u_timer = None, u_tenant = [], u_token = [], u_interval = [], u_localStorage = storage,
     u_tenantInput = ''acme'', u_tokenInput = [], u_intervalInput = ''2000'',
     u_capabilityInput = ''observatory.models.infer'', u_payloadInput = ''{\"input\":\"hello\"}'',
     u_kpiConnections = ''0'', u_kpiInvocations = ''0'', u_kpiCapabilities = ''0'', u_kpiConformance = ''-'',
     u_connections = [], u_status = ''Ready.'', u_statusClass = ''status'', u_output = ''{}'',
     u_timers = [], u_nextTimer = 1\<rparr>"

text \<open>Setting the value of a text field drops line breaks; that of a selection, unless it is an option, clears it.\<close>

definition text_value :: "string \<Rightarrow> string" where
  "text_value v = filter (\<lambda>c. c \<notin> {CHR 0x0A, CHR 0x0D}) v"

definition select_value :: "string \<Rightarrow> string" where
  "select_value v = (if v \<in> set interval_options then v else [])"

definition getItem :: "(string, string) gomap \<Rightarrow> string \<Rightarrow> string \<Rightarrow> string" where
  "getItem storage k d = (case map_of storage k of None \<Rightarrow> d | Some v \<Rightarrow> if v = [] then d else v)"

definition console_state :: "Console \<Rightarrow> Console" where
  "console_state c =
    (let c = c\<lparr>u_tenant := getItem (u_localStorage c) ''mig.console.tenant'' ''acme'',
               u_token := getItem (u_localStorage c) ''mig.console.token'' [],
               u_interval := getItem (u_localStorage c) ''mig.console.interval'' ''2000''\<rparr>
     in c\<lparr>u_tenantInput := text_value (u_tenant c), u_tokenInput := text_value (u_token c),
          u_intervalInput := select_value (u_interval c)\<rparr>)"

definition setStatus :: "string \<Rightarrow> string \<Rightarrow> Console \<Rightarrow> Console" where
  "setStatus message cls c =
    c\<lparr>u_status := message, u_statusClass := ''status'' @ (if cls \<noteq> [] then '' '' @ cls else [])\<rparr>"

subsection \<open>Requests\<close>

record fetch_request =
  fq_Method :: string
  fq_URL :: string
  fq_Headers :: "(string, string) gomap"
  fq_Body :: "json option"

datatype fetched = FetchFailed string | FetchReplied int string string "(string, json) res"

type_synonym 's fetcher = "fetch_request \<Rightarrow> 's \<Rightarrow> 's \<times> fetched"

definition request_tenant :: "Console \<Rightarrow> string" where
  "request_tenant c = (if u_tenant c = [] then ''acme'' else u_tenant c)"

definition console_headers :: "Console \<Rightarrow> (string, string) gomap" where
  "console_headers c =
    [(''content-type'', ''application/json''), (''x-tenant-id'', request_tenant c)] @
    (if u_token c \<noteq> [] then [(''authorization'', ''Bearer '' @ u_token c)] else [])"

text \<open>What both request functions make of a response: the body must parse, or is kept as text.\<close>

definition reply_data :: "fetched \<Rightarrow> (string, json) res" where
  "reply_data res =
    (case res of
       FetchFailed e \<Rightarrow> Inl e
     | FetchReplied status statusText body parsed \<Rightarrow>
         let parsed_data = (if body = [] then JObj [] else case parsed of Inl _ \<Rightarrow> JObj [(''raw'', JStr body)] | Inr j \<Rightarrow> j)
         in if \<not> (200 \<le> status \<and> status \<le> 299) then Inl (if body \<noteq> [] then body else statusText)
            else Inr parsed_data)"

definition console_getJSON :: "'s fetcher \<Rightarrow> Console \<Rightarrow> string \<Rightarrow> 's \<Rightarrow> 's \<times> (string, json) res" where
  "console_getJSON fetch c url s =
    map_prod id reply_data (fetch \<lparr>fq_Method = ''GET'', fq_URL = url, fq_Headers = console_headers c, fq_Body = None\<rparr> s)"

definition console_postJSON :: "'s fetcher \<Rightarrow> Console \<Rightarrow> string \<Rightarrow> json \<Rightarrow> 's \<Rightarrow> 's \<times> (string, json) res" where
  "console_postJSON fetch c url body s =
    map_prod id reply_data (fetch \<lparr>fq_Method = ''POST'', fq_URL = url, fq_Headers = console_headers c, fq_Body = Some body\<rparr> s)"

subsection \<open>The dashboard\<close>

definition no_connections :: string where
  "no_connections = ''<tr><td colspan=\"7\" class=\"mono\">No active long-lived connections.</td></tr>''"

definition conn_text :: "js_engine \<Rightarrow> jobject \<Rightarrow> string \<Rightarrow> string" where
  "conn_text js es k = js_String js (js_or (map_of es k) (JStr []))"

definition cell :: "string \<Rightarrow> string" where
  "cell t = ''<td>'' @ t @ ''</td>''"

definition mono_cell :: "string \<Rightarrow> string" where
  "mono_cell t = ''<td class=\"mono\">'' @ t @ ''</td>''"

text \<open>The row of a connection: of null it throws, of a value without fields all cells are empty.\<close>

definition connection_row :: "js_engine \<Rightarrow> json \<Rightarrow> (string, string) res" where
  "connection_row js conn =
    (case conn of
       JNull \<Rightarrow> Inl (js_null_error js ''id'')
     | _ \<Rightarrow>
       let es = (case conn of JObj es \<Rightarrow> es | _ \<Rightarrow> []) in
       Inr (''<tr>'' @ mono_cell (conn_text js es ''id'') @ cell (conn_text js es ''protocol'') @
            cell (conn_text js es ''kind'') @ cell (conn_text js es ''tenant_id'') @ cell (conn_text js es ''actor'') @
            mono_cell (conn_text js es ''remote_addr'') @ mono_cell (conn_text js es ''started_at'') @ ''</tr>''))"

fun connection_rows :: "js_engine \<Rightarrow> json list \<Rightarrow> (string, string) res" where
  "connection_rows js [] = Inr []"
| "connection_rows js (v # vs) =
    (case connection_row js v of
       Inl e \<Rightarrow> Inl e
     | Inr t \<Rightarrow> (case connection_rows js vs of Inl e \<Rightarrow> Inl e | Inr ts \<Rightarrow> Inr (t @ ts)))"

text \<open>The new content of the table body; only an array has a \<^verbatim>\<open>map\<close> method.\<close>

definition renderConnections :: "js_engine \<Rightarrow> json \<Rightarrow> (string, string) res" where
  "renderConnections js v =
    (if \<not> js_truthy (js_length v) then Inr no_connections
     else case v of
       JArr vs \<Rightarrow> connection_rows js vs
     | JStrs xs \<Rightarrow> connection_rows js (map JStr xs)
     | _ \<Rightarrow> Inl (js_call_error js))"

definition conformance_text :: "js_engine \<Rightarrow> json \<Rightarrow> (string, string) res" where
  "conformance_text js conf =
    (case (js_prop js conf ''full'', js_prop js conf ''core'') of
       (Inl e, _) \<Rightarrow> Inl e
     | (Inr full, core) \<Rightarrow>
         if js_truthy full then Inr ''FULL''
         else case core of Inl e \<Rightarrow> Inl e | Inr v \<Rightarrow> Inr (if js_truthy v then ''CORE'' else ''NO''))"

text \<open>The part of a refresh after the replies have arrived. An exception leaves what was set before it.\<close>

definition show_dashboard :: "js_engine \<Rightarrow> json \<Rightarrow> json \<Rightarrow> json \<Rightarrow> json \<Rightarrow> Console \<Rightarrow> Console \<times> string option" where
  "show_dashboard js connections usage caps conf c =
    (case js_chain js connections ''summary'' ''total'' of
       Inl e \<Rightarrow> (c, Some e)
     | Inr sum_total \<Rightarrow>
         let c = c\<lparr>u_kpiConnections := js_String js (js_or sum_total (JNum 0 0))\<rparr> in
         case js_prop js usage ''total_invocations'' of
           Inl e \<Rightarrow> (c, Some e)
         | Inr n \<Rightarrow>
             let c = c\<lparr>u_kpiInvocations := js_String js (js_or n (JNum 0 0))\<rparr> in
             case js_prop js caps ''capabilities'' of
               Inl e \<Rightarrow> (c, Some e)
             | Inr cs \<Rightarrow>
                 let c = c\<lparr>u_kpiCapabilities := js_text js (js_length (js_or cs (JArr [])))\<rparr> in
                 case conformance_text js conf of
                   Inl e \<Rightarrow> (c, Some e)
                 | Inr t \<Rightarrow>
                     let c = c\<lparr>u_kpiConformance := t\<rparr> in
                     case js_prop js connections ''connections'' of
                       Inl e \<Rightarrow> (c, Some e)
                     | Inr rows \<Rightarrow>
                         (case renderConnections js (js_or rows (JArr [])) of
                            Inl e \<Rightarrow> (c, Some e)
                          | Inr html \<Rightarrow> (c\<lparr>u_connections := html\<rparr>, None)))"

definition connections_url :: "Console \<Rightarrow> string" where
  "connections_url c = ''/admin/v0.1/connections?tenant_id='' @ encodeURIComponent (u_tenant c)"

text \<open>\<^verbatim>\<open>Promise.all\<close> of four: all of them run; if several are rejected, \<open>i\<close> says which rejection comes first.\<close>

definition first_rejection :: "nat \<Rightarrow> string list \<Rightarrow> string option" where
  "first_rejection i errs = (if errs = [] then None else Some (errs ! (i mod length errs)))"

definition rejections :: "(string, json) res list \<Rightarrow> string list" where
  "rejections rs = map projl (filter is_err rs)"

definition refreshDashboard :: "js_engine \<Rightarrow> 's fetcher \<Rightarrow> nat \<Rightarrow> Console \<Rightarrow> 's \<Rightarrow> 's \<times> Console" where
  "refreshDashboard js fetch i c s =
    (let (s, connections) = console_getJSON fetch c (connections_url c) s;
         (s, usage) = console_getJSON fetch c ''/cloud/v0.1/usage'' s;
         (s, caps) = console_getJSON fetch c ''/admin/v0.1/capabilities'' s;
         (s, conf) = console_getJSON fetch c ''/admin/v0.1/health/conformance'' s;
         failed = (\<lambda>e c. setStatus (''Dashboard refresh failed: '' @ e) ''warn'' c)
     in case first_rejection i (rejections [connections, usage, caps, conf]) of
          Some e \<Rightarrow> (s, failed e c)
        | None \<Rightarrow>
            (case show_dashboard js (projr connections) (projr usage) (projr caps) (projr conf) c of
               (c, None) \<Rightarrow> (s, c)
             | (c, Some e) \<Rightarrow> (s, failed e c)))"

subsection \<open>Quick actions\<close>

definition tenant_header :: "Console \<Rightarrow> json" where
  "tenant_header c = JObj [(''tenant_id'', JStr (request_tenant c))]"

definition show_result :: "js_engine \<Rightarrow> string \<Rightarrow> json \<Rightarrow> Console \<Rightarrow> Console" where
  "show_result js message result c = setStatus message ''ok'' (c\<lparr>u_output := js_stringify js result\<rparr>)"

definition runHello :: "js_engine \<Rightarrow> 's fetcher \<Rightarrow> Console \<Rightarrow> 's \<Rightarrow> 's \<times> (string, Console) res" where
  "runHello js fetch c s =
    (let body = JObj [(''header'', tenant_header c), (''supported_versions'', JArr [JStr ''0.1'']),
                      (''requested_bindings'', JArr [JStr ''http''])]
     in case console_postJSON fetch c ''/mig/v0.1/hello'' body s of
          (s, Inl e) \<Rightarrow> (s, Inl e)
        | (s, Inr result) \<Rightarrow> (s, Inr (show_result js ''HELLO ok'' result c)))"

definition runDiscover :: "js_engine \<Rightarrow> 's fetcher \<Rightarrow> Console \<Rightarrow> 's \<Rightarrow> 's \<times> (string, Console) res" where
  "runDiscover js fetch c s =
    (case console_postJSON fetch c ''/mig/v0.1/discover'' (JObj [(''header'', tenant_header c)]) s of
       (s, Inl e) \<Rightarrow> (s, Inl e)
     | (s, Inr result) \<Rightarrow> (s, Inr (show_result js ''DISCOVER ok'' result c)))"

definition runInvoke :: "js_engine \<Rightarrow> 's fetcher \<Rightarrow> Console \<Rightarrow> 's \<Rightarrow> 's \<times> (string, Console) res" where
  "runInvoke js fetch c s =
    (let capability = js_trim (u_capabilityInput c)
     in case js_parse js (if u_payloadInput c = [] then ''{}'' else u_payloadInput c) of
          Inl _ \<Rightarrow> (s, Inl ''Invalid invoke payload JSON'')
        | Inr payload \<Rightarrow>
            case console_postJSON fetch c (''/mig/v0.1/invoke/'' @ encodeURIComponent capability)
                (JObj [(''header'', tenant_header c), (''payload'', payload)]) s of
              (s, Inl e) \<Rightarrow> (s, Inl e)
            | (s, Inr result) \<Rightarrow> (s, Inr (show_result js ''INVOKE ok'' result c)))"

text \<open>A click handler reports the exception of the action it starts.\<close>

definition clicked :: "('s \<Rightarrow> 's \<times> (string, Console) res) \<Rightarrow> Console \<Rightarrow> 's \<Rightarrow> 's \<times> Console" where
  "clicked action c s = (case action s of (s, Inl e) \<Rightarrow> (s, setStatus e ''warn'' c) | (s, Inr c') \<Rightarrow> (s, c'))"

subsection \<open>Timers and events\<close>

text \<open>\<^verbatim>\<open>clearInterval\<close> and \<^verbatim>\<open>setInterval\<close>, whose identifiers start at one.\<close>

definition clearInterval :: "nat \<Rightarrow> Console \<Rightarrow> Console" where
  "clearInterval i c = c\<lparr>u_timers := AList.delete i (u_timers c)\<rparr>"

definition setInterval :: "int \<Rightarrow> Console \<Rightarrow> nat \<times> Console" where
  "setInterval ms c =
    (u_nextTimer c, c\<lparr>u_timers := AList.update (u_nextTimer c) ms (u_timers c), u_nextTimer := Suc (u_nextTimer c)\<rparr>)"

definition resetTimer :: "js_engine \<Rightarrow> Console \<Rightarrow> Console" where
  "resetTimer js c =
    (let c = (case u_timer c of None \<Rightarrow> c | Some i \<Rightarrow> clearInterval i c) in
     case js_Number js (u_interval c) of
       None \<Rightarrow> c
     | Some ms \<Rightarrow> if ms > 0 then (let (i, c) = setInterval ms c in c\<lparr>u_timer := Some i\<rparr>) else c)"

definition setItem :: "string \<Rightarrow> string \<Rightarrow> Console \<Rightarrow> Console" where
  "setItem k v c = c\<lparr>u_localStorage := AList.update k v (u_localStorage c)\<rparr>"

text \<open>What the user does, and timers that fire.\<close>

datatype console_event =
    TenantTyped string
  | TokenTyped string
  | IntervalChosen string
  | CapabilityTyped string
  | PayloadTyped string
  | RefreshClicked
  | HelloClicked
  | DiscoverClicked
  | InvokeClicked
  | TimerFired nat

fun console_handle :: "js_engine \<Rightarrow> 's fetcher \<Rightarrow> nat \<Rightarrow> console_event \<Rightarrow> 's \<times> Console \<Rightarrow> 's \<times> Console" where
  "console_handle js fetch i (TenantTyped v) (s, c) =
    (let c = c\<lparr>u_tenantInput := v\<rparr>;
         c = c\<lparr>u_tenant := js_trim (u_tenantInput c)\<rparr>
     in refreshDashboard js fetch i (setItem ''mig.console.tenant'' (u_tenant c) c) s)"
| "console_handle js fetch i (TokenTyped v) (s, c) =
    (let c = c\<lparr>u_tokenInput := v\<rparr>;
         c = c\<lparr>u_token := js_trim (u_tokenInput c)\<rparr>
     in refreshDashboard js fetch i (setItem ''mig.console.token'' (u_token c) c) s)"
| "console_handle js fetch i (IntervalChosen v) (s, c) =
    (let c = c\<lparr>u_intervalInput := v\<rparr>;
         c = c\<lparr>u_interval := u_intervalInput c\<rparr>
     in (s, resetTimer js (setItem ''mig.console.interval'' (u_interval c) c)))"
| "console_handle js fetch i (CapabilityTyped v) (s, c) = (s, c\<lparr>u_capabilityInput := v\<rparr>)"
| "console_handle js fetch i (PayloadTyped v) (s, c) = (s, c\<lparr>u_payloadInput := v\<rparr>)"
| "console_handle js fetch i RefreshClicked (s, c) = refreshDashboard js fetch i c s"
| "console_handle js fetch i HelloClicked (s, c) = clicked (runHello js fetch c) c s"
| "console_handle js fetch i DiscoverClicked (s, c) = clicked (runDiscover js fetch c) c s"
| "console_handle js fetch i InvokeClicked (s, c) = clicked (runInvoke js fetch c) c s"
| "console_handle js fetch i (TimerFired t) (s, c) =
    (if map_of (u_timers c) t = None then (s, c) else refreshDashboard js fetch i c s)"

text \<open>Loading the page with what earlier visits left in the browser.\<close>

definition console_load :: "js_engine \<Rightarrow> 's fetcher \<Rightarrow> nat \<Rightarrow> (string, string) gomap \<Rightarrow> 's \<Rightarrow> 's \<times> Console" where
  "console_load js fetch i storage s =
    (case refreshDashboard js fetch i (console_state (console_page storage)) s of
       (s, c) \<Rightarrow> (s, resetTimer js c))"

definition console_session ::
    "js_engine \<Rightarrow> 's fetcher \<Rightarrow> nat \<Rightarrow> (string, string) gomap \<Rightarrow> (nat \<times> console_event) list \<Rightarrow> 's \<Rightarrow> 's \<times> Console" where
  "console_session js fetch i storage evs s =
    fold (\<lambda>(i, ev). console_handle js fetch i ev) evs (console_load js fetch i storage s)"

end
