(* ===== verification/Mig_Console_Props.thy ===== *)
theory Mig_Console_Props
  imports Mig_Console Mig_Wire Mig_Service_Props
begin

text \<open>
  The console by itself, whatever the other end of its requests answers, and the console against a
  gateway: its requests go to the HTTP server of \<open>Mig_Http\<close>, over the wire of \<open>Mig_Wire\<close>.
\<close>

subsection \<open>The state of the script\<close>

text \<open>The parts of the console that requests and their replies do not touch.\<close>

definition console_core :: "Console \<Rightarrow> Console" where
  "console_core c =
    c\<lparr>u_kpiConnections := [], u_kpiInvocations := [], u_kpiCapabilities := [], u_kpiConformance := [],
      u_connections := [], u_status := [], u_statusClass := [], u_output := []\<rparr>"

lemma core_setStatus [simp]: "console_core (setStatus m cls c) = console_core c"
  by (simp add: console_core_def setStatus_def)

lemma core_show_dashboard: "console_core (fst (show_dashboard js conns usage caps conf c)) = console_core c"
  unfolding show_dashboard_def by (simp add: console_core_def Let_def split: sum.split)

lemma core_refresh [simp]: "console_core (snd (refreshDashboard js fetch i c s)) = console_core c"
proof -
  have "console_core c' = console_core c" if "show_dashboard js conns usage caps conf c = (c', x)" for conns usage caps conf c' x
    using core_show_dashboard [of js conns usage caps conf c] that by simp
  then show ?thesis
    unfolding refreshDashboard_def Let_def by (auto split: prod.split option.split)
qed

lemma core_clicked:
  assumes "\<And>s' c'. action s = (s', Inr c') \<Longrightarrow> console_core c' = console_core c"
  shows "console_core (snd (clicked action c s)) = console_core c"
  using assms by (auto simp: clicked_def split: prod.split sum.split)

lemma core_show_result [simp]: "console_core (show_result js m v c) = console_core c"
  by (simp add: console_core_def show_result_def setStatus_def)

lemma core_actions [simp]:
  "console_core (snd (clicked (runHello js fetch c) c s)) = console_core c"
  "console_core (snd (clicked (runDiscover js fetch c) c s)) = console_core c"
  "console_core (snd (clicked (runInvoke js fetch c) c s)) = console_core c"
  by (rule core_clicked, auto simp: runHello_def runDiscover_def runInvoke_def Let_def split: prod.splits sum.splits)+

text \<open>
  The timer that runs is the one the script knows, with the chosen period; a reload finds the token
  and the interval as they are, and the tenant too, unless it was cleared.
\<close>

definition timer_ok :: "js_engine \<Rightarrow> Console \<Rightarrow> bool" where
  "timer_ok js c \<longleftrightarrow>
    (case js_Number js (u_interval c) of
       Some ms \<Rightarrow> if 0 < ms then \<exists>i. u_timer c = Some i \<and> u_timers c = [(i, ms)] else u_timers c = []
     | None \<Rightarrow> u_timers c = [])"

definition storage_ok :: "Console \<Rightarrow> bool" where
  "storage_ok c \<longleftrightarrow>
    u_token c = getItem (u_localStorage c) ''mig.console.token'' [] \<and>
    u_interval c = getItem (u_localStorage c) ''mig.console.interval'' ''2000'' \<and>
    (getItem (u_localStorage c) ''mig.console.tenant'' ''acme'' = (if u_tenant c = [] then ''acme'' else u_tenant c))"

lemma storage_ok_core: "console_core c = console_core c' \<Longrightarrow> storage_ok c = storage_ok c'"
proof -
  assume "console_core c = console_core c'"
  then have "u_token c = u_token c'" "u_interval c = u_interval c'" "u_tenant c = u_tenant c'" "u_localStorage c = u_localStorage c'"
    by (cases c; cases c'; simp add: console_core_def)+
  then show ?thesis
    by (simp add: storage_ok_def)
qed

lemma timer_ok_cong:
  "u_timer c = u_timer c' \<Longrightarrow> u_interval c = u_interval c' \<Longrightarrow> u_timers c = u_timers c' \<Longrightarrow> timer_ok js c = timer_ok js c'"
  by (simp add: timer_ok_def split: option.split)

lemma timer_ok_core: "console_core c = console_core c' \<Longrightarrow> timer_ok js c = timer_ok js c'"
proof -
  assume "console_core c = console_core c'"
  then have "u_timer c = u_timer c'" "u_interval c = u_interval c'" "u_timers c = u_timers c'"
    by (cases c; cases c'; simp add: console_core_def)+
  then show ?thesis
    by (rule timer_ok_cong)
qed

definition console_ok :: "js_engine \<Rightarrow> Console \<Rightarrow> bool" where
  "console_ok js c \<longleftrightarrow> timer_ok js c \<and> storage_ok c"

lemma console_ok_core:
  assumes "console_core c' = console_core c" and "console_ok js c"
  shows "console_ok js c'"
  using assms(2) unfolding console_ok_def timer_ok_core [OF assms(1)] storage_ok_core [OF assms(1)] .

lemma timer_at_most_one:
  assumes "timer_ok js c"
  shows "u_timers c = [] \<or> (\<exists>i ms. u_timer c = Some i \<and> u_timers c = [(i, ms)])"
  using assms by (auto simp: timer_ok_def split: option.splits if_splits)

lemma resetTimer_ok:
  assumes "u_timers c = [] \<or> (\<exists>i ms. u_timer c = Some i \<and> u_timers c = [(i, ms)])"
  shows "timer_ok js (resetTimer js c)"
  using assms by (auto simp: timer_ok_def resetTimer_def clearInterval_def setInterval_def Let_def split: option.split)

lemma resetTimer_frame [simp]:
  "u_tenant (resetTimer js c) = u_tenant c" "u_token (resetTimer js c) = u_token c" "u_interval (resetTimer js c) = u_interval c"
  "u_localStorage (resetTimer js c) = u_localStorage c"
  by (simp_all add: resetTimer_def clearInterval_def setInterval_def Let_def split: option.split)

lemma storage_ok_resetTimer [simp]: "storage_ok (resetTimer js c) = storage_ok c"
  by (simp add: storage_ok_def)

lemma getItem_update [simp]:
  "getItem (AList.update k v st) k' d = (if k' = k then (if v = [] then d else v) else getItem st k' d)"
  by (simp add: getItem_def)

text \<open>A choice of the refresh interval is one of the options.\<close>

fun possible :: "console_event \<Rightarrow> bool" where
  "possible (IntervalChosen v) \<longleftrightarrow> v \<in> set interval_options"
| "possible _ \<longleftrightarrow> True"

lemma options_nonempty: "v \<in> set interval_options \<Longrightarrow> v \<noteq> []"
  by (auto simp: interval_options_def)

lemma console_handle_ok:
  assumes ok: "console_ok js c" and "possible ev"
  shows "console_ok js (snd (console_handle js fetch i ev (s, c)))"
proof (cases ev)
  case (TenantTyped v)
  let ?c = "setItem ''mig.console.tenant'' (js_trim v) (c\<lparr>u_tenantInput := v, u_tenant := js_trim v\<rparr>)"
  have "console_ok js ?c"
    using ok timer_ok_cong [of c ?c] by (simp add: console_ok_def storage_ok_def setItem_def)
  from console_ok_core [OF core_refresh this] show ?thesis
    by (simp add: TenantTyped Let_def)
next
  case (TokenTyped v)
  let ?c = "setItem ''mig.console.token'' (js_trim v) (c\<lparr>u_tokenInput := v, u_token := js_trim v\<rparr>)"
  have "console_ok js ?c"
    using ok timer_ok_cong [of c ?c] by (simp add: console_ok_def storage_ok_def setItem_def)
  from console_ok_core [OF core_refresh this] show ?thesis
    by (simp add: TokenTyped Let_def)
next
  case (IntervalChosen v)
  let ?c = "setItem ''mig.console.interval'' v (c\<lparr>u_intervalInput := v, u_interval := v\<rparr>)"
  have "timer_ok js (resetTimer js ?c)"
    using timer_at_most_one ok by (intro resetTimer_ok) (auto simp: console_ok_def setItem_def)
  moreover have "storage_ok ?c"
    using ok assms(2) options_nonempty IntervalChosen by (simp add: console_ok_def storage_ok_def setItem_def)
  ultimately show ?thesis
    by (simp add: IntervalChosen console_ok_def Let_def)
next
  case (CapabilityTyped v)
  then show ?thesis
    using ok timer_ok_cong [of c "c\<lparr>u_capabilityInput := v\<rparr>"] by (simp add: console_ok_def storage_ok_def)
next
  case (PayloadTyped v)
  then show ?thesis
    using ok timer_ok_cong [of c "c\<lparr>u_payloadInput := v\<rparr>"] by (simp add: console_ok_def storage_ok_def)
qed (use ok console_ok_core [OF core_refresh ok] console_ok_core [OF core_actions(1) ok] console_ok_core [OF core_actions(2) ok]
    console_ok_core [OF core_actions(3) ok] in auto)

lemma console_load_ok: "console_ok js (snd (console_load js fetch i storage s))"
proof -
  let ?c = "console_state (console_page storage)"
  obtain s' c' where r: "refreshDashboard js fetch i ?c s = (s', c')"
    by (cases "refreshDashboard js fetch i ?c s")
  then have core: "console_core c' = console_core ?c"
    using core_refresh [of js fetch i ?c s] by simp
  have "u_timers c' = u_timers ?c"
    using core by (cases c'; cases "?c"; simp add: console_core_def)
  then have "u_timers c' = []"
    by (simp add: console_state_def console_page_def Let_def)
  moreover have "getItem storage k d \<noteq> []" if "d \<noteq> []" for k d
    using that by (simp add: getItem_def split: option.split)
  then have "storage_ok ?c"
    by (simp add: storage_ok_def console_state_def console_page_def Let_def)
  ultimately show ?thesis
    using r resetTimer_ok [of c' js] storage_ok_core [OF core] by (simp add: console_load_def console_ok_def)
qed

lemma console_run_ok:
  "console_ok js (snd x) \<Longrightarrow> list_all (possible \<circ> snd) evs \<Longrightarrow>
   console_ok js (snd (fold (\<lambda>(i, ev). console_handle js fetch i ev) evs x))"
proof (induction evs arbitrary: x)
  case (Cons ev evs)
  obtain s c i e where "x = (s, c)" "ev = (i, e)"
    by (cases x; cases ev)
  with Cons.prems console_handle_ok [of js c e fetch i s] Cons.IH [of "console_handle js fetch i e (s, c)"] show ?case
    by simp
qed simp


subsection \<open>Requests on their way to the gateway\<close>

text \<open>How the server's URL package undoes \<open>encodeURIComponent\<close>; a plus sign stands for a space in a query.\<close>

definition hex_value :: "char \<Rightarrow> nat option" where
  "hex_value c =
    (if CHR ''0'' \<le> c \<and> c \<le> CHR ''9'' then Some (of_char c - 48)
     else if CHR ''A'' \<le> c \<and> c \<le> CHR ''F'' then Some (of_char c - 55)
     else if CHR ''a'' \<le> c \<and> c \<le> CHR ''f'' then Some (of_char c - 87)
     else None)"

fun unescape :: "bool \<Rightarrow> string \<Rightarrow> string option" where
  "unescape query [] = Some []"
| "unescape query (c # cs) =
    (if c = CHR ''%'' then
       (case cs of
          a # b # ds \<Rightarrow>
            (case (hex_value a, hex_value b) of
               (Some x, Some y) \<Rightarrow> map_option ((#) (char_of (16 * x + y))) (unescape query ds)
             | _ \<Rightarrow> None)
        | _ \<Rightarrow> None)
     else if c = CHR ''+'' \<and> query then map_option ((#) (CHR '' '')) (unescape query cs)
     else map_option ((#) c) (unescape query cs))"

definition cut :: "char \<Rightarrow> string \<Rightarrow> string \<times> string" where
  "cut d s = (takeWhile (\<lambda>c. c \<noteq> d) s, drop (Suc (length (takeWhile (\<lambda>c. c \<noteq> d) s))) s)"

text \<open>The pairs of a query; a pair that cannot be decoded is left out.\<close>

definition parse_pair :: "string \<Rightarrow> (string \<times> string) list" where
  "parse_pair kv =
    (case cut (CHR ''='') kv of
       (k, v) \<Rightarrow> (case (unescape True k, unescape True v) of (Some k, Some v) \<Rightarrow> [(k, v)] | _ \<Rightarrow> []))"

definition parse_query :: "string \<Rightarrow> (string, string) gomap" where
  "parse_query q = concat (map parse_pair (filter (\<lambda>kv. kv \<noteq> []) (split_on (CHR ''&'') q)))"

lemma hex_roundtrip: "n < 16 \<Longrightarrow> hex_value (hex_upper n) = Some n"
proof -
  assume "n < 16"
  then have "n \<in> set [0..<16]"
    by simp
  moreover have "\<forall>n \<in> set [0..<16]. hex_value (hex_upper n) = Some n"
    by code_simp
  ultimately show ?thesis
    by blast
qed

lemma char_hex_digits: "of_char c div 16 < (16 :: nat)" "of_char c mod 16 < (16 :: nat)"
proof -
  have "of_char c < (256 :: nat)"
    by simp
  then show "of_char c div 16 < (16 :: nat)"
    by (intro less_mult_imp_div_less) simp
qed simp

lemma unescape_encoded:
  "unescape query ((if unreserved c then [c] else percent_encode c) @ rest) = map_option ((#) c) (unescape query rest)"
proof (cases "unreserved c")
  case True
  then have "c \<noteq> CHR ''%''" "c \<noteq> CHR ''+''"
    by (auto simp: unreserved_def)
  with True show ?thesis
    by simp
next
  case False
  have "hex_value (hex_upper (of_char c div 16)) = Some (of_char c div 16)"
    "hex_value (hex_upper (of_char c mod 16)) = Some (of_char c mod 16)"
    by (rule hex_roundtrip, rule char_hex_digits)+
  moreover have "char_of (16 * (of_char c div 16) + of_char c mod 16 :: nat) = c"
    by simp
  ultimately show ?thesis
    using False by (simp add: percent_encode_def del: char_of_eq_iff mult_div_mod_eq)
qed

lemma unescape_encodeURIComponent: "unescape query (encodeURIComponent s) = Some s"
proof (induction s)
  case (Cons c s)
  then show ?case
    using unescape_encoded [of query c "encodeURIComponent s"] by (simp add: encodeURIComponent_def)
qed (simp add: encodeURIComponent_def)

lemma encoded_chars: "set (encodeURIComponent s) \<subseteq> {c. unreserved c} \<union> {CHR ''%''} \<union> set ''0123456789ABCDEF''"
proof -
  have "hex_upper n \<in> set ''0123456789ABCDEF''" if "n < 16" for n
    unfolding hex_upper_def using that by (intro nth_mem) simp
  then have "hex_upper (of_char c div 16) \<in> set ''0123456789ABCDEF''" "hex_upper (of_char c mod 16) \<in> set ''0123456789ABCDEF''" for c
    using char_hex_digits by blast+
  then show ?thesis
    unfolding encodeURIComponent_def by (auto simp: percent_encode_def)
qed

lemma encoded_no_separator: "c \<in> {CHR ''&'', CHR ''='', CHR ''?''} \<Longrightarrow> c \<notin> set (encodeURIComponent s)"
  using encoded_chars [of s] by (auto simp: unreserved_def)

subsection \<open>A gateway at the other end\<close>

text \<open>Header names do not depend on case; these are spelled as the handlers spell them.\<close>

definition header_name :: "string \<Rightarrow> string" where
  "header_name k =
    (if k = ''x-tenant-id'' then ''X-Tenant-ID'' else if k = ''authorization'' then ''Authorization''
     else if k = ''content-type'' then ''Content-Type'' else k)"

definition fetch_http :: "fetch_request \<Rightarrow> HttpRequest" where
  "fetch_http fq =
    (case cut (CHR ''?'') (fq_URL fq) of
       (path, query) \<Rightarrow>
         \<lparr>r_Method = fq_Method fq, r_Path = (case unescape False path of None \<Rightarrow> path | Some p \<Rightarrow> p),
          r_Header = map (\<lambda>(k, v). (header_name k, v)) (fq_Headers fq), r_Query = parse_query query, r_RemoteAddr = []\<rparr>)"

text \<open>
  The HTTP server of the gateway that served the page; \<open>render\<close> prints a body and \<open>reason\<close> the text of a
  status. A panic closes the connection.
\<close>

definition console_fetch ::
    "jwtlib \<Rightarrow> (string \<Rightarrow> rt) \<Rightarrow> invoke_select \<Rightarrow> AuthConfig \<Rightarrow> bool \<Rightarrow> (payload \<Rightarrow> string) \<Rightarrow> (int \<Rightarrow> string) \<Rightarrow> Service fetcher" where
  "console_fetch jwt rs sel cfg metrics render reason fq s =
    (case http_gateway jwt (rs (fq_URL fq)) sel cfg metrics
        (case fq_Body fq of None \<Rightarrow> no_bodies | Some j \<Rightarrow> bodies_of_json (rejson j)) quiet_session None (fetch_http fq) s of
       None \<Rightarrow> (s, FetchFailed ''Failed to fetch'')
     | Some (s, resp) \<Rightarrow>
         (s, FetchReplied (rp_Status resp) (reason (rp_Status resp)) (render (rp_Body resp)) (reply_json (rp_Body resp))))"

text \<open>The principal behind every request of the console.\<close>

definition console_principal :: "jwtlib \<Rightarrow> AuthConfig \<Rightarrow> Console \<Rightarrow> (string, Principal) res" where
  "console_principal jwt cfg c =
    PrincipalFromAuthHeaders jwt (if u_token c = [] then [] else ''Bearer '' @ u_token c) (request_tenant c) cfg"

lemma console_request_principal:
  "principalFromRequest jwt (fetch_http \<lparr>fq_Method = m, fq_URL = url, fq_Headers = console_headers c, fq_Body = b\<rparr>) cfg =
    console_principal jwt cfg c"
  by (simp add: principalFromRequest_def console_principal_def fetch_http_def header_get_def console_headers_def
      header_name_def split: prod.split)

lemma refused_by_gateway:
  assumes "principalFromRequest jwt hr cfg = Inl err" and "\<not> HasPrefix (r_Path hr) ''/ui''"
  shows "\<exists>s' resp. http_gateway jwt r sel cfg metrics b k None hr s = Some (s', resp) \<and>
    rp_Status resp = httpStatusForError err \<and> same_but_metrics s s'"
proof -
  define resp where "resp = writeMigError r (zero_header\<lparr>h_TenantID := tenantFromRequest hr\<rparr>) (httpStatusForError err)
    (mk_error (migCodeForAuthErr err) err False)"
  have a: "authMiddleware jwt r cfg nxt None hr s = Some (s, resp)" for nxt
    using assms by (simp add: authMiddleware_def resp_def)
  have "rp_Status resp = httpStatusForError err"
    by (simp add: resp_def writeMigError_def writeJSON_def Let_def)
  moreover have "\<exists>s'. http_gateway jwt r sel cfg metrics b k None hr s = Some (s', resp) \<and> same_but_metrics s s'"
  proof (cases metrics)
    case True
    then show ?thesis
      by (auto simp: http_gateway_def Middleware_def a Let_def same_but_metrics_def)
  next
    case False
    then show ?thesis
      by (simp add: http_gateway_def a Let_def)
  qed
  ultimately show ?thesis
    by blast
qed

abbreviation get_request :: "Console \<Rightarrow> string \<Rightarrow> fetch_request" where
  "get_request c url \<equiv> \<lparr>fq_Method = ''GET'', fq_URL = url, fq_Headers = console_headers c, fq_Body = None\<rparr>"

lemma console_get_refused:
  assumes "console_principal jwt cfg c = Inl err" and "\<not> HasPrefix (r_Path (fetch_http (get_request c url))) ''/ui''"
  shows "\<exists>s' e. console_getJSON (console_fetch jwt rs sel cfg metrics render reason) c url s = (s', Inl e) \<and> same_but_metrics s s'"
proof -
  obtain s' resp where g: "http_gateway jwt (rs url) sel cfg metrics no_bodies quiet_session None (fetch_http (get_request c url)) s =
      Some (s', resp)" "rp_Status resp = httpStatusForError err" "same_but_metrics s s'"
    using refused_by_gateway [OF console_request_principal [THEN trans, OF assms(1)] assms(2)] by blast
  then have "\<not> (200 \<le> rp_Status resp \<and> rp_Status resp \<le> 299)"
    by (simp add: httpStatusForError_def)
  with g(1,3) show ?thesis
    by (simp add: console_getJSON_def console_fetch_def reply_data_def Let_def)
qed

lemma console_get_ok:
  assumes "console_principal jwt cfg c = Inr p" and "\<not> HasPrefix (r_Path (fetch_http (get_request c url))) ''/ui''"
    and mux: "\<And>k'. serve_mux (rs url) sel metrics no_bodies k' (Some p) (fetch_http (get_request c url)) s = Some (s, writeJSON 200 x)"
    and "render x \<noteq> []" and "reply_json x = Inr j"
  shows "\<exists>s'. console_getJSON (console_fetch jwt rs sel cfg metrics render reason) c url s = (s', Inr j) \<and> same_but_metrics s s'"
proof -
  have "\<exists>s'. http_gateway jwt (rs url) sel cfg metrics no_bodies quiet_session None (fetch_http (get_request c url)) s =
      Some (s', writeJSON 200 x) \<and> same_but_metrics s s'"
    by (rule gateway_routed [OF _ assms(2) mux]) (simp add: console_request_principal assms(1))
  with assms(4,5) show ?thesis
    by (auto simp: console_getJSON_def console_fetch_def reply_data_def writeJSON_def)
qed

text \<open>The four requests of a refresh.\<close>

lemma fetch_http_plain:
  "fetch_http (get_request c ''/cloud/v0.1/usage'') =
    \<lparr>r_Method = ''GET'', r_Path = ''/cloud/v0.1/usage'', r_Header = r_Header (fetch_http (get_request c [])), r_Query = [], r_RemoteAddr = []\<rparr>"
  "fetch_http (get_request c ''/admin/v0.1/capabilities'') =
    \<lparr>r_Method = ''GET'', r_Path = ''/admin/v0.1/capabilities'', r_Header = r_Header (fetch_http (get_request c [])), r_Query = [], r_RemoteAddr = []\<rparr>"
  "fetch_http (get_request c ''/admin/v0.1/health/conformance'') =
    \<lparr>r_Method = ''GET'', r_Path = ''/admin/v0.1/health/conformance'', r_Header = r_Header (fetch_http (get_request c [])), r_Query = [], r_RemoteAddr = []\<rparr>"
  by (simp_all add: fetch_http_def cut_def parse_query_def)

lemma fetch_http_connections:
  "fetch_http (get_request c (connections_url c)) =
    \<lparr>r_Method = ''GET'', r_Path = ''/admin/v0.1/connections'', r_Header = r_Header (fetch_http (get_request c [])),
     r_Query = [(''tenant_id'', u_tenant c)], r_RemoteAddr = []\<rparr>"
proof -
  let ?q = "''tenant_id='' @ encodeURIComponent (u_tenant c)"
  have "cut (CHR ''?'') (connections_url c) = (''/admin/v0.1/connections'', ?q)"
    by (simp add: cut_def connections_url_def)
  moreover have "CHR ''&'' \<notin> set ?q"
    using encoded_no_separator by simp
  then have "parse_query ?q = parse_pair ?q"
    by (simp add: parse_query_def split_on_no_delim)
  moreover have "cut (CHR ''='') ?q = (''tenant_id'', encodeURIComponent (u_tenant c))"
    by (simp add: cut_def)
  then have "parse_pair ?q = [(''tenant_id'', u_tenant c)]"
    by (simp add: parse_pair_def unescape_encodeURIComponent)
  ultimately show ?thesis
    by (simp add: fetch_http_def split: prod.split)
qed

subsection \<open>What a refresh shows\<close>

definition row_of :: "ConnectionSnapshot \<Rightarrow> string" where
  "row_of conn =
    ''<tr>'' @ mono_cell (cs_ID conn) @ cell (cs_Protocol conn) @ cell (cs_Kind conn) @ cell (cs_TenantID conn) @
    cell (cs_Actor conn) @ mono_cell (cs_RemoteAddr conn) @ mono_cell (cs_StartedAt conn) @ ''</tr>''"

lemma connection_row_json: "connection_row js (rejson (connection_json conn)) = Inr (row_of conn)"
proof -
  let ?es = "case connection_json conn of JObj es \<Rightarrow> es"
  have "rejson (connection_json conn) = JObj (rejson_fields ?es)"
    by (simp add: connection_json_def)
  moreover have "conn_text js (rejson_fields ?es) ''id'' = cs_ID conn" "conn_text js (rejson_fields ?es) ''protocol'' = cs_Protocol conn"
    "conn_text js (rejson_fields ?es) ''kind'' = cs_Kind conn" "conn_text js (rejson_fields ?es) ''tenant_id'' = cs_TenantID conn"
    "conn_text js (rejson_fields ?es) ''actor'' = cs_Actor conn" "conn_text js (rejson_fields ?es) ''remote_addr'' = cs_RemoteAddr conn"
    "conn_text js (rejson_fields ?es) ''started_at'' = cs_StartedAt conn"
    by (simp_all add: connection_json_def conn_text_def js_or_def map_add_def)
  ultimately show ?thesis
    by (simp add: connection_row_def row_of_def)
qed

lemma connection_rows_json: "connection_rows js (map rejson (map connection_json cs)) = Inr (concat (map row_of cs))"
  by (induction cs) (simp_all add: connection_row_json)

definition table_of :: "ConnectionSnapshot list \<Rightarrow> string" where
  "table_of cs = (if cs = [] then no_connections else concat (map row_of cs))"

lemma render_listing: "renderConnections js (JArr (map rejson (map connection_json cs))) = Inr (table_of cs)"
  using connection_rows_json [of js cs] by (simp add: renderConnections_def js_length_def table_of_def)

lemma js_count: "n < 2 ^ 53 \<Longrightarrow> js_String js (js_or (Some (JNum (int n) 0)) (JNum 0 0)) = show_nat n"
  by (auto simp: js_or_def show_int_def)

lemma show_dashboard_replies:
  assumes "sm_Total (cr_Summary conns) = int n" and "us_TotalInvocations usage = int k"
    and "n < 2 ^ 53" "k < 2 ^ 53" "length caps < 2 ^ 53"
  shows "show_dashboard js (rejson (connections_json conns)) (usage_json usage)
      (rejson (JObj [(''capabilities'', JArr (map capability_json caps))])) (health_json \<lparr>ch_Core = a, ch_Streaming = b, ch_Evented = e, ch_Full = True\<rparr>) c =
    (c\<lparr>u_kpiConnections := show_nat n, u_kpiInvocations := show_nat k, u_kpiCapabilities := show_nat (length caps),
       u_kpiConformance := ''FULL'', u_connections := table_of (cr_Connections conns)\<rparr>, None)"
proof -
  have "js_chain js (rejson (connections_json conns)) ''summary'' ''total'' = Inr (Some (JNum (int n) 0))"
    by (simp add: js_chain_def js_prop_def connections_json_def summary_json_def assms(1))
  moreover have "js_prop js (usage_json usage) ''total_invocations'' = Inr (Some (JNum (int k) 0))"
    by (simp add: js_prop_def usage_json_def assms(2))
  moreover have "js_prop js (rejson (JObj [(''capabilities'', JArr (map capability_json caps))])) ''capabilities'' =
      Inr (Some (JArr (map rejson (map capability_json caps))))"
    by (simp add: js_prop_def)
  moreover have "js_text js (js_length (js_or (Some (JArr (map rejson (map capability_json caps)))) (JArr []))) = show_nat (length caps)"
    using assms(5) by (simp add: js_or_def js_length_def js_text_def show_int_def)
  moreover have "conformance_text js (health_json \<lparr>ch_Core = a, ch_Streaming = b, ch_Evented = e, ch_Full = True\<rparr>) = Inr ''FULL''"
    by (simp add: conformance_text_def js_prop_def health_json_def)
  moreover have "js_prop js (rejson (connections_json conns)) ''connections'' = Inr (Some (JArr (map rejson (map connection_json (cr_Connections conns)))))"
    by (simp add: js_prop_def connections_json_def)
  moreover have "js_or (Some (JArr vs)) (JArr []) = JArr vs" for vs
    by (simp add: js_or_def)
  ultimately show ?thesis
    by (simp only: show_dashboard_def sum.case js_count [OF assms(3)] js_count [OF assms(4)] render_listing Let_def)
qed

lemma dashboard_routes:
  "find_route metrics ''GET'' ''/admin/v0.1/connections'' = Routed RConnections []"
  "find_route metrics ''GET'' ''/cloud/v0.1/usage'' = Routed RUsage []"
  "find_route metrics ''GET'' ''/admin/v0.1/capabilities'' = Routed RListCapabilities []"
  "find_route metrics ''GET'' ''/admin/v0.1/health/conformance'' = Routed RConformanceHealth []"
  by (cases metrics; code_simp)+

lemma dashboard_paths:
  "\<not> HasPrefix (r_Path (fetch_http (get_request c (connections_url c)))) ''/ui''"
  "\<not> HasPrefix (r_Path (fetch_http (get_request c ''/cloud/v0.1/usage''))) ''/ui''"
  "\<not> HasPrefix (r_Path (fetch_http (get_request c ''/admin/v0.1/capabilities''))) ''/ui''"
  "\<not> HasPrefix (r_Path (fetch_http (get_request c ''/admin/v0.1/health/conformance''))) ''/ui''"
  by (simp_all add: fetch_http_connections fetch_http_plain)

lemma dashboard_mux:
  "serve_mux r sel metrics b k (Some p) (fetch_http (get_request c (connections_url c))) s =
    Some (s, writeJSON 200 (PConnections (Connections r s \<lparr>cf_TenantID = u_tenant c, cf_Kind = [], cf_Protocol = []\<rparr>)))"
  "serve_mux r sel metrics b k (Some p) (fetch_http (get_request c ''/cloud/v0.1/usage'')) s = Some (s, writeJSON 200 (PUsage (Usage r s)))"
  "serve_mux r sel metrics b k (Some p) (fetch_http (get_request c ''/admin/v0.1/capabilities'')) s =
    Some (s, writeJSON 200 (PCapabilities (ListCapabilities r s)))"
  "serve_mux r sel metrics b k (Some p) (fetch_http (get_request c ''/admin/v0.1/health/conformance'')) s =
    Some (s, writeJSON 200 (PHealth (ConformanceHealth s)))"
  by (simp_all add: serve_mux_def fetch_http_connections fetch_http_plain dashboard_routes handleConnections_def handleUsage_def
      handleListCapabilities_def handleConformanceHealth_def query_get_def)

lemma same_but_metrics_trans: "same_but_metrics s s' \<Longrightarrow> same_but_metrics s' s'' \<Longrightarrow> same_but_metrics s s''"
  by (auto simp: same_but_metrics_def)

text \<open>What the dashboard reads does not depend on the metrics.\<close>

lemma reads_same:
  assumes "same_but_metrics s s'"
  shows "Connections r s' f = Connections r s f" "Usage r s' = Usage r s" "ListCapabilities r s' = ListCapabilities r s"
  using assms by (auto simp: same_but_metrics_def Connections_def Usage_def ListCapabilities_def)

lemma refresh_refused:
  assumes "console_principal jwt cfg c = Inl err"
  shows "\<exists>s' e. refreshDashboard js (console_fetch jwt rs sel cfg metrics render reason) i c s =
    (s', setStatus (''Dashboard refresh failed: '' @ e) ''warn'' c) \<and> same_but_metrics s s'"
proof -
  note get = console_get_refused [OF assms, where rs = rs and sel = sel and metrics = metrics and render = render and reason = reason]
  obtain s1 e1 where 1: "console_getJSON (console_fetch jwt rs sel cfg metrics render reason) c (connections_url c) s = (s1, Inl e1)"
      "same_but_metrics s s1"
    using get [OF dashboard_paths(1)] by blast
  obtain s2 e2 where 2: "console_getJSON (console_fetch jwt rs sel cfg metrics render reason) c ''/cloud/v0.1/usage'' s1 = (s2, Inl e2)"
      "same_but_metrics s1 s2"
    using get [OF dashboard_paths(2)] by blast
  obtain s3 e3 where 3: "console_getJSON (console_fetch jwt rs sel cfg metrics render reason) c ''/admin/v0.1/capabilities'' s2 = (s3, Inl e3)"
      "same_but_metrics s2 s3"
    using get [OF dashboard_paths(3)] by blast
  obtain s4 e4 where 4: "console_getJSON (console_fetch jwt rs sel cfg metrics render reason) c ''/admin/v0.1/health/conformance'' s3 = (s4, Inl e4)"
      "same_but_metrics s3 s4"
    using get [OF dashboard_paths(4)] by blast
  have "same_but_metrics s s4"
    using 1(2) 2(2) 3(2) 4(2) same_but_metrics_trans by blast
  then show ?thesis
    by (auto simp: refreshDashboard_def 1(1) 2(1) 3(1) 4(1) rejections_def first_rejection_def)
qed

lemma refresh_accepted:
  assumes p: "console_principal jwt cfg c = Inr p" and render: "\<And>x. render x \<noteq> []"
    and "conns = Connections (rs (connections_url c)) s \<lparr>cf_TenantID = u_tenant c, cf_Kind = [], cf_Protocol = []\<rparr>"
    and "usage = Usage (rs ''/cloud/v0.1/usage'') s" and "caps = ListCapabilities (rs ''/admin/v0.1/capabilities'') s"
    and n: "sm_Total (cr_Summary conns) = int n" "us_TotalInvocations usage = int k" "n < 2 ^ 53" "k < 2 ^ 53" "length caps < 2 ^ 53"
  shows "\<exists>s'. refreshDashboard js (console_fetch jwt rs sel cfg metrics render reason) i c s =
    (s', c\<lparr>u_kpiConnections := show_nat n, u_kpiInvocations := show_nat k, u_kpiCapabilities := show_nat (length caps),
       u_kpiConformance := ''FULL'', u_connections := table_of (cr_Connections conns)\<rparr>) \<and> same_but_metrics s s'"
proof -
  note get = console_get_ok [OF p, where rs = rs and sel = sel and metrics = metrics and render = render and reason = reason, OF _ _ render]
  obtain s1 where 1: "console_getJSON (console_fetch jwt rs sel cfg metrics render reason) c (connections_url c) s =
      (s1, Inr (rejson (connections_json conns)))" "same_but_metrics s s1"
    using get [OF dashboard_paths(1) dashboard_mux(1) [where s = s]] assms(3) by (auto simp: reply_json_def)
  obtain s2 where 2: "console_getJSON (console_fetch jwt rs sel cfg metrics render reason) c ''/cloud/v0.1/usage'' s1 =
      (s2, Inr (usage_json usage))" "same_but_metrics s1 s2"
    using get [OF dashboard_paths(2) dashboard_mux(2) [where s = s1]] reads_same(2) [OF 1(2)] assms(4) by (auto simp: reply_json_def)
  have s2: "same_but_metrics s s2"
    using 1(2) 2(2) by (rule same_but_metrics_trans)
  obtain s3 where 3: "console_getJSON (console_fetch jwt rs sel cfg metrics render reason) c ''/admin/v0.1/capabilities'' s2 =
      (s3, Inr (rejson (JObj [(''capabilities'', JArr (map capability_json caps))])))" "same_but_metrics s2 s3"
    using get [OF dashboard_paths(3) dashboard_mux(3) [where s = s2]] reads_same(3) [OF s2] assms(5) by (auto simp: reply_json_def simp del: rejson.simps)
  obtain s4 where 4: "console_getJSON (console_fetch jwt rs sel cfg metrics render reason) c ''/admin/v0.1/health/conformance'' s3 =
      (s4, Inr (health_json \<lparr>ch_Core = True, ch_Streaming = True, ch_Evented = True, ch_Full = True\<rparr>))" "same_but_metrics s3 s4"
    using get [OF dashboard_paths(4) dashboard_mux(4) [where s = s3]] by (auto simp: reply_json_def ConformanceHealth_def)
  have "same_but_metrics s s4"
    using s2 3(2) 4(2) same_but_metrics_trans by blast
  then show ?thesis
    by (simp add: refreshDashboard_def 1(1) 2(1) 3(1) 4(1) rejections_def first_rejection_def show_dashboard_replies [OF n] del: rejson.simps)
qed

lemma refresh_shows:
  assumes p: "console_principal jwt cfg c = Inr p"
    and iter: "\<And>url. is_iteration (rt_iter (rs url))" and render: "\<And>x. render x \<noteq> []"
    and inv: "core_inv s" "map_ok (s_connections s)"
    and bounds: "length (s_connections s) < 2 ^ 53" "length (s_audit s) < 2 ^ 53" "length (s_capabilities s) < 2 ^ 53"
  obtains s' listed where
    "refreshDashboard js (console_fetch jwt rs sel cfg metrics render reason) i c s =
      (s', c\<lparr>u_kpiConnections := show_nat (length listed), u_kpiInvocations := show_nat (length (s_audit s)),
             u_kpiCapabilities := show_nat (length (s_capabilities s)), u_kpiConformance := ''FULL'',
             u_connections := table_of listed\<rparr>)"
    "same_but_metrics s s'" "mset listed = mset (filter (conn_matches (TrimSpace (u_tenant c)) [] []) (map snd (s_connections s)))"
proof -
  let ?f = "\<lparr>cf_TenantID = u_tenant c, cf_Kind = [], cf_Protocol = []\<rparr>"
  define conns where "conns = Connections (rs (connections_url c)) s ?f"
  have listed: "mset (cr_Connections conns) = mset (filter (conn_matches (TrimSpace (u_tenant c)) [] []) (map snd (s_connections s)))"
    and total: "sm_Total (cr_Summary conns) = i64 (int (length (cr_Connections conns)))"
    using connections_listed [OF inv(2) iter, of "connections_url c" ?f] by (simp_all add: conns_def summary_counts_def)
  have "length (cr_Connections conns) = length (filter (conn_matches (TrimSpace (u_tenant c)) [] []) (map snd (s_connections s)))"
    using listed by (rule mset_eq_length)
  also have "\<dots> \<le> length (s_connections s)"
    by (metis length_filter_le length_map)
  finally have n: "length (cr_Connections conns) < 2 ^ 53"
    using bounds(1) by simp
  have "length (range_map (rt_iter (rs ''/admin/v0.1/capabilities'')) (s_capabilities s)) = length (s_capabilities s)"
    using core_inv_caps [OF inv(1)] by (intro mset_eq_length mset_range_map iter) (simp add: caps_ok_def)
  then have caps: "length (ListCapabilities (rs ''/admin/v0.1/capabilities'') s) = length (s_capabilities s)"
    by (simp add: ListCapabilities_def)
  have k: "us_TotalInvocations (Usage (rs ''/cloud/v0.1/usage'') s) = int (length (s_audit s))"
    using usage_counts [OF _ iter, of s "''/cloud/v0.1/usage''"] inv(1) bounds(2) by (simp add: core_inv_def AuditExport_def i64_small)
  have t: "sm_Total (cr_Summary conns) = int (length (cr_Connections conns))"
    using total n by (simp add: i64_small)
  have "length (ListCapabilities (rs ''/admin/v0.1/capabilities'') s) < 2 ^ 53"
    using caps bounds(3) by simp
  from refresh_accepted [where render = render and js = js and sel = sel and metrics = metrics and reason = reason and i = i,
      OF p render conns_def refl refl t k n bounds(2) this, unfolded caps]
  obtain s' where s': "refreshDashboard js (console_fetch jwt rs sel cfg metrics render reason) i c s =
      (s', c\<lparr>u_kpiConnections := show_nat (length (cr_Connections conns)), u_kpiInvocations := show_nat (length (s_audit s)),
             u_kpiCapabilities := show_nat (length (s_capabilities s)), u_kpiConformance := ''FULL'',
             u_connections := table_of (cr_Connections conns)\<rparr>) \<and> same_but_metrics s s'"
    ..
  show thesis
    by (rule that [OF conjunct1 [OF s'] conjunct2 [OF s'] listed])
qed


subsection \<open>Markup from other clients\<close>

lemma table_shows_tenant:
  assumes "conn \<in> set cs"
  shows "Contains (table_of cs) (cell (cs_TenantID conn))"
proof -
  obtain as bs where cs: "cs = as @ conn # bs"
    using assms by (meson split_list)
  have "table_of cs =
      (concat (map row_of as) @ ''<tr>'' @ mono_cell (cs_ID conn) @ cell (cs_Protocol conn) @ cell (cs_Kind conn)) @ cell (cs_TenantID conn) @
      (cell (cs_Actor conn) @ mono_cell (cs_RemoteAddr conn) @ mono_cell (cs_StartedAt conn) @ ''</tr>'' @ concat (map row_of bs))"
    by (simp add: row_of_def table_of_def cs)
  then show ?thesis
    by (simp only: Contains_append)
qed

text \<open>
  C28. The table of connections is assembled as markup from what other clients sent. A client of a
  gateway without authentication that opens a stream chooses the tenant its connection is registered
  under by a header, and as long as the stream is open, every refresh of a console with an empty tenant
  field puts that header value, character by character, into the page as markup.
\<close>

theorem console_markup_injected:
  assumes open_gateway: "ac_Mode cfg = AuthModeNone" and client: "principalFromRequest jwt hr cfg = Inr p"
    and x: "header_get hr ''X-Tenant-ID'' = x" "trimmed x" "x \<noteq> []"
    and stream: "RegisterConnection r s conn = Some (so, j)" "cs_TenantID conn = stream_tenant p hr"
    and refresh: "refreshDashboard js (console_fetch jwt rs sel cfg metrics render reason) i c so = (s', c')" "u_tenant c = []"
    and iter: "\<And>url. is_iteration (rt_iter (rs url))" and render: "\<And>x. render x \<noteq> []"
    and inv: "core_inv so" "map_ok (s_connections so)"
    and bounds: "length (s_connections so) < 2 ^ 53" "length (s_audit so) < 2 ^ 53" "length (s_capabilities so) < 2 ^ 53"
  shows "Contains (u_connections c') (''<td>'' @ x @ ''</td>'')"
proof -
  have "p_TenantID p = x"
    using client open_gateway x by (auto simp: principalFromRequest_def PrincipalFromAuthHeaders_def TrimSpace_id Let_def split: if_splits)
  then have tenant: "cs_TenantID conn = x"
    using stream(2) x(3) by (simp add: stream_tenant_def)
  obtain conn' where "so = s\<lparr>s_connections := AList.update j conn' (s_connections s)\<rparr>" "cs_TenantID conn' = cs_TenantID conn"
    by (rule RegisterConnection_ok [OF stream(1)])
  then have "map_of (s_connections so) j = Some conn'" "cs_TenantID conn' = x"
    using tenant by simp_all
  then have conn': "conn' \<in> set (map snd (s_connections so))"
    by (force dest: map_of_SomeD)
  have "TrimSpace ''acme'' = ''acme''"
    by code_simp
  then obtain q where "console_principal jwt cfg c = Inr q"
    using open_gateway refresh(2) by (simp add: console_principal_def PrincipalFromAuthHeaders_def request_tenant_def Let_def)
  then obtain sr listed where "refreshDashboard js (console_fetch jwt rs sel cfg metrics render reason) i c so =
      (sr, c\<lparr>u_kpiConnections := show_nat (length listed), u_kpiInvocations := show_nat (length (s_audit so)),
             u_kpiCapabilities := show_nat (length (s_capabilities so)), u_kpiConformance := ''FULL'',
             u_connections := table_of listed\<rparr>)"
    and listed: "mset listed = mset (filter (conn_matches (TrimSpace (u_tenant c)) [] []) (map snd (s_connections so)))"
    by (rule refresh_shows [where render = render, OF _ iter render inv bounds])
  moreover have "conn' \<in> set listed"
    using conn' refresh(2) mset_eq_setD [OF listed] by (simp add: conn_matches_def)
  ultimately show ?thesis
    using table_shows_tenant \<open>cs_TenantID conn' = x\<close> refresh(1) by (fastforce simp: cell_def)
qed

subsubsection \<open>Witnesses\<close>

definition demo_js :: js_engine where
  "demo_js = \<lparr>js_parse = (\<lambda>_. Inr (JObj [])), js_stringify = (\<lambda>_. ''{}''), js_numeral = (\<lambda>_ _. ''NaN''), js_number = (\<lambda>_. None),
     js_null_error = (\<lambda>_. ''value is null''), js_call_error = ''not a function''\<rparr>"

definition open_auth :: AuthConfig where
  "open_auth = \<lparr>ac_Mode = AuthModeNone, ac_JWTSecret = [], ac_RequireTenant = True\<rparr>"

abbreviation demo_fetch :: "Service fetcher" where
  "demo_fetch \<equiv> console_fetch demo_jwt (\<lambda>_. demo_rt) SelResult open_auth True (\<lambda>_. ''{}'') (\<lambda>_. ''error'')"

abbreviation demo_console :: Console where
  "demo_console \<equiv> console_state (console_page [])"

definition markup :: string where
  "markup = ''<img src=x onerror=alert(1)>''"

definition markup_http :: HttpRequest where
  "markup_http = \<lparr>r_Method = ''GET'', r_Path = ''/mig/v0.1/stream'', r_Header = [(''X-Tenant-ID'', markup)], r_Query = [], r_RemoteAddr = []\<rparr>"

lemma demo_iteration: "is_iteration (rt_iter demo_rt)"
  by (simp add: demo_rt_def is_iteration_id)

lemma demo_sizes: "length (s_capabilities demo_service) = 1" "s_audit demo_service = []"
  by (simp_all add: demo_service_def bootstrapDefaults_def empty_service_def)



theorem console_markup_injected_witness:
  "\<exists>so j s' c'. RegisterConnection demo_rt demo_service (demo_conn\<lparr>cs_TenantID := markup\<rparr>) = Some (so, j) \<and>
     refreshDashboard demo_js demo_fetch 0 (demo_console\<lparr>u_tenant := []\<rparr>) so = (s', c') \<and>
     Contains (u_connections c') ''<td><img src=x onerror=alert(1)></td>''"
proof -
  let ?conn = "demo_conn\<lparr>cs_TenantID := markup\<rparr>"
  have "RegisterConnection demo_rt demo_service ?conn \<noteq> None"
    by (rule RegisterConnection_total) (simp add: demo_rt_def entropy_ok_def)
  then obtain so j where reg: "RegisterConnection demo_rt demo_service ?conn = Some (so, j)"
    by auto
  then obtain conn' where so: "so = demo_service\<lparr>s_connections := AList.update j conn' (s_connections demo_service)\<rparr>"
    by (rule RegisterConnection_ok)
  obtain s' c' where r: "refreshDashboard demo_js demo_fetch 0 (demo_console\<lparr>u_tenant := []\<rparr>) so = (s', c')"
    by (cases "refreshDashboard demo_js demo_fetch 0 (demo_console\<lparr>u_tenant := []\<rparr>) so")
  have t: "TrimSpace markup = markup"
    by code_simp
  then have x: "header_get markup_http ''X-Tenant-ID'' = markup" "trimmed markup" "markup \<noteq> []"
    using TrimSpace_trimmed [of markup] by (simp_all add: markup_http_def header_get_def markup_def)
  have p: "principalFromRequest demo_jwt markup_http open_auth = Inr (AnonymousPrincipal\<lparr>p_TenantID := markup\<rparr>)"
    using x t by (simp add: principalFromRequest_def PrincipalFromAuthHeaders_def open_auth_def Let_def)
  have "Contains (u_connections c') (''<td>'' @ markup @ ''</td>'')"
    by (rule console_markup_injected [OF _ p x reg _ r _ demo_iteration])
      (simp_all add: open_auth_def stream_tenant_def x(3) so demo_no_connections demo_sizes core_inv_demo)
  with reg r show ?thesis
    by (auto simp: markup_def)
qed

end
