(* ===== verification/Spec2Isabelle.thy ===== *)
theory Spec2Isabelle
  imports Mig_Service_Props Mig_Ledger Mig_Delivery Mig_Accounting Mig_Liveness Mig_Http_Props Mig_Grpc_Props Mig_Nats_Props Mig_Migd Mig_Clients_Props
    Mig_Conformance_Props Mig_Isolation Mig_Console_Props
begin

text \<open>
  A verification of the MIG gateway, \<^verbatim>\<open>migd\<close>, and of the clients kept beside it.

  \<^bold>\<open>The program.\<close> The gateway lets clients discover and invoke capabilities, publish and subscribe to
  events, cancel and send heartbeats, for many tenants at once. One \<^verbatim>\<open>Service\<close> (\<^verbatim>\<open>core/pkg/mig/service.go\<close>) holds
  the state behind one mutex; three bindings call it: HTTP with server-sent events and a websocket
  (\<^verbatim>\<open>http.go\<close>), gRPC with a bidirectional and an event stream (\<^verbatim>\<open>grpc_server.go\<close>), and NATS request/reply
  (\<^verbatim>\<open>nats_binding.go\<close>). HTTP and gRPC authenticate requests and bind messages to the tenant of the principal
  (\<^verbatim>\<open>auth.go\<close>); metrics are recorded around the handlers (\<^verbatim>\<open>metrics.go\<close>); open streams are listed in a registry
  (\<^verbatim>\<open>connections.go\<close>). \<^verbatim>\<open>core/cmd/migd/main.go\<close> reads the configuration (\<^verbatim>\<open>config.go\<close>) and starts the servers. An adapter
  serves the tools of a manifest over MCP from a gateway (\<^verbatim>\<open>adapters/mcp\<close>), a Go client calls one
  (\<^verbatim>\<open>sdk/go/migclient\<close>), and three programs check that one conforms (\<^verbatim>\<open>conformance/harness\<close>). The gateway serves a
  console (\<^verbatim>\<open>ui.go\<close>), a page whose script shows what a tenant has under way and sends requests.

  \<^bold>\<open>How it is modelled.\<close> Structs are records, with the fields of the source under a prefix; Go maps are
  association lists with distinct keys behind the locale \<open>go_map\<close>, and iterating over one takes the order
  the runtime picked as an argument. Strings are lists of bytes. Integers are \<open>int\<close> with the wrapping of
  \<^verbatim>\<open>int64\<close> and \<^verbatim>\<open>uint32\<close> written out (\<open>i64\<close>, \<open>u32\<close>), and words in the protobuf messages. Errors are values of a sum
  type. A panic of the Go runtime, a send on a closed channel, closing one twice or slicing beyond the
  end, is the result \<open>None\<close>. Clock, randomness, the choice of a \<^verbatim>\<open>select\<close> and what a stream meets while it is
  open are arguments. An operation on the service is a function of the state; where the source
  releases the mutex in between, as \<open>Invoke\<close> and the unsubscribe function do, there is one function per
  critical section, and the system of \<open>Mig_System\<close> interleaves them.

  \<^bold>\<open>The theories\<close>, in the order they build on each other:

  \<^item> \<open>Mig_Prelude\<close>, \<open>Go_Strings\<close>: maps, iteration, machine integers; the functions of the packages \<^verbatim>\<open>strings\<close> and
    \<^verbatim>\<open>strconv\<close> the program uses, with trimming, splitting, joining and number round trips.
  \<^item> \<open>Mig_Types\<close> (\<^verbatim>\<open>types.go\<close>): messages, error codes, message identifiers, header normalisation.
  \<^item> \<open>Mig_Auth\<close> (\<^verbatim>\<open>auth.go\<close>): principals, claims and scopes, the tenant check; the locale \<open>tenant_guard\<close> is its
    contract, interpreted for HTTP here and for gRPC in \<open>Mig_Grpc\<close>. The JWT library is the argument \<open>jwt\<close>.
  \<^item> \<open>Mig_Metrics\<close>, \<open>Mig_Config\<close> (\<^verbatim>\<open>metrics.go\<close>, \<^verbatim>\<open>config.go\<close>).
  \<^item> \<open>Mig_Service\<close>, \<open>Mig_Service_Inv\<close>, \<open>Mig_Service_Props\<close> (\<^verbatim>\<open>service.go\<close>): the state, every operation but events, the
    invariant \<open>core_inv\<close> of counters, audit trail, quotas, cached replies and tenants, and what each
    operation does on every branch.
  \<^item> \<open>Mig_Events\<close> (\<^verbatim>\<open>service.go\<close>): channels, publication, subscription, the mirror to NATS; the invariant
    \<open>event_inv\<close> of topic logs, buffers and subscribers.
  \<^item> \<open>Mig_Connections\<close>, \<open>Mig_Nats_Lifecycle\<close>: the registry of connections; starting and closing the NATS binding.
  \<^item> \<open>Mig_Ledger\<close>: the abstract specification of invocations and metering, and the refinement of it by the
    service (locale \<open>refinement\<close>).
  \<^item> \<open>Mig_System\<close>: the concurrent system as a step relation, one action per critical section, with its
    invariant and freedom from panics. \<open>exec\<close> is its executable form.
  \<^item> \<open>Mig_Delivery\<close>, \<open>Mig_Accounting\<close>: what a subscriber sees under every interleaving (locales \<open>feed\<close> and
    \<open>lossless_feed\<close>); quotas under concurrency, cancellation, logs that only grow.
  \<^item> \<open>Mig_Liveness\<close>: work under way ends and is never stuck.
  \<^item> \<open>Mig_Http\<close>, \<open>Mig_Http_Props\<close> (\<^verbatim>\<open>http.go\<close>, the middleware of \<^verbatim>\<open>auth.go\<close> and \<^verbatim>\<open>metrics.go\<close>): every handler, the route
    table, the middleware; what authentication lets through, streams that leave no trace.
  \<^item> \<open>Mig_Grpc\<close>, \<open>Mig_Grpc_Props\<close> (\<^verbatim>\<open>grpc_server.go\<close>): conversions to and from protobuf, interceptors, every call;
    round trips (locale \<open>enum_codec\<close>), agreement with HTTP. The conversions of \<^verbatim>\<open>structpb\<close> and \<^verbatim>\<open>timestamppb\<close> are
    the argument \<open>lib\<close>, with the law \<open>structpb_ok\<close>.
  \<^item> \<open>Mig_Json\<close>, \<open>Mig_Wire\<close>: the messages as \<^verbatim>\<open>encoding/json\<close> writes and reads them, with round trips; the HTTP server
    seen from the wire, which every client below talks to.
  \<^item> \<open>Mig_Isolation\<close>: which state tenants share. The locale \<open>noninterference\<close> is its unwinding condition,
    interpreted for the critical sections of the service.
  \<^item> \<open>Mig_Nats\<close>, \<open>Mig_Nats_Props\<close> (\<^verbatim>\<open>nats_binding.go\<close>): every handler. How the NATS server matches subjects is the
    argument \<open>matches\<close> with the law \<open>nats_wildcards\<close>.
  \<^item> \<open>Mig_Gateway\<close>, \<open>Mig_Migd\<close> (\<^verbatim>\<open>main.go\<close>): every request over every binding is a run of the concurrent system
    (locale \<open>gateway_binding\<close>, interpreted for each binding and for the process); start, serving, stop.
  \<^item> \<open>Mig_Mcp\<close>, \<open>Mig_Client\<close>, \<open>Mig_Clients_Props\<close>: the MCP adapter and the Go client, alone and against the gateway.
  \<^item> \<open>Mig_Conformance\<close>, \<open>Mig_Conformance_Props\<close>: the conformance programs, and that a started gateway passes them.
  \<^item> \<open>Mig_Console\<close>, \<open>Mig_Console_Props\<close> (\<^verbatim>\<open>ui.go\<close>): the script of the console on the elements of its page, alone and
    against the gateway. The parts of the browser's engine it leaves open are the argument \<open>js\<close>.

  \<^bold>\<open>What is proved.\<close> The process answers every request over every binding without a panic and stays
  consistent. The service implements an abstract ledger. Invocations succeed exactly under the
  documented conditions, are idempotent under a key, never run once cancelled, and fail without a
  trace. Events get consecutive numbers, are delivered in order and without duplicates under every
  interleaving, and replay from a cursor joins the live stream without a gap. In JWT mode nothing but
  the console is reached without a token, over HTTP and gRPC alike, and a token's tenant and scopes
  bound what it can do. What one tenant invokes does not change the replies to another. What the
  console shows is what the gateway holds. A started gateway passes its own conformance programs over all three bindings.
  Streams leave no trace on any exit path. Work under way terminates. Some
  theorems record what the code does against its intent: the quota can be overshot by concurrent
  invocations, the NATS mirror feeds itself, NATS requests need no scope, gRPC responses lose their
  metadata, very long deadlines wrap, the MCP adapter works for one tenant only and the Go client for
  open gateways only; tenants share cancellations, topics and, with a colon in an identifier, cached
  replies; any token can lift the scopes of a capability; the console takes markup from other clients.

  \<^bold>\<open>Bounds and fuel.\<close> All recursive functions are total. The only fuel is the number \<open>n\<close> of deliveries in
  \<open>nats_pump\<close>, over which the theorem quantifies. Channels hold 32 events, as in the source. Counters are
  exact up to \<open>2 ^ 63\<close> audited invocations, and theorems that need this say so.

  \<^bold>\<open>Not modelled.\<close> Style sheet and layout of the console page, which the handler keeps as \<open>PHtml\<close>, and replies to
  its script that overtake each other; the text of JSON, which is its parsed tree; the generated
  protobuf code beyond the message types; sockets, TLS, HTTP parsing, the websocket and Prometheus
  libraries, timeouts of servers and clients; command-line flags, which are arguments; the printing of
  log lines except the text of the start messages and the output of the conformance programs; the
  Python and TypeScript clients.
\<close>

end
